(* ===== verification/Gojson.thy ===== *)
theory Gojson
  imports Prelude "HOL-Library.Log_Nat"
begin

text \<open>
  The package \<open>encoding/json\<close> as the handlers use it. A JSON text is represented by its
  parse tree; \<open>json.RawMessage\<close> values keep that tree. Decoding a body into a Go struct
  is driven by a table of the struct's fields, one entry per \<open>json:"..."\<close> tag, and
  follows the rules of the package: members are processed in order and later ones win, a
  name matches a tag exactly or else up to case, unknown members are skipped, \<open>null\<close>
  leaves a field alone, and a value of the wrong type is an error.
\<close>

section \<open>Values\<close>

text \<open>
  \<open>JInt\<close> is a number literal without fraction and exponent, \<open>JFloat\<close> any other number
  literal with the \<open>float64\<close> it denotes. \<open>JTime\<close> is the string Go prints for a
  \<open>time.Time\<close>; it occurs in responses only.
\<close>

datatype json =
    JNull
  | JBool bool
  | JInt int
  | JFloat rat
  | JStr string
  | JTime int
  | JArr "json list"
  | JObj "(string \<times> json) list"

text \<open>The \<open>float64\<close> nearest to an integer literal, ties to even; \<open>None\<close> beyond the range.\<close>

definition f64_of_int :: "int \<Rightarrow> rat option" where
  "f64_of_int i =
     (let a = nat \<bar>i\<bar>;
          k = floorlog 2 a - 53;
          q = a div 2 ^ k;
          r = a mod 2 ^ k;
          q' = (if 2 ^ k < 2 * r \<or> (2 * r = 2 ^ k \<and> odd q) then q + 1 else q);
          v = q' * 2 ^ k
      in if 2 ^ 1024 \<le> v then None else Some (of_int (sgn i) * of_nat v))"

lemma f64_of_int_small:
  assumes "\<bar>i\<bar> < 2 ^ 53"
  shows "f64_of_int i = Some (of_int i)"
proof -
  have a: "nat \<bar>i\<bar> < 2 ^ 53" using assms by simp
  then have "floorlog 2 (nat \<bar>i\<bar>) \<le> 53"
    by (simp add: floorlog_le_iff)
  then have k: "floorlog 2 (nat \<bar>i\<bar>) - 53 = 0" by simp
  have b: "nat \<bar>i\<bar> < 2 ^ 1024"
    using a by (rule order.strict_trans2) simp
  have "of_int (sgn i) * (of_nat (nat \<bar>i\<bar>) :: rat) = of_int i"
    by (metis abs_ge_zero of_int_mult of_int_of_nat_eq nat_0_le sgn_mult_abs)
  with b show ?thesis
    by (simp add: f64_of_int_def Let_def k)
qed

section \<open>Decoding into structs\<close>

type_synonym 'r setter = "json \<Rightarrow> 'r \<Rightarrow> 'r option"
type_synonym 'r fields = "(string \<times> 'r setter) list"

definition fold_char :: "char \<Rightarrow> char" where
  "fold_char c =
     (let n = (of_char c :: nat) in if 97 \<le> n \<and> n \<le> 122 then char_of (n - 32) else c)"

definition find_field :: "'r fields \<Rightarrow> string \<Rightarrow> 'r setter option" where
  "find_field fs k =
     (case map_of fs k of
        Some f \<Rightarrow> Some f
      | None \<Rightarrow> map_option snd (find (\<lambda>(n, f). map fold_char n = map fold_char k) fs))"

fun decode_fields :: "'r fields \<Rightarrow> (string \<times> json) list \<Rightarrow> 'r \<Rightarrow> 'r option" where
  "decode_fields fs [] r = Some r"
| "decode_fields fs ((k, v) # kvs) r =
     (case find_field fs k of
        None \<Rightarrow> decode_fields fs kvs r
      | Some f \<Rightarrow> (case f v r of None \<Rightarrow> None | Some r' \<Rightarrow> decode_fields fs kvs r'))"

fun decode_struct :: "'r fields \<Rightarrow> json \<Rightarrow> 'r \<Rightarrow> 'r option" where
  "decode_struct fs JNull r = Some r"
| "decode_struct fs (JObj kvs) r = decode_fields fs kvs r"
| "decode_struct fs _ r = None"

text \<open>\<open>json.NewDecoder(body).Decode(&r)\<close>: \<open>None\<close> as a body is a text that does not parse.\<close>

definition decode_body :: "'r fields \<Rightarrow> json option \<Rightarrow> 'r \<Rightarrow> 'r option" where
  "decode_body fs b r = (case b of None \<Rightarrow> None | Some j \<Rightarrow> decode_struct fs j r)"

lemma decode_body_None [simp]: "decode_body fs None r = None"
  by (simp add: decode_body_def)

lemma decode_body_Some [simp]: "decode_body fs (Some j) r = decode_struct fs j r"
  by (simp add: decode_body_def)

fun set_string :: "((string \<Rightarrow> string) \<Rightarrow> 'r \<Rightarrow> 'r) \<Rightarrow> 'r setter" where
  "set_string upd (JStr s) r = Some (upd (\<lambda>_. s) r)"
| "set_string upd JNull r = Some r"
| "set_string upd _ r = None"

fun set_bool :: "((bool \<Rightarrow> bool) \<Rightarrow> 'r \<Rightarrow> 'r) \<Rightarrow> 'r setter" where
  "set_bool upd (JBool b) r = Some (upd (\<lambda>_. b) r)"
| "set_bool upd JNull r = Some r"
| "set_bool upd _ r = None"

fun set_int :: "((int \<Rightarrow> int) \<Rightarrow> 'r \<Rightarrow> 'r) \<Rightarrow> 'r setter" where
  "set_int upd (JInt i) r =
     (if - (2 ^ 63) \<le> i \<and> i < 2 ^ 63 then Some (upd (\<lambda>_. i) r) else None)"
| "set_int upd JNull r = Some r"
| "set_int upd _ r = None"

fun json_float :: "json \<Rightarrow> rat option" where
  "json_float (JInt i) = f64_of_int i"
| "json_float (JFloat q) = Some q"
| "json_float _ = None"

definition set_float :: "((rat \<Rightarrow> rat) \<Rightarrow> 'r \<Rightarrow> 'r) \<Rightarrow> 'r setter" where
  "set_float upd j r =
     (if j = JNull then Some r else map_option (\<lambda>q. upd (\<lambda>_. q) r) (json_float j))"

text \<open>\<open>json.RawMessage\<close> takes any value as it is, \<open>null\<close> included.\<close>

definition set_raw :: "((json option \<Rightarrow> json option) \<Rightarrow> 'r \<Rightarrow> 'r) \<Rightarrow> 'r setter" where
  "set_raw upd j r = Some (upd (\<lambda>_. Some j) r)"

fun json_strings :: "json list \<Rightarrow> string list option" where
  "json_strings [] = Some []"
| "json_strings (JStr s # js) = map_option (\<lambda>t. s # t) (json_strings js)"
| "json_strings (JNull # js) = map_option (\<lambda>t. [] # t) (json_strings js)"
| "json_strings (_ # js) = None"

text \<open>A \<open>[]string\<close> field: \<open>None\<close> is the nil slice.\<close>

fun json_strslice :: "json \<Rightarrow> string list option option" where
  "json_strslice JNull = Some None"
| "json_strslice (JArr js) = map_option Some (json_strings js)"
| "json_strslice _ = None"

definition set_strings ::
    "((string list option \<Rightarrow> string list option) \<Rightarrow> 'r \<Rightarrow> 'r) \<Rightarrow> 'r setter" where
  "set_strings upd j r = map_option (\<lambda>x. upd (\<lambda>_. x) r) (json_strslice j)"

text \<open>The zero \<open>time.Time\<close>, midnight of January 1 in the year 1, in nanoseconds.\<close>

definition zero_time :: int where
  "zero_time = - 62135596800 * 10 ^ 9"

text \<open>
  \<open>time.Time\<close> and \<open>*time.Time\<close> fields; \<open>pt\<close> is \<open>time.Parse\<close> for RFC 3339, which the
  program takes from Go's \<open>time\<close> package.
\<close>

fun set_time ::
    "(string \<Rightarrow> int option) \<Rightarrow> ((int \<Rightarrow> int) \<Rightarrow> 'r \<Rightarrow> 'r) \<Rightarrow> 'r setter" where
  "set_time pt upd (JStr s) r = map_option (\<lambda>t. upd (\<lambda>_. t) r) (pt s)"
| "set_time pt upd JNull r = Some r"
| "set_time pt upd _ r = None"

fun set_time_ptr ::
    "(string \<Rightarrow> int option) \<Rightarrow> ((int option \<Rightarrow> int option) \<Rightarrow> 'r \<Rightarrow> 'r) \<Rightarrow> 'r setter" where
  "set_time_ptr pt upd (JStr s) r = map_option (\<lambda>t. upd (\<lambda>_. Some t) r) (pt s)"
| "set_time_ptr pt upd JNull r = Some (upd (\<lambda>_. None) r)"
| "set_time_ptr pt upd _ r = None"

text \<open>\<open>json.Unmarshal\<close> into \<open>map[string]float64\<close>; a \<open>null\<close> member stores zero.\<close>

fun json_float_map :: "(string \<times> json) list \<Rightarrow> (string \<rightharpoonup> rat) \<Rightarrow> (string \<rightharpoonup> rat) option" where
  "json_float_map [] m = Some m"
| "json_float_map ((k, v) # kvs) m =
     (case (if v = JNull then Some 0 else json_float v) of
        None \<Rightarrow> None
      | Some q \<Rightarrow> json_float_map kvs (m(k \<mapsto> q)))"

fun unmarshal_float_map :: "json \<Rightarrow> (string \<rightharpoonup> rat) option" where
  "unmarshal_float_map JNull = Some Map.empty"
| "unmarshal_float_map (JObj kvs) = json_float_map kvs Map.empty"
| "unmarshal_float_map _ = None"

section \<open>Encoding\<close>

definition jstrs :: "string list option \<Rightarrow> json" where
  "jstrs xs = (case xs of None \<Rightarrow> JNull | Some ys \<Rightarrow> JArr (map JStr ys))"

text \<open>
  A \<open>float64\<close>: an integral value below 1e21 is printed without fraction and exponent.
\<close>

definition jfloat :: "rat \<Rightarrow> json" where
  "jfloat q = (if q = of_int \<lfloor>q\<rfloor> \<and> \<bar>q\<bar> < 10 ^ 21 then JInt \<lfloor>q\<rfloor> else JFloat q)"

text \<open>Members with \<open>omitempty\<close>.\<close>

definition omit_str :: "string \<Rightarrow> string \<Rightarrow> (string \<times> json) list" where
  "omit_str k s = (if s = [] then [] else [(k, JStr s)])"

definition omit_raw :: "string \<Rightarrow> json option \<Rightarrow> (string \<times> json) list" where
  "omit_raw k j = (case j of None \<Rightarrow> [] | Some v \<Rightarrow> [(k, v)])"

definition omit_strs :: "string \<Rightarrow> string list option \<Rightarrow> (string \<times> json) list" where
  "omit_strs k xs = (case xs of Some (y # ys) \<Rightarrow> [(k, JArr (map JStr (y # ys)))] | _ \<Rightarrow> [])"

definition omit_time :: "string \<Rightarrow> int option \<Rightarrow> (string \<times> json) list" where
  "omit_time k t = (case t of None \<Rightarrow> [] | Some x \<Rightarrow> [(k, JTime x)])"

text \<open>A \<open>json.RawMessage\<close> member without \<open>omitempty\<close>: nil prints as \<open>null\<close>.\<close>

definition jraw :: "json option \<Rightarrow> json" where
  "jraw j = (case j of None \<Rightarrow> JNull | Some v \<Rightarrow> v)"

lemma json_strings_JStr [simp]: "json_strings (map JStr xs) = Some xs"
  by (induction xs) auto

lemma json_strslice_jstrs [simp]: "json_strslice (jstrs xs) = Some xs"
  by (cases xs) (simp_all add: jstrs_def)

lemmas json_encode = jstrs_def omit_str_def omit_raw_def omit_strs_def omit_time_def jraw_def

end
