(* ===== verification/Http.thy ===== *)
theory Http
  imports Gojson
begin

text \<open>
  Requests, response writers and the packages \<open>internal/httperr\<close> and
  \<open>internal/ctxutil\<close>. A handler takes the request and the writer and returns the writer;
  headers may be set until the status line is written, which happens once.
\<close>

section \<open>Requests\<close>

text \<open>
  \<open>r_header\<close> is \<open>Header.Get\<close> on canonical names (an absent header reads as the empty
  string), \<open>r_pathval\<close> is \<open>PathValue\<close>, \<open>r_query\<close> is \<open>URL.Query().Get\<close>, and
  \<open>r_body\<close> is the body's JSON value, \<open>None\<close> when it does not parse.
\<close>

record request =
  r_method :: string
  r_path :: string
  r_remote :: string
  r_header :: "string \<Rightarrow> string"
  r_pathval :: "string \<Rightarrow> string"
  r_query :: "string \<Rightarrow> string"
  r_body :: "json option"

definition set_req_header :: "string \<Rightarrow> string \<Rightarrow> request \<Rightarrow> request" where
  "set_req_header k v r = r\<lparr>r_header := (r_header r)(k := v)\<rparr>"

text \<open>\<open>internal/ctxutil\<close>.\<close>

definition OrgID :: "request \<Rightarrow> string" where
  "OrgID r = r_header r ''X-Org-ID''"

definition HasOrgID :: "request \<Rightarrow> bool" where
  "HasOrgID r \<longleftrightarrow> r_header r ''X-Org-ID'' \<noteq> []"

definition Role :: "request \<Rightarrow> string" where
  "Role r = r_header r ''X-User-Role''"

definition Subject :: "request \<Rightarrow> string" where
  "Subject r = r_header r ''X-User-Subject''"

section \<open>Response writers\<close>

text \<open>
  The headers set so far, the status line with the headers that went out with it, what was
  written, and whether the writer's type offers \<open>http.Hijacker\<close>, as the server's own does.
\<close>

datatype chunk = Cjson json | Ctext string

record writer =
  w_headers :: "string \<rightharpoonup> string"
  w_sent :: "(int \<times> (string \<rightharpoonup> string)) option"
  w_out :: "chunk list"
  w_hijacker :: bool

definition new_writer :: writer where
  "new_writer = \<lparr>w_headers = Map.empty, w_sent = None, w_out = [], w_hijacker = True\<rparr>"

definition set_header :: "string \<Rightarrow> string \<Rightarrow> writer \<Rightarrow> writer" where
  "set_header k v w = w\<lparr>w_headers := (w_headers w)(k \<mapsto> v)\<rparr>"

definition write_header :: "int \<Rightarrow> writer \<Rightarrow> writer" where
  "write_header s w =
     (case w_sent w of None \<Rightarrow> w\<lparr>w_sent := Some (s, w_headers w)\<rparr> | Some _ \<Rightarrow> w)"

definition write_body :: "chunk \<Rightarrow> writer \<Rightarrow> writer" where
  "write_body b w = (let w' = write_header 200 w in w'\<lparr>w_out := w_out w' @ [b]\<rparr>)"

definition status_of :: "writer \<Rightarrow> int option" where
  "status_of w = map_option fst (w_sent w)"

definition sent_header :: "writer \<Rightarrow> string \<Rightarrow> string option" where
  "sent_header w k = (case w_sent w of None \<Rightarrow> None | Some (s, h) \<Rightarrow> h k)"

text \<open>
  \<open>fresh w\<close>: no status line has gone out, as for every handler that the middleware
  chain reaches.
\<close>

definition fresh :: "writer \<Rightarrow> bool" where
  "fresh w \<longleftrightarrow> w_sent w = None \<and> w_out w = []"

lemma fresh_new_writer [simp]: "fresh new_writer"
  by (simp add: fresh_def new_writer_def)

lemma fresh_set_header [simp]: "fresh (set_header k v w) \<longleftrightarrow> fresh w"
  by (simp add: fresh_def set_header_def)

lemma w_out_write_header [simp]: "w_out (write_header s w) = w_out w"
  by (simp add: write_header_def split: option.splits)

lemma w_out_set_header [simp]: "w_out (set_header k v w) = w_out w"
  by (simp add: set_header_def)

lemma w_sent_set_header [simp]: "w_sent (set_header k v w) = w_sent w"
  by (simp add: set_header_def)

lemma status_of_set_header [simp]: "status_of (set_header k v w) = status_of w"
  by (simp add: status_of_def)

lemma status_of_write_header: "w_sent w = None \<Longrightarrow> status_of (write_header s w) = Some s"
  by (simp add: status_of_def write_header_def)

lemma status_of_write_body:
  "status_of (write_body b w) = (case status_of w of None \<Rightarrow> Some 200 | Some s \<Rightarrow> Some s)"
  by (cases "w_sent w") (simp_all add: status_of_def write_body_def write_header_def Let_def)

lemma w_out_write_body [simp]: "w_out (write_body b w) = w_out w @ [b]"
  by (simp add: write_body_def Let_def)

section \<open>\<open>internal/httperr\<close> and the handlers' \<open>writeJSON\<close>\<close>

text \<open>Every module has the same private \<open>writeJSON\<close>.\<close>

definition writeJSON :: "int \<Rightarrow> json \<Rightarrow> writer \<Rightarrow> writer" where
  "writeJSON s v w =
     write_body (Cjson v) (write_header s (set_header ''Content-Type'' ''application/json'' w))"

record APIError =
  Code :: string
  Message :: string

definition errorBody :: "APIError \<Rightarrow> json" where
  "errorBody e =
     JObj [(''error'', JObj [(''code'', JStr (Code e)), (''message'', JStr (Message e))])]"

definition httperr_writeJSON :: "int \<Rightarrow> string \<Rightarrow> string \<Rightarrow> writer \<Rightarrow> writer" where
  "httperr_writeJSON s code message w =
     write_body (Cjson (errorBody \<lparr>Code = code, Message = message\<rparr>))
       (write_header s (set_header ''Content-Type'' ''application/json'' w))"

text \<open>\<open>http.StatusText\<close> on the codes the program answers with.\<close>

definition StatusText :: "int \<Rightarrow> string" where
  "StatusText s =
     (if s = 400 then ''Bad Request'' else if s = 401 then ''Unauthorized''
      else if s = 403 then ''Forbidden'' else if s = 404 then ''Not Found''
      else if s = 409 then ''Conflict''
      else if s = 429 then ''Too Many Requests''
      else if s = 500 then ''Internal Server Error'' else if s = 503 then ''Service Unavailable''
      else [])"

definition Error :: "int \<Rightarrow> string \<Rightarrow> writer \<Rightarrow> writer" where
  "Error s message w = httperr_writeJSON s (StatusText s) message w"

definition BadRequest :: "string \<Rightarrow> writer \<Rightarrow> writer" where
  "BadRequest m w = httperr_writeJSON 400 ''bad_request'' m w"

definition NotFound :: "string \<Rightarrow> writer \<Rightarrow> writer" where
  "NotFound m w = httperr_writeJSON 404 ''not_found'' m w"

definition Internal :: "string \<Rightarrow> writer \<Rightarrow> writer" where
  "Internal m w = httperr_writeJSON 500 ''internal_error'' m w"

definition Unauthorized :: "string \<Rightarrow> writer \<Rightarrow> writer" where
  "Unauthorized m w = httperr_writeJSON 401 ''unauthorized'' m w"

definition Forbidden :: "string \<Rightarrow> writer \<Rightarrow> writer" where
  "Forbidden m w = httperr_writeJSON 403 ''forbidden'' m w"

definition Conflict :: "string \<Rightarrow> writer \<Rightarrow> writer" where
  "Conflict m w = httperr_writeJSON 409 ''conflict'' m w"

lemma status_writeJSON [http_simps]: "fresh w \<Longrightarrow> status_of (writeJSON s v w) = Some s"
  by (simp add: writeJSON_def status_of_write_body status_of_write_header fresh_def)

lemma out_writeJSON [http_simps]: "fresh w \<Longrightarrow> w_out (writeJSON s v w) = [Cjson v]"
  by (simp add: writeJSON_def fresh_def)

lemma status_httperr [http_simps]:
  "fresh w \<Longrightarrow> status_of (httperr_writeJSON s c m w) = Some s"
  by (simp add: httperr_writeJSON_def status_of_write_body status_of_write_header fresh_def)

lemma out_httperr [http_simps]:
  "fresh w \<Longrightarrow> w_out (httperr_writeJSON s c m w)
     = [Cjson (errorBody \<lparr>Code = c, Message = m\<rparr>)]"
  by (simp add: httperr_writeJSON_def fresh_def)

lemma status_write_header [http_simps]: "fresh w \<Longrightarrow> status_of (write_header s w) = Some s"
  by (simp add: status_of_write_header fresh_def)

lemmas httperr_defs =
  Error_def BadRequest_def NotFound_def Internal_def Unauthorized_def Forbidden_def Conflict_def

lemma status_errors [http_simps]:
  assumes "fresh w"
  shows "status_of (BadRequest m w) = Some 400"
    and "status_of (NotFound m w) = Some 404"
    and "status_of (Internal m w) = Some 500"
    and "status_of (Unauthorized m w) = Some 401"
    and "status_of (Forbidden m w) = Some 403"
    and "status_of (Conflict m w) = Some 409"
    and "status_of (Error s m w) = Some s"
  using assms by (simp_all add: httperr_defs http_simps)

text \<open>Handlers and middleware over a state.\<close>

type_synonym 's handler = "'s \<Rightarrow> request \<Rightarrow> writer \<Rightarrow> 's \<times> writer"
type_synonym 's middleware = "'s handler \<Rightarrow> 's handler"

end
