(* ===== verification/Sql.thy ===== *)
theory Sql
  imports Gojson "HOL-Library.Multiset" "HOL-Library.Sublist"
    "HOL-Library.Product_Lexorder" "HOL-Library.List_Lexorder"
begin

text \<open>
  The SQL the program is written in. Every statement text of the source becomes a value
  of the types \<open>stmt\<close> and \<open>query\<close>; \<open>sem_exec\<close> and \<open>query_ok\<close> say what SQL makes such a
  statement mean on tables. The engine that runs the statements is not part of the
  program: it is a parameter, and the locale \<open>sql_engine\<close> states what the program
  relies on, namely that a statement that reports success had its SQL meaning and that
  one that reports an error changed nothing. It may fail at any time and for any reason.
\<close>

section \<open>Values, rows and tables\<close>

text \<open>
  \<open>SDoc\<close> is a TEXT value holding a JSON text, represented by its value as everywhere in
  the model; \<open>STime\<close> is a DATETIME, an instant in nanoseconds.
\<close>

datatype sqlval = SNull | SInt int | SReal rat | SText string | SDoc json | STime int

type_synonym row = "string \<Rightarrow> sqlval"
type_synonym tables = "string \<Rightarrow> row list"

definition sql_bool :: "bool \<Rightarrow> sqlval" where
  "sql_bool b = SInt (if b then 1 else 0)"

section \<open>Schemas\<close>

record fkey =
  fk_col :: string
  fk_parent :: string
  fk_pcol :: string
  fk_cascade :: bool

record schema =
  columns :: "(string \<times> sqlval) list"
  notnull :: "string list"
  uniques :: "string list list"
  fks :: "fkey list"
  autoinc :: "string option"

type_synonym catalog = "(string \<times> schema) list"

section \<open>Statements\<close>

datatype expr = Param nat | Lit sqlval

datatype cond = CEq string expr | CLt string expr

datatype conflict = Abort | Replace | DoUpdate "string list" "string list"

datatype stmt =
    Insert string "(string \<times> expr) list" conflict
  | Update string "(string \<times> expr) list" "cond list"
  | Delete string "cond list"

datatype proj = PCol string | PCoalesce string sqlval

datatype selection = Fields "proj list" | CountBy "(string \<times> sqlval) list"

datatype source = Tab string | Join string string string string string string

datatype limit = NoLimit | Limit nat | LimitText string

record query =
  sel :: selection
  from_src :: source
  conds :: "cond list"
  order_by :: "(string \<times> bool) option"
  limit_of :: limit

section \<open>Meaning of statements\<close>

fun eval_expr :: "sqlval list \<Rightarrow> expr \<Rightarrow> sqlval" where
  "eval_expr args (Param n) = (if n < length args then args ! n else SNull)"
| "eval_expr args (Lit v) = v"

text \<open>A comparison with NULL is not true.\<close>

fun holds :: "(sqlval \<Rightarrow> sqlval \<Rightarrow> bool) \<Rightarrow> sqlval list \<Rightarrow> row \<Rightarrow> cond \<Rightarrow> bool" where
  "holds lt args r (CEq c e) = (r c \<noteq> SNull \<and> r c = eval_expr args e)"
| "holds lt args r (CLt c e) =
     (r c \<noteq> SNull \<and> eval_expr args e \<noteq> SNull \<and> lt (r c) (eval_expr args e))"

definition sat :: "(sqlval \<Rightarrow> sqlval \<Rightarrow> bool) \<Rightarrow> sqlval list \<Rightarrow> cond list \<Rightarrow> row \<Rightarrow> bool" where
  "sat lt args cs r = list_all (holds lt args r) cs"

fun assign :: "sqlval list \<Rightarrow> (string \<times> expr) list \<Rightarrow> row \<Rightarrow> row" where
  "assign args [] r = r"
| "assign args ((c, e) # as) r = assign args as (r(c := eval_expr args e))"

definition default_row :: "schema \<Rightarrow> row" where
  "default_row s c = (case map_of (columns s) c of Some v \<Rightarrow> v | None \<Rightarrow> SNull)"

definition insert_row :: "schema \<Rightarrow> (string \<times> expr) list \<Rightarrow> sqlval list \<Rightarrow> int \<Rightarrow> row" where
  "insert_row s as args nid =
     assign args as
       (case autoinc s of None \<Rightarrow> default_row s | Some c \<Rightarrow> (default_row s)(c := SInt nid))"

text \<open>Constraints: NOT NULL, UNIQUE and PRIMARY KEY (NULL keys never clash).\<close>

definition same_key :: "string list \<Rightarrow> row \<Rightarrow> row \<Rightarrow> bool" where
  "same_key u r q \<longleftrightarrow> list_all (\<lambda>c. r c = q c \<and> r c \<noteq> SNull) u"

definition clash :: "schema \<Rightarrow> row \<Rightarrow> row \<Rightarrow> bool" where
  "clash s r q \<longleftrightarrow> list_ex (\<lambda>u. same_key u r q) (uniques s)"

fun no_clash :: "schema \<Rightarrow> row list \<Rightarrow> bool" where
  "no_clash s [] = True"
| "no_clash s (r # rs) = (list_all (\<lambda>q. \<not> clash s r q) rs \<and> no_clash s rs)"

definition not_nulls :: "schema \<Rightarrow> row \<Rightarrow> bool" where
  "not_nulls s r \<longleftrightarrow> list_all (\<lambda>c. r c \<noteq> SNull) (notnull s)"

definition rows_ok :: "schema \<Rightarrow> row list \<Rightarrow> bool" where
  "rows_ok s rs \<longleftrightarrow> no_clash s rs \<and> list_all (not_nulls s) rs"

text \<open>An AUTOINCREMENT key is larger than every key of the table.\<close>

definition auto_fresh :: "schema \<Rightarrow> row list \<Rightarrow> int \<Rightarrow> bool" where
  "auto_fresh s rs nid \<longleftrightarrow>
     (case autoinc s of None \<Rightarrow> True
      | Some c \<Rightarrow> list_all (\<lambda>r. case r c of SInt i \<Rightarrow> i < nid | _ \<Rightarrow> True) rs)"

text \<open>
  FOREIGN KEYs, when the connection enforces them: a row written must have its parents,
  and no statement may take the parent of a row it leaves behind, unless the key says ON
  DELETE CASCADE.
\<close>

definition orphan :: "tables \<Rightarrow> fkey \<Rightarrow> row \<Rightarrow> bool" where
  "orphan t f r \<longleftrightarrow>
     r (fk_col f) \<noteq> SNull \<and> \<not> list_ex (\<lambda>p. p (fk_pcol f) = r (fk_col f)) (t (fk_parent f))"

definition bereft :: "tables \<Rightarrow> tables \<Rightarrow> fkey \<Rightarrow> row \<Rightarrow> bool" where
  "bereft t t' f r \<longleftrightarrow> orphan t' f r \<and> \<not> orphan t f r"

definition keeps_parents :: "catalog \<Rightarrow> tables \<Rightarrow> tables \<Rightarrow> bool" where
  "keeps_parents cat t t' \<longleftrightarrow>
     list_all (\<lambda>(n, s). list_all (\<lambda>f. list_all (\<lambda>r. \<not> bereft t t' f r) (t' n)) (fks s)) cat"

definition cascade_keys :: "string \<Rightarrow> schema \<Rightarrow> fkey list" where
  "cascade_keys tab s = filter (\<lambda>f. fk_parent f = tab \<and> fk_cascade f) (fks s)"

definition cascade :: "catalog \<Rightarrow> string \<Rightarrow> tables \<Rightarrow> tables \<Rightarrow> tables" where
  "cascade cat tab t t' =
     (\<lambda>n. case map_of cat n of None \<Rightarrow> t' n
          | Some s \<Rightarrow> filter (\<lambda>r. \<not> list_ex (\<lambda>f. bereft t t' f r) (cascade_keys tab s)) (t' n))"

definition insert_rows ::
    "conflict \<Rightarrow> schema \<Rightarrow> row list \<Rightarrow> row \<Rightarrow> row list" where
  "insert_rows cf s rs r =
     (case cf of
        Abort \<Rightarrow> rs @ [r]
      | Replace \<Rightarrow> filter (\<lambda>q. \<not> clash s r q) rs @ [r]
      | DoUpdate tgt cs \<Rightarrow>
          (if list_ex (same_key tgt r) rs
           then map (\<lambda>q. if same_key tgt r q then (\<lambda>c. if c \<in> set cs then r c else q c) else q) rs
           else rs @ [r]))"

definition update_rows ::
    "(sqlval \<Rightarrow> sqlval \<Rightarrow> bool) \<Rightarrow> sqlval list \<Rightarrow> (string \<times> expr) list \<Rightarrow> cond list \<Rightarrow>
     row list \<Rightarrow> row list" where
  "update_rows lt args as cs rs = map (\<lambda>r. if sat lt args cs r then assign args as r else r) rs"

text \<open>
  \<open>sem_exec lt fk cat stmt args nid t\<close>: the tables after the statement and the number of
  rows it affected, \<open>None\<close> when a constraint or a missing table forbids it. \<open>lt\<close> is the
  engine's comparison, \<open>fk\<close> whether the connection enforces foreign keys, \<open>nid\<close> the
  key an AUTOINCREMENT table hands out.
\<close>

fun sem_exec ::
    "(sqlval \<Rightarrow> sqlval \<Rightarrow> bool) \<Rightarrow> bool \<Rightarrow> catalog \<Rightarrow> stmt \<Rightarrow> sqlval list \<Rightarrow> int \<Rightarrow> tables \<Rightarrow>
     (tables \<times> int) option" where
  "sem_exec lt fk cat (Insert tab as cf) args nid t =
     (case map_of cat tab of None \<Rightarrow> None
      | Some s \<Rightarrow>
          (let r = insert_row s as args nid;
               t' = t(tab := insert_rows cf s (t tab) r)
           in if auto_fresh s (t tab) nid \<and> rows_ok s (t' tab)
                 \<and> (fk \<longrightarrow> list_all (\<lambda>f. \<not> orphan t' f r) (fks s) \<and> keeps_parents cat t t')
              then Some (t', 1) else None))"
| "sem_exec lt fk cat (Update tab as cs) args nid t =
     (case map_of cat tab of None \<Rightarrow> None
      | Some s \<Rightarrow>
          (let t' = t(tab := update_rows lt args as cs (t tab))
           in if rows_ok s (t' tab)
                 \<and> (fk \<longrightarrow> list_all (\<lambda>f. fk_col f \<in> fst ` set as \<longrightarrow>
                              list_all (\<lambda>r. sat lt args cs r \<longrightarrow> \<not> orphan t' f (assign args as r))
                                (t tab)) (fks s)
                           \<and> keeps_parents cat t t')
              then Some (t', int (length (filter (sat lt args cs) (t tab)))) else None))"
| "sem_exec lt fk cat (Delete tab cs) args nid t =
     (case map_of cat tab of None \<Rightarrow> None
      | Some s \<Rightarrow>
          (let t1 = t(tab := filter (\<lambda>r. \<not> sat lt args cs r) (t tab));
               t' = (if fk then cascade cat tab t t1 else t1)
           in if fk \<longrightarrow> keeps_parents cat t t'
              then Some (t', int (length (filter (sat lt args cs) (t tab)))) else None))"

section \<open>Meaning of queries\<close>

definition qualify :: "string \<Rightarrow> row \<Rightarrow> string \<Rightarrow> row \<Rightarrow> row" where
  "qualify a r b q =
     (\<lambda>c. if has_prefix c (a @ ''.'') then r (trim_prefix c (a @ ''.''))
          else if has_prefix c (b @ ''.'') then q (trim_prefix c (b @ ''.'')) else SNull)"

text \<open>\<open>Join a t b u c d\<close> is \<open>t a JOIN u b ON a.c = b.d\<close>.\<close>

fun source_rows :: "source \<Rightarrow> tables \<Rightarrow> row list" where
  "source_rows (Tab n) t = t n"
| "source_rows (Join a n b m c d) t =
     concat (map (\<lambda>r. map (qualify a r b) (filter (\<lambda>q. r c \<noteq> SNull \<and> r c = q d) (t m))) (t n))"

fun project1 :: "row \<Rightarrow> proj \<Rightarrow> sqlval" where
  "project1 r (PCol c) = r c"
| "project1 r (PCoalesce c v) = (if r c = SNull then v else r c)"

definition ordered :: "(sqlval \<Rightarrow> sqlval \<Rightarrow> bool) \<Rightarrow> (string \<times> bool) option \<Rightarrow> row list \<Rightarrow> bool" where
  "ordered lt ob rs =
     (case ob of None \<Rightarrow> True
      | Some (c, desc) \<Rightarrow>
          sorted_wrt (\<lambda>a b. if desc then \<not> lt (a c) (b c) else \<not> lt (b c) (a c)) rs)"

fun cut :: "limit \<Rightarrow> 'a list \<Rightarrow> 'a list" where
  "cut NoLimit xs = xs"
| "cut (Limit n) xs = take n xs"
| "cut (LimitText s) xs = take (nat_of_digits s) xs"

text \<open>
  A LIMIT spliced in as text has a meaning here only when it is a decimal numeral.
\<close>

fun limit_plain :: "limit \<Rightarrow> bool" where
  "limit_plain (LimitText s) = (s \<noteq> [] \<and> list_all is_digit s)"
| "limit_plain _ = True"

definition matching ::
    "(sqlval \<Rightarrow> sqlval \<Rightarrow> bool) \<Rightarrow> query \<Rightarrow> sqlval list \<Rightarrow> tables \<Rightarrow> row list" where
  "matching lt q args t = filter (sat lt args (conds q)) (source_rows (from_src q) t)"

definition count_row :: "(string \<times> sqlval) list \<Rightarrow> row list \<Rightarrow> sqlval list" where
  "count_row cvs ms =
     SInt (int (length ms)) #
     map (\<lambda>(c, v). SInt (int (length (filter (\<lambda>r. r c \<noteq> SNull \<and> r c = v) ms)))) cvs"

definition query_ok ::
    "(sqlval \<Rightarrow> sqlval \<Rightarrow> bool) \<Rightarrow> query \<Rightarrow> sqlval list \<Rightarrow> tables \<Rightarrow> sqlval list list \<Rightarrow> bool" where
  "query_ok lt q args t out \<longleftrightarrow>
     (case sel q of
        CountBy cvs \<Rightarrow> out = [count_row cvs (matching lt q args t)]
      | Fields ps \<Rightarrow>
          (\<exists>ms. mset ms = mset (matching lt q args t) \<and> ordered lt (order_by q) ms
             \<and> out = map (\<lambda>r. map (project1 r) ps) (cut (limit_of q) ms)))"

section \<open>Facts about statements\<close>

fun stmt_table :: "stmt \<Rightarrow> string" where
  "stmt_table (Insert tab as cf) = tab"
| "stmt_table (Update tab as cs) = tab"
| "stmt_table (Delete tab cs) = tab"

definition cascades :: "catalog \<Rightarrow> string \<Rightarrow> string \<Rightarrow> bool" where
  "cascades cat tab n \<longleftrightarrow>
     (case map_of cat n of None \<Rightarrow> False | Some s \<Rightarrow> cascade_keys tab s \<noteq> [])"

lemma assign_other: "c \<notin> fst ` set as \<Longrightarrow> assign args as r c = r c"
  by (induction args as r rule: assign.induct) auto

lemma sat_Cons [sql_simps]: "sat lt args (c # cs) r \<longleftrightarrow> holds lt args r c \<and> sat lt args cs r"
  by (simp add: sat_def)

lemma sat_Nil [sql_simps]: "sat lt args [] r"
  by (simp add: sat_def)

lemma sat_member: "sat lt args cs r \<Longrightarrow> c \<in> set cs \<Longrightarrow> holds lt args r c"
  by (auto simp: sat_def list_all_iff)

lemma cascade_other: "\<not> cascades cat tab n \<Longrightarrow> cascade cat tab t t' n = t' n"
  by (auto simp: cascade_def cascades_def split: option.splits)

lemma cascade_subset: "set (cascade cat tab t t' n) \<subseteq> set (t' n)"
  by (auto simp: cascade_def split: option.splits)

lemma sem_exec_frame:
  assumes "sem_exec lt fk cat st args nid t = Some (t', n)"
    and "x \<noteq> stmt_table st" and "\<not> cascades cat (stmt_table st) x"
  shows "t' x = t x"
  using assms
  by (cases st) (auto simp: Let_def cascade_other split: option.splits if_splits)

lemma sem_insert:
  "sem_exec lt fk cat (Insert tab as cf) args nid t = Some (t', n) \<longleftrightarrow>
     (\<exists>s. map_of cat tab = Some s
        \<and> t' = t(tab := insert_rows cf s (t tab) (insert_row s as args nid)) \<and> n = 1
        \<and> auto_fresh s (t tab) nid \<and> rows_ok s (t' tab)
        \<and> (fk \<longrightarrow> list_all (\<lambda>f. \<not> orphan t' f (insert_row s as args nid)) (fks s)
                 \<and> keeps_parents cat t t'))"
  by (auto simp: Let_def split: option.splits if_splits)

lemma sem_update_rows:
  assumes "sem_exec lt fk cat (Update tab as cs) args nid t = Some (t', n)"
  shows "t' = t(tab := update_rows lt args as cs (t tab))"
    and "n = int (length (filter (sat lt args cs) (t tab)))"
  using assms by (auto simp: Let_def split: option.splits if_splits)

text \<open>A plain INSERT appends its row, whose keys no earlier row has.\<close>

lemma no_clash_snoc: "no_clash s (rs @ [r]) \<Longrightarrow> q \<in> set rs \<Longrightarrow> \<not> clash s q r"
  by (induction rs) auto

lemma sem_insert_abort:
  assumes "sem_exec lt fk cat (Insert tab as Abort) args nid t = Some (t', n)"
    and "map_of cat tab = Some s"
  shows "t' = t(tab := t tab @ [insert_row s as args nid])"
    and "not_nulls s (insert_row s as args nid)"
    and "q \<in> set (t tab) \<Longrightarrow> u \<in> set (uniques s) \<Longrightarrow>
         \<not> same_key u q (insert_row s as args nid)"
proof -
  from assms have t': "t' = t(tab := t tab @ [insert_row s as args nid])"
    and ok: "rows_ok s (t tab @ [insert_row s as args nid])"
    by (auto simp: sem_insert insert_rows_def simp del: sem_exec.simps)
  show "t' = t(tab := t tab @ [insert_row s as args nid])" by (rule t')
  from ok show "not_nulls s (insert_row s as args nid)" by (simp add: rows_ok_def)
  assume "q \<in> set (t tab)" and "u \<in> set (uniques s)"
  then show "\<not> same_key u q (insert_row s as args nid)"
    using no_clash_snoc [of s "t tab"] ok by (auto simp: rows_ok_def clash_def list_ex_iff)
qed

lemma sem_delete_rows:
  assumes "sem_exec lt fk cat (Delete tab cs) args nid t = Some (t', n)"
    and "\<not> cascades cat tab tab"
  shows "t' tab = filter (\<lambda>r. \<not> sat lt args cs r) (t tab)"
    and "n = int (length (filter (sat lt args cs) (t tab)))"
  using assms by (auto simp: Let_def cascade_other split: option.splits if_splits)

text \<open>A statement that affected no row changed nothing.\<close>

lemma update_rows_none: "filter (sat lt args cs) rs = [] \<Longrightarrow> update_rows lt args as cs rs = rs"
  by (induction rs) (auto simp: update_rows_def split: if_splits)

lemma update_no_match:
  assumes "sem_exec lt fk cat (Update tab as cs) args nid t = Some (t', 0)"
  shows "t' = t"
proof -
  note u = sem_update_rows [OF assms]
  from u(2) have "filter (sat lt args cs) (t tab) = []" by simp
  with u(1) show ?thesis by (simp add: update_rows_none)
qed

section \<open>Statements scoped to an organisation\<close>

text \<open>
  \<open>org_scoped args o st\<close>: the statement writes or removes only rows whose \<open>org_id\<close>
  is \<open>o\<close>, because it inserts that value or has \<open>org_id = ?\<close> in its WHERE clause.
\<close>

definition foreign :: "string \<Rightarrow> row \<Rightarrow> bool" where
  "foreign o' r \<longleftrightarrow> r ''org_id'' \<noteq> SText o'"

fun own_cond :: "sqlval list \<Rightarrow> string \<Rightarrow> cond \<Rightarrow> bool" where
  "own_cond args o' (CEq k e) = (k = ''org_id'' \<and> eval_expr args e = SText o')"
| "own_cond args o' (CLt k e) = False"

fun org_scoped :: "sqlval list \<Rightarrow> string \<Rightarrow> stmt \<Rightarrow> bool" where
  "org_scoped args o' (Insert tab as cf) =
     (cf = Abort \<and> distinct (map fst as) \<and>
      (case map_of as ''org_id'' of None \<Rightarrow> False | Some e \<Rightarrow> eval_expr args e = SText o'))"
| "org_scoped args o' (Update tab as cs) =
     (''org_id'' \<notin> fst ` set as \<and>
      list_ex (own_cond args o') cs)"
| "org_scoped args o' (Delete tab cs) =
     list_ex (own_cond args o') cs"

lemma assign_map_of:
  "distinct (map fst as) \<Longrightarrow> map_of as c = Some e \<Longrightarrow> assign args as r c = eval_expr args e"
proof (induction as arbitrary: r)
  case Nil
  then show ?case by simp
next
  case (Cons a as)
  then show ?case
    by (cases a) (auto simp: assign_other split: if_splits)
qed

lemma sat_own:
  assumes "list_ex (own_cond args o') cs" and "sat lt args cs r"
  shows "r ''org_id'' = SText o'"
proof -
  obtain c where c: "c \<in> set cs" "own_cond args o' c"
    using assms(1) by (auto simp: list_ex_iff)
  with assms(2) have "holds lt args r c" by (blast intro: sat_member)
  with c(2) show ?thesis by (cases c) auto
qed

lemma foreign_unchanged:
  assumes sem: "sem_exec lt fk cat st args nid t = Some (t', n)"
    and sc: "org_scoped args o' st" and nc: "\<not> cascades cat (stmt_table st) (stmt_table st)"
  shows "filter (foreign o') (t' (stmt_table st)) = filter (foreign o') (t (stmt_table st))"
proof (cases st)
  case (Insert tab as cf)
  with sc have o: "assign args as r ''org_id'' = SText o'" for r
    by (auto split: option.splits simp: assign_map_of)
  from sem sc Insert show ?thesis
    by (auto simp: sem_insert insert_rows_def insert_row_def foreign_def o simp del: sem_exec.simps)
next
  case (Update tab as cs)
  let ?m = "\<lambda>r. if sat lt args cs r then assign args as r else r"
  from sc Update have own: "sat lt args cs r \<Longrightarrow> \<not> foreign o' r" for r
    by (auto simp: foreign_def dest: sat_own)
  have keep: "foreign o' (?m r) = foreign o' r" for r
    using sc Update by (auto simp: foreign_def assign_other)
  have "filter (foreign o') (map ?m rs) = filter (foreign o') rs" for rs
    by (induction rs) (auto simp: keep dest: own)
  moreover have "t' = t(tab := update_rows lt args as cs (t tab))"
    using sem Update by (intro sem_update_rows(1)) simp
  ultimately show ?thesis
    using Update by (simp add: update_rows_def)
next
  case (Delete tab cs)
  with sc have own: "sat lt args cs r \<Longrightarrow> \<not> foreign o' r" for r
    by (auto simp: foreign_def dest: sat_own)
  have "filter (foreign o') (filter (\<lambda>r. \<not> sat lt args cs r) rs) = filter (foreign o') rs" for rs
    by (induction rs) (auto dest: own)
  with sem nc Delete show ?thesis
    by (simp add: sem_delete_rows del: sem_exec.simps)
qed

section \<open>Facts about queries\<close>

lemma cut_set: "set (cut l xs) \<subseteq> set xs"
  by (cases l) (auto dest: in_set_takeD)

lemma query_fieldsE:
  assumes "query_ok lt q args t out" and "sel q = Fields ps"
  obtains ms where "mset ms = mset (matching lt q args t)"
    and "ordered lt (order_by q) ms"
    and "out = map (\<lambda>r. map (project1 r) ps) (cut (limit_of q) ms)"
proof -
  from assms have "\<exists>ms. mset ms = mset (matching lt q args t) \<and> ordered lt (order_by q) ms
      \<and> out = map (\<lambda>r. map (project1 r) ps) (cut (limit_of q) ms)"
    by (simp add: query_ok_def)
  then show thesis using that by blast
qed

lemma query_rows_from:
  assumes "query_ok lt q args t out" and "sel q = Fields ps" and "v \<in> set out"
  shows "\<exists>r \<in> set (matching lt q args t). v = map (project1 r) ps"
proof -
  obtain ms where ms: "mset ms = mset (matching lt q args t)"
    and out: "out = map (\<lambda>r. map (project1 r) ps) (cut (limit_of q) ms)"
    using query_fieldsE [OF assms(1,2)] by blast
  from assms(3) have "v \<in> (\<lambda>r. map (project1 r) ps) ` set (cut (limit_of q) ms)"
    by (simp add: out)
  then obtain r where r: "r \<in> set (cut (limit_of q) ms)" "v = map (project1 r) ps"
    by blast
  have "r \<in> set ms" by (rule subsetD [OF cut_set r(1)])
  with mset_eq_setD [OF ms] have "r \<in> set (matching lt q args t)" by simp
  with r(2) show ?thesis by (rule bexI)
qed

lemma query_none:
  assumes "query_ok lt q args t out" and "sel q = Fields ps" and "matching lt q args t = []"
  shows "out = []"
proof -
  obtain ms where "mset ms = mset (matching lt q args t)"
    and "out = map (\<lambda>r. map (project1 r) ps) (cut (limit_of q) ms)"
    using query_fieldsE [OF assms(1,2)] by blast
  with assms(3) show ?thesis by (cases "limit_of q") auto
qed

lemma query_all:
  assumes "query_ok lt q args t out" and "sel q = Fields ps" and "limit_of q = NoLimit"
  shows "mset out = image_mset (\<lambda>r. map (project1 r) ps) (mset (matching lt q args t))"
proof -
  obtain ms where ms: "mset ms = mset (matching lt q args t)"
    and "out = map (\<lambda>r. map (project1 r) ps) (cut (limit_of q) ms)"
    using query_fieldsE [OF assms(1,2)] by blast
  with assms(3) have out: "out = map (\<lambda>r. map (project1 r) ps) ms" by simp
  show ?thesis unfolding ms [symmetric] out by simp
qed

lemma query_single:
  assumes "query_ok lt q args t out" and "sel q = Fields ps" and "matching lt q args t = [r]"
    and "limit_of q = NoLimit \<or> (\<exists>n. limit_of q = Limit (Suc n))"
  shows "out = [map (project1 r) ps]"
proof -
  obtain ms where "mset ms = mset (matching lt q args t)"
    and out: "out = map (\<lambda>r. map (project1 r) ps) (cut (limit_of q) ms)"
    using query_fieldsE [OF assms(1,2)] by blast
  with assms(3) have "ms = [r]" by simp
  with out assms(4) show ?thesis by auto
qed

end
