(* ===== verification/Dbclient.thy ===== *)
theory Dbclient
  imports Sql
begin

text \<open>
  \<open>internal/db/db.go\<close>: the interface \<open>DBClient\<close> through which every module reaches the
  database, the wrapper \<open>DB\<close> that provides it on top of a \<open>database/sql\<close> driver, and
  \<open>Scan\<close>. The driver is a parameter; \<open>sql_engine\<close> is the contract of the interface.
\<close>

section \<open>The interface\<close>

record exec_result =
  RowsAffected :: int
  LastInsertId :: int

text \<open>
  A query yields its rows and, when the iteration broke off, the error \<open>Rows.Err\<close>
  reports after the rows that were read.
\<close>

type_synonym rowset = "sqlval list list \<times> string option"

record 'd engine =
  db_exec :: "'d \<Rightarrow> stmt \<Rightarrow> sqlval list \<Rightarrow> 'd \<times> exec_result result"
  db_query :: "'d \<Rightarrow> query \<Rightarrow> sqlval list \<Rightarrow> 'd \<times> rowset result"

definition ErrNoRows :: string where
  "ErrNoRows = ''sql: no rows in result set''"

definition db_query_row ::
    "'d engine \<Rightarrow> 'd \<Rightarrow> query \<Rightarrow> sqlval list \<Rightarrow> 'd \<times> sqlval list result" where
  "db_query_row E d q args =
     (case db_query E d q args of
        (d', Inl e) \<Rightarrow> (d', Inl e)
      | (d', Inr ([], None)) \<Rightarrow> (d', Inl ErrNoRows)
      | (d', Inr ([], Some e)) \<Rightarrow> (d', Inl e)
      | (d', Inr (r # rs, e)) \<Rightarrow> (d', Inr r))"

text \<open>\<open>type DB\<close>: each method hands the call to the driver and wraps what it returns.\<close>

definition DB_Exec ::
    "'d engine \<Rightarrow> 'd \<Rightarrow> stmt \<Rightarrow> sqlval list \<Rightarrow> 'd \<times> exec_result result" where
  "DB_Exec drv d sql args =
     (case db_exec drv d sql args of
        (d', Inl err) \<Rightarrow> (d', Inl err)
      | (d', Inr res) \<Rightarrow>
          (d', Inr \<lparr>RowsAffected = RowsAffected res, LastInsertId = LastInsertId res\<rparr>))"

definition DB_Query ::
    "'d engine \<Rightarrow> 'd \<Rightarrow> query \<Rightarrow> sqlval list \<Rightarrow> 'd \<times> rowset result" where
  "DB_Query drv d sql args =
     (case db_query drv d sql args of
        (d', Inl err) \<Rightarrow> (d', Inl err)
      | (d', Inr (rows, err)) \<Rightarrow> (d', Inr (rows, err)))"

definition DB :: "'d engine \<Rightarrow> 'd engine" where
  "DB drv = \<lparr>db_exec = DB_Exec drv, db_query = DB_Query drv\<rparr>"

lemma DB_transparent [simp]: "db_exec (DB drv) = db_exec drv" "db_query (DB drv) = db_query drv"
  by (auto simp: DB_def DB_Exec_def DB_Query_def fun_eq_iff split: prod.splits sum.splits)

text \<open>\<open>internal/db/errors.go\<close>: errors carry a kind; only \<open>NotFound\<close> builds the typed one.\<close>

datatype db_error = ErrNotFound (err_kind: string) (err_id: string) | OtherError string

definition db_NotFound :: "string \<Rightarrow> string \<Rightarrow> db_error" where
  "db_NotFound kind i = ErrNotFound kind i"

fun IsNotFound :: "db_error \<Rightarrow> bool" where
  "IsNotFound (ErrNotFound k i) = True"
| "IsNotFound (OtherError m) = False"

fun err_text :: "db_error \<Rightarrow> string" where
  "err_text (ErrNotFound k i) = k @ '' not found: '' @ i"
| "err_text (OtherError m) = m"

section \<open>\<open>Scan\<close>\<close>

text \<open>
  Conversions of \<open>database/sql\<close> into the types the program scans into, on the values
  its columns hold. NULL goes into pointers and \<open>sql.NullString\<close> only: a NULL scanned
  into a \<open>string\<close>, a number or a \<open>time.Time\<close> is an error.
\<close>

definition scan_error :: string where
  "scan_error = ''sql: Scan error: unsupported conversion''"

fun scan_string :: "sqlval \<Rightarrow> string result" where
  "scan_string (SText s) = Inr s"
| "scan_string (SInt i) = Inr (itoa i)"
| "scan_string _ = Inl scan_error"

text \<open>
  A string that is only turned into a \<open>json.RawMessage\<close>; the empty text makes the empty
  message, which like the nil message has no value.
\<close>

fun scan_doc :: "sqlval \<Rightarrow> json option result" where
  "scan_doc (SDoc j) = Inr (Some j)"
| "scan_doc (SText s) = Inr None"
| "scan_doc _ = Inl scan_error"

text \<open>\<open>sql.NullString\<close> turned into a \<open>json.RawMessage\<close> when valid.\<close>

fun scan_nulldoc :: "sqlval \<Rightarrow> json option result" where
  "scan_nulldoc SNull = Inr None"
| "scan_nulldoc v = scan_doc v"

fun scan_int :: "sqlval \<Rightarrow> int result" where
  "scan_int (SInt i) = Inr i"
| "scan_int (SText s) = (case atoi s of None \<Rightarrow> Inl scan_error | Some i \<Rightarrow> Inr i)"
| "scan_int _ = Inl scan_error"

fun scan_bool :: "sqlval \<Rightarrow> bool result" where
  "scan_bool (SInt i) = (if i = 1 then Inr True else if i = 0 then Inr False else Inl scan_error)"
| "scan_bool _ = Inl scan_error"

fun scan_float :: "sqlval \<Rightarrow> rat result" where
  "scan_float (SReal q) = Inr q"
| "scan_float (SInt i) = (case f64_of_int i of None \<Rightarrow> Inl scan_error | Some q \<Rightarrow> Inr q)"
| "scan_float _ = Inl scan_error"

fun scan_time :: "sqlval \<Rightarrow> int result" where
  "scan_time (STime t) = Inr t"
| "scan_time _ = Inl scan_error"

fun scan_time_ptr :: "sqlval \<Rightarrow> int option result" where
  "scan_time_ptr SNull = Inr None"
| "scan_time_ptr (STime t) = Inr (Some t)"
| "scan_time_ptr _ = Inl scan_error"

text \<open>
  \<open>rows.Scan(&x.A, &x.B, ...)\<close>: the number of columns must agree, then the fields are
  set from left to right up to the first failing conversion. The result is the struct as
  far as it was filled and the error.
\<close>

type_synonym 'r scanner = "sqlval \<Rightarrow> 'r \<Rightarrow> 'r result"

definition into :: "(sqlval \<Rightarrow> 'a result) \<Rightarrow> (('a \<Rightarrow> 'a) \<Rightarrow> 'r \<Rightarrow> 'r) \<Rightarrow> 'r scanner" where
  "into conv upd v r = (case conv v of Inl e \<Rightarrow> Inl e | Inr x \<Rightarrow> Inr (upd (\<lambda>_. x) r))"

fun scan_fields :: "'r scanner list \<Rightarrow> sqlval list \<Rightarrow> 'r \<Rightarrow> 'r \<times> string option" where
  "scan_fields (f # fs) (v # vs) r =
     (case f v r of Inl e \<Rightarrow> (r, Some e) | Inr r' \<Rightarrow> scan_fields fs vs r')"
| "scan_fields _ _ r = (r, None)"

definition Scan :: "'r scanner list \<Rightarrow> sqlval list \<Rightarrow> 'r \<Rightarrow> 'r \<times> string option" where
  "Scan fs vs r =
     (if length fs = length vs then scan_fields fs vs r
      else (r, Some ''sql: wrong number of destination arguments in Scan''))"

text \<open>The usual loops over rows: skip a row that does not scan, ignore the error, or stop.\<close>

definition scan_skip :: "'r scanner list \<Rightarrow> 'r \<Rightarrow> sqlval list list \<Rightarrow> 'r list" where
  "scan_skip fs z rows =
     concat (map (\<lambda>vs. case Scan fs vs z of (r, None) \<Rightarrow> [r] | (r, Some e) \<Rightarrow> []) rows)"

definition scan_lax :: "'r scanner list \<Rightarrow> 'r \<Rightarrow> sqlval list list \<Rightarrow> 'r list" where
  "scan_lax fs z rows = map (\<lambda>vs. fst (Scan fs vs z)) rows"

fun scan_strict :: "'r scanner list \<Rightarrow> 'r \<Rightarrow> sqlval list list \<Rightarrow> 'r list result" where
  "scan_strict fs z [] = Inr []"
| "scan_strict fs z (vs # rows) =
     (case Scan fs vs z of
        (r, Some e) \<Rightarrow> Inl e
      | (r, None) \<Rightarrow> bind_result (scan_strict fs z rows) (\<lambda>rs. Inr (r # rs)))"

lemma Scan_Nil [simp]: "Scan [] [] r = (r, None)"
  by (simp add: Scan_def)

lemma Scan_Cons [simp]:
  "Scan (f # fs) (v # vs) r =
     (if length fs = length vs
      then case f v r of Inl e \<Rightarrow> (r, Some e) | Inr r' \<Rightarrow> Scan fs vs r'
      else (r, Some ''sql: wrong number of destination arguments in Scan''))"
  by (simp add: Scan_def split: sum.splits)

text \<open>A column that no destination of its type accepts makes the scan fail.\<close>

lemma scan_fields_error:
  "k < length fs \<Longrightarrow> k < length vs \<Longrightarrow> \<forall>q. \<exists>e. (fs ! k) (vs ! k) q = Inl e \<Longrightarrow>
   \<exists>q e. scan_fields fs vs r = (q, Some e)"
proof (induction fs vs r arbitrary: k rule: scan_fields.induct)
  case (1 f fs v vs r)
  then show ?case by (cases k) (auto split: sum.splits, metis sum.distinct(1))
qed auto

lemma Scan_error:
  assumes "k < length fs" and "k < length vs" and "\<And>q. \<exists>e. (fs ! k) (vs ! k) q = Inl e"
  shows "\<exists>q e. Scan fs vs r = (q, Some e)"
  using scan_fields_error [of k fs vs r] assms by (auto simp: Scan_def)

lemma scan_strict_all:
  "scan_strict fs z rows = Inr rs \<Longrightarrow> list_all2 (\<lambda>vs r. Scan fs vs z = (r, None)) rows rs"
  by (induction rows arbitrary: rs)
     (auto simp: bind_result_eq_Inr split: prod.splits option.splits)

lemma scan_strict_fails:
  "vs \<in> set rows \<Longrightarrow> snd (Scan fs vs z) \<noteq> None \<Longrightarrow> \<exists>e. scan_strict fs z rows = Inl e"
  by (induction rows)
     (force simp: bind_result_def split: prod.splits option.splits sum.splits)+

section \<open>The contract of the interface\<close>

text \<open>
  Nothing is promised of a query whose limit is some text: a driver executes all statements of the
  text it is given.
\<close>

locale sql_engine =
  fixes E :: "'d engine"
    and contents :: "'d \<Rightarrow> tables"
    and fk_on :: "'d \<Rightarrow> bool"
    and lt :: "sqlval \<Rightarrow> sqlval \<Rightarrow> bool"
    and cat :: catalog
  assumes exec_ok: "db_exec E d st args = (d', Inr res) \<Longrightarrow>
      sem_exec lt (fk_on d) cat st args (LastInsertId res) (contents d)
        = Some (contents d', RowsAffected res)"
    and exec_err: "db_exec E d st args = (d', Inl e) \<Longrightarrow> contents d' = contents d"
    and query_frame: "db_query E d q args = (d', r) \<Longrightarrow> limit_plain (limit_of q) \<Longrightarrow>
      contents d' = contents d"
    and query_rows: "db_query E d q args = (d', Inr (rows, None)) \<Longrightarrow> limit_plain (limit_of q) \<Longrightarrow>
      query_ok lt q args (contents d) rows"
    and query_broken: "db_query E d q args = (d', Inr (rows, Some e)) \<Longrightarrow>
      limit_plain (limit_of q) \<Longrightarrow>
      \<exists>full. query_ok lt q args (contents d) full \<and> prefix rows full"
begin

lemma exec_cases:
  obtains (fail) d' e where "db_exec E d st args = (d', Inl e)" "contents d' = contents d"
  | (ok) d' res where "db_exec E d st args = (d', Inr res)"
      "sem_exec lt (fk_on d) cat st args (LastInsertId res) (contents d)
         = Some (contents d', RowsAffected res)"
proof (cases "db_exec E d st args")
  case (Pair d' r)
  then show thesis
    using exec_ok exec_err fail ok by (cases r) blast+
qed

lemma query_row_frame:
  "db_query_row E d q args = (d', r) \<Longrightarrow> limit_plain (limit_of q) \<Longrightarrow> contents d' = contents d"
  by (auto simp: db_query_row_def split: prod.splits sum.splits list.splits option.splits
      dest: query_frame)

lemma query_row_ok:
  assumes "db_query_row E d q args = (d', Inr v)" and "limit_plain (limit_of q)"
  shows "\<exists>rows. query_ok lt q args (contents d) (v # rows)"
proof -
  obtain rows e where q: "db_query E d q args = (d', Inr (v # rows, e))"
    using assms(1)
    by (auto simp: db_query_row_def split: prod.splits sum.splits list.splits option.splits)
  show ?thesis
  proof (cases e)
    case None
    with q query_rows assms(2) show ?thesis by blast
  next
    case (Some x)
    with q query_broken assms(2) obtain full
      where "query_ok lt q args (contents d) full" and "prefix (v # rows) full" by blast
    then show ?thesis by (auto simp: prefix_def)
  qed
qed

lemma query_row_from:
  assumes "db_query_row E d q args = (d', Inr v)" and "limit_plain (limit_of q)"
    and "sel q = Fields ps"
  shows "\<exists>r \<in> set (matching lt q args (contents d)). v = map (project1 r) ps"
proof -
  obtain rows where "query_ok lt q args (contents d) (v # rows)"
    using query_row_ok [OF assms(1,2)] by (elim exE)
  then show ?thesis by (rule query_rows_from) (use assms(3) in simp_all)
qed

lemma rows_prefix:
  assumes q: "db_query E d q args = (d', Inr (rows, e))" and l: "limit_plain (limit_of q)"
  obtains full where "query_ok lt q args (contents d) full" and "prefix rows full"
proof (cases e)
  case None
  show thesis
    by (rule that [OF query_rows [OF q [unfolded None] l]]) (simp add: prefix_def)
next
  case (Some x)
  show thesis
    using query_broken [OF q [unfolded Some] l] that by (elim exE conjE)
qed

lemma rows_from:
  assumes "db_query E d q args = (d', Inr (rows, e))" and "limit_plain (limit_of q)"
    and s: "sel q = Fields ps" and v: "v \<in> set rows"
  shows "\<exists>r \<in> set (matching lt q args (contents d)). v = map (project1 r) ps"
proof -
  obtain full where full: "query_ok lt q args (contents d) full" "prefix rows full"
    using rows_prefix [OF assms(1,2)] .
  from set_mono_prefix [OF full(2)] v have "v \<in> set full" by (rule subsetD)
  with full(1) s show ?thesis by (rule query_rows_from)
qed

text \<open>What a scoped statement leaves of the other organisations' rows.\<close>

lemma exec_foreign:
  assumes ex: "db_exec E d st args = (d', r)" and sc: "org_scoped args o' st"
    and nc: "\<not> cascades cat (stmt_table st) (stmt_table st)"
  shows "filter (foreign o') (contents d' (stmt_table st))
       = filter (foreign o') (contents d (stmt_table st))"
proof (cases r)
  case (Inl e)
  with ex show ?thesis by (simp add: exec_err)
next
  case (Inr res)
  from exec_ok [OF ex [unfolded Inr]] sc nc show ?thesis by (rule foreign_unchanged)
qed

lemma exec_frame:
  assumes ex: "db_exec E d st args = (d', r)"
    and "x \<noteq> stmt_table st" and "\<not> cascades cat (stmt_table st) x"
  shows "contents d' x = contents d x"
proof (cases r)
  case (Inl e)
  with ex show ?thesis by (simp add: exec_err)
next
  case (Inr res)
  from exec_ok [OF ex [unfolded Inr]] assms(2,3) show ?thesis by (rule sem_exec_frame)
qed

end

text \<open>
  An engine whose reads do not fail. Properties that promise an answer need it; safety
  properties do not.
\<close>

locale readable_engine = sql_engine +
  assumes query_progress: "\<exists>d' rows. db_query E d q args = (d', Inr (rows, None))"
begin

lemma query_row_none:
  assumes "sel q = Fields ps" and "limit_plain (limit_of q)"
    and "matching lt q args (contents d) = []"
  shows "\<exists>d'. db_query_row E d q args = (d', Inl ErrNoRows)"
proof -
  obtain d' rows where q: "db_query E d q args = (d', Inr (rows, None))"
    using query_progress by blast
  with assms query_rows query_none have "rows = []" by blast
  with q show ?thesis by (simp add: db_query_row_def)
qed

lemma query_row_count:
  assumes "sel q = CountBy cvs" and "limit_plain (limit_of q)"
  shows "\<exists>d'. db_query_row E d q args = (d', Inr (count_row cvs (matching lt q args (contents d))))"
proof -
  obtain d' rows where q: "db_query E d q args = (d', Inr (rows, None))"
    using query_progress by blast
  with assms(2) have "query_ok lt q args (contents d) rows" by (blast intro: query_rows)
  with assms(1) have "rows = [count_row cvs (matching lt q args (contents d))]"
    by (simp add: query_ok_def)
  with q show ?thesis by (simp add: db_query_row_def)
qed

lemma query_row_single:
  assumes "sel q = Fields ps" and "matching lt q args (contents d) = [r]"
    and "limit_of q = NoLimit \<or> (\<exists>n. limit_of q = Limit (Suc n))"
  shows "\<exists>d'. db_query_row E d q args = (d', Inr (map (project1 r) ps))"
proof -
  obtain d' rows where q: "db_query E d q args = (d', Inr (rows, None))"
    using query_progress by blast
  from assms(3) have "limit_plain (limit_of q)" by auto
  with q have "query_ok lt q args (contents d) rows" by (blast intro: query_rows)
  then have "rows = [map (project1 r) ps]" by (rule query_single) (use assms in auto)
  with q show ?thesis by (simp add: db_query_row_def)
qed

end

text \<open>The wrapper \<open>DB\<close> keeps the contract of the driver below it.\<close>

lemma DB_same: "DB drv = drv"
  by (rule engine.equality) simp_all

lemma DB_sql_engine:
  "sql_engine drv contents fk_on lt cat \<Longrightarrow> sql_engine (DB drv) contents fk_on lt cat"
  by (simp only: DB_same)

lemma DB_readable_engine:
  "readable_engine drv contents fk_on lt cat \<Longrightarrow> readable_engine (DB drv) contents fk_on lt cat"
  by (simp only: DB_same)

section \<open>An engine inside a larger state\<close>

text \<open>
  A component whose state holds a database uses the engine through the projection \<open>prj\<close> and
  the update \<open>upd\<close>; the contract carries over.
\<close>

definition lift_engine :: "('s \<Rightarrow> 'd) \<Rightarrow> ('d \<Rightarrow> 's \<Rightarrow> 's) \<Rightarrow> 'd engine \<Rightarrow> 's engine" where
  "lift_engine prj upd E =
     \<lparr>db_exec = (\<lambda>s st args. case db_exec E (prj s) st args of (d', r) \<Rightarrow> (upd d' s, r)),
      db_query = (\<lambda>s q args. case db_query E (prj s) q args of (d', r) \<Rightarrow> (upd d' s, r))\<rparr>"

lemma lift_exec:
  "db_exec (lift_engine prj upd E) s st args = (s', r) \<longleftrightarrow>
     (\<exists>d'. db_exec E (prj s) st args = (d', r) \<and> s' = upd d' s)"
  by (auto simp: lift_engine_def split: prod.splits)

lemma lift_query:
  "db_query (lift_engine prj upd E) s q args = (s', r) \<longleftrightarrow>
     (\<exists>d'. db_query E (prj s) q args = (d', r) \<and> s' = upd d' s)"
  by (auto simp: lift_engine_def split: prod.splits)

lemma lift_sql_engine:
  assumes "sql_engine E contents fk_on lt cat" and "\<And>d s. prj (upd d s) = d"
  shows "sql_engine (lift_engine prj upd E) (\<lambda>s. contents (prj s)) (\<lambda>s. fk_on (prj s)) lt cat"
  by (rule sql_engine.intro)
     (auto simp: lift_exec lift_query assms(2)
        dest: sql_engine.exec_ok [OF assms(1)] sql_engine.exec_err [OF assms(1)]
          sql_engine.query_frame [OF assms(1)] sql_engine.query_rows [OF assms(1)]
          sql_engine.query_broken [OF assms(1)])

end
