(* ===== verification/Refengine.thy ===== *)
theory Refengine
  imports Dbclient
begin

text \<open>
  An engine that runs the statements exactly as \<open>sem_exec\<close> and \<open>query_ok\<close> say, on tables
  held in memory. It shows that the contracts of Dbclient can be met for every catalog,
  and concrete requests are evaluated on it. \<open>fk\<close> says whether it enforces foreign keys.
\<close>

section \<open>An order on values\<close>

fun ref_key :: "sqlval \<Rightarrow> nat \<times> rat \<times> nat list" where
  "ref_key SNull = (0, 0, [])"
| "ref_key (SInt i) = (1, of_int i, [])"
| "ref_key (SReal q) = (1, q, [])"
| "ref_key (STime t) = (2, of_int t, [])"
| "ref_key (SText s) = (3, 0, map of_char s)"
| "ref_key (SDoc j) = (4, 0, [])"

definition ref_lt :: "sqlval \<Rightarrow> sqlval \<Rightarrow> bool" where
  "ref_lt a b \<longleftrightarrow> ref_key a < ref_key b"

lemma ref_lt_time [simp]: "ref_lt (STime a) (STime b) \<longleftrightarrow> a < b"
  by (simp add: ref_lt_def)

lemma ref_lt_int [simp]: "ref_lt (SInt a) (SInt b) \<longleftrightarrow> a < b"
  by (simp add: ref_lt_def)

section \<open>The engine\<close>

definition max_key :: "string \<Rightarrow> row list \<Rightarrow> int" where
  "max_key c rs = foldr (\<lambda>r m. case r c of SInt i \<Rightarrow> max i m | _ \<Rightarrow> m) rs 0"

definition ref_nid :: "catalog \<Rightarrow> stmt \<Rightarrow> tables \<Rightarrow> int" where
  "ref_nid cat st t =
     (case map_of cat (stmt_table st) of None \<Rightarrow> 1
      | Some s \<Rightarrow> (case autoinc s of None \<Rightarrow> 1 | Some c \<Rightarrow> max_key c (t (stmt_table st)) + 1))"

definition ref_exec ::
    "bool \<Rightarrow> catalog \<Rightarrow> tables \<Rightarrow> stmt \<Rightarrow> sqlval list \<Rightarrow> tables \<times> exec_result result" where
  "ref_exec fk cat t st args =
     (case sem_exec ref_lt fk cat st args (ref_nid cat st t) t of
        None \<Rightarrow> (t, Inl ''constraint failed'')
      | Some (t', n) \<Rightarrow> (t', Inr \<lparr>RowsAffected = n, LastInsertId = ref_nid cat st t\<rparr>))"

definition ref_sort :: "(string \<times> bool) option \<Rightarrow> row list \<Rightarrow> row list" where
  "ref_sort ob rs =
     (case ob of None \<Rightarrow> rs
      | Some (c, desc) \<Rightarrow>
          (let up = sort_key (\<lambda>r. ref_key (r c)) rs in if desc then rev up else up))"

definition ref_query ::
    "tables \<Rightarrow> query \<Rightarrow> sqlval list \<Rightarrow> tables \<times> rowset result" where
  "ref_query t q args =
     (t, Inr (case sel q of
                CountBy cvs \<Rightarrow> [count_row cvs (matching ref_lt q args t)]
              | Fields ps \<Rightarrow> map (\<lambda>r. map (project1 r) ps)
                  (cut (limit_of q) (ref_sort (order_by q) (matching ref_lt q args t))), None))"

definition ref_engine :: "bool \<Rightarrow> catalog \<Rightarrow> tables engine" where
  "ref_engine fk cat = \<lparr>db_exec = ref_exec fk cat, db_query = ref_query\<rparr>"

section \<open>It meets the contract\<close>

lemma mset_ref_sort [simp]: "mset (ref_sort ob rs) = mset rs"
  by (simp add: ref_sort_def Let_def split: option.splits prod.splits)

lemma ordered_ref_sort: "ordered ref_lt ob (ref_sort ob rs)"
proof (cases ob)
  case None
  then show ?thesis by (simp add: ordered_def)
next
  case (Some p)
  obtain c desc where p: "p = (c, desc)" by (cases p)
  let ?up = "sort_key (\<lambda>r. ref_key (r c)) rs"
  have "sorted (map (\<lambda>r. ref_key (r c)) ?up)" by simp
  then have up: "sorted_wrt (\<lambda>a b. ref_key (a c) \<le> ref_key (b c)) ?up"
    by (simp add: sorted_wrt_map)
  have down: "sorted_wrt (\<lambda>a b. ref_key (b c) \<le> ref_key (a c)) (rev ?up)"
    using up by (simp add: sorted_wrt_rev)
  show ?thesis
    using up down
    by (auto simp: Some p ordered_def ref_sort_def Let_def ref_lt_def not_less)
qed

interpretation ref: readable_engine "ref_engine fk cat" "\<lambda>t. t" "\<lambda>t. fk" ref_lt cat for fk cat
proof
  show "sem_exec ref_lt fk cat st args (LastInsertId res) d = Some (d', RowsAffected res)"
    if "db_exec (ref_engine fk cat) d st args = (d', Inr res)" for d st args d' res
    using that by (auto simp: ref_engine_def ref_exec_def split: option.splits)
  show "d' = d" if "db_exec (ref_engine fk cat) d st args = (d', Inl e)" for d st args d' e
    using that by (auto simp: ref_engine_def ref_exec_def split: option.splits)
  show "d' = d" if "db_query (ref_engine fk cat) d q args = (d', r)" for d q args d' r
    using that by (simp add: ref_engine_def ref_query_def)
  show "query_ok ref_lt q args d rows"
    if "db_query (ref_engine fk cat) d q args = (d', Inr (rows, None))" for d q args d' rows
    using that
    by (auto simp: ref_engine_def ref_query_def query_ok_def ordered_ref_sort
        split: selection.splits intro!: exI [of _ "ref_sort (order_by q) (matching ref_lt q args d)"])
  show "\<exists>full. query_ok ref_lt q args d full \<and> prefix rows full"
    if "db_query (ref_engine fk cat) d q args = (d', Inr (rows, Some e))" for d q args d' rows e
    using that by (simp add: ref_engine_def ref_query_def)
  show "\<exists>d' rows. db_query (ref_engine fk cat) d q args = (d', Inr (rows, None))" for d q args
    by (simp add: ref_engine_def ref_query_def)
qed

interpretation refdb: readable_engine "DB (ref_engine fk cat)" "\<lambda>t. t" "\<lambda>t. fk" ref_lt cat for fk cat
  by (rule DB_readable_engine) (rule ref.readable_engine_axioms)

end
