(* ===== verification/Schema.thy ===== *)
theory Schema
  imports Refengine
begin

text \<open>
  The tables of the running program: what the modules' migrations (\<open>modules/*/storage.go\<close>)
  create, with the \<open>org_id\<close> column their second migration adds. CURRENT_TIMESTAMP as a
  default is the instant 0 here; the program names every such column in its INSERTs but
  \<open>deployment_devices.updated_at\<close>, which it never reads.
\<close>

definition fk_to :: "string \<Rightarrow> string \<Rightarrow> bool \<Rightarrow> fkey" where
  "fk_to c parent casc = \<lparr>fk_col = c, fk_parent = parent, fk_pcol = ''id'', fk_cascade = casc\<rparr>"

definition devices_schema :: schema where
  "devices_schema =
     \<lparr>columns = [(''id'', SNull), (''name'', SNull), (''type'', SText []), (''secret_key'', SNull),
        (''metadata'', SDoc (JObj [])), (''tags'', SDoc (JArr [])), (''device_group'', SText []),
        (''status'', SText ''offline''), (''last_seen'', SNull), (''created_at'', STime 0),
        (''updated_at'', STime 0), (''org_id'', SText [])],
      notnull = [''name'', ''type'', ''secret_key'', ''metadata'', ''tags'', ''device_group'',
        ''status'', ''created_at'', ''updated_at'', ''org_id''],
      uniques = [[''id'']], fks = [], autoinc = None\<rparr>"

definition telemetry_schema :: schema where
  "telemetry_schema =
     \<lparr>columns = [(''id'', SNull), (''device_id'', SNull), (''timestamp'', SNull),
        (''metrics'', SNull), (''metadata'', SDoc (JObj [])), (''org_id'', SText [])],
      notnull = [''device_id'', ''timestamp'', ''metrics'', ''metadata'', ''org_id''],
      uniques = [[''id'']], fks = [fk_to ''device_id'' ''devices'' True], autoinc = Some ''id''\<rparr>"

definition commands_schema :: schema where
  "commands_schema =
     \<lparr>columns = [(''id'', SNull), (''device_id'', SNull), (''command'', SNull), (''payload'', SNull),
        (''status'', SText ''pending''), (''result'', SNull), (''created_at'', STime 0),
        (''completed_at'', SNull), (''org_id'', SText [])],
      notnull = [''device_id'', ''command'', ''status'', ''created_at'', ''org_id''],
      uniques = [[''id'']], fks = [fk_to ''device_id'' ''devices'' True], autoinc = None\<rparr>"

definition alert_rules_schema :: schema where
  "alert_rules_schema =
     \<lparr>columns = [(''id'', SNull), (''name'', SNull), (''metric'', SNull), (''operator'', SNull),
        (''threshold'', SReal 0), (''duration'', SText []), (''channel'', SText ''log''),
        (''channel_target'', SText []), (''enabled'', SInt 1), (''created_at'', STime 0),
        (''org_id'', SText [])],
      notnull = [''name'', ''metric'', ''operator'', ''threshold'', ''duration'', ''channel'',
        ''channel_target'', ''enabled'', ''created_at'', ''org_id''],
      uniques = [[''id'']], fks = [], autoinc = None\<rparr>"

definition alert_events_schema :: schema where
  "alert_events_schema =
     \<lparr>columns = [(''id'', SNull), (''rule_id'', SNull), (''rule_name'', SNull), (''device_id'', SNull),
        (''metric'', SNull), (''value'', SNull), (''message'', SNull), (''severity'', SText ''warning''),
        (''created_at'', STime 0), (''org_id'', SText [])],
      notnull = [''rule_id'', ''rule_name'', ''device_id'', ''metric'', ''value'', ''message'',
        ''severity'', ''created_at'', ''org_id''],
      uniques = [[''id'']], fks = [fk_to ''rule_id'' ''alert_rules'' False], autoinc = None\<rparr>"

definition api_keys_schema :: schema where
  "api_keys_schema =
     \<lparr>columns = [(''key'', SNull), (''role'', SText ''admin''), (''created_at'', STime 0)],
      notnull = [''role'', ''created_at''],
      uniques = [[''key'']], fks = [], autoinc = None\<rparr>"

definition firmware_schema :: schema where
  "firmware_schema =
     \<lparr>columns = [(''id'', SNull), (''version'', SNull), (''target_device_type'', SNull),
        (''checksum'', SNull), (''size'', SInt 0), (''changelog'', SText []), (''created_at'', STime 0),
        (''org_id'', SText [])],
      notnull = [''version'', ''target_device_type'', ''checksum'', ''size'', ''changelog'',
        ''created_at'', ''org_id''],
      uniques = [[''id'']], fks = [], autoinc = None\<rparr>"

definition deployments_schema :: schema where
  "deployments_schema =
     \<lparr>columns = [(''id'', SNull), (''firmware_id'', SNull), (''target_group'', SText []),
        (''rollout_percent'', SInt 100), (''status'', SText ''in_progress''), (''created_at'', STime 0)],
      notnull = [''firmware_id'', ''target_group'', ''rollout_percent'', ''status'', ''created_at''],
      uniques = [[''id'']], fks = [fk_to ''firmware_id'' ''firmware'' False], autoinc = None\<rparr>"

definition deployment_devices_schema :: schema where
  "deployment_devices_schema =
     \<lparr>columns = [(''deployment_id'', SNull), (''device_id'', SNull), (''status'', SText ''pending''),
        (''updated_at'', STime 0)],
      notnull = [''deployment_id'', ''device_id'', ''status'', ''updated_at''],
      uniques = [[''deployment_id'', ''device_id'']],
      fks = [fk_to ''deployment_id'' ''deployments'' False], autoinc = None\<rparr>"

definition webhooks_schema :: schema where
  "webhooks_schema =
     \<lparr>columns = [(''id'', SNull), (''name'', SNull), (''url'', SNull), (''secret'', SText []),
        (''events'', SDoc (JArr [])), (''enabled'', SInt 1), (''created_at'', SNull),
        (''org_id'', SText [])],
      notnull = [''name'', ''url'', ''secret'', ''events'', ''enabled'', ''created_at'', ''org_id''],
      uniques = [[''id'']], fks = [], autoinc = None\<rparr>"

definition webhook_deliveries_schema :: schema where
  "webhook_deliveries_schema =
     \<lparr>columns = [(''id'', SNull), (''webhook_id'', SNull), (''event'', SNull), (''payload'', SNull),
        (''status'', SNull), (''status_code'', SInt 0), (''created_at'', SNull)],
      notnull = [''webhook_id'', ''event'', ''payload'', ''status'', ''status_code'', ''created_at''],
      uniques = [[''id'']], fks = [fk_to ''webhook_id'' ''webhooks'' False], autoinc = None\<rparr>"

definition groups_schema :: schema where
  "groups_schema =
     \<lparr>columns = [(''id'', SNull), (''name'', SNull), (''created_at'', STime 0), (''org_id'', SText [])],
      notnull = [''name'', ''created_at'', ''org_id''],
      uniques = [[''id''], [''name'']], fks = [], autoinc = None\<rparr>"

definition orgs_schema :: schema where
  "orgs_schema =
     \<lparr>columns = [(''id'', SNull), (''name'', SNull), (''created_at'', STime 0)],
      notnull = [''name'', ''created_at''],
      uniques = [[''id''], [''name'']], fks = [], autoinc = None\<rparr>"

definition org_users_schema :: schema where
  "org_users_schema =
     \<lparr>columns = [(''id'', SNull), (''org_id'', SNull), (''email'', SNull), (''role'', SText ''viewer''),
        (''created_at'', SNull)],
      notnull = [''org_id'', ''email'', ''role'', ''created_at''],
      uniques = [[''id'']], fks = [fk_to ''org_id'' ''orgs'' False], autoinc = None\<rparr>"

definition audit_log_schema :: schema where
  "audit_log_schema =
     \<lparr>columns = [(''id'', SNull), (''actor'', SNull), (''action'', SNull), (''target'', SNull),
        (''details'', SDoc (JObj [])), (''created_at'', STime 0), (''org_id'', SText [])],
      notnull = [''actor'', ''action'', ''target'', ''details'', ''created_at'', ''org_id''],
      uniques = [[''id'']], fks = [], autoinc = None\<rparr>"

definition deviceos_catalog :: catalog where
  "deviceos_catalog =
     [(''devices'', devices_schema), (''telemetry'', telemetry_schema),
      (''alert_rules'', alert_rules_schema), (''alert_events'', alert_events_schema),
      (''api_keys'', api_keys_schema), (''commands'', commands_schema),
      (''firmware'', firmware_schema), (''deployments'', deployments_schema),
      (''deployment_devices'', deployment_devices_schema), (''webhooks'', webhooks_schema),
      (''webhook_deliveries'', webhook_deliveries_schema), (''groups'', groups_schema),
      (''orgs'', orgs_schema), (''org_users'', org_users_schema), (''audit_log'', audit_log_schema)]"

lemmas schema_defs =
  devices_schema_def telemetry_schema_def alert_rules_schema_def alert_events_schema_def
  api_keys_schema_def commands_schema_def firmware_schema_def deployments_schema_def
  deployment_devices_schema_def webhooks_schema_def webhook_deliveries_schema_def
  groups_schema_def orgs_schema_def org_users_schema_def audit_log_schema_def fk_to_def

section \<open>Facts about the catalog\<close>

lemma deviceos_schema [simp]:
  "map_of deviceos_catalog ''devices'' = Some devices_schema"
  "map_of deviceos_catalog ''telemetry'' = Some telemetry_schema"
  "map_of deviceos_catalog ''alert_rules'' = Some alert_rules_schema"
  "map_of deviceos_catalog ''alert_events'' = Some alert_events_schema"
  "map_of deviceos_catalog ''api_keys'' = Some api_keys_schema"
  "map_of deviceos_catalog ''commands'' = Some commands_schema"
  "map_of deviceos_catalog ''firmware'' = Some firmware_schema"
  "map_of deviceos_catalog ''deployments'' = Some deployments_schema"
  "map_of deviceos_catalog ''deployment_devices'' = Some deployment_devices_schema"
  "map_of deviceos_catalog ''webhooks'' = Some webhooks_schema"
  "map_of deviceos_catalog ''webhook_deliveries'' = Some webhook_deliveries_schema"
  "map_of deviceos_catalog ''groups'' = Some groups_schema"
  "map_of deviceos_catalog ''orgs'' = Some orgs_schema"
  "map_of deviceos_catalog ''org_users'' = Some org_users_schema"
  "map_of deviceos_catalog ''audit_log'' = Some audit_log_schema"
  by (simp_all add: deviceos_catalog_def)

text \<open>Only the deletion of devices cascades, into telemetry and commands.\<close>

lemma deviceos_cascade_keys:
  assumes "tab \<noteq> ''devices''" and "(n, s) \<in> set deviceos_catalog"
  shows "cascade_keys tab s = []"
  using assms by (auto simp: deviceos_catalog_def cascade_keys_def schema_defs)

lemma deviceos_cascades:
  "cascades deviceos_catalog tab n \<Longrightarrow> tab = ''devices'' \<and> n \<in> {''telemetry'', ''commands''}"
  by (auto simp: cascades_def deviceos_catalog_def cascade_keys_def schema_defs
      split: option.splits if_splits)

lemma no_cascade [simp]:
  "tab \<noteq> ''devices'' \<Longrightarrow> \<not> cascades deviceos_catalog tab n"
  "n \<noteq> ''telemetry'' \<Longrightarrow> n \<noteq> ''commands'' \<Longrightarrow> \<not> cascades deviceos_catalog tab n"
  by (auto dest: deviceos_cascades)

section \<open>The program's database\<close>

text \<open>
  \<open>deviceos_db\<close>: any engine that meets the contract on this catalog. The in-memory engine
  behind the wrapper \<open>DB\<close> is one, with and without enforcement of foreign keys.
\<close>

locale deviceos_db = sql_engine E contents fk_on lt deviceos_catalog
  for E :: "'d engine" and contents fk_on lt
begin

lemma exec_foreign_tab:
  assumes "db_exec E d st args = (d', r)"
    and "if stmt_table st = tab then org_scoped args o' st \<and> tab \<noteq> ''devices''
           \<or> (\<exists>t as cs. st = Update t as cs) \<and> org_scoped args o' st
         else stmt_table st \<noteq> ''devices'' \<or> tab \<noteq> ''telemetry'' \<and> tab \<noteq> ''commands''"
  shows "filter (foreign o') (contents d' tab) = filter (foreign o') (contents d tab)"
proof (cases "stmt_table st = tab")
  case True
  then show ?thesis
    using exec_foreign [OF assms(1), of o'] assms(2)
    by (cases "tab = ''devices''") auto
next
  case False
  with exec_frame [OF assms(1), of tab] assms(2) have "contents d' tab = contents d tab"
    by (cases "stmt_table st = ''devices''") auto
  then show ?thesis by simp
qed

end

lemma lift_deviceos_db:
  assumes "deviceos_db E contents fk_on lt" and "\<And>d s. prj (upd d s) = d"
  shows "deviceos_db (lift_engine prj upd E) (\<lambda>s. contents (prj s)) (\<lambda>s. fk_on (prj s)) lt"
  by (intro deviceos_db.intro lift_sql_engine deviceos_db.axioms(1) [OF assms(1)] assms(2))

locale deviceos_readable = readable_engine E contents fk_on lt deviceos_catalog
  for E :: "'d engine" and contents fk_on lt

sublocale deviceos_readable \<subseteq> deviceos_db
  by (intro deviceos_db.intro sql_engine_axioms)

definition memory_db :: "bool \<Rightarrow> tables engine" where
  "memory_db fk = DB (ref_engine fk deviceos_catalog)"

interpretation memdb: deviceos_readable "memory_db fk" "\<lambda>t. t" "\<lambda>t. fk" ref_lt for fk
  unfolding memory_db_def by (intro deviceos_readable.intro refdb.readable_engine_axioms)

lemmas memory_db_eval =
  memory_db_def ref_engine_def ref_exec_def ref_query_def ref_nid_def max_key_def ref_sort_def
  insert_row_def insert_rows_def update_rows_def default_row_def rows_ok_def not_nulls_def
  clash_def same_key_def auto_fresh_def keeps_parents_def bereft_def orphan_def cascade_def
  cascade_keys_def matching_def count_row_def sat_def schema_defs

end
