(* ===== verification/Tenancy.thy ===== *)
theory Tenancy
  imports Http Schema
begin

text \<open>
  The contract of a multi-tenant module: a request made in the name of one organisation
  leaves the rows of the others alone. \<open>tenant_module\<close> states it for a family of
  operations and one table; a whole run of requests then cannot touch an organisation
  that none of them speaks for. The modules interpret it in their own theories.
\<close>

definition rows_of :: "string \<Rightarrow> row list \<Rightarrow> row list" where
  "rows_of o' rs = filter (\<lambda>r. r ''org_id'' = SText o') rs"

lemma sat_own_rows:
  "filter (sat lt [SText o'] [CEq ''org_id'' (Param 0)]) rs = rows_of o' rs"
  by (rule filter_cong [OF refl, of rs, THEN trans [OF _ rows_of_def [symmetric]]])
     (auto simp: sat_def)

fun serve ::
    "('op \<Rightarrow> 'd \<Rightarrow> request \<Rightarrow> writer \<Rightarrow> 'd \<times> writer) \<Rightarrow> 'd \<Rightarrow> ('op \<times> request) list \<Rightarrow> 'd" where
  "serve h d [] = d"
| "serve h d ((x, r) # xs) = serve h (fst (h x d r new_writer)) xs"

lemma rows_of_foreign:
  assumes "filter (foreign a) rs = filter (foreign a) qs" and "a \<noteq> b"
  shows "rows_of b rs = rows_of b qs"
proof -
  have "rows_of b xs = rows_of b (filter (foreign a) xs)" for xs
    using assms(2) by (induction xs) (auto simp: rows_of_def foreign_def)
  with assms(1) show ?thesis by metis
qed

locale tenant_module =
  fixes h :: "'op \<Rightarrow> 'd \<Rightarrow> request \<Rightarrow> writer \<Rightarrow> 'd \<times> writer"
    and contents :: "'d \<Rightarrow> tables"
    and tab :: string
    and admits :: "request \<Rightarrow> bool"
  assumes keeps_foreign: "h x d r w = (d', w') \<Longrightarrow> admits r \<Longrightarrow>
      filter (foreign (OrgID r)) (contents d' tab) = filter (foreign (OrgID r)) (contents d tab)"
begin

lemma keeps_rows_of:
  assumes "h x d r w = (d', w')" and "admits r" and "OrgID r \<noteq> b"
  shows "rows_of b (contents d' tab) = rows_of b (contents d tab)"
  using keeps_foreign [OF assms(1,2)] assms(3) by (rule rows_of_foreign)

lemma serve_isolated:
  assumes "\<And>x r. (x, r) \<in> set xs \<Longrightarrow> admits r \<and> OrgID r \<noteq> b"
  shows "rows_of b (contents (serve h d xs) tab) = rows_of b (contents d tab)"
  using assms
proof (induction xs arbitrary: d)
  case Nil
  then show ?case by simp
next
  case (Cons a xs)
  obtain x r where a: "a = (x, r)" by (cases a)
  obtain d' w' where step: "h x d r new_writer = (d', w')" by (cases "h x d r new_writer")
  have "rows_of b (contents (serve h d' xs) tab) = rows_of b (contents d' tab)"
    by (rule Cons.IH) (use Cons.prems in auto)
  also have "\<dots> = rows_of b (contents d tab)"
    using step by (rule keeps_rows_of) (use Cons.prems [of x r] a in auto)
  finally show ?case by (simp add: a step)
qed

end

text \<open>A request for concrete evaluations.\<close>

definition demo_request :: "string \<Rightarrow> string \<Rightarrow> json \<Rightarrow> request" where
  "demo_request org i body =
     \<lparr>r_method = ''POST'', r_path = ''/'', r_remote = ''10.0.0.1:5000'',
      r_header = (\<lambda>h. if h = ''X-Org-ID'' then org else []),
      r_pathval = (\<lambda>p. if p = ''id'' then i else []), r_query = (\<lambda>q. []), r_body = Some body\<rparr>"

lemma OrgID_demo [simp]: "OrgID (demo_request o' i b) = o'"
  by (simp add: OrgID_def demo_request_def)

lemma demo_request_sel [simp]:
  "r_pathval (demo_request o' i b) ''id'' = i"
  "r_body (demo_request o' i b) = Some b"
  by (simp_all add: demo_request_def)

end
