(* ===== verification/Fleet.thy ===== *)
theory Fleet
  imports Tenancy
begin

text \<open>
  \<open>modules/fleet\<close>: groups, device tags and group membership, and the fleet health counts.
  Every statement of the module carries the caller's organisation.
\<close>

section \<open>Data\<close>

record Group =
  Group_ID :: string
  Group_Name :: string
  Group_CreatedAt :: int

definition zero_Group :: Group where
  "zero_Group = \<lparr>Group_ID = [], Group_Name = [], Group_CreatedAt = zero_time\<rparr>"

definition Group_fields :: "(string \<Rightarrow> int option) \<Rightarrow> Group fields" where
  "Group_fields pt =
     [(''id'', set_string Group_ID_update), (''name'', set_string Group_Name_update),
      (''created_at'', set_time pt Group_CreatedAt_update)]"

definition Group_json :: "Group \<Rightarrow> json" where
  "Group_json g =
     JObj [(''id'', JStr (Group_ID g)), (''name'', JStr (Group_Name g)),
           (''created_at'', JTime (Group_CreatedAt g))]"

record TagsRequest = TagsReq_Tags :: "string list option"

record GroupRequest = GroupReq_Group :: string

section \<open>Handlers\<close>

definition sql_insert_group :: stmt where
  "sql_insert_group =
     Insert ''groups'' [(''id'', Param 0), (''name'', Param 1), (''created_at'', Param 2),
       (''org_id'', Param 3)] Abort"

text \<open>\<open>t1\<close> and \<open>t2\<close> are the two readings of the clock.\<close>

definition fleet_handleCreateGroup ::
    "(string \<Rightarrow> int option) \<Rightarrow> 'd engine \<Rightarrow> int \<Rightarrow> int \<Rightarrow> 'd \<Rightarrow> request \<Rightarrow> writer \<Rightarrow> 'd \<times> writer" where
  "fleet_handleCreateGroup pt E t1 t2 d r w =
     (case decode_body (Group_fields pt) (r_body r) zero_Group of
        None \<Rightarrow> (d, BadRequest ''invalid request'' w)
      | Some g0 \<Rightarrow>
          if Group_Name g0 = [] then (d, BadRequest ''name is required'' w)
          else
            (let g = g0\<lparr>Group_ID := ''grp_'' @ itoa t1, Group_CreatedAt := t2\<rparr>
             in case db_exec E d sql_insert_group
                       [SText (Group_ID g), SText (Group_Name g), STime (Group_CreatedAt g),
                        SText (OrgID r)] of
                  (d', Inl e) \<Rightarrow> (d', Internal ''failed to create group'' w)
                | (d', Inr res) \<Rightarrow> (d', writeJSON 201 (Group_json g) w)))"

definition sql_list_groups :: query where
  "sql_list_groups =
     \<lparr>sel = Fields [PCol ''id'', PCol ''name'', PCol ''created_at''], from_src = Tab ''groups'',
      conds = [CEq ''org_id'' (Param 0)], order_by = Some (''name'', False), limit_of = NoLimit\<rparr>"

lemma sql_list_groups_plain [simp, intro!]: "limit_plain (limit_of sql_list_groups)"
  by (simp add: sql_list_groups_def)

definition Group_scan :: "Group scanner list" where
  "Group_scan =
     [into scan_string Group_ID_update, into scan_string Group_Name_update,
      into scan_time Group_CreatedAt_update]"

definition fleet_handleListGroups ::
    "'d engine \<Rightarrow> 'd \<Rightarrow> request \<Rightarrow> writer \<Rightarrow> 'd \<times> writer" where
  "fleet_handleListGroups E d r w =
     (case db_query E d sql_list_groups [SText (OrgID r)] of
        (d', Inl e) \<Rightarrow> (d', Internal ''query failed'' w)
      | (d', Inr (rows, e)) \<Rightarrow>
          (d', writeJSON 200
             (JObj [(''groups'', JArr (map Group_json (scan_lax Group_scan zero_Group rows)))]) w))"

definition sql_delete_group :: stmt where
  "sql_delete_group = Delete ''groups'' [CEq ''id'' (Param 0), CEq ''org_id'' (Param 1)]"

definition fleet_handleDeleteGroup ::
    "'d engine \<Rightarrow> 'd \<Rightarrow> request \<Rightarrow> writer \<Rightarrow> 'd \<times> writer" where
  "fleet_handleDeleteGroup E d r w =
     (case db_exec E d sql_delete_group [SText (r_pathval r ''id''), SText (OrgID r)] of
        (d', Inl e) \<Rightarrow> (d', Internal ''delete failed'' w)
      | (d', Inr res) \<Rightarrow>
          if RowsAffected res = 0 then (d', NotFound ''group not found'' w)
          else (d', write_header 204 w))"

definition sql_set_tags :: stmt where
  "sql_set_tags =
     Update ''devices'' [(''tags'', Param 0)] [CEq ''id'' (Param 1), CEq ''org_id'' (Param 2)]"

definition fleet_handleAddTags ::
    "'d engine \<Rightarrow> 'd \<Rightarrow> request \<Rightarrow> writer \<Rightarrow> 'd \<times> writer" where
  "fleet_handleAddTags E d r w =
     (case decode_body [(''tags'', set_strings TagsReq_Tags_update)] (r_body r)
             \<lparr>TagsReq_Tags = None\<rparr> of
        None \<Rightarrow> (d, BadRequest ''invalid request'' w)
      | Some req \<Rightarrow>
          (case db_exec E d sql_set_tags
                  [SDoc (jstrs (TagsReq_Tags req)), SText (r_pathval r ''id''), SText (OrgID r)] of
             (d', Inl e) \<Rightarrow> (d', Internal ''update failed'' w)
           | (d', Inr res) \<Rightarrow>
               if RowsAffected res = 0 then (d', NotFound ''device not found'' w)
               else (d', writeJSON 200 (JObj [(''tags'', jstrs (TagsReq_Tags req))]) w)))"

definition sql_set_group :: stmt where
  "sql_set_group =
     Update ''devices'' [(''device_group'', Param 0)]
       [CEq ''id'' (Param 1), CEq ''org_id'' (Param 2)]"

definition fleet_handleSetGroup ::
    "'d engine \<Rightarrow> 'd \<Rightarrow> request \<Rightarrow> writer \<Rightarrow> 'd \<times> writer" where
  "fleet_handleSetGroup E d r w =
     (case decode_body [(''group'', set_string GroupReq_Group_update)] (r_body r)
             \<lparr>GroupReq_Group = []\<rparr> of
        None \<Rightarrow> (d, BadRequest ''invalid request'' w)
      | Some req \<Rightarrow>
          (case db_exec E d sql_set_group
                  [SText (GroupReq_Group req), SText (r_pathval r ''id''), SText (OrgID r)] of
             (d', Inl e) \<Rightarrow> (d', Internal ''update failed'' w)
           | (d', Inr res) \<Rightarrow>
               if RowsAffected res = 0 then (d', NotFound ''device not found'' w)
               else (d', writeJSON 200 (JObj [(''group'', JStr (GroupReq_Group req))]) w)))"

text \<open>
  The health counts: \<open>COUNT(*)\<close> and two conditional sums. A failed query or scan leaves
  the counters zero, as the error of \<open>Scan\<close> is not looked at.
\<close>

definition sql_fleet_health :: query where
  "sql_fleet_health =
     \<lparr>sel = CountBy [(''status'', SText ''online''), (''status'', SText ''offline'')],
      from_src = Tab ''devices'', conds = [CEq ''org_id'' (Param 0)], order_by = None,
      limit_of = NoLimit\<rparr>"

lemma sql_fleet_health_plain [simp, intro!]: "limit_plain (limit_of sql_fleet_health)"
  by (simp add: sql_fleet_health_def)

record health =
  total :: int
  online :: int
  offline :: int

definition health_scan :: "health scanner list" where
  "health_scan = [into scan_int total_update, into scan_int online_update, into scan_int offline_update]"

definition health_json :: "health \<Rightarrow> json" where
  "health_json h =
     JObj [(''offline_devices'', JInt (offline h)), (''online_devices'', JInt (online h)),
           (''total_devices'', JInt (total h))]"

definition fleet_handleHealth ::
    "'d engine \<Rightarrow> 'd \<Rightarrow> request \<Rightarrow> writer \<Rightarrow> 'd \<times> writer" where
  "fleet_handleHealth E d r w =
     (let z = \<lparr>total = 0, online = 0, offline = 0\<rparr>
      in case db_query_row E d sql_fleet_health [SText (OrgID r)] of
           (d', Inl e) \<Rightarrow> (d', writeJSON 200 (health_json z) w)
         | (d', Inr vs) \<Rightarrow> (d', writeJSON 200 (health_json (fst (Scan health_scan vs z))) w))"

section \<open>Routes\<close>

datatype fleet_route = CreateGroup | ListGroups | DeleteGroup | AddTags | SetGroup | Health

definition fleet_routes :: "(string \<times> fleet_route) list" where
  "fleet_routes =
     [(''POST /api/v1/groups'', CreateGroup), (''GET /api/v1/groups'', ListGroups),
      (''DELETE /api/v1/groups/{id}'', DeleteGroup), (''POST /api/v1/devices/{id}/tags'', AddTags),
      (''PUT /api/v1/devices/{id}/group'', SetGroup), (''GET /api/v1/fleet/health'', Health)]"

text \<open>An operation is a route and the readings the clock gives its handler.\<close>

fun fleet_handle ::
    "(string \<Rightarrow> int option) \<Rightarrow> 'd engine \<Rightarrow> fleet_route \<times> int \<times> int \<Rightarrow>
     'd \<Rightarrow> request \<Rightarrow> writer \<Rightarrow> 'd \<times> writer" where
  "fleet_handle pt E (CreateGroup, t1, t2) = fleet_handleCreateGroup pt E t1 t2"
| "fleet_handle pt E (ListGroups, _) = fleet_handleListGroups E"
| "fleet_handle pt E (DeleteGroup, _) = fleet_handleDeleteGroup E"
| "fleet_handle pt E (AddTags, _) = fleet_handleAddTags E"
| "fleet_handle pt E (SetGroup, _) = fleet_handleSetGroup E"
| "fleet_handle pt E (Health, _) = fleet_handleHealth E"

lemmas fleet_handlers =
  fleet_handleCreateGroup_def fleet_handleListGroups_def fleet_handleDeleteGroup_def
  fleet_handleAddTags_def fleet_handleSetGroup_def fleet_handleHealth_def

lemmas fleet_sql =
  sql_insert_group_def sql_delete_group_def sql_set_tags_def sql_set_group_def

section \<open>Isolation of the organisations\<close>

context deviceos_db
begin

lemma fleet_keeps_foreign:
  assumes "fleet_handle pt E x d r w = (d', w')" and "tab = ''groups'' \<or> tab = ''devices''"
  shows "filter (foreign (OrgID r)) (contents d' tab) = filter (foreign (OrgID r)) (contents d tab)"
proof -
  have ex: "filter (foreign (OrgID r)) (contents d1 tab) = filter (foreign (OrgID r)) (contents d tab)"
    if "db_exec E d st args = (d1, res)"
      and "st = sql_insert_group \<and> length args = 4 \<and> args ! 3 = SText (OrgID r)
         \<or> st = sql_delete_group \<and> length args = 2 \<and> args ! 1 = SText (OrgID r)
         \<or> (st = sql_set_tags \<or> st = sql_set_group) \<and> length args = 3 \<and> args ! 2 = SText (OrgID r)"
    for st args d1 res
    using that(2) assms(2) by (intro exec_foreign_tab [OF that(1)]) (auto simp: fleet_sql)
  show ?thesis
    using assms(1)
    by (cases "(pt, E, x)" rule: fleet_handle.cases)
       (auto simp: fleet_handlers Let_def split: prod.splits sum.splits option.splits if_splits
         dest: ex query_frame query_row_frame)
qed

end

lemma fleet_tenant_module:
  assumes "deviceos_db E contents fk_on lt" and "tab = ''groups'' \<or> tab = ''devices''"
  shows "tenant_module (fleet_handle pt E) contents tab (\<lambda>r. True)"
  using deviceos_db.fleet_keeps_foreign [OF assms(1) _ assms(2)] by unfold_locales blast

interpretation fleet_groups:
  tenant_module "fleet_handle pt (memory_db fk)" "\<lambda>t. t" "''groups''" "\<lambda>r. True" for pt fk
  by (rule fleet_tenant_module [OF memdb.deviceos_db_axioms]) simp

interpretation fleet_devices:
  tenant_module "fleet_handle pt (memory_db fk)" "\<lambda>t. t" "''devices''" "\<lambda>r. True" for pt fk
  by (rule fleet_tenant_module [OF memdb.deviceos_db_axioms]) simp

text \<open>
  C18: no sequence of fleet requests (creating and deleting groups, setting tags and
  groups of devices) made in the name of other organisations changes the groups or the
  devices of an organisation, whatever the database engine does.
\<close>

theorem fleet_isolated:
  assumes "deviceos_db E contents fk_on lt"
    and "\<And>x r. (x, r) \<in> set reqs \<Longrightarrow> OrgID r \<noteq> b"
  shows "rows_of b (contents (serve (fleet_handle pt E) d reqs) ''groups'')
           = rows_of b (contents d ''groups'')
       \<and> rows_of b (contents (serve (fleet_handle pt E) d reqs) ''devices'')
           = rows_of b (contents d ''devices'')"
proof -
  have "rows_of b (contents (serve (fleet_handle pt E) d reqs) tab) = rows_of b (contents d tab)"
    if "tab = ''groups'' \<or> tab = ''devices''" for tab
    by (rule tenant_module.serve_isolated [OF fleet_tenant_module [OF assms(1) that]])
       (use assms(2) in simp)
  then show ?thesis by simp
qed

definition demo_group :: row where
  "demo_group = (\<lambda>c. SNull)(''id'' := SText ''grp_1'', ''name'' := SText ''lab'',
      ''created_at'' := STime 1, ''org_id'' := SText ''acme'')"

definition demo_tables :: tables where
  "demo_tables = (\<lambda>n. [])(''groups'' := [demo_group])"

theorem fleet_isolated_witness:
  "rows_of ''acme''
     (serve (fleet_handle (\<lambda>s. None) (memory_db True)) demo_tables
        [((DeleteGroup, 0, 0), demo_request ''evil'' ''grp_1'' JNull)] ''groups'') = [demo_group]"
  using fleet_isolated [OF memdb.deviceos_db_axioms [of True],
      of "[((DeleteGroup, 0, 0), demo_request ''evil'' ''grp_1'' JNull)]" "''acme''"
      "\<lambda>s. None" demo_tables]
  by (auto simp: rows_of_def demo_tables_def demo_group_def)

section \<open>Health counts\<close>

context deviceos_readable
begin

lemma health_row:
  "\<exists>d'. db_query_row E d sql_fleet_health [SText o'] =
     (d', Inr (count_row [(''status'', SText ''online''), (''status'', SText ''offline'')]
                 (rows_of o' (contents d ''devices''))))"
  using query_row_count [of sql_fleet_health _ d "[SText o']"]
  by (simp add: sql_fleet_health_def matching_def sat_own_rows)

end

text \<open>
  The health report of an organisation counts its devices, and the online and offline
  ones among them, and nothing else.
\<close>

theorem fleet_health_counts:
  assumes "deviceos_readable E contents fk_on lt" and "fresh w"
    and "fleet_handleHealth E d r w = (d', w')"
  shows "status_of w' = Some 200
    \<and> w_out w' = [Cjson (health_json
        \<lparr>total = int (length (rows_of (OrgID r) (contents d ''devices''))),
         online = int (length (filter (\<lambda>q. q ''status'' = SText ''online'')
                     (rows_of (OrgID r) (contents d ''devices'')))),
         offline = int (length (filter (\<lambda>q. q ''status'' = SText ''offline'')
                     (rows_of (OrgID r) (contents d ''devices''))))\<rparr>)]"
proof -
  obtain d1 where q: "db_query_row E d sql_fleet_health [SText (OrgID r)] =
     (d1, Inr (count_row [(''status'', SText ''online''), (''status'', SText ''offline'')]
                 (rows_of (OrgID r) (contents d ''devices''))))"
    using deviceos_readable.health_row [OF assms(1)] by blast
  have c: "(\<lambda>q. q ''status'' \<noteq> SNull \<and> q ''status'' = SText s) = (\<lambda>q. q ''status'' = SText s)"
    for s by auto
  show ?thesis
    using assms(2,3)
    by (auto simp: fleet_handleHealth_def q count_row_def health_scan_def into_def c http_simps)
qed

theorem fleet_health_counts_witness:
  "snd (fleet_handleHealth (memory_db True)
      ((\<lambda>n. [])(''devices'' := [(\<lambda>c. SNull)(''org_id'' := SText ''acme'', ''status'' := SText ''online'')]))
      (demo_request ''acme'' [] JNull) new_writer)
     = writeJSON 200 (health_json \<lparr>total = 1, online = 1, offline = 0\<rparr>) new_writer
   \<and> status_of (writeJSON 200 (health_json \<lparr>total = 1, online = 1, offline = 0\<rparr>) new_writer) = Some 200"
  using fleet_health_counts [OF memdb.deviceos_readable_axioms [of True] fresh_new_writer surjective_pairing,
      of "(\<lambda>n. [])(''devices'' := [(\<lambda>c. SNull)(''org_id'' := SText ''acme'', ''status'' := SText ''online'')])"
         "demo_request ''acme'' [] JNull"]
  by (simp add: fleet_handleHealth_def memory_db_eval db_query_row_def DB_same sql_fleet_health_def
      health_scan_def into_def http_simps)

end
