(* ===== verification/Devices.thy ===== *)
theory Devices
  imports Tenancy
begin

text \<open>
  \<open>modules/devices\<close>: registration, reading, updating and deleting devices. The handlers
  read the caller's organisation, store it at registration and filter the list by it,
  but getting, updating and deleting a device go by its id alone.
\<close>

section \<open>Data\<close>

record Device =
  Dev_ID :: string
  Dev_Name :: string
  Dev_Type :: string
  Dev_SecretKey :: string
  Dev_Metadata :: "json option"
  Dev_Tags :: "string list option"
  Dev_Group :: string
  Dev_OrgID :: string
  Dev_Status :: string
  Dev_LastSeen :: "int option"
  Dev_CreatedAt :: int
  Dev_UpdatedAt :: int

definition zero_Device :: Device where
  "zero_Device =
     \<lparr>Dev_ID = [], Dev_Name = [], Dev_Type = [], Dev_SecretKey = [], Dev_Metadata = None,
      Dev_Tags = None, Dev_Group = [], Dev_OrgID = [], Dev_Status = [], Dev_LastSeen = None,
      Dev_CreatedAt = zero_time, Dev_UpdatedAt = zero_time\<rparr>"

definition Device_json :: "Device \<Rightarrow> json" where
  "Device_json d =
     JObj ([(''id'', JStr (Dev_ID d)), (''name'', JStr (Dev_Name d)), (''type'', JStr (Dev_Type d))]
       @ omit_str ''secret_key'' (Dev_SecretKey d) @ omit_raw ''metadata'' (Dev_Metadata d)
       @ omit_strs ''tags'' (Dev_Tags d) @ omit_str ''group'' (Dev_Group d)
       @ omit_str ''org_id'' (Dev_OrgID d) @ [(''status'', JStr (Dev_Status d))]
       @ omit_time ''last_seen'' (Dev_LastSeen d)
       @ [(''created_at'', JTime (Dev_CreatedAt d)), (''updated_at'', JTime (Dev_UpdatedAt d))])"

record RegisterRequest =
  Req_Name :: string
  Req_Type :: string
  Req_Metadata :: "json option"
  Req_Tags :: "string list option"
  Req_Group :: string

definition zero_RegisterRequest :: RegisterRequest where
  "zero_RegisterRequest =
     \<lparr>Req_Name = [], Req_Type = [], Req_Metadata = None, Req_Tags = None, Req_Group = []\<rparr>"

definition RegisterRequest_fields :: "RegisterRequest fields" where
  "RegisterRequest_fields =
     [(''name'', set_string Req_Name_update), (''type'', set_string Req_Type_update),
      (''metadata'', set_raw Req_Metadata_update), (''tags'', set_strings Req_Tags_update),
      (''group'', set_string Req_Group_update)]"

definition RegisterResponse_json :: "Device \<Rightarrow> string \<Rightarrow> json" where
  "RegisterResponse_json d secret =
     JObj [(''device'', Device_json d), (''secret_key'', JStr secret)]"

section \<open>Storage\<close>

text \<open>Both generators take the bytes \<open>rand.Read\<close> delivers.\<close>

definition generateID :: "string \<Rightarrow> string \<Rightarrow> string" where
  "generateID pre b = pre @ ''_'' @ hex_encode b"

definition generateSecret :: "string \<Rightarrow> string" where
  "generateSecret b = hex_encode b"

definition sql_insert_device :: stmt where
  "sql_insert_device =
     Insert ''devices'' [(''id'', Param 0), (''name'', Param 1), (''type'', Param 2),
       (''secret_key'', Param 3), (''metadata'', Param 4), (''tags'', Param 5),
       (''device_group'', Param 6), (''org_id'', Param 7), (''status'', Lit (SText ''offline'')),
       (''created_at'', Param 8), (''updated_at'', Param 9)] Abort"

definition metadata_arg :: "json option \<Rightarrow> sqlval" where
  "metadata_arg m = (case m of None \<Rightarrow> SDoc (JObj []) | Some j \<Rightarrow> SDoc j)"

definition tags_arg :: "string list option \<Rightarrow> sqlval" where
  "tags_arg ts = (if ts = None then SDoc (JArr []) else SDoc (jstrs ts))"

definition createDevice ::
    "'d engine \<Rightarrow> string \<Rightarrow> string \<Rightarrow> int \<Rightarrow> 'd \<Rightarrow> RegisterRequest \<Rightarrow> string \<Rightarrow>
     'd \<times> (Device \<times> string) result" where
  "createDevice E rnd_id rnd_key now d req org =
     (let i = generateID ''dev'' rnd_id;
          secret = generateSecret rnd_key
      in case db_exec E d sql_insert_device
                [SText i, SText (Req_Name req), SText (Req_Type req), SText secret,
                 metadata_arg (Req_Metadata req), tags_arg (Req_Tags req), SText (Req_Group req),
                 SText org, STime now, STime now] of
           (d', Inl e) \<Rightarrow> (d', Inl (''insert device: '' @ e))
         | (d', Inr res) \<Rightarrow>
             (d', Inr (zero_Device\<lparr>Dev_ID := i, Dev_Name := Req_Name req, Dev_Type := Req_Type req,
                         Dev_OrgID := org, Dev_Status := ''offline'', Dev_CreatedAt := now,
                         Dev_UpdatedAt := now, Dev_Metadata := Req_Metadata req,
                         Dev_Tags := Req_Tags req\<rparr>, secret)))"

definition device_columns :: "proj list" where
  "device_columns =
     [PCol ''id'', PCol ''name'', PCol ''type'', PCol ''metadata'', PCol ''tags'',
      PCol ''device_group'', PCol ''org_id'', PCol ''status'', PCol ''last_seen'',
      PCol ''created_at'', PCol ''updated_at'']"

text \<open>
  Both readers scan \<open>last_seen\<close> into a \<open>time.Time\<close> variable and \<open>tags\<close> into a string
  that is unmarshalled with its error dropped: what is no string in the array stays empty.
\<close>

fun lax_strings :: "json option \<Rightarrow> string list option" where
  "lax_strings (Some (JArr js)) = Some (map (\<lambda>j. case j of JStr s \<Rightarrow> s | _ \<Rightarrow> []) js)"
| "lax_strings _ = None"

definition Device_scan :: "Device scanner list" where
  "Device_scan =
     [into scan_string Dev_ID_update, into scan_string Dev_Name_update,
      into scan_string Dev_Type_update, into scan_doc Dev_Metadata_update,
      into scan_doc (\<lambda>f. Dev_Tags_update (\<lambda>_. lax_strings (f None))),
      into scan_string Dev_Group_update, into scan_string Dev_OrgID_update,
      into scan_string Dev_Status_update,
      into scan_time (\<lambda>f. Dev_LastSeen_update
        (\<lambda>_. let t = f zero_time in if t = zero_time then None else Some t)),
      into scan_time Dev_CreatedAt_update, into scan_time Dev_UpdatedAt_update]"

definition sql_list_devices :: "bool \<Rightarrow> query" where
  "sql_list_devices scoped =
     \<lparr>sel = Fields device_columns, from_src = Tab ''devices'',
      conds = (if scoped then [CEq ''org_id'' (Param 0)] else []),
      order_by = Some (''created_at'', True), limit_of = NoLimit\<rparr>"

lemma sql_list_devices_plain [simp, intro!]: "limit_plain (limit_of (sql_list_devices b))"
  by (simp add: sql_list_devices_def)

definition listDevices :: "'d engine \<Rightarrow> 'd \<Rightarrow> string \<Rightarrow> 'd \<times> Device list result" where
  "listDevices E d org =
     (case (if org = [] then db_query E d (sql_list_devices False) []
            else db_query E d (sql_list_devices True) [SText org]) of
        (d', Inl e) \<Rightarrow> (d', Inl e)
      | (d', Inr (rows, err)) \<Rightarrow>
          (d', bind_result (scan_strict Device_scan zero_Device rows)
                 (\<lambda>ds. case err of Some e \<Rightarrow> Inl e | None \<Rightarrow> Inr ds)))"

definition sql_get_device :: query where
  "sql_get_device =
     \<lparr>sel = Fields device_columns, from_src = Tab ''devices'', conds = [CEq ''id'' (Param 0)],
      order_by = None, limit_of = NoLimit\<rparr>"

lemma sql_get_device_plain [simp, intro!]: "limit_plain (limit_of sql_get_device)"
  by (simp add: sql_get_device_def)

definition getDevice :: "'d engine \<Rightarrow> 'd \<Rightarrow> string \<Rightarrow> string \<Rightarrow> 'd \<times> Device result" where
  "getDevice E d i org =
     (case db_query_row E d sql_get_device [SText i] of
        (d', Inl e) \<Rightarrow> (d', Inl e)
      | (d', Inr vs) \<Rightarrow>
          (d', case Scan Device_scan vs zero_Device of
                 (dev, Some e) \<Rightarrow> Inl e
               | (dev, None) \<Rightarrow> Inr dev))"

definition sql_update_device :: stmt where
  "sql_update_device =
     Update ''devices'' [(''name'', Param 0), (''type'', Param 1), (''metadata'', Param 2),
       (''tags'', Param 3), (''device_group'', Param 4), (''updated_at'', Param 5)]
       [CEq ''id'' (Param 6)]"

definition updateDevice ::
    "'d engine \<Rightarrow> int \<Rightarrow> 'd \<Rightarrow> string \<Rightarrow> RegisterRequest \<Rightarrow> string \<Rightarrow> 'd \<times> Device result" where
  "updateDevice E now d i req org =
     (case db_exec E d sql_update_device
             [SText (Req_Name req), SText (Req_Type req), metadata_arg (Req_Metadata req),
              tags_arg (Req_Tags req), SText (Req_Group req), STime now, SText i] of
        (d', Inl e) \<Rightarrow> (d', Inl e)
      | (d', Inr res) \<Rightarrow> getDevice E d' i org)"

definition sql_delete_device :: stmt where
  "sql_delete_device = Delete ''devices'' [CEq ''id'' (Param 0)]"

definition deleteDevice :: "'d engine \<Rightarrow> 'd \<Rightarrow> string \<Rightarrow> string \<Rightarrow> 'd \<times> string option" where
  "deleteDevice E d i org =
     (case db_exec E d sql_delete_device [SText i] of
        (d', Inl e) \<Rightarrow> (d', Some e)
      | (d', Inr res) \<Rightarrow> (d', None))"

section \<open>Handlers\<close>

definition devices_handleRegister ::
    "'d engine \<Rightarrow> string \<Rightarrow> string \<Rightarrow> int \<Rightarrow> 'd handler" where
  "devices_handleRegister E rnd_id rnd_key now d r w =
     (case decode_body RegisterRequest_fields (r_body r) zero_RegisterRequest of
        None \<Rightarrow> (d, BadRequest ''invalid request body'' w)
      | Some req \<Rightarrow>
          (case createDevice E rnd_id rnd_key now d req (OrgID r) of
             (d', Inl e) \<Rightarrow> (d', Internal ''failed to register device'' w)
           | (d', Inr (dev, secret)) \<Rightarrow> (d', writeJSON 201 (RegisterResponse_json dev secret) w)))"

text \<open>A nil slice of devices is encoded as \<open>null\<close>.\<close>

definition devices_handleList :: "'d engine \<Rightarrow> 'd handler" where
  "devices_handleList E d r w =
     (case listDevices E d (OrgID r) of
        (d', Inl e) \<Rightarrow> (d', Internal ''failed to list devices'' w)
      | (d', Inr ds) \<Rightarrow>
          (d', writeJSON 200
             (JObj [(''devices'', if ds = [] then JNull else JArr (map Device_json ds))]) w))"

definition devices_handleGet :: "'d engine \<Rightarrow> 'd handler" where
  "devices_handleGet E d r w =
     (case getDevice E d (r_pathval r ''id'') (OrgID r) of
        (d', Inl e) \<Rightarrow> (d', NotFound ''device not found'' w)
      | (d', Inr dev) \<Rightarrow> (d', writeJSON 200 (Device_json dev) w))"

definition devices_handleUpdate :: "'d engine \<Rightarrow> int \<Rightarrow> 'd handler" where
  "devices_handleUpdate E now d r w =
     (case decode_body RegisterRequest_fields (r_body r) zero_RegisterRequest of
        None \<Rightarrow> (d, BadRequest ''invalid request body'' w)
      | Some req \<Rightarrow>
          (case updateDevice E now d (r_pathval r ''id'') req (OrgID r) of
             (d', Inl e) \<Rightarrow> (d', NotFound ''device not found'' w)
           | (d', Inr dev) \<Rightarrow> (d', writeJSON 200 (Device_json dev) w)))"

definition devices_handleDelete :: "'d engine \<Rightarrow> 'd handler" where
  "devices_handleDelete E d r w =
     (case deleteDevice E d (r_pathval r ''id'') (OrgID r) of
        (d', Some e) \<Rightarrow> (d', NotFound ''device not found'' w)
      | (d', None) \<Rightarrow> (d', write_header 204 w))"

datatype devices_route = RegisterDevice | ListDevices | GetDevice | UpdateDevice | DeleteDevice

definition devices_routes :: "(string \<times> devices_route) list" where
  "devices_routes =
     [(''POST /api/v1/devices'', RegisterDevice), (''GET /api/v1/devices'', ListDevices),
      (''GET /api/v1/devices/{id}'', GetDevice), (''PUT /api/v1/devices/{id}'', UpdateDevice),
      (''DELETE /api/v1/devices/{id}'', DeleteDevice)]"

fun devices_handle ::
    "'d engine \<Rightarrow> devices_route \<times> string \<times> string \<times> int \<Rightarrow> 'd handler" where
  "devices_handle E (RegisterDevice, b, k, now) = devices_handleRegister E b k now"
| "devices_handle E (ListDevices, _) = devices_handleList E"
| "devices_handle E (GetDevice, _) = devices_handleGet E"
| "devices_handle E (UpdateDevice, _, _, now) = devices_handleUpdate E now"
| "devices_handle E (DeleteDevice, _) = devices_handleDelete E"

lemmas devices_sql =
  sql_insert_device_def sql_list_devices_def sql_get_device_def sql_update_device_def
  sql_delete_device_def device_columns_def

section \<open>A device that never reported\<close>

text \<open>
  \<open>last_seen\<close> is NULL until the first telemetry arrives, and NULL does not scan into a
  \<open>time.Time\<close>.
\<close>

lemma Scan_never_seen:
  assumes "q ''last_seen'' = SNull"
  shows "\<exists>dev e. Scan Device_scan (map (project1 q) device_columns) zero_Device = (dev, Some e)"
  by (rule Scan_error [of 8])
     (simp_all add: Device_scan_def device_columns_def into_def assms)

lemma device_insert_row:
  fixes vs :: "sqlval list" and nid :: int
  assumes "length vs = 10"
  defines "q \<equiv> insert_row devices_schema
     [(''id'', Param 0), (''name'', Param 1), (''type'', Param 2), (''secret_key'', Param 3),
      (''metadata'', Param 4), (''tags'', Param 5), (''device_group'', Param 6),
      (''org_id'', Param 7), (''status'', Lit (SText ''offline'')), (''created_at'', Param 8),
      (''updated_at'', Param 9)] vs nid"
  shows "q ''id'' = vs ! 0" "q ''secret_key'' = vs ! 3" "q ''org_id'' = vs ! 7"
    "q ''status'' = SText ''offline''" "q ''last_seen'' = SNull" "q ''name'' = vs ! 1"
    "q ''type'' = vs ! 2" "q ''metadata'' = vs ! 4" "q ''tags'' = vs ! 5" "q ''device_group'' = vs ! 6"
    "q ''created_at'' = vs ! 8" "q ''updated_at'' = vs ! 9"
  using assms(1)
  by (simp_all add: q_def insert_row_def default_row_def devices_schema_def)

context deviceos_db
begin

lemma getDevice_frame: "getDevice E d i org = (d', r) \<Longrightarrow> contents d' = contents d"
  by (auto simp: getDevice_def split: prod.splits sum.splits option.splits dest: query_row_frame)

lemma getDevice_never_seen:
  assumes "\<And>q. q \<in> set (contents d ''devices'') \<Longrightarrow> q ''id'' = SText i \<Longrightarrow> q ''last_seen'' = SNull"
  shows "\<exists>d' e. getDevice E d i org = (d', Inl e)"
proof -
  obtain d' res where r: "db_query_row E d sql_get_device [SText i] = (d', res)"
    by (cases "db_query_row E d sql_get_device [SText i]")
  show ?thesis
  proof (cases res)
    case (Inl e)
    with r show ?thesis by (simp add: getDevice_def)
  next
    case (Inr vs)
    have "\<exists>q \<in> set (matching lt sql_get_device [SText i] (contents d)).
        vs = map (project1 q) device_columns"
      using r Inr by (intro query_row_from) (simp_all add: sql_get_device_def)
    then obtain q where q: "q \<in> set (contents d ''devices'')" "q ''id'' = SText i"
      and vs: "vs = map (project1 q) device_columns"
      by (auto simp: matching_def sql_get_device_def sat_def)
    have "q ''last_seen'' = SNull" using q by (rule assms)
    with Scan_never_seen obtain dev e
      where "Scan Device_scan vs zero_Device = (dev, Some e)"
      unfolding vs by blast
    with r Inr show ?thesis by (simp add: getDevice_def)
  qed
qed

lemma createDevice_stored:
  assumes "createDevice E b k now d req org = (d', Inr (dev, secret))"
  shows "\<exists>q. contents d' = (contents d)(''devices'' := contents d ''devices'' @ [q])
     \<and> q ''id'' = SText (generateID ''dev'' b) \<and> q ''secret_key'' = SText secret
     \<and> q ''org_id'' = SText org \<and> q ''status'' = SText ''offline'' \<and> q ''last_seen'' = SNull
     \<and> q ''name'' = SText (Req_Name req) \<and> q ''type'' = SText (Req_Type req)
     \<and> q ''metadata'' = metadata_arg (Req_Metadata req) \<and> q ''tags'' = tags_arg (Req_Tags req)
     \<and> q ''device_group'' = SText (Req_Group req) \<and> q ''created_at'' = STime now
     \<and> q ''updated_at'' = STime now
     \<and> (\<forall>p \<in> set (contents d ''devices''). p ''id'' \<noteq> SText (generateID ''dev'' b))
     \<and> Dev_ID dev = generateID ''dev'' b"
proof -
  let ?as = "[(''id'', Param 0), (''name'', Param 1), (''type'', Param 2), (''secret_key'', Param 3),
      (''metadata'', Param 4), (''tags'', Param 5), (''device_group'', Param 6),
      (''org_id'', Param 7), (''status'', Lit (SText ''offline'')), (''created_at'', Param 8),
      (''updated_at'', Param 9)]"
  let ?args = "[SText (generateID ''dev'' b), SText (Req_Name req), SText (Req_Type req),
      SText (generateSecret k), metadata_arg (Req_Metadata req), tags_arg (Req_Tags req),
      SText (Req_Group req), SText org, STime now, STime now]"
  from assms obtain res where ex: "db_exec E d (Insert ''devices'' ?as Abort) ?args = (d', Inr res)"
    and out: "dev = zero_Device\<lparr>Dev_ID := generateID ''dev'' b, Dev_Name := Req_Name req,
        Dev_Type := Req_Type req, Dev_OrgID := org, Dev_Status := ''offline'',
        Dev_CreatedAt := now, Dev_UpdatedAt := now, Dev_Metadata := Req_Metadata req,
        Dev_Tags := Req_Tags req\<rparr>" "secret = generateSecret k"
    by (auto simp: createDevice_def sql_insert_device_def Let_def split: prod.splits sum.splits)
  let ?q = "insert_row devices_schema ?as ?args (LastInsertId res)"
  note ins = sem_insert_abort [OF exec_ok [OF ex] deviceos_schema(1)]
  note row = device_insert_row [of ?args "LastInsertId res"]
  have "p ''id'' \<noteq> SText (generateID ''dev'' b)" if "p \<in> set (contents d ''devices'')" for p
    using ins(3) [OF that, of "[''id'']"] row(1) by (auto simp: devices_schema_def same_key_def)
  then show ?thesis
    using ins(1) row out by (intro exI [of _ ?q]) simp
qed

end



section \<open>Deleting, updating and listing\<close>

lemma telemetry_commands_keys:
  "n = ''telemetry'' \<or> n = ''commands'' \<Longrightarrow>
   \<exists>s. map_of deviceos_catalog n = Some s
     \<and> cascade_keys ''devices'' s = [fk_to ''device_id'' ''devices'' True]"
  by (auto simp: cascade_keys_def schema_defs)

lemma bereft_of_device:
  assumes "t1 ''devices'' = filter (\<lambda>p. p ''id'' \<noteq> SText i) (t ''devices'')"
  shows "bereft t t1 (fk_to ''device_id'' ''devices'' True) q \<longleftrightarrow>
     q ''device_id'' = SText i \<and> (\<exists>p \<in> set (t ''devices''). p ''id'' = SText i)"
  using assms by (auto simp: bereft_def orphan_def fk_to_def list_ex_iff)

lemma cascade_device:
  assumes "n = ''telemetry'' \<or> n = ''commands''"
    and "t1 ''devices'' = filter (\<lambda>p. p ''id'' \<noteq> SText i) (t ''devices'')" and "t1 n = t n"
  shows "cascade deviceos_catalog ''devices'' t t1 n =
     (if \<exists>p \<in> set (t ''devices''). p ''id'' = SText i
      then filter (\<lambda>q. q ''device_id'' \<noteq> SText i) (t n) else t n)"
proof -
  obtain s where s: "map_of deviceos_catalog n = Some s"
      "cascade_keys ''devices'' s = [fk_to ''device_id'' ''devices'' True]"
    using telemetry_commands_keys [OF assms(1)] by blast
  let ?P = "\<exists>p \<in> set (t ''devices''). p ''id'' = SText i"
  have b: "bereft t t1 (fk_to ''device_id'' ''devices'' True) q \<longleftrightarrow> q ''device_id'' = SText i \<and> ?P" for q
    by (rule bereft_of_device [of t1 i t q]) (rule assms(2))
  show ?thesis by (cases ?P) (simp_all add: cascade_def s assms(3) b)
qed

context deviceos_db
begin

lemma deleteDevice_effect:
  assumes "deleteDevice E d i org = (d', r)"
  shows "(case r of Some e \<Rightarrow> contents d' = contents d
     | None \<Rightarrow> contents d' ''devices'' = filter (\<lambda>p. p ''id'' \<noteq> SText i) (contents d ''devices'')
         \<and> (\<forall>n \<in> {''telemetry'', ''commands''}. contents d' n =
              (if fk_on d \<and> (\<exists>p \<in> set (contents d ''devices''). p ''id'' = SText i)
               then filter (\<lambda>q. q ''device_id'' \<noteq> SText i) (contents d n) else contents d n)))"
proof (cases r)
  case (Some e)
  with assms show ?thesis
    by (auto simp: deleteDevice_def dest: exec_err split: prod.splits sum.splits)
next
  case None
  let ?cs = "[CEq ''id'' (Param 0)]"
  from assms None obtain res
    where ex: "db_exec E d (Delete ''devices'' ?cs) [SText i] = (d', Inr res)"
    by (auto simp: deleteDevice_def sql_delete_device_def split: prod.splits sum.splits)
  note sem = exec_ok [OF ex]
  have s: "sat lt [SText i] ?cs p \<longleftrightarrow> p ''id'' = SText i" for p
    by (auto simp: sat_def)
  let ?t1 = "(contents d)(''devices'' := filter (\<lambda>p. p ''id'' \<noteq> SText i) (contents d ''devices''))"
  from sem have c: "contents d' = (if fk_on d then cascade deviceos_catalog ''devices'' (contents d) ?t1 else ?t1)"
    by (auto simp: Let_def s split: if_splits)
  have dev: "contents d' ''devices'' = ?t1 ''devices''"
    using c by (auto simp: cascade_other)
  have t: "contents d' n =
     (if fk_on d \<and> (\<exists>p \<in> set (contents d ''devices''). p ''id'' = SText i)
      then filter (\<lambda>q. q ''device_id'' \<noteq> SText i) (contents d n) else contents d n)"
    if "n = ''telemetry'' \<or> n = ''commands''" for n
    using cascade_device [OF that, of ?t1 i "contents d"] that c by auto
  from None dev t show ?thesis by simp
qed

end



context deviceos_db
begin

lemma updateDevice_effect:
  assumes "updateDevice E now d i req org = (d', r)"
  shows "contents d' = contents d \<or> contents d' = (contents d)(''devices'' :=
     map (\<lambda>p. if p ''id'' = SText i
              then p(''name'' := SText (Req_Name req), ''type'' := SText (Req_Type req),
                     ''metadata'' := metadata_arg (Req_Metadata req),
                     ''tags'' := tags_arg (Req_Tags req),
                     ''device_group'' := SText (Req_Group req), ''updated_at'' := STime now)
              else p) (contents d ''devices''))"
proof -
  let ?args = "[SText (Req_Name req), SText (Req_Type req), metadata_arg (Req_Metadata req),
      tags_arg (Req_Tags req), SText (Req_Group req), STime now, SText i]"
  have s: "sat lt ?args [CEq ''id'' (Param 6)] p \<longleftrightarrow> p ''id'' = SText i" for p
    by (auto simp: sat_def)
  show ?thesis
  proof (cases "db_exec E d sql_update_device ?args")
    case (Pair d1 res)
    show ?thesis
    proof (cases res)
      case (Inl e)
      with Pair assms show ?thesis by (auto simp: updateDevice_def dest: exec_err)
    next
      case (Inr x)
      with Pair assms have g: "getDevice E d1 i org = (d', r)"
        by (simp add: updateDevice_def)
      then have "contents d' = contents d1"
        by (auto simp: getDevice_def split: prod.splits sum.splits option.splits dest: query_row_frame)
      moreover have "contents d1 = (contents d)(''devices'' := update_rows lt ?args
         [(''name'', Param 0), (''type'', Param 1), (''metadata'', Param 2),
          (''tags'', Param 3), (''device_group'', Param 4), (''updated_at'', Param 5)]
         [CEq ''id'' (Param 6)] (contents d ''devices''))"
        by (rule sem_update_rows(1) [OF exec_ok [OF Pair [unfolded Inr sql_update_device_def]]])
      ultimately show ?thesis
        by (intro disjI2) (simp add: update_rows_def s cong: if_cong)
    qed
  qed
qed

end

text \<open>
  An update changes nothing but the name, type, metadata, tags, group and update time
  of the device with that identifier: never its identifier, secret, organisation, status or
  last report, and no other device; the organisation of the caller plays no part. For a
  device that never reported the answer is 404 although the change is made.
\<close>

theorem device_update_effect:
  assumes "deviceos_db E contents fk_on lt" and "fresh w"
    and "devices_handleUpdate E now d r w = (d', w')"
  shows "(\<forall>n. n \<noteq> ''devices'' \<longrightarrow> contents d' n = contents d n)
     \<and> list_all2 (\<lambda>p q. (\<forall>c \<in> {''id'', ''secret_key'', ''org_id'', ''status'', ''last_seen'',
            ''created_at''}. q c = p c) \<and> (p ''id'' \<noteq> SText (r_pathval r ''id'') \<longrightarrow> q = p))
         (contents d ''devices'') (contents d' ''devices'')
     \<and> status_of w' \<in> {Some 200, Some 400, Some 404}
     \<and> ((\<forall>p \<in> set (contents d ''devices''). p ''id'' = SText (r_pathval r ''id'') \<longrightarrow>
            p ''last_seen'' = SNull) \<longrightarrow> status_of w' \<noteq> Some 200)"
proof (cases "decode_body RegisterRequest_fields (r_body r) zero_RegisterRequest")
  case None
  with assms(2,3) show ?thesis
    by (auto simp: devices_handleUpdate_def http_simps list_all2_same)
next
  case (Some req)
  let ?i = "r_pathval r ''id''"
  obtain d1 x where u: "updateDevice E now d ?i req (OrgID r) = (d1, x)"
    by (cases "updateDevice E now d ?i req (OrgID r)")
  with assms(2,3) Some have d: "d1 = d'"
    and st: "status_of w' = Some (case x of Inl e \<Rightarrow> 404 | Inr dev \<Rightarrow> 200)"
    by (auto simp: devices_handleUpdate_def http_simps split: sum.splits)
  note eff = deviceos_db.updateDevice_effect [OF assms(1) u, unfolded d]
  have never: "\<exists>e. x = Inl e"
    if n: "\<forall>p \<in> set (contents d ''devices''). p ''id'' = SText ?i \<longrightarrow> p ''last_seen'' = SNull"
  proof (cases x)
    case (Inr dev)
    obtain d2 res where ex: "db_exec E d sql_update_device
        [SText (Req_Name req), SText (Req_Type req), metadata_arg (Req_Metadata req),
         tags_arg (Req_Tags req), SText (Req_Group req), STime now, SText ?i] = (d2, Inr res)"
      and g: "getDevice E d2 ?i (OrgID r) = (d1, Inr dev)"
      using u Inr by (auto simp: updateDevice_def split: prod.splits sum.splits)
    have "contents d2 ''devices'' = contents d' ''devices''"
      using deviceos_db.getDevice_frame [OF assms(1) g] d by simp
    moreover have "\<forall>p \<in> set (contents d' ''devices''). p ''id'' = SText ?i \<longrightarrow> p ''last_seen'' = SNull"
      using eff n by auto
    ultimately show ?thesis
      using deviceos_db.getDevice_never_seen [OF assms(1), of d2 ?i "OrgID r"] g by auto
  qed auto
  from eff have "(\<forall>n. n \<noteq> ''devices'' \<longrightarrow> contents d' n = contents d n)
     \<and> list_all2 (\<lambda>p q. (\<forall>c \<in> {''id'', ''secret_key'', ''org_id'', ''status'', ''last_seen'',
            ''created_at''}. q c = p c) \<and> (p ''id'' \<noteq> SText ?i \<longrightarrow> q = p))
         (contents d ''devices'') (contents d' ''devices'')"
    by (auto simp: list_all2_same list.rel_map)
  with st never show ?thesis by (auto split: sum.splits)
qed

theorem device_update_effect_witness:
  "(let d = (\<lambda>n. [])(''devices'' := [(\<lambda>c. SNull)(''id'' := SText ''dev_1'', ''org_id'' := SText ''acme'',
         ''secret_key'' := SText ''k'', ''status'' := SText ''offline'', ''created_at'' := STime 1)]);
        out = devices_handleUpdate (memory_db False) 9 d
          (demo_request ''evil'' ''dev_1'' (JObj [(''name'', JStr ''mine'')])) new_writer
    in status_of (snd out) \<noteq> Some 200
     \<and> map (\<lambda>q. (q ''name'', q ''org_id'')) (fst out ''devices'') = [(SText ''mine'', SText ''acme'')])"
proof -
  let ?d = "(\<lambda>n. [])(''devices'' := [(\<lambda>c. SNull)(''id'' := SText ''dev_1'', ''org_id'' := SText ''acme'',
         ''secret_key'' := SText ''k'', ''status'' := SText ''offline'', ''created_at'' := STime 1)])"
  let ?r = "demo_request ''evil'' ''dev_1'' (JObj [(''name'', JStr ''mine'')])"
  have "map (\<lambda>q. (q ''name'', q ''org_id''))
      (fst (devices_handleUpdate (memory_db False) 9 ?d ?r new_writer) ''devices'')
      = [(SText ''mine'', SText ''acme'')]"
    by (simp add: devices_handleUpdate_def updateDevice_def getDevice_def devices_sql memory_db_eval
        update_rows_def db_query_row_def DB_same Let_def RegisterRequest_fields_def find_field_def
        zero_RegisterRequest_def metadata_arg_def tags_arg_def Device_scan_def into_def)
  with device_update_effect [OF memdb.deviceos_db_axioms [of False] fresh_new_writer surjective_pairing,
      of 9 ?d ?r]
  show ?thesis by (simp add: Let_def)
qed

context deviceos_db
begin

lemma listDevices_ok:
  assumes "listDevices E d org = (d', Inr ds)"
  shows "\<exists>rows. mset rows = mset (if org = [] then contents d ''devices''
            else rows_of org (contents d ''devices''))
     \<and> ordered lt (Some (''created_at'', True)) rows
     \<and> list_all2 (\<lambda>q dev. Scan Device_scan (map (project1 q) device_columns) zero_Device
                            = (dev, None)) rows ds"
proof -
  let ?q = "sql_list_devices (org \<noteq> [])" and ?args = "if org = [] then [] else [SText org]"
  from assms obtain out where q: "db_query E d ?q ?args = (d', Inr (out, None))"
    and sc: "scan_strict Device_scan zero_Device out = Inr ds"
    by (cases "org = []")
       (auto simp: listDevices_def bind_result_eq_Inr
         split: prod.splits sum.splits option.splits)
  have "query_ok lt ?q ?args (contents d) out"
    by (rule query_rows [OF q]) (simp add: sql_list_devices_def)
  moreover have "matching lt ?q ?args (contents d) = (if org = [] then contents d ''devices''
            else rows_of org (contents d ''devices''))"
    by (simp add: matching_def sql_list_devices_def sat_own_rows) (simp add: sat_def)
  ultimately obtain rows where r: "mset rows = mset (if org = [] then contents d ''devices''
            else rows_of org (contents d ''devices''))"
    "ordered lt (Some (''created_at'', True)) rows"
    "out = map (\<lambda>q. map (project1 q) device_columns) rows"
    by (auto simp: query_ok_def sql_list_devices_def)
  with scan_strict_all [OF sc] show ?thesis
    by (intro exI [of _ rows]) (simp add: list.rel_map)
qed

end

lemma Device_scan_ok:
  assumes "Scan Device_scan (map (project1 q) device_columns) zero_Device = (dev, None)"
  shows "scan_string (q ''id'') = Inr (Dev_ID dev) \<and> scan_string (q ''org_id'') = Inr (Dev_OrgID dev)
    \<and> scan_string (q ''status'') = Inr (Dev_Status dev) \<and> q ''last_seen'' \<noteq> SNull"
  using assms
  by (auto simp: Device_scan_def device_columns_def into_def split: sum.splits)

text \<open>
  A device list that is answered with 200 shows every device of the caller's
  organisation exactly once and no other one (all devices when the caller has no
  organisation), newest first; and it is only answered when each of them has reported,
  one device that never did turns the answer into a 500.
\<close>

theorem device_list_complete:
  assumes "deviceos_db E contents fk_on lt" and "fresh w"
    and "devices_handleList E d r w = (d', w')"
  shows "contents d' = contents d
    \<and> (status_of w' = Some 500 \<or> status_of w' = Some 200 \<and>
       (\<exists>rows ds. mset rows = mset (if OrgID r = [] then contents d ''devices''
              else rows_of (OrgID r) (contents d ''devices''))
        \<and> ordered lt (Some (''created_at'', True)) rows
        \<and> list_all2 (\<lambda>q dev. scan_string (q ''id'') = Inr (Dev_ID dev)
              \<and> scan_string (q ''org_id'') = Inr (Dev_OrgID dev)
              \<and> scan_string (q ''status'') = Inr (Dev_Status dev)
              \<and> q ''last_seen'' \<noteq> SNull) rows ds
        \<and> w_out w' = [Cjson (JObj [(''devices'',
              if ds = [] then JNull else JArr (map Device_json ds))])]))"
proof -
  obtain d1 x where l: "listDevices E d (OrgID r) = (d1, x)"
    by (cases "listDevices E d (OrgID r)")
  with assms(3) have d: "d1 = d'"
    by (auto simp: devices_handleList_def split: sum.splits)
  from l have "contents d1 = contents d"
    by (auto simp: listDevices_def split: prod.splits sum.splits if_splits
        dest: sql_engine.query_frame [OF deviceos_db.axioms(1) [OF assms(1)]])
  note frame = this [unfolded d]
  show ?thesis
  proof (cases x)
    case (Inl e)
    with l assms(2,3) frame show ?thesis by (auto simp: devices_handleList_def http_simps)
  next
    case (Inr ds)
    obtain rows where rows: "mset rows = mset (if OrgID r = [] then contents d ''devices''
              else rows_of (OrgID r) (contents d ''devices''))"
        "ordered lt (Some (''created_at'', True)) rows"
        and sc: "list_all2 (\<lambda>q dev. Scan Device_scan (map (project1 q) device_columns) zero_Device
                            = (dev, None)) rows ds"
      using deviceos_db.listDevices_ok [OF assms(1) l [unfolded Inr]] by blast
    have "list_all2 (\<lambda>q dev. scan_string (q ''id'') = Inr (Dev_ID dev)
              \<and> scan_string (q ''org_id'') = Inr (Dev_OrgID dev)
              \<and> scan_string (q ''status'') = Inr (Dev_Status dev)
              \<and> q ''last_seen'' \<noteq> SNull) rows ds"
      by (rule list_all2_mono [OF sc Device_scan_ok])
    moreover from l Inr assms(2,3) have "status_of w' = Some 200"
        "w_out w' = [Cjson (JObj [(''devices'', if ds = [] then JNull else JArr (map Device_json ds))])]"
      by (auto simp: devices_handleList_def http_simps)
    ultimately show ?thesis using rows frame by blast
  qed
qed

theorem device_list_complete_witness:
  "status_of (snd (devices_handleList (memory_db True)
      ((\<lambda>n. [])(''devices'' := [(\<lambda>c. SNull)(''id'' := SText ''dev_1'', ''org_id'' := SText ''acme'')]))
      (demo_request ''acme'' [] JNull) new_writer)) = Some 500"
  using device_list_complete [OF memdb.deviceos_db_axioms [of True] fresh_new_writer surjective_pairing,
      of "(\<lambda>n. [])(''devices'' := [(\<lambda>c. SNull)(''id'' := SText ''dev_1'', ''org_id'' := SText ''acme'')])"
         "demo_request ''acme'' [] JNull"]
  by (auto simp: rows_of_def list_all2_Cons1)

end
