(* ===== verification/Telemetry.thy ===== *)
theory Telemetry
  imports Devices
begin

text \<open>
  \<open>modules/telemetry\<close>: ingestion, queries, retention and the WebSocket hub. The module
  calls the hub and the registered hooks, which act on other parts of the program; they
  are transformers of the program state \<open>'s\<close>, and the database is reached through an
  engine over the same state.
\<close>

section \<open>Data\<close>

record Telemetry =
  Tel_ID :: int
  Tel_DeviceID :: string
  Tel_Timestamp :: int
  Tel_Metrics :: "json option"
  Tel_Metadata :: "json option"

definition zero_Telemetry :: Telemetry where
  "zero_Telemetry =
     \<lparr>Tel_ID = 0, Tel_DeviceID = [], Tel_Timestamp = zero_time, Tel_Metrics = None,
      Tel_Metadata = None\<rparr>"

definition Telemetry_json :: "Telemetry \<Rightarrow> json" where
  "Telemetry_json t =
     JObj ([(''id'', JInt (Tel_ID t)), (''device_id'', JStr (Tel_DeviceID t)),
            (''timestamp'', JTime (Tel_Timestamp t)), (''metrics'', jraw (Tel_Metrics t))]
       @ omit_raw ''metadata'' (Tel_Metadata t))"

record IngestRequest =
  Ing_DeviceID :: string
  Ing_SecretKey :: string
  Ing_Timestamp :: "int option"
  Ing_Metrics :: "json option"
  Ing_Metadata :: "json option"

definition zero_IngestRequest :: IngestRequest where
  "zero_IngestRequest =
     \<lparr>Ing_DeviceID = [], Ing_SecretKey = [], Ing_Timestamp = None, Ing_Metrics = None,
      Ing_Metadata = None\<rparr>"

definition IngestRequest_fields :: "(string \<Rightarrow> int option) \<Rightarrow> IngestRequest fields" where
  "IngestRequest_fields pt =
     [(''device_id'', set_string Ing_DeviceID_update),
      (''secret_key'', set_string Ing_SecretKey_update),
      (''timestamp'', set_time_ptr pt Ing_Timestamp_update),
      (''metrics'', set_raw Ing_Metrics_update), (''metadata'', set_raw Ing_Metadata_update)]"

section \<open>The hub\<close>

text \<open>
  The clients, what each connection was sent, the connections that were closed and those
  whose removal was handed to a goroutine. \<open>okc\<close> says which connections take a message.
\<close>

record 'c Hub =
  hub_clients :: "'c set"
  hub_inbox :: "'c \<Rightarrow> json list"
  hub_closed :: "'c set"
  hub_removing :: "'c set"

definition NewHub :: "'c Hub" where
  "NewHub = \<lparr>hub_clients = {}, hub_inbox = (\<lambda>c. []), hub_closed = {}, hub_removing = {}\<rparr>"

definition Hub_Add :: "'c \<Rightarrow> 'c Hub \<Rightarrow> 'c Hub" where
  "Hub_Add c h = h\<lparr>hub_clients := insert c (hub_clients h)\<rparr>"

definition Hub_Remove :: "'c \<Rightarrow> 'c Hub \<Rightarrow> 'c Hub" where
  "Hub_Remove c h = h\<lparr>hub_clients := hub_clients h - {c}, hub_removing := hub_removing h - {c}\<rparr>"

definition Hub_Broadcast :: "('c \<Rightarrow> bool) \<Rightarrow> json \<Rightarrow> 'c Hub \<Rightarrow> 'c Hub" where
  "Hub_Broadcast okc msg h =
     (let bad = Set.filter (\<lambda>c. \<not> okc c) (hub_clients h)
      in h\<lparr>hub_inbox := (\<lambda>c. if c \<in> hub_clients h \<and> okc c then hub_inbox h c @ [msg] else hub_inbox h c),
           hub_closed := hub_closed h \<union> bad, hub_removing := hub_removing h \<union> bad\<rparr>)"

text \<open>The reader goroutine of a connection ends: it leaves the hub and is closed.\<close>

definition Hub_Disconnect :: "'c \<Rightarrow> 'c Hub \<Rightarrow> 'c Hub" where
  "Hub_Disconnect c h = (Hub_Remove c h)\<lparr>hub_closed := insert c (hub_closed h)\<rparr>"

text \<open>
  \<open>upgrader.Upgrade\<close> of the WebSocket library is a parameter: it takes over the connection
  or answers the request itself with an error.
\<close>

type_synonym 'c upgrader = "request \<Rightarrow> writer \<Rightarrow> 'c option \<times> writer"

definition telemetry_handleWS :: "'c upgrader \<Rightarrow> 'c Hub handler" where
  "telemetry_handleWS up h r w =
     (case up r w of (None, w') \<Rightarrow> (h, w') | (Some conn, w') \<Rightarrow> (Hub_Add conn h, w'))"

section \<open>Storage\<close>

type_synonym 's telemetry_hook = "string \<Rightarrow> json option \<Rightarrow> json option \<Rightarrow> 's \<Rightarrow> 's"

record 's telemetry_module =
  tel_db :: "'s engine"
  tel_broadcast :: "json \<Rightarrow> 's \<Rightarrow> 's"
  tel_hooks :: "'s telemetry_hook list"
  telemetryTTL :: int
  pruneInterval :: int

definition AddTelemetryHook :: "'s telemetry_hook \<Rightarrow> 's telemetry_module \<Rightarrow> 's telemetry_module" where
  "AddTelemetryHook fn m = m\<lparr>tel_hooks := tel_hooks m @ [fn]\<rparr>"

definition sql_insert_telemetry :: stmt where
  "sql_insert_telemetry =
     Insert ''telemetry'' [(''device_id'', Param 0), (''org_id'', Param 1), (''timestamp'', Param 2),
       (''metrics'', Param 3), (''metadata'', Param 4)] Abort"

definition sql_device_online :: stmt where
  "sql_device_online =
     Update ''devices'' [(''status'', Lit (SText ''online'')), (''last_seen'', Param 0)]
       [CEq ''id'' (Param 1)]"

definition storeTelemetry ::
    "'s engine \<Rightarrow> 's \<Rightarrow> string \<Rightarrow> int \<Rightarrow> json \<Rightarrow> json \<Rightarrow> string \<Rightarrow> 's \<times> int result" where
  "storeTelemetry E s deviceID ts metrics metadata org =
     (case db_exec E s sql_insert_telemetry
             [SText deviceID, SText org, STime ts, SDoc metrics, SDoc metadata] of
        (s1, Inl e) \<Rightarrow> (s1, Inl (''store telemetry: '' @ e))
      | (s1, Inr res) \<Rightarrow>
          (case db_exec E s1 sql_device_online [STime ts, SText deviceID] of
             (s2, _) \<Rightarrow> (s2, Inr (LastInsertId res))))"

definition telemetry_event :: "int \<Rightarrow> string \<Rightarrow> int \<Rightarrow> json \<Rightarrow> json \<Rightarrow> json" where
  "telemetry_event i deviceID ts metrics metadata =
     JObj [(''data'', Telemetry_json \<lparr>Tel_ID = i, Tel_DeviceID = deviceID, Tel_Timestamp = ts,
                        Tel_Metrics = Some metrics, Tel_Metadata = Some metadata\<rparr>),
           (''event'', JStr ''telemetry'')]"

definition telemetry_Store ::
    "'s telemetry_module \<Rightarrow> 's \<Rightarrow> string \<Rightarrow> int \<Rightarrow> json option \<Rightarrow> json option \<Rightarrow> string \<Rightarrow>
     's \<times> int result" where
  "telemetry_Store m s deviceID ts metrics metadata org =
     (case metrics of
        None \<Rightarrow> (s, Inl ''metrics are required'')
      | Some mx \<Rightarrow>
          (let md = (case metadata of None \<Rightarrow> JObj [] | Some j \<Rightarrow> j)
           in case storeTelemetry (tel_db m) s deviceID ts mx md org of
                (s1, Inl e) \<Rightarrow> (s1, Inl e)
              | (s1, Inr i) \<Rightarrow>
                  (let s2 = tel_broadcast m (telemetry_event i deviceID ts mx md) s1
                   in (fold (\<lambda>h. h deviceID (Some mx) (Some md)) (tel_hooks m) s2, Inr i))))"

definition sql_prune :: stmt where
  "sql_prune = Delete ''telemetry'' [CLt ''timestamp'' (Param 0)]"

definition telemetry_prune :: "'s telemetry_module \<Rightarrow> int \<Rightarrow> 's \<Rightarrow> 's" where
  "telemetry_prune m now s = fst (db_exec (tel_db m) s sql_prune [STime (now - telemetryTTL m)])"

text \<open>
  \<open>pruneLoop\<close> runs until the stop channel is closed: every tick prunes. \<open>Start\<close> launches
  it only when both durations are positive. The events of the \<open>select\<close> are a list.
\<close>

datatype tick = Tick int | StopClosed

fun pruneLoop :: "'s telemetry_module \<Rightarrow> tick list \<Rightarrow> 's \<Rightarrow> 's" where
  "pruneLoop m [] s = s"
| "pruneLoop m (Tick now # es) s = pruneLoop m es (telemetry_prune m now s)"
| "pruneLoop m (StopClosed # es) s = s"

definition telemetry_Start :: "'s telemetry_module \<Rightarrow> tick list \<Rightarrow> 's \<Rightarrow> 's" where
  "telemetry_Start m es s =
     (if telemetryTTL m > 0 \<and> pruneInterval m > 0 then pruneLoop m es s else s)"

section \<open>Handlers\<close>

definition telemetry_handleIngest ::
    "(string \<Rightarrow> int option) \<Rightarrow> 's telemetry_module \<Rightarrow> int \<Rightarrow> 's handler" where
  "telemetry_handleIngest pt m now s r w =
     (case decode_body (IngestRequest_fields pt) (r_body r) zero_IngestRequest of
        None \<Rightarrow> (s, BadRequest ''invalid request body'' w)
      | Some req \<Rightarrow>
          if Ing_DeviceID req = [] \<or> Ing_Metrics req = None
          then (s, BadRequest ''device_id and metrics are required'' w)
          else
            (let ts = (case Ing_Timestamp req of None \<Rightarrow> now | Some t \<Rightarrow> t)
             in case telemetry_Store m s (Ing_DeviceID req) ts (Ing_Metrics req) (Ing_Metadata req)
                       (OrgID r) of
                  (s', Inl e) \<Rightarrow> (s', Internal ''failed to store telemetry'' w)
                | (s', Inr i) \<Rightarrow> (s', writeJSON 201 (JObj [(''id'', JInt i)]) w)))"

text \<open>The limit is spliced into the text of the statement as the client wrote it.\<close>

definition sql_telemetry :: "bool \<Rightarrow> limit \<Rightarrow> query" where
  "sql_telemetry scoped lm =
     \<lparr>sel = Fields [PCol ''id'', PCol ''device_id'', PCol ''timestamp'', PCol ''metrics'', PCol ''metadata''],
      from_src = Tab ''telemetry'',
      conds = CEq ''device_id'' (Param 0) # (if scoped then [CEq ''org_id'' (Param 1)] else []),
      order_by = Some (''timestamp'', True), limit_of = lm\<rparr>"

definition Telemetry_scan :: "Telemetry scanner list" where
  "Telemetry_scan =
     [into scan_int Tel_ID_update, into scan_string Tel_DeviceID_update,
      into scan_time Tel_Timestamp_update, into scan_doc Tel_Metrics_update,
      into scan_doc Tel_Metadata_update]"

definition telemetry_handleQuery :: "'s telemetry_module \<Rightarrow> 's handler" where
  "telemetry_handleQuery m s r w =
     (let deviceID = r_query r ''device_id'';
          limit = (if r_query r ''limit'' = [] then ''100'' else r_query r ''limit'');
          oid = OrgID r
      in case (if oid \<noteq> []
               then db_query (tel_db m) s (sql_telemetry True (LimitText limit)) [SText deviceID, SText oid]
               else db_query (tel_db m) s (sql_telemetry False (LimitText limit)) [SText deviceID]) of
           (s', Inl e) \<Rightarrow> (s', Internal ''query failed'' w)
         | (s', Inr (rows, e)) \<Rightarrow>
             (s', writeJSON 200
                (JObj [(''telemetry'',
                   JArr (map Telemetry_json (scan_skip Telemetry_scan zero_Telemetry rows)))]) w))"

definition telemetry_handleLatest :: "'s telemetry_module \<Rightarrow> 's handler" where
  "telemetry_handleLatest m s r w =
     (let deviceID = r_query r ''device_id''; oid = OrgID r
      in case (if oid \<noteq> []
               then db_query_row (tel_db m) s (sql_telemetry True (Limit 1)) [SText deviceID, SText oid]
               else db_query_row (tel_db m) s (sql_telemetry False (Limit 1)) [SText deviceID]) of
           (s', Inl e) \<Rightarrow> (s', NotFound ''no telemetry found'' w)
         | (s', Inr vs) \<Rightarrow>
             (s', case Scan Telemetry_scan vs zero_Telemetry of
                    (t, Some e) \<Rightarrow> NotFound ''no telemetry found'' w
                  | (t, None) \<Rightarrow> writeJSON 200 (Telemetry_json t) w))"

datatype telemetry_route = Ingest | QueryTelemetry | LatestTelemetry | TelemetryWS

definition telemetry_routes :: "(string \<times> telemetry_route) list" where
  "telemetry_routes =
     [(''POST /api/v1/telemetry'', Ingest), (''GET /api/v1/telemetry'', QueryTelemetry),
      (''GET /api/v1/telemetry/latest'', LatestTelemetry), (''GET /api/v1/ws/telemetry'', TelemetryWS)]"

lemmas telemetry_sql =
  sql_insert_telemetry_def sql_device_online_def sql_prune_def sql_telemetry_def

section \<open>Ingestion\<close>

lemma telemetry_insert_row:
  fixes vs :: "sqlval list" and nid :: int
  assumes "length vs = 5"
  defines "q \<equiv> insert_row telemetry_schema
     [(''device_id'', Param 0), (''org_id'', Param 1), (''timestamp'', Param 2),
      (''metrics'', Param 3), (''metadata'', Param 4)] vs nid"
  shows "q ''id'' = SInt nid" "q ''device_id'' = vs ! 0" "q ''org_id'' = vs ! 1"
    "q ''timestamp'' = vs ! 2" "q ''metrics'' = vs ! 3" "q ''metadata'' = vs ! 4"
  using assms(1)
  by (simp_all add: q_def insert_row_def default_row_def telemetry_schema_def)

definition mark_online :: "string \<Rightarrow> int \<Rightarrow> row list \<Rightarrow> row list" where
  "mark_online i ts rs =
     map (\<lambda>p. if p ''id'' = SText i
              then p(''status'' := SText ''online'', ''last_seen'' := STime ts) else p) rs"

text \<open>\<open>reading i org ts mx md n q\<close>: \<open>q\<close> is the row of this reading, stored under the key \<open>n\<close>.\<close>

definition reading :: "string \<Rightarrow> string \<Rightarrow> int \<Rightarrow> json \<Rightarrow> json \<Rightarrow> int \<Rightarrow> row \<Rightarrow> bool" where
  "reading i org ts mx md n q \<longleftrightarrow>
     q ''id'' = SInt n \<and> q ''device_id'' = SText i \<and> q ''org_id'' = SText org
     \<and> q ''timestamp'' = STime ts \<and> q ''metrics'' = SDoc mx \<and> q ''metadata'' = SDoc md"

context deviceos_db
begin

lemma device_online_effect:
  assumes "db_exec E s sql_device_online [STime ts, SText i] = (s', r)"
  shows "contents s' = contents s \<and> (\<exists>e. r = Inl e)
       \<or> contents s' = (contents s)(''devices'' := mark_online i ts (contents s ''devices''))"
proof (cases r)
  case (Inl e)
  with assms show ?thesis by (auto dest: exec_err)
next
  case (Inr res)
  have m: "sat lt [STime ts, SText i] [CEq ''id'' (Param (Suc 0))] p \<longleftrightarrow> p ''id'' = SText i" for p
    by (auto simp: sat_def)
  have "contents s' = (contents s)(''devices'' := update_rows lt [STime ts, SText i]
     [(''status'', Lit (SText ''online'')), (''last_seen'', Param 0)] [CEq ''id'' (Param 1)]
     (contents s ''devices''))"
    by (rule sem_update_rows(1) [OF exec_ok [OF assms [unfolded Inr sql_device_online_def]]])
  then show ?thesis
    by (intro disjI2) (simp add: update_rows_def mark_online_def m cong: if_cong)
qed

lemma insert_telemetry_effect:
  assumes "db_exec E s sql_insert_telemetry [SText i, SText org, STime ts, SDoc mx, SDoc md]
     = (s', Inr res)"
  shows "\<exists>q. contents s' = (contents s)(''telemetry'' := contents s ''telemetry'' @ [q])
     \<and> reading i org ts mx md (LastInsertId res) q
     \<and> (\<forall>p \<in> set (contents s ''telemetry''). p ''id'' \<noteq> SInt (LastInsertId res))"
proof -
  let ?args = "[SText i, SText org, STime ts, SDoc mx, SDoc md]"
  let ?q = "insert_row telemetry_schema [(''device_id'', Param 0), (''org_id'', Param 1),
      (''timestamp'', Param 2), (''metrics'', Param 3), (''metadata'', Param 4)] ?args (LastInsertId res)"
  note ins = sem_insert_abort [OF exec_ok [OF assms [unfolded sql_insert_telemetry_def]] deviceos_schema(2)]
  note row = telemetry_insert_row [of ?args "LastInsertId res"]
  have "p ''id'' \<noteq> SInt (LastInsertId res)" if "p \<in> set (contents s ''telemetry'')" for p
    using ins(3) [OF that, of "[''id'']"] row(1) by (auto simp: telemetry_schema_def same_key_def)
  then show ?thesis
    using ins(1) row by (intro exI [of _ ?q]) (simp add: reading_def)
qed

lemma storeTelemetry_effect:
  assumes "storeTelemetry E s i ts mx md org = (s', r)"
  shows "(\<exists>e. r = Inl e) \<and> contents s' = contents s
     \<or> (\<exists>n q t1. r = Inr n \<and> t1 = (contents s)(''telemetry'' := contents s ''telemetry'' @ [q])
        \<and> reading i org ts mx md n q
        \<and> (\<forall>p \<in> set (contents s ''telemetry''). p ''id'' \<noteq> SInt n)
        \<and> (contents s' = t1 \<or> contents s' = t1(''devices'' := mark_online i ts (contents s ''devices''))))"
proof -
  obtain s1 x where ins: "db_exec E s sql_insert_telemetry
      [SText i, SText org, STime ts, SDoc mx, SDoc md] = (s1, x)" by fastforce
  show ?thesis
  proof (cases x)
    case (Inl e)
    with ins assms show ?thesis by (auto simp: storeTelemetry_def dest: exec_err)
  next
    case (Inr res)
    obtain s2 y where up: "db_exec E s1 sql_device_online [STime ts, SText i] = (s2, y)" by fastforce
    with ins Inr assms have r: "s' = s2" "r = Inr (LastInsertId res)"
      by (auto simp: storeTelemetry_def)
    obtain q where q: "contents s1 = (contents s)(''telemetry'' := contents s ''telemetry'' @ [q])"
      and qs: "reading i org ts mx md (LastInsertId res) q"
       "\<forall>p \<in> set (contents s ''telemetry''). p ''id'' \<noteq> SInt (LastInsertId res)"
      using insert_telemetry_effect [OF ins [unfolded Inr]] by blast
    have "contents s2 = contents s1 \<or>
        contents s2 = (contents s1)(''devices'' := mark_online i ts (contents s ''devices''))"
      using device_online_effect [OF up] q by auto
    with r q qs show ?thesis
      by (intro disjI2 exI [of _ "LastInsertId res"] exI [of _ q] exI [of _ "contents s1"]) simp
  qed
qed

end


definition demo_telemetry :: "tables telemetry_module" where
  "demo_telemetry =
     \<lparr>tel_db = memory_db False, tel_broadcast = (\<lambda>j t. t), tel_hooks = [], telemetryTTL = 10,
      pruneInterval = 1\<rparr>"

definition demo_reading :: json where
  "demo_reading = JObj [(''device_id'', JStr ''dev_1''), (''metrics'', JObj [(''t'', JInt 4)])]"


section \<open>Retention\<close>

context deviceos_db
begin

lemma prune_effect:
  assumes "tel_db m = E"
  shows "contents (telemetry_prune m now s) = contents s
     \<or> contents (telemetry_prune m now s) = (contents s)(''telemetry'' :=
          filter (\<lambda>q. q ''timestamp'' = SNull \<or> \<not> lt (q ''timestamp'') (STime (now - telemetryTTL m)))
            (contents s ''telemetry''))"
proof -
  let ?arg = "[STime (now - telemetryTTL m)]"
  obtain s' r where ex: "db_exec E s sql_prune ?arg = (s', r)" by fastforce
  then have p: "telemetry_prune m now s = s'" by (simp add: telemetry_prune_def assms)
  have keep: "(\<not> sat lt ?arg [CLt ''timestamp'' (Param 0)] q) =
      (q ''timestamp'' = SNull \<or> \<not> lt (q ''timestamp'') (STime (now - telemetryTTL m)))" for q
    by (auto simp: sat_def)
  show ?thesis
  proof (cases r)
    case (Inl e)
    with ex p show ?thesis by (auto dest: exec_err)
  next
    case (Inr res)
    note sem = exec_ok [OF ex [unfolded Inr sql_prune_def]]
    have "contents s' ''telemetry'' = filter (\<lambda>q. q ''timestamp'' = SNull
        \<or> \<not> lt (q ''timestamp'') (STime (now - telemetryTTL m))) (contents s ''telemetry'')"
      using sem_delete_rows(1) [OF sem] by (simp add: keep)
    moreover have "contents s' n = contents s n" if "n \<noteq> ''telemetry''" for n
      using sem_exec_frame [OF sem, of n] that by simp
    ultimately show ?thesis
      unfolding p by (intro disjI2) (rule ext, simp)
  qed
qed

lemma pruneLoop_frame:
  "tel_db m = E \<Longrightarrow> n \<noteq> ''telemetry'' \<Longrightarrow> contents (pruneLoop m es s) n = contents s n"
proof (induction m es s rule: pruneLoop.induct)
  case (2 m now es s)
  then show ?case using prune_effect [OF "2.prems"(1), of now s] by auto
qed auto

lemma pruneLoop_shrinks:
  "tel_db m = E \<Longrightarrow> set (contents (pruneLoop m es s) ''telemetry'') \<subseteq> set (contents s ''telemetry'')"
proof (induction m es s rule: pruneLoop.induct)
  case (2 m now es s)
  then show ?case using prune_effect [OF "2.prems"(1), of now s] by auto
qed auto

lemma pruneLoop_keeps:
  assumes "tel_db m = E" and "q \<in> set (contents s ''telemetry'')"
    and "\<And>now. Tick now \<in> set es \<Longrightarrow> \<not> lt (q ''timestamp'') (STime (now - telemetryTTL m))"
  shows "q \<in> set (contents (pruneLoop m es s) ''telemetry'')"
  using assms
proof (induction m es s rule: pruneLoop.induct)
  case (2 m now es s)
  have n: "\<not> lt (q ''timestamp'') (STime (now - telemetryTTL m))"
    by (rule "2.prems"(3)) simp
  have "q \<in> set (contents (telemetry_prune m now s) ''telemetry'')"
    using prune_effect [OF "2.prems"(1), of now s] "2.prems"(2) n by auto
  then have "q \<in> set (contents (pruneLoop m es (telemetry_prune m now s)) ''telemetry'')"
    by (rule "2.IH" [OF "2.prems"(1)]) (rule "2.prems"(3), simp)
  then show ?case by simp
qed auto

end

text \<open>
  C31: retention: the pruning loop, started with any retention and any interval and ticking
  at any times, never removes a reading that is within the retention at every tick, and
  touches no other table; with a retention or an interval that is not positive it removes
  nothing at all.
\<close>

theorem retention_safe:
  assumes "deviceos_db (tel_db m) contents fk_on lt"
  shows "(\<forall>n. n \<noteq> ''telemetry'' \<longrightarrow> contents (telemetry_Start m es s) n = contents s n)
     \<and> (\<forall>q \<in> set (contents s ''telemetry'').
          (\<forall>now. Tick now \<in> set es \<longrightarrow> \<not> lt (q ''timestamp'') (STime (now - telemetryTTL m))) \<longrightarrow>
          q \<in> set (contents (telemetry_Start m es s) ''telemetry''))
     \<and> set (contents (telemetry_Start m es s) ''telemetry'') \<subseteq> set (contents s ''telemetry'')
     \<and> (telemetryTTL m \<le> 0 \<or> pruneInterval m \<le> 0 \<longrightarrow> telemetry_Start m es s = s)"
proof -
  have "n \<noteq> ''telemetry'' \<longrightarrow> contents (pruneLoop m es s) n = contents s n" for n
    using deviceos_db.pruneLoop_frame [OF assms refl] by blast
  moreover have "set (contents (pruneLoop m es s) ''telemetry'') \<subseteq> set (contents s ''telemetry'')"
    by (rule deviceos_db.pruneLoop_shrinks [OF assms refl])
  ultimately show ?thesis
    using deviceos_db.pruneLoop_keeps [OF assms refl] by (auto simp: telemetry_Start_def)
qed

theorem retention_safe_witness:
  "(\<lambda>c. SNull)(''timestamp'' := STime 95) \<in> set (telemetry_Start demo_telemetry
     [Tick 100, Tick 101] ((\<lambda>n. [])(''telemetry'' := [(\<lambda>c. SNull)(''timestamp'' := STime 80),
        (\<lambda>c. SNull)(''timestamp'' := STime 95)])) ''telemetry'')"
proof -
  have "deviceos_db (tel_db demo_telemetry) (\<lambda>t. t) (\<lambda>t. False) ref_lt"
    using memdb.deviceos_db_axioms [of False] by (simp add: demo_telemetry_def)
  from retention_safe [OF this, of "[Tick 100, Tick 101]" "(\<lambda>n. [])(''telemetry'' :=
      [(\<lambda>c. SNull)(''timestamp'' := STime 80), (\<lambda>c. SNull)(''timestamp'' := STime 95)])"]
  show ?thesis by (simp add: demo_telemetry_def)
qed

section \<open>Queries\<close>

text \<open>The readings a caller may see: of the device, and of his organisation if he has one.\<close>

definition readable_readings :: "string \<Rightarrow> string \<Rightarrow> row list \<Rightarrow> row list" where
  "readable_readings i org rs =
     filter (\<lambda>q. q ''device_id'' = SText i \<and> (org \<noteq> [] \<longrightarrow> q ''org_id'' = SText org)) rs"

lemma matching_telemetry:
  "matching lt (sql_telemetry (org \<noteq> []) lm) (if org = [] then [SText i] else [SText i, SText org]) t
     = readable_readings i org (t ''telemetry'')"
  by (auto simp: matching_def sql_telemetry_def readable_readings_def sat_def intro!: filter_cong)

lemma Telemetry_scan_ok:
  assumes "Scan Telemetry_scan (map (project1 q) [PCol ''id'', PCol ''device_id'', PCol ''timestamp'',
     PCol ''metrics'', PCol ''metadata'']) zero_Telemetry = (x, None)"
  shows "scan_int (q ''id'') = Inr (Tel_ID x)" "scan_string (q ''device_id'') = Inr (Tel_DeviceID x)"
    "q ''timestamp'' = STime (Tel_Timestamp x)" "scan_doc (q ''metrics'') = Inr (Tel_Metrics x)"
  using assms
  by (auto simp: Telemetry_scan_def into_def zero_Telemetry_def split: sum.splits
      elim!: scan_time.elims)

lemma OrgID_query [simp]: "OrgID (r\<lparr>r_query := f\<rparr>) = OrgID r"
  by (simp add: OrgID_def)

lemma scan_skip_member:
  "x \<in> set (scan_skip fs z rows) \<Longrightarrow> \<exists>vs \<in> set rows. Scan fs vs z = (x, None)"
  by (auto simp: scan_skip_def split: prod.splits option.splits)

lemma scan_skip_length: "length (scan_skip fs z rows) \<le> length rows"
  by (induction rows) (auto simp: scan_skip_def split: prod.splits option.splits)

context deviceos_db
begin

lemma telemetry_rows:
  assumes "db_query E s (sql_telemetry (org \<noteq> []) lm)
      (if org = [] then [SText i] else [SText i, SText org]) = (s', Inr (rows, e))"
    and "limit_plain lm"
  shows "\<exists>ms. mset ms = mset (readable_readings i org (contents s ''telemetry''))
     \<and> ordered lt (Some (''timestamp'', True)) ms
     \<and> prefix rows (map (\<lambda>q. map (project1 q) [PCol ''id'', PCol ''device_id'', PCol ''timestamp'',
          PCol ''metrics'', PCol ''metadata'']) (cut lm ms))"
proof -
  have "limit_plain (limit_of (sql_telemetry (org \<noteq> []) lm))"
    using assms(2) by (simp add: sql_telemetry_def)
  from rows_prefix [OF assms(1) this] obtain full where
    "query_ok lt (sql_telemetry (org \<noteq> []) lm)
       (if org = [] then [SText i] else [SText i, SText org]) (contents s) full"
    and pre: "prefix rows full" .
  then have "\<exists>ms. mset ms = mset (readable_readings i org (contents s ''telemetry''))
      \<and> ordered lt (Some (''timestamp'', True)) ms
      \<and> full = map (\<lambda>q. map (project1 q) [PCol ''id'', PCol ''device_id'', PCol ''timestamp'',
          PCol ''metrics'', PCol ''metadata'']) (cut lm ms)"
    unfolding query_ok_def matching_telemetry by (simp add: sql_telemetry_def)
  with pre show ?thesis by (elim exE conjE) (intro exI conjI, assumption+, simp)
qed

end

text \<open>
  A telemetry query shows only readings of the named device and, for a caller with an
  organisation, only readings of that organisation; and, when the limit is a numeral, at
  most that many (100 without one). It changes nothing.
\<close>

theorem telemetry_query_scoped:
  assumes "deviceos_db (tel_db m) contents fk_on lt" and "fresh w"
    and "telemetry_handleQuery m s r w = (s', w')"
    and "r_query r ''limit'' = [] \<and> k = 100
       \<or> r_query r ''limit'' \<noteq> [] \<and> list_all is_digit (r_query r ''limit'')
         \<and> k = nat_of_digits (r_query r ''limit'')"
  shows "contents s' = contents s
    \<and> (status_of w' = Some 500 \<or> status_of w' = Some 200 \<and>
       (\<exists>ts. w_out w' = [Cjson (JObj [(''telemetry'', JArr (map Telemetry_json ts))])]
          \<and> length ts \<le> k
          \<and> (\<forall>x \<in> set ts. \<exists>q \<in> set (readable_readings (r_query r ''device_id'') (OrgID r)
                                (contents s ''telemetry'')).
                scan_int (q ''id'') = Inr (Tel_ID x)
                \<and> scan_string (q ''device_id'') = Inr (Tel_DeviceID x)
                \<and> q ''timestamp'' = STime (Tel_Timestamp x)
                \<and> scan_doc (q ''metrics'') = Inr (Tel_Metrics x))))"
proof -
  define L where "L = (if r_query r ''limit'' = [] then ''100'' else r_query r ''limit'')"
  have L: "limit_plain (LimitText L)" "nat_of_digits L = k"
    using assms(4) by (auto simp: L_def is_digit_def nat_of_digits_def digit_val_def)
  let ?i = "r_query r ''device_id''" and ?o = "OrgID r"
  let ?ps = "[PCol ''id'', PCol ''device_id'', PCol ''timestamp'', PCol ''metrics'', PCol ''metadata'']"
  obtain s1 x where q: "db_query (tel_db m) s (sql_telemetry (?o \<noteq> []) (LimitText L))
      (if ?o = [] then [SText ?i] else [SText ?i, SText ?o]) = (s1, x)" by fastforce
  have h: "(s', w') = (case x of Inl e \<Rightarrow> (s1, Internal ''query failed'' w)
      | Inr (rows, e) \<Rightarrow> (s1, writeJSON 200 (JObj [(''telemetry'',
             JArr (map Telemetry_json (scan_skip Telemetry_scan zero_Telemetry rows)))]) w))"
    using q assms(3) by (cases "?o = []") (auto simp: telemetry_handleQuery_def L_def Let_def)
  have "limit_plain (limit_of (sql_telemetry (?o \<noteq> []) (LimitText L)))"
    using L(1) by (simp add: sql_telemetry_def)
  then have frame: "contents s' = contents s"
    using sql_engine.query_frame [OF deviceos_db.axioms(1) [OF assms(1)] q] h
    by (auto split: sum.splits)
  show ?thesis
  proof (cases x)
    case (Inl e)
    with h frame assms(2) show ?thesis by (simp add: http_simps)
  next
    case (Inr re)
    obtain rows e where re: "re = (rows, e)" by (cases re)
    obtain ms where ms: "mset ms = mset (readable_readings ?i ?o (contents s ''telemetry''))"
      and pre: "prefix rows (map (\<lambda>q. map (project1 q) ?ps) (cut (LimitText L) ms))"
      using deviceos_db.telemetry_rows [OF assms(1) q [unfolded Inr re] L(1)] by blast
    let ?ts = "scan_skip Telemetry_scan zero_Telemetry rows"
    have "length rows \<le> k"
      using prefix_length_le [OF pre] L(2) by simp
    then have "length ?ts \<le> k"
      by (rule order_trans [OF scan_skip_length])
    moreover have "\<exists>q \<in> set (readable_readings ?i ?o (contents s ''telemetry'')).
          scan_int (q ''id'') = Inr (Tel_ID t) \<and> scan_string (q ''device_id'') = Inr (Tel_DeviceID t)
          \<and> q ''timestamp'' = STime (Tel_Timestamp t) \<and> scan_doc (q ''metrics'') = Inr (Tel_Metrics t)"
      if t: "t \<in> set ?ts" for t
    proof -
      obtain vs where vs: "vs \<in> set rows" "Scan Telemetry_scan vs zero_Telemetry = (t, None)"
        using scan_skip_member [OF t] by blast
      from vs(1) set_mono_prefix [OF pre] obtain q
        where q: "q \<in> set (cut (LimitText L) ms)" "vs = map (project1 q) ?ps" by auto
      have "q \<in> set (readable_readings ?i ?o (contents s ''telemetry''))"
        using subsetD [OF cut_set q(1)] mset_eq_setD [OF ms] by simp
      with Telemetry_scan_ok [OF vs(2) [unfolded q(2)]] show ?thesis by blast
    qed
    ultimately show ?thesis
      using h Inr re frame assms(2) by (auto simp: http_simps)
  qed
qed

definition demo_readings :: tables where
  "demo_readings = (\<lambda>n. [])(''telemetry'' :=
     [(\<lambda>c. SNull)(''id'' := SInt 1, ''device_id'' := SText ''dev_1'', ''org_id'' := SText ''acme'',
        ''timestamp'' := STime 5, ''metrics'' := SDoc (JObj []), ''metadata'' := SDoc (JObj []))])"

theorem telemetry_query_scoped_witness:
  "fst (telemetry_handleQuery demo_telemetry demo_readings (demo_request ''acme'' [] JNull) new_writer)
     = demo_readings
   \<and> w_out (snd (telemetry_handleQuery demo_telemetry demo_readings (demo_request ''acme'' [] JNull)
         new_writer)) = [Cjson (JObj [(''telemetry'', JArr [])])]"
proof -
  let ?r = "demo_request ''acme'' [] JNull"
  have "deviceos_db (tel_db demo_telemetry) (\<lambda>t. t) (\<lambda>t. False) ref_lt"
    using memdb.deviceos_db_axioms [of False] by (simp add: demo_telemetry_def)
  note q = telemetry_query_scoped [OF this fresh_new_writer surjective_pairing, of ?r 100 demo_readings]
  have "status_of (snd (telemetry_handleQuery demo_telemetry demo_readings ?r new_writer)) = Some 200"
    by (simp add: telemetry_handleQuery_def demo_telemetry_def memory_db_eval DB_same telemetry_sql
        demo_request_def Let_def OrgID_def http_simps)
  with q show ?thesis
    by (auto simp: demo_request_def readable_readings_def demo_readings_def)
qed

text \<open>
  The latest reading is a reading of the device the caller may see, and no such reading
  is newer.
\<close>

theorem latest_is_newest:
  assumes "deviceos_db (tel_db m) contents fk_on lt" and "fresh w"
    and "telemetry_handleLatest m s r w = (s', w')" and "status_of w' = Some 200"
  shows "\<exists>x q. w_out w' = [Cjson (Telemetry_json x)]
     \<and> q \<in> set (readable_readings (r_query r ''device_id'') (OrgID r) (contents s ''telemetry''))
     \<and> q ''timestamp'' = STime (Tel_Timestamp x) \<and> scan_doc (q ''metrics'') = Inr (Tel_Metrics x)
     \<and> (\<forall>p \<in> set (readable_readings (r_query r ''device_id'') (OrgID r) (contents s ''telemetry'')).
          p = q \<or> \<not> lt (q ''timestamp'') (p ''timestamp''))"
proof -
  let ?i = "r_query r ''device_id''" and ?o = "OrgID r"
  let ?ps = "[PCol ''id'', PCol ''device_id'', PCol ''timestamp'', PCol ''metrics'', PCol ''metadata'']"
  let ?q = "sql_telemetry (?o \<noteq> []) (Limit 1)"
  let ?a = "if ?o = [] then [SText ?i] else [SText ?i, SText ?o]"
  obtain s1 y where y: "db_query_row (tel_db m) s ?q ?a = (s1, y)" by fastforce
  obtain vs x where vs: "y = Inr vs" "Scan Telemetry_scan vs zero_Telemetry = (x, None)"
    and out: "w' = writeJSON 200 (Telemetry_json x) w"
    using y assms(2-4)
    by (cases "?o = []")
       (auto simp: telemetry_handleLatest_def Let_def http_simps
         split: sum.splits prod.splits option.splits)
  obtain rows e where "db_query (tel_db m) s ?q ?a = (s1, Inr (vs # rows, e))"
    using y vs(1) by (auto simp: db_query_row_def split: prod.splits sum.splits list.splits option.splits)
  from deviceos_db.telemetry_rows [OF assms(1) this] obtain ms
    where ms: "mset ms = mset (readable_readings ?i ?o (contents s ''telemetry''))"
      and ord: "ordered lt (Some (''timestamp'', True)) ms"
      and pre: "prefix (vs # rows) (map (\<lambda>q. map (project1 q) ?ps) (take 1 ms))" by auto
  then obtain q qs where q: "ms = q # qs" "vs = map (project1 q) ?ps"
    by (cases ms) auto
  have mem: "set (readable_readings ?i ?o (contents s ''telemetry'')) = set ms"
    using mset_eq_setD [OF ms] by simp
  have "p = q \<or> \<not> lt (q ''timestamp'') (p ''timestamp'')" if "p \<in> set ms" for p
    using that ord q(1) by (auto simp: ordered_def)
  moreover have "w_out w' = [Cjson (Telemetry_json x)]"
    using out assms(2) by (simp add: http_simps)
  ultimately show ?thesis
    using Telemetry_scan_ok [OF vs(2) [unfolded q(2)]] q(1) unfolding mem
    by (intro exI [of _ x] exI [of _ q]) simp
qed

theorem latest_is_newest_witness:
  "status_of (snd (telemetry_handleLatest demo_telemetry demo_readings
      ((demo_request ''acme'' [] JNull)\<lparr>r_query := (\<lambda>k. ''dev_1'')\<rparr>) new_writer)) = Some 200
   \<and> (\<exists>x. Tel_Timestamp x = 5 \<and> w_out (snd (telemetry_handleLatest demo_telemetry demo_readings
      ((demo_request ''acme'' [] JNull)\<lparr>r_query := (\<lambda>k. ''dev_1'')\<rparr>) new_writer))
        = [Cjson (Telemetry_json x)])"
proof -
  let ?r = "(demo_request ''acme'' [] JNull)\<lparr>r_query := (\<lambda>k. ''dev_1'')\<rparr>"
  have db: "deviceos_db (tel_db demo_telemetry) (\<lambda>t. t) (\<lambda>t. False) ref_lt"
    using memdb.deviceos_db_axioms [of False] by (simp add: demo_telemetry_def)
  have st: "status_of (snd (telemetry_handleLatest demo_telemetry demo_readings ?r new_writer)) = Some 200"
    by (simp add: telemetry_handleLatest_def demo_telemetry_def memory_db_eval DB_same telemetry_sql
        demo_request_def Let_def OrgID_def db_query_row_def demo_readings_def Telemetry_scan_def
        into_def http_simps)
  from latest_is_newest [OF db fresh_new_writer surjective_pairing st] st show ?thesis
    by (auto simp: demo_readings_def readable_readings_def)
qed

section \<open>The device after its first reading\<close>

text \<open>
  Ingestion is what makes a device readable: the row written by \<open>createDevice\<close> lacks
  only \<open>last_seen\<close>, which \<open>mark_online\<close> sets.
\<close>

lemma online_row_scans:
  assumes "q ''id'' = SText i" and "q ''name'' = SText a" and "q ''type'' = SText b"
    and "q ''metadata'' = SDoc j" and "q ''tags'' = SDoc k" and "q ''device_group'' = SText g"
    and "q ''org_id'' = SText org" and "q ''created_at'' = STime t1" and "q ''updated_at'' = STime t2"
  shows "\<exists>dev. Scan Device_scan (map (project1 (q(''status'' := SText ''online'', ''last_seen'' := STime ts)))
      device_columns) zero_Device = (dev, None) \<and> Dev_ID dev = i \<and> Dev_Status dev = ''online''
      \<and> Dev_LastSeen dev = (if ts = zero_time then None else Some ts)"
  using assms by (simp add: Device_scan_def device_columns_def into_def zero_Device_def Let_def)

context deviceos_readable
begin

lemma getDevice_online:
  assumes "filter (\<lambda>p. p ''id'' = SText i) (contents s ''devices'') = [q]"
    and "Scan Device_scan (map (project1 q) device_columns) zero_Device = (dev, None)"
  shows "\<exists>s'. getDevice E s i org = (s', Inr dev)"
proof -
  have "matching lt sql_get_device [SText i] (contents s) = [q]"
  proof -
    have "sat lt [SText i] [CEq ''id'' (Param 0)] = (\<lambda>p. p ''id'' = SText i)"
      by (rule ext) (auto simp: sat_def)
    with assms(1) show ?thesis by (simp add: matching_def sql_get_device_def)
  qed
  from query_row_single [OF _ this, of device_columns]
  obtain s' where "db_query_row E s sql_get_device [SText i] = (s', Inr (map (project1 q) device_columns))"
    by (auto simp: sql_get_device_def)
  with assms(2) show ?thesis by (simp add: getDevice_def)
qed

end

text \<open>
  A device that was registered (201) becomes readable, and reads as online with the
  time of the report, once a reading of it was stored and the device row updated, for
  callers of any organisation.
\<close>

theorem device_readable_after_report:
  assumes "deviceos_readable E contents fk_on lt" and "fresh w" and "fresh v"
    and "devices_handleRegister E b k now d r w = (d1, w1)" and "status_of w1 = Some 201"
    and "storeTelemetry E d1 (generateID ''dev'' b) ts mx md org = (d2, Inr n)"
    and "contents d2 ''devices'' \<noteq> contents d1 ''devices''"
    and "r_pathval g ''id'' = generateID ''dev'' b"
    and "devices_handleGet E d2 g v = (d3, v1)"
  shows "status_of v1 = Some 200 \<and> (\<exists>dev. w_out v1 = [Cjson (Device_json dev)]
     \<and> Dev_ID dev = generateID ''dev'' b \<and> Dev_Status dev = ''online''
     \<and> Dev_LastSeen dev = (if ts = zero_time then None else Some ts))"
proof -
  let ?i = "generateID ''dev'' b"
  note db = deviceos_db.intro [OF readable_engine.axioms(1) [OF deviceos_readable.axioms [OF assms(1)]]]
  obtain req dev0 secret where cr: "createDevice E b k now d req (OrgID r) = (d1, Inr (dev0, secret))"
    using assms(2,4,5)
    by (auto simp: devices_handleRegister_def http_simps split: option.splits prod.splits sum.splits)
  obtain q where q: "contents d1 = (contents d)(''devices'' := contents d ''devices'' @ [q])"
      "q ''id'' = SText ?i" "q ''org_id'' = SText (OrgID r)" "q ''name'' = SText (Req_Name req)"
      "q ''type'' = SText (Req_Type req)" "q ''metadata'' = metadata_arg (Req_Metadata req)"
      "q ''tags'' = tags_arg (Req_Tags req)" "q ''device_group'' = SText (Req_Group req)"
      "q ''created_at'' = STime now" "q ''updated_at'' = STime now"
    and new: "\<forall>p \<in> set (contents d ''devices''). p ''id'' \<noteq> SText ?i"
    using deviceos_db.createDevice_stored [OF db cr] by blast
  let ?q = "q(''status'' := SText ''online'', ''last_seen'' := STime ts)"
  from deviceos_db.storeTelemetry_effect [OF db assms(6)] assms(7)
  have "contents d2 ''devices'' = mark_online ?i ts (contents d1 ''devices'')" by auto
  then have "contents d2 ''devices'' = mark_online ?i ts (contents d ''devices'') @ [?q]"
    by (simp add: q(1,2) mark_online_def)
  moreover have "filter (\<lambda>p. p ''id'' = SText ?i) (mark_online ?i ts (contents d ''devices'')) = []"
    using new by (auto simp: mark_online_def filter_empty_conv)
  ultimately have only: "filter (\<lambda>p. p ''id'' = SText ?i) (contents d2 ''devices'') = [?q]"
    by (simp add: q(2))
  obtain j where j: "q ''metadata'' = SDoc j" using q(6) by (simp add: metadata_arg_def split: option.splits)
  obtain l where l: "q ''tags'' = SDoc l" using q(7) by (simp add: tags_arg_def split: if_splits)
  obtain dev where dev: "Scan Device_scan (map (project1 ?q) device_columns) zero_Device = (dev, None)"
      "Dev_ID dev = ?i" "Dev_Status dev = ''online''"
      "Dev_LastSeen dev = (if ts = zero_time then None else Some ts)"
    using online_row_scans [OF q(2) q(4) q(5) j l q(8) q(3) q(9) q(10)] by blast
  have "\<exists>d4. getDevice E d2 ?i (OrgID g) = (d4, Inr dev)"
  proof -
    note a = deviceos_readable.getDevice_online [OF assms(1)]
    note b = a [OF only]
    note c = b [OF dev(1)]
    show ?thesis by (rule c)
  qed
  then obtain d4 where "getDevice E d2 ?i (OrgID g) = (d4, Inr dev)" ..
  with assms(3,8,9) dev show ?thesis
    by (auto simp: devices_handleGet_def http_simps)
qed

lemma hex_demo: "hex_encode ''a'' = ''61''" "hex_encode ''b'' = ''62''"
  by code_simp+

definition demo_register :: "tables \<times> writer" where
  "demo_register = devices_handleRegister (memory_db False) ''a'' ''b'' 5 (\<lambda>n. [])
     (demo_request ''acme'' [] (JObj [(''name'', JStr ''pump'')])) new_writer"

lemma demo_register_row:
  "status_of (snd demo_register) = Some 201"
  "fst demo_register = (\<lambda>n. [])(''devices'' := [(default_row devices_schema)(''id'' := SText ''dev_61'',
     ''name'' := SText ''pump'', ''type'' := SText [], ''secret_key'' := SText ''62'',
     ''metadata'' := SDoc (JObj []), ''tags'' := SDoc (JArr []), ''device_group'' := SText [],
     ''org_id'' := SText ''acme'', ''status'' := SText ''offline'', ''created_at'' := STime 5,
     ''updated_at'' := STime 5)])"
  by (simp_all add: demo_register_def devices_handleRegister_def createDevice_def memory_db_eval
      DB_same Let_def devices_sql RegisterRequest_fields_def find_field_def
      zero_RegisterRequest_def generateID_def generateSecret_def metadata_arg_def tags_arg_def
      hex_demo http_simps del: hex_encode.simps)

theorem device_readable_after_report_witness:
  "status_of (snd (devices_handleGet (memory_db False)
      (fst (storeTelemetry (memory_db False) (fst demo_register) (generateID ''dev'' ''a'') 6 JNull JNull []))
      (demo_request ''acme'' (generateID ''dev'' ''a'') JNull) new_writer)) = Some 200"
proof -
  have i: "generateID ''dev'' ''a'' = ''dev_61''" by (simp add: generateID_def hex_demo del: hex_encode.simps)
  let ?st = "storeTelemetry (memory_db False) (fst demo_register) (generateID ''dev'' ''a'') 6 JNull JNull []"
  have n: "snd ?st = Inr 1"
    and q: "(fst ?st ''devices'' ! 0) ''last_seen'' = STime 6"
    unfolding i demo_register_row(2)
    by (simp_all add: storeTelemetry_def telemetry_sql memory_db_eval DB_same Let_def update_rows_def)
  from q have ch: "fst ?st ''devices'' \<noteq> fst demo_register ''devices''"
    by (auto simp: demo_register_row default_row_def devices_schema_def)
  from n have st: "?st = (fst ?st, Inr 1)" by (cases ?st) simp
  let ?g = "demo_request ''acme'' (generateID ''dev'' ''a'') JNull"
  have reg: "devices_handleRegister (memory_db False) ''a'' ''b'' 5 (\<lambda>n. [])
      (demo_request ''acme'' [] (JObj [(''name'', JStr ''pump'')])) new_writer
      = (fst demo_register, snd demo_register)"
    by (simp add: demo_register_def)
  note t = device_readable_after_report [OF memdb.deviceos_readable_axioms [of False]]
  note t = t [OF fresh_new_writer fresh_new_writer]
  note t = t [OF reg]
  note t = t [OF demo_register_row(1)]
  note t = t [OF st]
  note t = t [OF ch demo_request_sel(1)]
  from t [OF surjective_pairing] show ?thesis by simp
qed

end
