(* ===== verification/Alerts.thy ===== *)
theory Alerts
  imports Tenancy
begin

text \<open>
  \<open>modules/alerts\<close>: threshold rules, their evaluation on every reading, and the history.
\<close>

section \<open>Data\<close>

record Rule =
  Rule_ID :: string
  Rule_Name :: string
  Rule_Metric :: string
  Rule_Operator :: string
  Rule_Threshold :: rat
  Rule_Duration :: string
  Rule_Channel :: string
  Rule_ChannelTarget :: string
  Rule_Enabled :: bool
  Rule_CreatedAt :: int

definition zero_Rule :: Rule where
  "zero_Rule =
     \<lparr>Rule_ID = [], Rule_Name = [], Rule_Metric = [], Rule_Operator = [], Rule_Threshold = 0,
      Rule_Duration = [], Rule_Channel = [], Rule_ChannelTarget = [], Rule_Enabled = False,
      Rule_CreatedAt = zero_time\<rparr>"

definition Rule_fields :: "(string \<Rightarrow> int option) \<Rightarrow> Rule fields" where
  "Rule_fields pt =
     [(''id'', set_string Rule_ID_update), (''name'', set_string Rule_Name_update),
      (''metric'', set_string Rule_Metric_update), (''operator'', set_string Rule_Operator_update),
      (''threshold'', set_float Rule_Threshold_update),
      (''duration'', set_string Rule_Duration_update), (''channel'', set_string Rule_Channel_update),
      (''channel_target'', set_string Rule_ChannelTarget_update),
      (''enabled'', set_bool Rule_Enabled_update), (''created_at'', set_time pt Rule_CreatedAt_update)]"

definition Rule_json :: "Rule \<Rightarrow> json" where
  "Rule_json r =
     JObj ([(''id'', JStr (Rule_ID r)), (''name'', JStr (Rule_Name r)),
            (''metric'', JStr (Rule_Metric r)), (''operator'', JStr (Rule_Operator r)),
            (''threshold'', jfloat (Rule_Threshold r))]
       @ omit_str ''duration'' (Rule_Duration r)
       @ [(''channel'', JStr (Rule_Channel r)), (''channel_target'', JStr (Rule_ChannelTarget r)),
          (''enabled'', JBool (Rule_Enabled r)), (''created_at'', JTime (Rule_CreatedAt r))])"

record AlertEvent =
  Alert_ID :: string
  Alert_RuleID :: string
  Alert_RuleName :: string
  Alert_DeviceID :: string
  Alert_Metric :: string
  Alert_Value :: rat
  Alert_Message :: string
  Alert_Severity :: string
  Alert_CreatedAt :: int

definition zero_AlertEvent :: AlertEvent where
  "zero_AlertEvent =
     \<lparr>Alert_ID = [], Alert_RuleID = [], Alert_RuleName = [], Alert_DeviceID = [], Alert_Metric = [],
      Alert_Value = 0, Alert_Message = [], Alert_Severity = [], Alert_CreatedAt = zero_time\<rparr>"

definition AlertEvent_json :: "AlertEvent \<Rightarrow> json" where
  "AlertEvent_json e =
     JObj [(''id'', JStr (Alert_ID e)), (''rule_id'', JStr (Alert_RuleID e)),
           (''rule_name'', JStr (Alert_RuleName e)), (''device_id'', JStr (Alert_DeviceID e)),
           (''metric'', JStr (Alert_Metric e)), (''value'', jfloat (Alert_Value e)),
           (''message'', JStr (Alert_Message e)), (''severity'', JStr (Alert_Severity e)),
           (''created_at'', JTime (Alert_CreatedAt e))]"

section \<open>Evaluation\<close>

definition deriveSeverity :: "string \<Rightarrow> string" where
  "deriveSeverity op =
     (if op = ''>'' \<or> op = ''>='' then ''critical''
      else if op = ''<'' \<or> op = ''<='' then ''warning'' else ''info'')"

definition rule_matches :: "Rule \<Rightarrow> rat \<Rightarrow> bool" where
  "rule_matches r val =
     (if Rule_Operator r = ''>'' then val > Rule_Threshold r
      else if Rule_Operator r = ''<'' then val < Rule_Threshold r
      else if Rule_Operator r = ''>='' then val \<ge> Rule_Threshold r
      else if Rule_Operator r = ''<='' then val \<le> Rule_Threshold r
      else if Rule_Operator r = ''=='' then val = Rule_Threshold r
      else False)"

definition rule_columns :: "proj list" where
  "rule_columns =
     [PCol ''id'', PCol ''name'', PCol ''metric'', PCol ''operator'', PCol ''threshold'',
      PCol ''duration'', PCol ''channel'', PCol ''channel_target'', PCol ''enabled'', PCol ''created_at'']"

definition Rule_scan :: "Rule scanner list" where
  "Rule_scan =
     [into scan_string Rule_ID_update, into scan_string Rule_Name_update,
      into scan_string Rule_Metric_update, into scan_string Rule_Operator_update,
      into scan_float Rule_Threshold_update, into scan_string Rule_Duration_update,
      into scan_string Rule_Channel_update, into scan_string Rule_ChannelTarget_update,
      into scan_bool Rule_Enabled_update, into scan_time Rule_CreatedAt_update]"

definition sql_enabled_rules :: query where
  "sql_enabled_rules =
     \<lparr>sel = Fields rule_columns, from_src = Tab ''alert_rules'',
      conds = [CEq ''enabled'' (Lit (SInt 1))], order_by = None, limit_of = NoLimit\<rparr>"

lemma sql_enabled_rules_plain [simp, intro!]: "limit_plain (limit_of sql_enabled_rules)"
  by (simp add: sql_enabled_rules_def)

definition loadEnabledRules :: "'s engine \<Rightarrow> 's \<Rightarrow> 's \<times> Rule list result" where
  "loadEnabledRules E s =
     (case db_query E s sql_enabled_rules [] of
        (s', Inl e) \<Rightarrow> (s', Inl e)
      | (s', Inr (rows, err)) \<Rightarrow>
          (s', case err of Some e \<Rightarrow> Inl e | None \<Rightarrow> Inr (scan_lax Rule_scan zero_Rule rows)))"

definition sql_insert_alert :: stmt where
  "sql_insert_alert =
     Insert ''alert_events'' [(''id'', Param 0), (''rule_id'', Param 1), (''rule_name'', Param 2),
       (''device_id'', Param 3), (''metric'', Param 4), (''value'', Param 5), (''message'', Param 6),
       (''severity'', Param 7), (''created_at'', Param 8)] Abort"

text \<open>
  \<open>fmtv\<close> prints a \<open>float64\<close> with \<open>%v\<close>; \<open>clk k\<close> are the two readings of the clock in
  the \<open>k\<close>-th iteration of the loop.
\<close>

definition alert_event ::
    "(rat \<Rightarrow> string) \<Rightarrow> int \<times> int \<Rightarrow> string \<Rightarrow> Rule \<Rightarrow> rat \<Rightarrow> AlertEvent" where
  "alert_event fmtv t deviceID rule val =
     \<lparr>Alert_ID = ''alert_'' @ itoa (fst t), Alert_RuleID = Rule_ID rule,
      Alert_RuleName = Rule_Name rule, Alert_DeviceID = deviceID, Alert_Metric = Rule_Metric rule,
      Alert_Value = val,
      Alert_Message = Rule_Metric rule @ '' = '' @ fmtv val @ '' '' @ Rule_Operator rule @ '' ''
        @ fmtv (Rule_Threshold rule),
      Alert_Severity = deriveSeverity (Rule_Operator rule), Alert_CreatedAt = snd t\<rparr>"

fun Evaluate_loop ::
    "'s engine \<Rightarrow> (rat \<Rightarrow> string) \<Rightarrow> (nat \<Rightarrow> int \<times> int) \<Rightarrow> string \<Rightarrow> (string \<rightharpoonup> rat) \<Rightarrow> nat \<Rightarrow>
     Rule list \<Rightarrow> 's \<Rightarrow> 's \<times> AlertEvent list" where
  "Evaluate_loop E fmtv clk deviceID metrics k [] s = (s, [])"
| "Evaluate_loop E fmtv clk deviceID metrics k (rule # rules) s =
     (case metrics (Rule_Metric rule) of
        None \<Rightarrow> Evaluate_loop E fmtv clk deviceID metrics (Suc k) rules s
      | Some val \<Rightarrow>
          if \<not> rule_matches rule val then Evaluate_loop E fmtv clk deviceID metrics (Suc k) rules s
          else
            (let evt = alert_event fmtv (clk k) deviceID rule val;
                 s' = fst (db_exec E s sql_insert_alert
                        [SText (Alert_ID evt), SText (Alert_RuleID evt), SText (Alert_RuleName evt),
                         SText (Alert_DeviceID evt), SText (Alert_Metric evt), SReal (Alert_Value evt),
                         SText (Alert_Message evt), SText (Alert_Severity evt),
                         STime (Alert_CreatedAt evt)]);
                 (s'', fired) = Evaluate_loop E fmtv clk deviceID metrics (Suc k) rules s'
             in (s'', evt # fired)))"

definition Evaluate ::
    "'s engine \<Rightarrow> (rat \<Rightarrow> string) \<Rightarrow> (nat \<Rightarrow> int \<times> int) \<Rightarrow> 's \<Rightarrow> string \<Rightarrow> (string \<rightharpoonup> rat) \<Rightarrow>
     's \<times> AlertEvent list" where
  "Evaluate E fmtv clk s deviceID metrics =
     (case loadEnabledRules E s of
        (s', Inl e) \<Rightarrow> (s', [])
      | (s', Inr rules) \<Rightarrow> Evaluate_loop E fmtv clk deviceID metrics 0 rules s')"

text \<open>The telemetry hook; metrics that are no object of numbers are ignored.\<close>

definition OnTelemetry ::
    "'s engine \<Rightarrow> (rat \<Rightarrow> string) \<Rightarrow> (nat \<Rightarrow> int \<times> int) \<Rightarrow> string \<Rightarrow> json option \<Rightarrow> json option \<Rightarrow>
     's \<Rightarrow> 's" where
  "OnTelemetry E fmtv clk deviceID metrics metadata s =
     (case Option.bind metrics unmarshal_float_map of
        None \<Rightarrow> s
      | Some parsed \<Rightarrow> fst (Evaluate E fmtv clk s deviceID parsed))"

section \<open>Handlers\<close>

definition sql_insert_rule :: stmt where
  "sql_insert_rule =
     Insert ''alert_rules'' [(''id'', Param 0), (''name'', Param 1), (''metric'', Param 2),
       (''operator'', Param 3), (''threshold'', Param 4), (''duration'', Param 5),
       (''channel'', Param 6), (''channel_target'', Param 7), (''enabled'', Param 8),
       (''created_at'', Param 9), (''org_id'', Param 10)] Abort"

definition alerts_handleCreateRule ::
    "(string \<Rightarrow> int option) \<Rightarrow> 's engine \<Rightarrow> int \<Rightarrow> int \<Rightarrow> 's handler" where
  "alerts_handleCreateRule pt E t1 t2 s r w =
     (case decode_body (Rule_fields pt) (r_body r) (zero_Rule\<lparr>Rule_Enabled := True\<rparr>) of
        None \<Rightarrow> (s, BadRequest ''invalid request body'' w)
      | Some rule0 \<Rightarrow>
          if Rule_Name rule0 = [] \<or> Rule_Metric rule0 = [] \<or> Rule_Operator rule0 = []
          then (s, BadRequest ''name, metric, and operator are required'' w)
          else if Rule_Operator rule0 \<noteq> ''>'' \<and> Rule_Operator rule0 \<noteq> ''<''
                  \<and> Rule_Operator rule0 \<noteq> ''>='' \<and> Rule_Operator rule0 \<noteq> ''<=''
                  \<and> Rule_Operator rule0 \<noteq> ''==''
          then (s, BadRequest ''operator must be one of: >, <, >=, <=, =='' w)
          else
            (let rule1 = (if Rule_Channel rule0 = [] then rule0\<lparr>Rule_Channel := ''log''\<rparr> else rule0);
                 rule = rule1\<lparr>Rule_ID := ''rule_'' @ itoa t1, Rule_CreatedAt := t2\<rparr>
             in case db_exec E s sql_insert_rule
                       [SText (Rule_ID rule), SText (Rule_Name rule), SText (Rule_Metric rule),
                        SText (Rule_Operator rule), SReal (Rule_Threshold rule),
                        SText (Rule_Duration rule), SText (Rule_Channel rule),
                        SText (Rule_ChannelTarget rule), sql_bool (Rule_Enabled rule),
                        STime (Rule_CreatedAt rule), SText (OrgID r)] of
                  (s', Inl e) \<Rightarrow> (s', Internal ''failed to create rule'' w)
                | (s', Inr res) \<Rightarrow> (s', writeJSON 201 (Rule_json rule) w)))"

definition sql_list_rules :: "bool \<Rightarrow> query" where
  "sql_list_rules scoped =
     \<lparr>sel = Fields rule_columns, from_src = Tab ''alert_rules'',
      conds = (if scoped then [CEq ''org_id'' (Param 0)] else []),
      order_by = Some (''created_at'', True), limit_of = NoLimit\<rparr>"

lemma sql_list_rules_plain [simp, intro!]: "limit_plain (limit_of (sql_list_rules b))"
  by (simp add: sql_list_rules_def)

definition alerts_handleListRules :: "'s engine \<Rightarrow> 's handler" where
  "alerts_handleListRules E s r w =
     (let oid = OrgID r
      in case db_query E s (sql_list_rules (oid \<noteq> [])) (if oid \<noteq> [] then [SText oid] else []) of
           (s', Inl e) \<Rightarrow> (s', Internal ''query failed'' w)
         | (s', Inr (rows, e)) \<Rightarrow>
             (s', writeJSON 200
                (JObj [(''rules'', JArr (map Rule_json (scan_lax Rule_scan zero_Rule rows)))]) w))"

definition sql_update_rule :: "bool \<Rightarrow> stmt" where
  "sql_update_rule scoped =
     Update ''alert_rules'' [(''name'', Param 0), (''metric'', Param 1), (''operator'', Param 2),
       (''threshold'', Param 3), (''duration'', Param 4), (''channel'', Param 5),
       (''channel_target'', Param 6), (''enabled'', Param 7)]
       (CEq ''id'' (Param 8) # (if scoped then [CEq ''org_id'' (Param 9)] else []))"

definition alerts_handleUpdateRule ::
    "(string \<Rightarrow> int option) \<Rightarrow> 's engine \<Rightarrow> 's handler" where
  "alerts_handleUpdateRule pt E s r w =
     (case decode_body (Rule_fields pt) (r_body r) zero_Rule of
        None \<Rightarrow> (s, BadRequest ''invalid request'' w)
      | Some rule \<Rightarrow>
          (let i = r_pathval r ''id''; oid = OrgID r
           in case db_exec E s (sql_update_rule (oid \<noteq> []))
                     ([SText (Rule_Name rule), SText (Rule_Metric rule), SText (Rule_Operator rule),
                       SReal (Rule_Threshold rule), SText (Rule_Duration rule),
                       SText (Rule_Channel rule), SText (Rule_ChannelTarget rule),
                       sql_bool (Rule_Enabled rule)]
                      @ (if oid \<noteq> [] then [SText i, SText oid] else [SText i])) of
                (s', Inl e) \<Rightarrow> (s', Internal ''update failed'' w)
              | (s', Inr res) \<Rightarrow>
                  if RowsAffected res = 0 then (s', NotFound ''rule not found'' w)
                  else (s', writeJSON 200 (Rule_json (rule\<lparr>Rule_ID := i\<rparr>)) w)))"

definition sql_delete_rule :: "bool \<Rightarrow> stmt" where
  "sql_delete_rule scoped =
     Delete ''alert_rules''
       (CEq ''id'' (Param 0) # (if scoped then [CEq ''org_id'' (Param 1)] else []))"

definition alerts_handleDeleteRule :: "'s engine \<Rightarrow> 's handler" where
  "alerts_handleDeleteRule E s r w =
     (let i = r_pathval r ''id''; oid = OrgID r
      in case db_exec E s (sql_delete_rule (oid \<noteq> []))
                (if oid \<noteq> [] then [SText i, SText oid] else [SText i]) of
           (s', Inl e) \<Rightarrow> (s', Internal ''delete failed'' w)
         | (s', Inr res) \<Rightarrow>
             if RowsAffected res = 0 then (s', NotFound ''rule not found'' w)
             else (s', write_header 204 w))"

definition sql_history :: "bool \<Rightarrow> query" where
  "sql_history scoped =
     \<lparr>sel = Fields [PCol ''id'', PCol ''rule_id'', PCol ''rule_name'', PCol ''device_id'', PCol ''metric'',
        PCol ''value'', PCol ''message'', PCol ''severity'', PCol ''created_at''],
      from_src = Tab ''alert_events'',
      conds = (if scoped then [CEq ''org_id'' (Param 0)] else []),
      order_by = Some (''created_at'', True), limit_of = Limit 100\<rparr>"

lemma sql_history_plain [simp, intro!]: "limit_plain (limit_of (sql_history b))"
  by (simp add: sql_history_def)

definition AlertEvent_scan :: "AlertEvent scanner list" where
  "AlertEvent_scan =
     [into scan_string Alert_ID_update, into scan_string Alert_RuleID_update,
      into scan_string Alert_RuleName_update, into scan_string Alert_DeviceID_update,
      into scan_string Alert_Metric_update, into scan_float Alert_Value_update,
      into scan_string Alert_Message_update, into scan_string Alert_Severity_update,
      into scan_time Alert_CreatedAt_update]"

definition alerts_handleHistory :: "'s engine \<Rightarrow> 's handler" where
  "alerts_handleHistory E s r w =
     (let oid = OrgID r
      in case db_query E s (sql_history (oid \<noteq> [])) (if oid \<noteq> [] then [SText oid] else []) of
           (s', Inl e) \<Rightarrow> (s', Internal ''query failed'' w)
         | (s', Inr (rows, e)) \<Rightarrow>
             (s', writeJSON 200
                (JObj [(''events'',
                   JArr (map AlertEvent_json (scan_lax AlertEvent_scan zero_AlertEvent rows)))]) w))"

datatype alerts_route = CreateRule | ListRules | UpdateRule | DeleteRule | AlertHistory

definition alerts_routes :: "(string \<times> alerts_route) list" where
  "alerts_routes =
     [(''POST /api/v1/alerts/rules'', CreateRule), (''GET /api/v1/alerts/rules'', ListRules),
      (''PUT /api/v1/alerts/rules/{id}'', UpdateRule), (''DELETE /api/v1/alerts/rules/{id}'', DeleteRule),
      (''GET /api/v1/alerts/history'', AlertHistory)]"

fun alerts_handle ::
    "(string \<Rightarrow> int option) \<Rightarrow> 's engine \<Rightarrow> alerts_route \<times> int \<times> int \<Rightarrow> 's handler" where
  "alerts_handle pt E (CreateRule, t1, t2) = alerts_handleCreateRule pt E t1 t2"
| "alerts_handle pt E (ListRules, _) = alerts_handleListRules E"
| "alerts_handle pt E (UpdateRule, _) = alerts_handleUpdateRule pt E"
| "alerts_handle pt E (DeleteRule, _) = alerts_handleDeleteRule E"
| "alerts_handle pt E (AlertHistory, _) = alerts_handleHistory E"

lemmas alerts_handlers =
  alerts_handleCreateRule_def alerts_handleListRules_def alerts_handleUpdateRule_def
  alerts_handleDeleteRule_def alerts_handleHistory_def

lemmas alerts_sql =
  sql_insert_alert_def sql_insert_rule_def sql_update_rule_def sql_delete_rule_def

section \<open>What fires\<close>

definition rule_fires :: "(string \<rightharpoonup> rat) \<Rightarrow> Rule \<Rightarrow> bool" where
  "rule_fires metrics rule =
     (case metrics (Rule_Metric rule) of None \<Rightarrow> False | Some val \<Rightarrow> rule_matches rule val)"

lemma Evaluate_loop_fired:
  "snd (Evaluate_loop E fmtv clk dev metrics k rules s) =
     map (\<lambda>(j, rule). alert_event fmtv (clk j) dev rule (the (metrics (Rule_Metric rule))))
       (filter (\<lambda>(j, rule). rule_fires metrics rule) (zip [k..<k + length rules] rules))"
proof (induction rules arbitrary: k s)
  case Nil
  then show ?case by simp
next
  case (Cons rule rules)
  have z: "zip [k..<k + length (rule # rules)] (rule # rules)
      = (k, rule) # zip [Suc k..<Suc k + length rules] rules"
    by (simp add: upt_conv_Cons del: upt_Suc)
  show ?case
  proof (cases "rule_fires metrics rule")
    case False
    then have "Evaluate_loop E fmtv clk dev metrics k (rule # rules) s
        = Evaluate_loop E fmtv clk dev metrics (Suc k) rules s"
      by (auto simp: rule_fires_def split: option.splits)
    with False show ?thesis unfolding z by (simp only: Cons.IH) simp
  next
    case True
    then obtain val where v: "metrics (Rule_Metric rule) = Some val" "rule_matches rule val"
      by (auto simp: rule_fires_def split: option.splits)
    then have "snd (Evaluate_loop E fmtv clk dev metrics k (rule # rules) s)
        = alert_event fmtv (clk k) dev rule val # snd (Evaluate_loop E fmtv clk dev metrics (Suc k) rules
            (fst (db_exec E s sql_insert_alert
               (let evt = alert_event fmtv (clk k) dev rule val in
                  [SText (Alert_ID evt), SText (Alert_RuleID evt), SText (Alert_RuleName evt),
                   SText (Alert_DeviceID evt), SText (Alert_Metric evt), SReal (Alert_Value evt),
                   SText (Alert_Message evt), SText (Alert_Severity evt), STime (Alert_CreatedAt evt)]))))"
      by (simp add: Let_def case_prod_unfold)
    with True v(1) show ?thesis unfolding z by (simp only: Cons.IH) simp
  qed
qed

lemma fired_rules:
  "map Alert_RuleID (snd (Evaluate_loop E fmtv clk dev metrics k rules s))
     = map Rule_ID (filter (rule_fires metrics) rules)"
proof -
  have "map Rule_ID (map snd (filter (\<lambda>(j, rule). rule_fires metrics rule) (zip js rules)))
      = map Rule_ID (filter (rule_fires metrics) rules)" if "length js = length rules" for js :: "nat list"
    using that by (induction js rules rule: list_induct2) auto
  from this [of "[k..<k + length rules]"] show ?thesis
    by (simp add: Evaluate_loop_fired o_def case_prod_unfold alert_event_def)
qed

lemma fired_event:
  "e \<in> set (snd (Evaluate_loop E fmtv clk dev metrics k rules s)) \<Longrightarrow>
   \<exists>rule val. rule \<in> set rules \<and> metrics (Rule_Metric rule) = Some val \<and> rule_matches rule val
     \<and> Alert_RuleID e = Rule_ID rule \<and> Alert_DeviceID e = dev \<and> Alert_Value e = val
     \<and> Alert_Severity e = deriveSeverity (Rule_Operator rule)"
  by (auto simp: Evaluate_loop_fired alert_event_def rule_fires_def split: option.splits
      dest!: set_zip_rightD)

text \<open>
  C10: a reading fires exactly the rules that are enabled, whose metric the reading has and
  whose comparison holds, one event per rule with that value and the severity of the
  operator, whatever organisation the rule and the device belong to; when the rules
  cannot be read nothing fires.
\<close>

theorem evaluate_exact:
  assumes "deviceos_db E contents fk_on lt"
    and "Evaluate E fmtv clk s dev metrics = (s', fired)"
  shows "fired = [] \<and> (\<exists>s1 e. loadEnabledRules E s = (s1, Inl e))
     \<or> (\<exists>rows. mset rows = mset (filter (\<lambda>q. q ''enabled'' = SInt 1) (contents s ''alert_rules''))
        \<and> (let rules = map (\<lambda>q. fst (Scan Rule_scan (map (project1 q) rule_columns) zero_Rule)) rows
           in map Alert_RuleID fired = map Rule_ID (filter (rule_fires metrics) rules)
            \<and> (\<forall>e \<in> set fired. \<exists>rule val. rule \<in> set rules
                 \<and> metrics (Rule_Metric rule) = Some val \<and> rule_matches rule val
                 \<and> Alert_RuleID e = Rule_ID rule \<and> Alert_DeviceID e = dev \<and> Alert_Value e = val
                 \<and> Alert_Severity e = deriveSeverity (Rule_Operator rule))))"
proof -
  obtain s1 x where l: "loadEnabledRules E s = (s1, x)" by fastforce
  show ?thesis
  proof (cases x)
    case (Inl e)
    with l assms(2) show ?thesis by (auto simp: Evaluate_def)
  next
    case (Inr rules)
    with l obtain out where q: "db_query E s sql_enabled_rules [] = (s1, Inr (out, None))"
      and rules: "rules = scan_lax Rule_scan zero_Rule out"
      by (auto simp: loadEnabledRules_def split: prod.splits sum.splits option.splits)
    have "query_ok lt sql_enabled_rules [] (contents s) out"
      by (rule sql_engine.query_rows [OF deviceos_db.axioms(1) [OF assms(1)] q])
         (simp add: sql_enabled_rules_def)
    then obtain rows where rows: "mset rows = mset (matching lt sql_enabled_rules [] (contents s))"
      and out: "out = map (\<lambda>q. map (project1 q) rule_columns) rows"
      by (auto simp: query_ok_def sql_enabled_rules_def)
    have "matching lt sql_enabled_rules [] (contents s)
        = filter (\<lambda>q. q ''enabled'' = SInt 1) (contents s ''alert_rules'')"
      by (auto simp: matching_def sql_enabled_rules_def sat_def intro!: filter_cong)
    with rows have m: "mset rows = mset (filter (\<lambda>q. q ''enabled'' = SInt 1) (contents s ''alert_rules''))"
      by simp
    have f: "fired = snd (Evaluate_loop E fmtv clk dev metrics 0 rules s1)"
      using l Inr assms(2) by (simp add: Evaluate_def)
    have r: "rules = map (\<lambda>q. fst (Scan Rule_scan (map (project1 q) rule_columns) zero_Rule)) rows"
      by (simp add: rules out scan_lax_def)
    show ?thesis
      using m fired_rules [of E fmtv clk dev metrics 0 rules s1] fired_event [of _ E fmtv clk dev metrics 0 rules s1]
      unfolding Let_def f r by (intro disjI2 exI [of _ rows]) blast
  qed
qed

definition demo_rule_row :: row where
  "demo_rule_row = (\<lambda>c. SNull)(''id'' := SText ''rule_1'', ''name'' := SText ''hot'',
     ''metric'' := SText ''t'', ''operator'' := SText ''>'', ''threshold'' := SReal 30,
     ''duration'' := SText [], ''channel'' := SText ''log'', ''channel_target'' := SText [],
     ''enabled'' := SInt 1, ''created_at'' := STime 1, ''org_id'' := SText ''acme'')"

theorem evaluate_exact_witness:
  "map Alert_RuleID (snd (Evaluate (memory_db False) (\<lambda>q. []) (\<lambda>k. (7, 7))
      ((\<lambda>n. [])(''alert_rules'' := [demo_rule_row])) ''dev_1'' [''t'' \<mapsto> 31])) = [''rule_1'']"
proof -
  let ?d = "(\<lambda>n. [])(''alert_rules'' := [demo_rule_row])"
  have "loadEnabledRules (memory_db False) ?d = (?d, Inr [\<lparr>Rule_ID = ''rule_1'', Rule_Name = ''hot'',
     Rule_Metric = ''t'', Rule_Operator = ''>'', Rule_Threshold = 30, Rule_Duration = [],
     Rule_Channel = ''log'', Rule_ChannelTarget = [], Rule_Enabled = True, Rule_CreatedAt = 1\<rparr>])"
    by (simp add: loadEnabledRules_def memory_db_eval DB_same sql_enabled_rules_def scan_lax_def
        Rule_scan_def rule_columns_def into_def demo_rule_row_def zero_Rule_def)
  with evaluate_exact [OF memdb.deviceos_db_axioms [of False] surjective_pairing,
      of "\<lambda>q. []" "\<lambda>k. (7, 7)" ?d "''dev_1''" "[''t'' \<mapsto> 31]"]
  show ?thesis
    by (auto simp: demo_rule_row_def Rule_scan_def rule_columns_def into_def Let_def rule_fires_def
        rule_matches_def zero_Rule_def)
qed

section \<open>The history\<close>

text \<open>Events are inserted without an organisation.\<close>

definition unowned :: "row list \<Rightarrow> bool" where
  "unowned rs \<longleftrightarrow> (\<forall>q \<in> set rs. q ''org_id'' = SText [])"

context deviceos_db
begin

lemma insert_alert_effect:
  assumes "db_exec E s sql_insert_alert args = (s', r)"
  shows "(unowned (contents s ''alert_events'') \<longrightarrow> unowned (contents s' ''alert_events''))
     \<and> (\<forall>n. n \<noteq> ''alert_events'' \<longrightarrow> contents s' n = contents s n)"
proof (cases r)
  case (Inl e)
  with assms show ?thesis by (auto dest: exec_err)
next
  case (Inr res)
  note sem = exec_ok [OF assms [unfolded Inr sql_insert_alert_def]]
  from sem_insert_abort(1) [OF sem deviceos_schema(4)]
  show ?thesis
    by (auto simp: unowned_def insert_row_def default_row_def alert_events_schema_def)
qed

lemma Evaluate_loop_effect:
  "(unowned (contents s ''alert_events'') \<longrightarrow>
      unowned (contents (fst (Evaluate_loop E fmtv clk dev metrics k rules s)) ''alert_events''))
   \<and> (\<forall>n. n \<noteq> ''alert_events'' \<longrightarrow>
        contents (fst (Evaluate_loop E fmtv clk dev metrics k rules s)) n = contents s n)"
proof (induction rules arbitrary: k s)
  case Nil
  then show ?case by simp
next
  case (Cons rule rules)
  have step: "(unowned (contents s ''alert_events'') \<longrightarrow>
        unowned (contents (fst (db_exec E s sql_insert_alert args)) ''alert_events''))
     \<and> (\<forall>n. n \<noteq> ''alert_events'' \<longrightarrow> contents (fst (db_exec E s sql_insert_alert args)) n = contents s n)"
    for args
    by (rule insert_alert_effect) (rule surjective_pairing)
  show ?case
  proof (cases "rule_fires metrics rule")
    case False
    then have "Evaluate_loop E fmtv clk dev metrics k (rule # rules) s
        = Evaluate_loop E fmtv clk dev metrics (Suc k) rules s"
      by (auto simp: rule_fires_def split: option.splits)
    with Cons.IH [of s "Suc k"] show ?thesis by simp
  next
    case True
    then obtain args where "fst (Evaluate_loop E fmtv clk dev metrics k (rule # rules) s)
        = fst (Evaluate_loop E fmtv clk dev metrics (Suc k) rules (fst (db_exec E s sql_insert_alert args)))"
      by (auto simp: Let_def case_prod_unfold rule_fires_def split: option.splits)
    with step [of args] Cons.IH [of "fst (db_exec E s sql_insert_alert args)" "Suc k"]
    show ?thesis by simp
  qed
qed

lemma OnTelemetry_effect:
  "(unowned (contents s ''alert_events'') \<longrightarrow>
      unowned (contents (OnTelemetry E fmtv clk dev metrics md s) ''alert_events''))
   \<and> (\<forall>n. n \<noteq> ''alert_events'' \<longrightarrow> contents (OnTelemetry E fmtv clk dev metrics md s) n = contents s n)"
proof (cases "Option.bind metrics unmarshal_float_map")
  case None
  then show ?thesis by (simp add: OnTelemetry_def)
next
  case (Some parsed)
  obtain s1 x where l: "loadEnabledRules E s = (s1, x)" by fastforce
  then have c: "contents s1 = contents s"
    by (auto simp: loadEnabledRules_def dest: query_frame split: prod.splits sum.splits)
  show ?thesis
    using Evaluate_loop_effect [of s1 fmtv clk dev parsed 0 "projr x"]
    by (cases x) (simp_all add: OnTelemetry_def Evaluate_def Some l c)
qed

lemma alerts_handle_frame:
  assumes "alerts_handle pt E x s r w = (s', w')" and "n \<noteq> ''alert_rules''"
  shows "contents s' n = contents s n"
proof -
  have ex: "contents s1 n = contents s n" if "db_exec E s st args = (s1, res)"
      "st = sql_insert_rule \<or> st = sql_update_rule b \<or> st = sql_delete_rule b" for st args s1 res b
    using that(2) assms(2) by (intro exec_frame [OF that(1)]) (auto simp: alerts_sql)
  show ?thesis
    using assms(1)
    by (cases "(pt, E, x)" rule: alerts_handle.cases)
       (auto simp: alerts_handlers Let_def split: prod.splits sum.splits option.splits if_splits
         dest: ex query_frame)
qed

end

text \<open>The module at work: readings that arrive and requests that are served.\<close>

datatype alerts_op =
    Reading string "json option" "json option" "nat \<Rightarrow> int \<times> int"
  | ServeAlerts "alerts_route \<times> int \<times> int" request

fun alerts_run ::
    "(string \<Rightarrow> int option) \<Rightarrow> 's engine \<Rightarrow> (rat \<Rightarrow> string) \<Rightarrow> alerts_op list \<Rightarrow> 's \<Rightarrow> 's" where
  "alerts_run pt E fmtv [] s = s"
| "alerts_run pt E fmtv (Reading dev mx md clk # ops) s =
     alerts_run pt E fmtv ops (OnTelemetry E fmtv clk dev mx md s)"
| "alerts_run pt E fmtv (ServeAlerts x r # ops) s =
     alerts_run pt E fmtv ops (fst (alerts_handle pt E x s r new_writer))"

context deviceos_db
begin

lemma alerts_run_unowned:
  "unowned (contents s ''alert_events'') \<Longrightarrow>
   unowned (contents (alerts_run pt E fmtv ops s) ''alert_events'')"
proof (induction ops arbitrary: s)
  case Nil
  then show ?case by simp
next
  case (Cons op ops)
  show ?case
  proof (cases op)
    case (Reading dev mx md clk)
    with Cons OnTelemetry_effect [of s fmtv clk dev mx md] show ?thesis by simp
  next
    case (ServeAlerts x r)
    have "contents (fst (alerts_handle pt E x s r new_writer)) ''alert_events'' = contents s ''alert_events''"
      by (rule alerts_handle_frame [OF surjective_pairing]) simp
    with ServeAlerts Cons show ?thesis by simp
  qed
qed

end

text \<open>
  C13: whatever readings arrive and whatever requests are served, the alert history of every
  organisation stays empty: the events that fire are stored without an organisation and
  the history of a caller that has one only shows his own.
\<close>

theorem history_always_empty:
  assumes "deviceos_db E contents fk_on lt" and "fresh w"
    and "contents s ''alert_events'' = []"
    and "alerts_handleHistory E (alerts_run pt E fmtv ops s) r w = (s', w')" and "HasOrgID r"
  shows "status_of w' = Some 500 \<or>
    status_of w' = Some 200 \<and> w_out w' = [Cjson (JObj [(''events'', JArr [])])]"
proof -
  let ?s = "alerts_run pt E fmtv ops s"
  have org: "OrgID r \<noteq> []" using assms(5) by (simp add: HasOrgID_def OrgID_def)
  have "unowned (contents ?s ''alert_events'')"
    by (rule deviceos_db.alerts_run_unowned [OF assms(1)]) (simp add: assms(3) unowned_def)
  then have none: "matching lt (sql_history True) [SText (OrgID r)] (contents ?s) = []"
    using org by (auto simp: matching_def sql_history_def sat_def unowned_def filter_empty_conv)
  obtain s1 x where q: "db_query E ?s (sql_history True) [SText (OrgID r)] = (s1, x)" by fastforce
  show ?thesis
  proof (cases x)
    case (Inl e)
    with q org assms(2,4) show ?thesis by (auto simp: alerts_handleHistory_def http_simps)
  next
    case (Inr re)
    obtain rows e where re: "re = (rows, e)" by (cases re)
    have "limit_plain (limit_of (sql_history True))" by (simp add: sql_history_def)
    from sql_engine.rows_prefix [OF deviceos_db.axioms(1) [OF assms(1)] q [unfolded Inr re] this]
    obtain full where "query_ok lt (sql_history True) [SText (OrgID r)] (contents ?s) full"
      and "prefix rows full" .
    then have "rows = []"
      using query_none [OF _ _ none] by (fastforce simp: sql_history_def)
    with q Inr re org assms(2,4) show ?thesis
      by (auto simp: alerts_handleHistory_def scan_lax_def http_simps)
  qed
qed

theorem history_always_empty_witness:
  "w_out (snd (alerts_handleHistory (memory_db False)
      (alerts_run (\<lambda>s. None) (memory_db False) (\<lambda>q. [])
         [Reading ''dev_1'' (Some (JObj [(''t'', JInt 31)])) None (\<lambda>k. (7, 7))]
         ((\<lambda>n. [])(''alert_rules'' := [demo_rule_row])))
      (demo_request ''acme'' [] JNull) new_writer)) = [Cjson (JObj [(''events'', JArr [])])]"
proof -
  let ?s = "alerts_run (\<lambda>s. None) (memory_db False) (\<lambda>q. [])
         [Reading ''dev_1'' (Some (JObj [(''t'', JInt 31)])) None (\<lambda>k. (7, 7))]
         ((\<lambda>n. [])(''alert_rules'' := [demo_rule_row]))"
  have "status_of (snd (alerts_handleHistory (memory_db False) ?s (demo_request ''acme'' [] JNull) new_writer))
     = Some 200"
    by (simp add: alerts_handleHistory_def memory_db_def DB_same ref_engine_def ref_query_def
        Let_def http_simps del: alerts_run.simps)
  moreover have "HasOrgID (demo_request ''acme'' [] JNull)"
    by (simp add: HasOrgID_def demo_request_def)
  moreover note t = history_always_empty [OF memdb.deviceos_db_axioms [of False] fresh_new_writer,
      where s = "(\<lambda>n. [])(''alert_rules'' := [demo_rule_row])" and r = "demo_request ''acme'' [] JNull"
        and pt = "\<lambda>s. None" and fmtv = "\<lambda>q. []"
        and ops = "[Reading ''dev_1'' (Some (JObj [(''t'', JInt 31)])) None (\<lambda>k. (7, 7))]"]
  ultimately show ?thesis using t [OF _ surjective_pairing] by (simp del: alerts_run.simps)
qed

section \<open>Rules of an organisation\<close>

context deviceos_db
begin

lemma alerts_keeps_foreign:
  assumes "alerts_handle pt E x s r w = (s', w')" and "HasOrgID r"
  shows "filter (foreign (OrgID r)) (contents s' ''alert_rules'')
       = filter (foreign (OrgID r)) (contents s ''alert_rules'')"
proof -
  have org: "OrgID r \<noteq> []" using assms(2) by (simp add: HasOrgID_def OrgID_def)
  let ?own = "SText (OrgID r)"
  have ins: "filter (foreign (OrgID r)) (contents s1 ''alert_rules'')
       = filter (foreign (OrgID r)) (contents s ''alert_rules'')"
    if "db_exec E s sql_insert_rule [a0, a1, a2, a3, a4, a5, a6, a7, a8, a9, ?own] = (s1, res)"
    for a0 a1 a2 a3 a4 a5 a6 a7 a8 a9 s1 res
    by (rule exec_foreign_tab [OF that]) (simp add: alerts_sql)
  have upd: "filter (foreign (OrgID r)) (contents s1 ''alert_rules'')
       = filter (foreign (OrgID r)) (contents s ''alert_rules'')"
    if "db_exec E s (sql_update_rule True) [a0, a1, a2, a3, a4, a5, a6, a7, a8, ?own] = (s1, res)"
    for a0 a1 a2 a3 a4 a5 a6 a7 a8 s1 res
    by (rule exec_foreign_tab [OF that]) (simp add: alerts_sql)
  have del: "filter (foreign (OrgID r)) (contents s1 ''alert_rules'')
       = filter (foreign (OrgID r)) (contents s ''alert_rules'')"
    if "db_exec E s (sql_delete_rule True) [a0, ?own] = (s1, res)" for a0 s1 res
    by (rule exec_foreign_tab [OF that]) (simp add: alerts_sql)
  show ?thesis
    using assms(1)
    by (cases "(pt, E, x)" rule: alerts_handle.cases)
       (auto simp: alerts_handlers Let_def org split: prod.splits sum.splits option.splits if_splits
         dest: ins upd del query_frame)
qed

end

lemma alerts_tenant_module:
  assumes "deviceos_db E contents fk_on lt"
  shows "tenant_module (alerts_handle pt E) contents ''alert_rules'' HasOrgID"
  using deviceos_db.alerts_keeps_foreign [OF assms] by unfold_locales blast

interpretation alerts_rules:
  tenant_module "alerts_handle pt (memory_db fk)" "\<lambda>t. t" "''alert_rules''" HasOrgID for pt fk
  by (rule alerts_tenant_module) (rule memdb.deviceos_db_axioms)

text \<open>
  Requests made in the name of other organisations never change the alert rules of an
  organisation. (A request without an organisation is not restricted.)
\<close>

theorem alert_rules_isolated:
  assumes "deviceos_db E contents fk_on lt"
    and "\<And>x r. (x, r) \<in> set reqs \<Longrightarrow> HasOrgID r \<and> OrgID r \<noteq> b"
  shows "rows_of b (contents (serve (alerts_handle pt E) s reqs) ''alert_rules'')
       = rows_of b (contents s ''alert_rules'')"
  by (rule tenant_module.serve_isolated [OF alerts_tenant_module [OF assms(1)]]) (rule assms(2))

theorem alert_rules_isolated_witness:
  "rows_of ''acme'' (serve (alerts_handle (\<lambda>s. None) (memory_db True))
      ((\<lambda>n. [])(''alert_rules'' := [demo_rule_row]))
      [((DeleteRule, 0, 0), demo_request ''evil'' ''rule_1'' JNull)] ''alert_rules'') = [demo_rule_row]"
  using alert_rules_isolated [OF memdb.deviceos_db_axioms [of True],
      of "[((DeleteRule, 0, 0), demo_request ''evil'' ''rule_1'' JNull)]" "''acme''"
         "\<lambda>s. None" "(\<lambda>n. [])(''alert_rules'' := [demo_rule_row])"]
  by (auto simp: rows_of_def demo_rule_row_def HasOrgID_def demo_request_def OrgID_def)

text \<open>
  C35: where foreign keys are enforced, a rule that ever fired cannot be deleted: the request
  is answered with 500 and changes nothing.
\<close>

theorem fired_rule_undeletable:
  assumes "deviceos_db E contents fk_on lt" and "fresh w" and "fk_on s"
    and "p \<in> set (contents s ''alert_rules'')" and "p ''id'' = SText (r_pathval r ''id'')"
    and "HasOrgID r \<longrightarrow> p ''org_id'' = SText (OrgID r)"
    and "\<And>q. q \<in> set (contents s ''alert_rules'') \<Longrightarrow> q ''id'' = p ''id'' \<Longrightarrow> q = p"
    and "e \<in> set (contents s ''alert_events'')" and "e ''rule_id'' = p ''id''"
    and "alerts_handleDeleteRule E s r w = (s', w')"
  shows "status_of w' = Some 500 \<and> contents s' = contents s"
proof -
  let ?i = "r_pathval r ''id''" and ?o = "OrgID r"
  let ?args = "if ?o \<noteq> [] then [SText ?i, SText ?o] else [SText ?i]"
  let ?cs = "CEq ''id'' (Param 0) # (if ?o \<noteq> [] then [CEq ''org_id'' (Param 1)] else [])"
  obtain s1 x where ex: "db_exec E s (sql_delete_rule (?o \<noteq> [])) ?args = (s1, x)" by fastforce
  have sat: "sat lt ?args ?cs p"
    using assms(5,6) by (auto simp: sat_def HasOrgID_def OrgID_def)
  have fail: "\<exists>er. x = Inl er"
  proof (cases x)
    case (Inr res)
    let ?t1 = "(contents s)(''alert_rules'' :=
      filter (\<lambda>q. \<not> sat lt ?args ?cs q) (contents s ''alert_rules''))"
    have casc: "cascade deviceos_catalog ''alert_rules'' (contents s) ?t1 = ?t1"
      by (rule ext) (simp add: cascade_other)
    have "keeps_parents deviceos_catalog (contents s) ?t1"
      using sql_engine.exec_ok [OF deviceos_db.axioms(1) [OF assms(1)]
          ex [unfolded Inr sql_delete_rule_def]] assms(3) casc
      by (auto simp: Let_def split: if_splits)
    moreover have "(''alert_events'', alert_events_schema) \<in> set deviceos_catalog"
      by (rule map_of_SomeD) simp
    ultimately have "\<not> bereft (contents s) ?t1 (fk_to ''rule_id'' ''alert_rules'' False) e"
      using assms(8) by (auto simp: keeps_parents_def list_all_iff alert_events_schema_def)
    then have "list_ex (\<lambda>q. q ''id'' = e ''rule_id'') (?t1 ''alert_rules'')"
      using assms(4,5,9) by (auto simp: bereft_def orphan_def fk_to_def list_ex_iff)
    then obtain q where "q \<in> set (contents s ''alert_rules'')" "\<not> sat lt ?args ?cs q"
        "q ''id'' = p ''id''"
      using assms(9) by (auto simp: list_ex_iff)
    with assms(7) sat show ?thesis by blast
  qed blast
  then have "contents s1 = contents s"
    using ex sql_engine.exec_err [OF deviceos_db.axioms(1) [OF assms(1)]] by blast
  with fail ex assms(2,10) show ?thesis
    by (auto simp: alerts_handleDeleteRule_def Let_def http_simps)
qed

theorem fired_rule_undeletable_witness:
  "status_of (snd (alerts_handleDeleteRule (memory_db True)
      ((\<lambda>n. [])(''alert_rules'' := [demo_rule_row],
                ''alert_events'' := [(\<lambda>c. SNull)(''rule_id'' := SText ''rule_1'')]))
      (demo_request ''acme'' ''rule_1'' JNull) new_writer)) = Some 500"
  using fired_rule_undeletable [OF memdb.deviceos_db_axioms [of True] fresh_new_writer,
      where s = "(\<lambda>n. [])(''alert_rules'' := [demo_rule_row],
          ''alert_events'' := [(\<lambda>c. SNull)(''rule_id'' := SText ''rule_1'')])"
        and r = "demo_request ''acme'' ''rule_1'' JNull" and p = demo_rule_row
        and e = "(\<lambda>c. SNull)(''rule_id'' := SText ''rule_1'')", OF _ _ _ _ _ _ _ surjective_pairing]
  by (simp add: demo_rule_row_def)

end
