(* ===== verification/Auth.thy ===== *)
theory Auth
  imports Telemetry
begin

text \<open>
  \<open>modules/auth\<close>: API keys, tokens and the middleware that turns credentials into request
  headers. The JWT library is not part of the program: signing and parsing are the
  parameter \<open>jwt\<close>, and the locale \<open>jwt_codec\<close> is what its documentation promises.
\<close>

section \<open>Data\<close>

record Claims =
  Claim_Subject :: string
  Claim_DeviceID :: string
  Claim_Role :: string
  Claim_OrgID :: string
  Claim_ExpiresAt :: int
  Claim_IssuedAt :: int

record jwt =
  jwt_sign :: "string \<Rightarrow> Claims \<Rightarrow> string result"
  jwt_parse :: "string \<Rightarrow> int \<Rightarrow> string \<Rightarrow> Claims result"

record 's auth_module =
  auth_db :: "'s engine"
  auth_jwt :: jwt
  jwtSecret :: string
  adminToken :: string

definition generateAPIKey :: "string \<Rightarrow> string" where
  "generateAPIKey b = ''dos_'' @ hex_encode b"

definition auth_New :: "'s engine \<Rightarrow> jwt \<Rightarrow> string \<Rightarrow> string \<Rightarrow> string \<Rightarrow> 's auth_module" where
  "auth_New db jwt rnd secret token =
     \<lparr>auth_db = db, auth_jwt = jwt,
      jwtSecret = (if secret = [] then ''dev-change-me-in-production'' else secret),
      adminToken = (if token = [] then generateAPIKey rnd else token)\<rparr>"

definition sql_admin_key :: stmt where
  "sql_admin_key =
     Insert ''api_keys'' [(''key'', Param 0), (''role'', Lit (SText ''admin'')), (''created_at'', Param 1)]
       Replace"

text \<open>\<open>Init\<close> after its migration: the result of the INSERT is not looked at.\<close>

definition auth_Init :: "'s auth_module \<Rightarrow> int \<Rightarrow> 's \<Rightarrow> 's" where
  "auth_Init m now s = fst (db_exec (auth_db m) s sql_admin_key [SText (adminToken m), STime now])"

record LoginRequest = Login_APIKey :: string

record TokenRequest =
  Token_DeviceID :: string
  Token_SecretKey :: string

definition LoginRequest_fields :: "LoginRequest fields" where
  "LoginRequest_fields = [(''api_key'', set_string Login_APIKey_update)]"

definition TokenRequest_fields :: "TokenRequest fields" where
  "TokenRequest_fields =
     [(''device_id'', set_string Token_DeviceID_update), (''secret_key'', set_string Token_SecretKey_update)]"

section \<open>Tokens\<close>

definition sql_key_role :: query where
  "sql_key_role =
     \<lparr>sel = Fields [PCol ''role''], from_src = Tab ''api_keys'', conds = [CEq ''key'' (Param 0)],
      order_by = None, limit_of = NoLimit\<rparr>"

lemma sql_key_role_plain [simp, intro!]: "limit_plain (limit_of sql_key_role)"
  by (simp add: sql_key_role_def)

text \<open>\<open>db.QueryRow(SELECT role ...).Scan(&role)\<close>\<close>

definition key_role :: "'s engine \<Rightarrow> 's \<Rightarrow> string \<Rightarrow> 's \<times> string result" where
  "key_role E s key =
     (case db_query_row E s sql_key_role [SText key] of
        (s', Inl e) \<Rightarrow> (s', Inl e)
      | (s', Inr vs) \<Rightarrow>
          (s', case Scan [into scan_string (\<lambda>f. f)] vs [] of
                 (role, Some e) \<Rightarrow> Inl e | (role, None) \<Rightarrow> Inr role))"

definition hour :: int where
  "hour = 3600 * 10 ^ 9"

definition token_json :: "string \<Rightarrow> string \<Rightarrow> json" where
  "token_json tok role = JObj [(''role'', JStr role), (''token'', JStr tok)]"

definition auth_handleLogin :: "'s auth_module \<Rightarrow> int \<Rightarrow> int \<Rightarrow> 's handler" where
  "auth_handleLogin m t1 t2 s r w =
     (case decode_body LoginRequest_fields (r_body r) \<lparr>Login_APIKey = []\<rparr> of
        None \<Rightarrow> (s, BadRequest ''invalid request'' w)
      | Some req \<Rightarrow>
          (case key_role (auth_db m) s (Login_APIKey req) of
             (s', Inl e) \<Rightarrow> (s', Unauthorized ''invalid api key'' w)
           | (s', Inr role) \<Rightarrow>
               (case jwt_sign (auth_jwt m) (jwtSecret m)
                       \<lparr>Claim_Subject = ''admin'', Claim_DeviceID = [], Claim_Role = role,
                        Claim_OrgID = [], Claim_ExpiresAt = t1 + 24 * hour, Claim_IssuedAt = t2\<rparr> of
                  Inl e \<Rightarrow> (s', Internal ''token generation failed'' w)
                | Inr tok \<Rightarrow> (s', writeJSON 200 (token_json tok role) w))))"

definition sql_device_secret :: query where
  "sql_device_secret =
     \<lparr>sel = Fields [PCol ''secret_key'', PCoalesce ''org_id'' (SText [])], from_src = Tab ''devices'',
      conds = [CEq ''id'' (Param 0)], order_by = None, limit_of = NoLimit\<rparr>"

lemma sql_device_secret_plain [simp, intro!]: "limit_plain (limit_of sql_device_secret)"
  by (simp add: sql_device_secret_def)

definition secret_scan :: "(string \<times> string) scanner list" where
  "secret_scan = [into scan_string apfst, into scan_string apsnd]"

definition auth_handleDeviceToken :: "'s auth_module \<Rightarrow> int \<Rightarrow> int \<Rightarrow> 's handler" where
  "auth_handleDeviceToken m t1 t2 s r w =
     (case decode_body TokenRequest_fields (r_body r) \<lparr>Token_DeviceID = [], Token_SecretKey = []\<rparr> of
        None \<Rightarrow> (s, BadRequest ''invalid request'' w)
      | Some req \<Rightarrow>
          (case db_query_row (auth_db m) s sql_device_secret [SText (Token_DeviceID req)] of
             (s', Inl e) \<Rightarrow> (s', Unauthorized ''device not found'' w)
           | (s', Inr vs) \<Rightarrow>
               (case Scan secret_scan vs ([], []) of
                  (_, Some e) \<Rightarrow> (s', Unauthorized ''device not found'' w)
                | ((storedKey, orgID), None) \<Rightarrow>
                    if storedKey \<noteq> Token_SecretKey req
                    then (s', Unauthorized ''invalid secret key'' w)
                    else
                      (case jwt_sign (auth_jwt m) (jwtSecret m)
                              \<lparr>Claim_Subject = Token_DeviceID req, Claim_DeviceID = Token_DeviceID req,
                               Claim_Role = ''device'', Claim_OrgID = orgID,
                               Claim_ExpiresAt = t1 + 7 * 24 * hour, Claim_IssuedAt = t2\<rparr> of
                         Inl e \<Rightarrow> (s', Internal ''token generation failed'' w)
                       | Inr tok \<Rightarrow> (s', writeJSON 200 (token_json tok ''device'') w)))))"

section \<open>The middleware\<close>

definition validateJWT :: "'s auth_module \<Rightarrow> int \<Rightarrow> string \<Rightarrow> Claims result" where
  "validateJWT m now tokenStr = jwt_parse (auth_jwt m) (jwtSecret m) now tokenStr"

definition auth_Middleware :: "'s auth_module \<Rightarrow> int \<Rightarrow> 's middleware" where
  "auth_Middleware m now next s r w =
     (let auth = r_header r ''Authorization''
      in if auth = [] then (s, Unauthorized ''authorization header required'' w)
         else if has_prefix auth ''Bearer '' then
           (case validateJWT m now (trim_prefix auth ''Bearer '') of
              Inl e \<Rightarrow> (s, Unauthorized ''invalid token'' w)
            | Inr claims \<Rightarrow>
                (let r1 = set_req_header ''X-User-Role'' (Claim_Role claims) r;
                     r2 = set_req_header ''X-User-Subject'' (Claim_Subject claims) r1;
                     r3 = set_req_header ''X-Org-ID'' (Claim_OrgID claims) r2;
                     r4 = (if Claim_DeviceID claims \<noteq> []
                           then set_req_header ''X-Device-ID'' (Claim_DeviceID claims) r3 else r3)
                 in next s r4 w))
         else if has_prefix auth ''ApiKey '' then
           (case key_role (auth_db m) s (trim_prefix auth ''ApiKey '') of
              (s', Inl e) \<Rightarrow> (s', Unauthorized ''invalid api key'' w)
            | (s', Inr role) \<Rightarrow> next s' (set_req_header ''X-User-Role'' role r) w)
         else (s, Unauthorized ''unsupported auth scheme'' w))"

datatype auth_route = Login | DeviceToken

definition auth_routes :: "(string \<times> auth_route) list" where
  "auth_routes = [(''POST /api/v1/auth/login'', Login), (''POST /api/v1/auth/token'', DeviceToken)]"

section \<open>The JWT library\<close>

text \<open>
  What the program relies on: a token it signed is accepted with the claims it was signed
  with until it expires (times are kept in whole seconds).
\<close>

definition accepts_signed :: "jwt \<Rightarrow> bool" where
  "accepts_signed J \<longleftrightarrow>
     (\<forall>k c t now. jwt_sign J k c = Inr t \<and> Claim_IssuedAt c \<le> now
        \<and> now < 10 ^ 9 * (Claim_ExpiresAt c div 10 ^ 9) \<longrightarrow>
        (\<exists>c'. jwt_parse J k now t = Inr c' \<and> Claim_Subject c' = Claim_Subject c
         \<and> Claim_DeviceID c' = Claim_DeviceID c \<and> Claim_Role c' = Claim_Role c
         \<and> Claim_OrgID c' = Claim_OrgID c))"

text \<open>A library that keeps the promise, for concrete evaluations.\<close>

definition demo_jwt :: jwt where
  "demo_jwt =
     \<lparr>jwt_sign = (\<lambda>k c. Inr (join_on CHR ''.'' (map hex_encode
         [k, Claim_Subject c, Claim_DeviceID c, Claim_Role c, Claim_OrgID c]))),
      jwt_parse = (\<lambda>k now t. case map hex_decode (split_on CHR ''.'' t) of
          [Some k', Some a, Some b, Some r, Some org] \<Rightarrow>
            if k' = k then Inr \<lparr>Claim_Subject = a, Claim_DeviceID = b, Claim_Role = r, Claim_OrgID = org,
                             Claim_ExpiresAt = 0, Claim_IssuedAt = 0\<rparr>
            else Inl ''signature is invalid''
        | _ \<Rightarrow> Inl ''token is malformed'')\<rparr>"

lemma dot_no_hex: "CHR ''.'' \<notin> set (hex_encode s)"
  using set_hex_encode [of "CHR ''.''" s] by (auto simp: hex_val_def Let_def)

lemma demo_jwt_ok: "accepts_signed demo_jwt"
  by (auto simp: accepts_signed_def demo_jwt_def split_join dot_no_hex simp del: join_on.simps)

section \<open>The gate\<close>


definition demo_auth :: "tables auth_module" where
  "demo_auth = auth_New (memory_db False) demo_jwt ''a'' ''s3cret'' ''dos_1''"

definition echo_org :: "tables handler" where
  "echo_org s r w = (s, writeJSON 200 (JStr (OrgID r)) w)"

definition demo_keys :: tables where
  "demo_keys = (\<lambda>n. [])(''api_keys'' := [(\<lambda>c. SNull)(''key'' := SText ''dos_1'', ''role'' := SText ''admin'')])"


section \<open>From a device secret to an organisation\<close>

context deviceos_db
begin

lemma device_secret_row:
  assumes "db_query_row E s sql_device_secret [SText i] = (s', Inr vs)"
    and "Scan secret_scan vs ([], []) = ((key, org), None)"
  shows "\<exists>q \<in> set (contents s ''devices''). q ''id'' = SText i \<and> scan_string (q ''secret_key'') = Inr key
     \<and> scan_string (if q ''org_id'' = SNull then SText [] else q ''org_id'') = Inr org"
proof -
  have "\<exists>q \<in> set (matching lt sql_device_secret [SText i] (contents s)).
      vs = map (project1 q) [PCol ''secret_key'', PCoalesce ''org_id'' (SText [])]"
    by (rule query_row_from [OF assms(1)]) (simp_all add: sql_device_secret_def)
  then obtain q where q: "q \<in> set (contents s ''devices'')" "q ''id'' = SText i"
    "vs = map (project1 q) [PCol ''secret_key'', PCoalesce ''org_id'' (SText [])]"
    by (auto simp: matching_def sql_device_secret_def sat_def)
  then show ?thesis
    using assms(2) by (intro bexI [of _ q])
      (auto simp: secret_scan_def into_def split: sum.splits if_splits)
qed

end



end
