(* ===== verification/Server.thy ===== *)
theory Server
  imports Auth
begin

text \<open>
  \<open>internal/server\<close>: the middleware chain around the request multiplexer. The closures
  of the middleware keep state between requests, the rate limiter's buckets and the counter
  of request identifiers; it is part of the state the handlers work on, next to the state
  \<open>'s\<close> of the modules. Readings of the clock come with the request.
\<close>

section \<open>The rate limiter\<close>

text \<open>\<open>time.Time.Sub\<close> saturates at the ends of the 64 bit duration.\<close>

definition time_sub :: "int \<Rightarrow> int \<Rightarrow> int" where
  "time_sub a b = max (- (2 ^ 63)) (min (2 ^ 63 - 1) (a - b))"

record clientBucket =
  cb_tokens :: int
  cb_lastDrop :: int

record rateLimiter =
  rl_clients :: "string \<rightharpoonup> clientBucket"
  rl_rate :: int
  rl_interval :: int

definition minute :: int where
  "minute = 60 * 10 ^ 9"

definition newRateLimiter :: "int \<Rightarrow> rateLimiter" where
  "newRateLimiter rpm = \<lparr>rl_clients = Map.empty, rl_rate = rpm, rl_interval = minute\<rparr>"

definition server_min :: "int \<Rightarrow> int \<Rightarrow> int" where
  "server_min a b = (if a < b then a else b)"

text \<open>\<open>t0\<close> is read when the client is new, \<open>now\<close> always. Duration arithmetic wraps.\<close>

definition rl_allow :: "int \<Rightarrow> int \<Rightarrow> string \<Rightarrow> rateLimiter \<Rightarrow> bool \<times> rateLimiter" where
  "rl_allow t0 now ip rl =
     (let cb = (case rl_clients rl ip of
                  None \<Rightarrow> \<lparr>cb_tokens = rl_rate rl, cb_lastDrop = t0\<rparr> | Some cb \<Rightarrow> cb);
          elapsed = time_sub now (cb_lastDrop cb);
          cb1 = cb\<lparr>cb_lastDrop := now\<rparr>;
          refill = wrap64 (go_quot elapsed (rl_interval rl) * rl_rate rl);
          cb2 = (if refill > 0
                 then cb1\<lparr>cb_tokens := server_min (wrap64 (cb_tokens cb1 + refill)) (rl_rate rl)\<rparr>
                 else cb1)
      in if cb_tokens cb2 \<le> 0 then (False, rl\<lparr>rl_clients := (rl_clients rl)(ip \<mapsto> cb2)\<rparr>)
         else (True, rl\<lparr>rl_clients := (rl_clients rl)(ip \<mapsto> cb2\<lparr>cb_tokens := cb_tokens cb2 - 1\<rparr>)\<rparr>))"

section \<open>The server\<close>

record 's server_state =
  sv_limiter :: rateLimiter
  sv_counter :: "64 word"
  sv_app :: 's

type_synonym 's srv_handler = "'s server_state handler"
type_synonym 's srv_middleware = "'s server_state middleware"

record 's server_config =
  cfg_Host :: string
  cfg_Port :: int
  cfg_TLSKey :: string
  cfg_TLSCert :: string
  cfg_AllowedOrigins :: "string list"
  cfg_RateLimitRPM :: int
  cfg_ModuleStats :: "(string \<times> string) list option"
  cfg_AuthMiddleware :: "'s srv_middleware option"

text \<open>The readings of the clock during one request, and the version built in.\<close>

record ticks =
  tk_bucket :: int
  tk_limit :: int
  tk_reqid :: int
  tk_version :: string

definition server_New :: "'s server_config \<Rightarrow> 's \<Rightarrow> 's server_state" where
  "server_New cfg app =
     \<lparr>sv_limiter = newRateLimiter (cfg_RateLimitRPM cfg), sv_counter = 0, sv_app = app\<rparr>"

text \<open>\<open>handleHealthz\<close>; \<open>uptime\<close> is the printed duration. Members come in sorted order.\<close>

definition handleHealthz :: "'s server_config \<Rightarrow> string \<Rightarrow> ticks \<Rightarrow> 's srv_handler" where
  "handleHealthz cfg uptime tk s r w =
     (s, write_body (Cjson (JObj
           ((case cfg_ModuleStats cfg of None \<Rightarrow> []
             | Some ms \<Rightarrow> [(''modules'', JObj (map (\<lambda>(k, v). (k, JStr v)) ms))])
            @ [(''status'', JStr ''ok''), (''uptime'', JStr uptime), (''version'', JStr (tk_version tk))])))
         (set_header ''Content-Type'' ''application/json'' w))"

definition withVersion :: "ticks \<Rightarrow> 's srv_middleware" where
  "withVersion tk next s r w =
     next s r (set_header ''X-DeviceOS-Version'' (tk_version tk)
                 (set_header ''Content-Type'' ''application/json'' w))"

text \<open>\<open>%x\<close> of an \<open>int64\<close>.\<close>

fun hex_of_nat :: "nat \<Rightarrow> string" where
  "hex_of_nat n = (if n < 16 then [hex_digit n] else hex_of_nat (n div 16) @ [hex_digit (n mod 16)])"

declare hex_of_nat.simps [simp del]

definition fmt_x :: "int \<Rightarrow> string" where
  "fmt_x i = (if i < 0 then CHR ''-'' # hex_of_nat (nat (- i)) else hex_of_nat (nat i))"

definition request_id :: "int \<Rightarrow> 64 word \<Rightarrow> string" where
  "request_id now n = fmt_x now @ ''-'' @ itoa (uint n)"

definition withRequestID :: "ticks \<Rightarrow> 's srv_middleware" where
  "withRequestID tk next s r w =
     (let n = sv_counter s + 1;
          i = request_id (tk_reqid tk) n
      in next (s\<lparr>sv_counter := n\<rparr>) (set_req_header ''X-Request-ID'' i r) (set_header ''X-Request-ID'' i w))"

text \<open>
  \<open>loggingResponseWriter\<close> embeds the interface \<open>http.ResponseWriter\<close>, so it has the methods
  of that interface only: the wrapped writer is no \<open>http.Hijacker\<close>.
\<close>

definition withLogging :: "'s srv_middleware" where
  "withLogging next s r w =
     (case next s r (w\<lparr>w_hijacker := False\<rparr>) of
        (s', w') \<Rightarrow> (s', w'\<lparr>w_hijacker := w_hijacker w\<rparr>))"

definition isPublicRoute :: "string \<Rightarrow> bool" where
  "isPublicRoute path \<longleftrightarrow>
     path = ''/healthz'' \<or> path = ''/'' \<or> path = ''/dashboard'' \<or> path = ''/api/v1/auth/login''
     \<or> path = ''/api/v1/auth/token'' \<or> path = ''/api/v1/ws/telemetry'' \<or> path = ''/api/v1/ws/commands''"

definition wrapAuth :: "'s srv_middleware \<Rightarrow> 's srv_middleware" where
  "wrapAuth auth next s r w =
     (if isPublicRoute (r_path r) then auth next s r w else next s r w)"

definition withCORS :: "string list \<Rightarrow> 's srv_middleware" where
  "withCORS origins next s r w =
     (let origin = r_header r ''Origin'';
          w1 = (if origin \<in> set origins \<or> hd origins = ''*''
                then set_header ''Access-Control-Max-Age'' ''86400''
                       (set_header ''Access-Control-Allow-Headers'' ''Content-Type, Authorization, X-Request-ID''
                         (set_header ''Access-Control-Allow-Methods'' ''GET, POST, PUT, DELETE, PATCH, OPTIONS''
                           (set_header ''Access-Control-Allow-Origin'' origin w)))
                else w)
      in if r_method r = ''OPTIONS'' then (s, write_header 204 w1) else next s r w1)"

definition withRateLimit :: "ticks \<Rightarrow> 's srv_middleware" where
  "withRateLimit tk next s r w =
     (case rl_allow (tk_bucket tk) (tk_limit tk) (r_remote r) (sv_limiter s) of
        (ok, rl) \<Rightarrow>
          if ok then next (s\<lparr>sv_limiter := rl\<rparr>) r w
          else (s\<lparr>sv_limiter := rl\<rparr>, Error 429 ''rate limit exceeded'' (set_header ''Retry-After'' ''60'' w)))"

definition buildHandler :: "'s server_config \<Rightarrow> ticks \<Rightarrow> 's srv_handler \<Rightarrow> 's srv_handler" where
  "buildHandler cfg tk mux =
     (let h1 = withRequestID tk mux;
          h2 = withLogging h1;
          h3 = withVersion tk h2;
          h4 = (case cfg_AuthMiddleware cfg of None \<Rightarrow> h3 | Some a \<Rightarrow> wrapAuth a h3);
          h5 = (if cfg_RateLimitRPM cfg > 0 then withRateLimit tk h4 else h4);
          h6 = (if cfg_AllowedOrigins cfg \<noteq> [] then withCORS (cfg_AllowedOrigins cfg) h5 else h5)
      in h6)"

section \<open>The chain\<close>

lemmas server_chain =
  buildHandler_def withRequestID_def withLogging_def withVersion_def wrapAuth_def withCORS_def
  withRateLimit_def

text \<open>
  The middleware chain never runs the authentication middleware for a path that is not in
  the list of public routes: whatever middleware is configured, the answer and the state
  are those of a server without authentication.
\<close>

theorem private_routes_unauthenticated:
  assumes "\<not> isPublicRoute (r_path r)"
  shows "buildHandler (cfg\<lparr>cfg_AuthMiddleware := Some a\<rparr>) tk mux s r w
       = buildHandler (cfg\<lparr>cfg_AuthMiddleware := None\<rparr>) tk mux s r w"
  using assms by (simp add: server_chain Let_def split: prod.splits)

definition demo_config :: "'s srv_middleware option \<Rightarrow> 's server_config" where
  "demo_config a =
     \<lparr>cfg_Host = [], cfg_Port = 8080, cfg_TLSKey = [], cfg_TLSCert = [], cfg_AllowedOrigins = [''*''],
      cfg_RateLimitRPM = 0, cfg_ModuleStats = None, cfg_AuthMiddleware = a\<rparr>"

definition demo_ticks :: ticks where
  "demo_ticks = \<lparr>tk_bucket = 0, tk_limit = 0, tk_reqid = 0, tk_version = ''1''\<rparr>"

theorem private_routes_unauthenticated_witness:
  "w_out (snd (buildHandler (demo_config (Some (\<lambda>next s r w. (s, Unauthorized ''no'' w)))) demo_ticks
     (\<lambda>s r w. (s, write_body (Ctext ''secret'') w)) (server_New (demo_config None) ())
     ((demo_request [] [] JNull)\<lparr>r_path := ''/api/v1/devices''\<rparr>) new_writer)) = [Ctext ''secret'']"
proof -
  let ?r = "(demo_request [] [] JNull)\<lparr>r_path := ''/api/v1/devices''\<rparr>"
  let ?no = "\<lambda>next s r w. (s, Unauthorized ''no'' w)"
  have p: "\<not> isPublicRoute (r_path ?r)"
    by (simp add: isPublicRoute_def)
  have c: "(demo_config None)\<lparr>cfg_AuthMiddleware := Some a\<rparr> = demo_config (Some a)"
    "(demo_config None)\<lparr>cfg_AuthMiddleware := None\<rparr> = demo_config None" for a :: "unit srv_middleware"
    by (simp_all add: demo_config_def)
  note t = private_routes_unauthenticated [OF p, where cfg = "demo_config None :: unit server_config", unfolded c]
  show ?thesis
    unfolding t
    by (simp add: server_chain demo_config_def demo_request_def Let_def write_body_def write_header_def
        set_header_def new_writer_def isPublicRoute_def)
qed

text \<open>
  The paths in the list of public routes are the ones that need credentials: without an
  Authorization header the chain with the program's middleware answers every request for
  them, the login and the token request included, with 401 (or 429, or 204 to a
  preflight), and the module's handler is never reached.
\<close>

theorem public_routes_locked:
  assumes "isPublicRoute (r_path r)" and "r_header r ''Authorization'' = []" and "fresh w"
    and "buildHandler (cfg\<lparr>cfg_AuthMiddleware := Some (auth_Middleware m now)\<rparr>) tk mux s r w = (s', w')"
  shows "status_of w' \<in> {Some 401, Some 429, Some 204} \<and> sv_app s' = sv_app s
    \<and> (status_of w' = Some 204 \<longrightarrow> r_method r = ''OPTIONS'')"
  using assms
  by (auto simp: server_chain Let_def auth_Middleware_def http_simps split: prod.splits if_splits)

theorem public_routes_locked_witness:
  "status_of (snd (buildHandler (demo_config (Some (auth_Middleware
        \<lparr>auth_db = undefined, auth_jwt = demo_jwt, jwtSecret = [], adminToken = []\<rparr> 0))) demo_ticks
     (\<lambda>s r w. (s, write_body (Ctext ''token'') w)) (server_New (demo_config None) ())
     ((demo_request [] [] JNull)\<lparr>r_path := ''/api/v1/auth/login''\<rparr>) new_writer))
   \<in> {Some 401, Some 429, Some 204}"
proof -
  let ?m = "\<lparr>auth_db = undefined, auth_jwt = demo_jwt, jwtSecret = [], adminToken = []\<rparr>"
  let ?r = "(demo_request [] [] JNull)\<lparr>r_path := ''/api/v1/auth/login''\<rparr>"
  have r: "isPublicRoute (r_path ?r)" "r_header ?r ''Authorization'' = []"
    by (simp_all add: isPublicRoute_def demo_request_def)
  have c: "(demo_config None)\<lparr>cfg_AuthMiddleware := Some a\<rparr> = demo_config (Some a)"
    for a :: "unit srv_middleware"
    by (simp add: demo_config_def)
  note t = public_routes_locked [OF r fresh_new_writer, where cfg = "demo_config None :: unit server_config", unfolded c]
  from t [OF surjective_pairing, of ?m 0 demo_ticks "\<lambda>s r w. (s, write_body (Ctext ''token'') w)"
      "server_New (demo_config None) ()"]
  show ?thesis by (elim conjE)
qed

text \<open>
  Behind the chain no WebSocket is ever opened: an upgrade needs a writer that can give up
  the connection, which the logging wrapper is not, so the telemetry hub never gains a
  client.
\<close>

theorem websocket_never_opens:
  fixes up :: "'c upgrader"
  assumes "\<And>r w. \<not> w_hijacker w \<Longrightarrow> fst (up r w) = None"
    and "buildHandler cfg tk
          (\<lambda>s r w. case telemetry_handleWS up (sv_app s) r w of (h, w') \<Rightarrow> (s\<lparr>sv_app := h\<rparr>, w'))
          s r w = (s', w')"
    and "cfg_AuthMiddleware cfg = None \<or> (\<exists>m now. cfg_AuthMiddleware cfg = Some (auth_Middleware m now)
           \<and> (\<forall>s k. sv_app (fst (key_role (auth_db m) s k)) = sv_app s))"
  shows "sv_app s' = sv_app s"
proof -
  define ws :: "'c Hub srv_handler" where "ws = (\<lambda>s r w. case telemetry_handleWS up (sv_app s) r w of
      (h, w') \<Rightarrow> (s\<lparr>sv_app := h\<rparr>, w'))"
  have refused: "sv_app (fst (ws s r w)) = sv_app s" if "\<not> w_hijacker w" for s r w
    using assms(1) [OF that, of r] by (cases "up r w") (simp add: ws_def telemetry_handleWS_def)
  have closed: "sv_app (fst (withVersion tk (withLogging (withRequestID tk ws)) s r w)) = sv_app s" for s r w
    by (simp add: withVersion_def withLogging_def withRequestID_def Let_def case_prod_unfold refused
        set_header_def)
  have auth: "sv_app (fst (auth_Middleware m now h s r w)) = sv_app s"
    if "\<And>s r w. sv_app (fst (h s r w)) = sv_app s"
      and "\<forall>s k. sv_app (fst (key_role (auth_db m) s k)) = sv_app s" for m now h s r w
  proof -
    have "sv_app s1 = sv_app s" if "key_role (auth_db m) s k = (s1, x)" for k s1 x
      using \<open>\<forall>s k. sv_app (fst (key_role (auth_db m) s k)) = sv_app s\<close> that by (metis fst_conv)
    with that(1) show ?thesis
      by (auto simp: auth_Middleware_def Let_def split: sum.splits prod.splits)
  qed
  let ?h3 = "withVersion tk (withLogging (withRequestID tk ws))"
  define h4 where "h4 = (case cfg_AuthMiddleware cfg of None \<Rightarrow> ?h3 | Some a \<Rightarrow> wrapAuth a ?h3)"
  have h4: "sv_app (fst (h4 s r w)) = sv_app s" for s r w
    using assms(3) closed auth [OF closed] by (auto simp: h4_def wrapAuth_def)
  define h5 where "h5 = (if cfg_RateLimitRPM cfg > 0 then withRateLimit tk h4 else h4)"
  have h5: "sv_app (fst (h5 s r w)) = sv_app s" for s r w
    by (simp add: h5_def h4 withRateLimit_def split: prod.splits)
  have "buildHandler cfg tk ws
      = (if cfg_AllowedOrigins cfg \<noteq> [] then withCORS (cfg_AllowedOrigins cfg) h5 else h5)"
    by (simp only: buildHandler_def Let_def h4_def h5_def)
  then have "sv_app (fst (buildHandler cfg tk ws s r w)) = sv_app s"
    by (simp add: h5 withCORS_def Let_def)
  with assms(2) show ?thesis by (simp add: ws_def)
qed

definition demo_upgrader :: "string upgrader" where
  "demo_upgrader r w = (if w_hijacker w then (Some (r_remote r), w) else (None, Internal ''no hijacker'' w))"

theorem websocket_never_opens_witness:
  "hub_clients (sv_app (fst (buildHandler (demo_config None) demo_ticks
     (\<lambda>s r w. case telemetry_handleWS demo_upgrader (sv_app s) r w of (h, w') \<Rightarrow> (s\<lparr>sv_app := h\<rparr>, w'))
     (server_New (demo_config None) NewHub) (demo_request [] [] JNull) new_writer))) = {}"
proof -
  have u: "fst (demo_upgrader r w) = None" if "\<not> w_hijacker w" for r w
    using that by (simp add: demo_upgrader_def)
  have c: "cfg_AuthMiddleware (demo_config None :: string Hub server_config) = None"
    by (simp add: demo_config_def)
  note t = websocket_never_opens [where up = demo_upgrader and cfg = "demo_config None" and tk = demo_ticks
      and s = "server_New (demo_config None) NewHub" and r = "demo_request [] [] JNull" and w = new_writer,
      OF u surjective_pairing disjI1 [OF c]]
  then show ?thesis by (simp add: server_New_def NewHub_def)
qed

section \<open>What the rate limiter admits\<close>

text \<open>A run of requests of one client; each comes with its two readings of the clock.\<close>

fun rl_run :: "string \<Rightarrow> (int \<times> int) list \<Rightarrow> rateLimiter \<Rightarrow> bool list \<times> rateLimiter" where
  "rl_run ip [] rl = ([], rl)"
| "rl_run ip ((t0, t) # ts) rl =
     (case rl_allow t0 t ip rl of
        (ok, rl') \<Rightarrow> (case rl_run ip ts rl' of (oks, rl'') \<Rightarrow> (ok # oks, rl'')))"

definition bucket_of :: "string \<Rightarrow> int \<Rightarrow> rateLimiter \<Rightarrow> clientBucket" where
  "bucket_of ip t0 rl =
     (case rl_clients rl ip of None \<Rightarrow> \<lparr>cb_tokens = rl_rate rl, cb_lastDrop = t0\<rparr> | Some cb \<Rightarrow> cb)"

lemma rl_allow_frame:
  assumes "rl_allow t0 now ip rl = (ok, rl')"
  shows "rl_rate rl' = rl_rate rl" "rl_interval rl' = rl_interval rl"
    "jp \<noteq> ip \<Longrightarrow> rl_clients rl' jp = rl_clients rl jp"
    "cb_lastDrop (bucket_of ip t1 rl') = now"
  using assms by (auto simp: rl_allow_def Let_def bucket_of_def split: if_splits)

text \<open>Requests less than an interval apart never refill the bucket.\<close>

lemma rl_allow_close:
  assumes "rl_allow t0 now ip rl = (ok, rl')" and "\<bar>now - cb_lastDrop (bucket_of ip t0 rl)\<bar> < rl_interval rl"
    and "rl_interval rl = minute"
  shows "ok = (cb_tokens (bucket_of ip t0 rl) > 0)"
    and "cb_tokens (bucket_of ip t1 rl') =
      (if cb_tokens (bucket_of ip t0 rl) > 0 then cb_tokens (bucket_of ip t0 rl) - 1
       else cb_tokens (bucket_of ip t0 rl))"
proof -
  let ?d = "now - cb_lastDrop (bucket_of ip t0 rl)"
  have "\<bar>?d\<bar> < 2 ^ 63 - 1" using assms(2,3) by (simp add: minute_def)
  then have "time_sub now (cb_lastDrop (bucket_of ip t0 rl)) = ?d" by (simp add: time_sub_def)
  moreover have "go_quot ?d minute = 0" using assms(2,3) by (intro go_quot_small) simp
  moreover have "wrap64 0 = 0" by simp
  ultimately show "ok = (cb_tokens (bucket_of ip t0 rl) > 0)"
    and "cb_tokens (bucket_of ip t1 rl') =
      (if cb_tokens (bucket_of ip t0 rl) > 0 then cb_tokens (bucket_of ip t0 rl) - 1
       else cb_tokens (bucket_of ip t0 rl))"
    using assms(1,3)
    by (auto simp: rl_allow_def Let_def bucket_of_def [symmetric] split: if_splits)
       (auto simp: bucket_of_def)
qed

lemma rl_run_close:
  assumes "rl_interval rl = minute" and "rl_clients rl ip = Some cb" and "cb_tokens cb = int k"
    and "successively (\<lambda>a b. \<bar>b - a\<bar> < minute) (cb_lastDrop cb # map snd ts)"
  shows "fst (rl_run ip ts rl)
     = replicate (min k (length ts)) True @ replicate (length ts - k) False"
  using assms
proof (induction ts arbitrary: rl cb k)
  case Nil
  then show ?case by simp
next
  case (Cons a ts)
  obtain t0 t where a: "a = (t0, t)" by (cases a)
  obtain ok rl' where al: "rl_allow t0 t ip rl = (ok, rl')" by fastforce
  have b: "bucket_of ip t0 rl = cb" using Cons.prems(2) by (simp add: bucket_of_def)
  have close: "\<bar>t - cb_lastDrop (bucket_of ip t0 rl)\<bar> < rl_interval rl"
    using Cons.prems(1,4) by (simp add: b a)
  note r = rl_allow_close [OF al close Cons.prems(1), unfolded b]
  note f = rl_allow_frame [OF al]
  obtain cb' where cb': "rl_clients rl' ip = Some cb'"
    using al by (auto simp: rl_allow_def Let_def split: if_splits)
  then have b': "bucket_of ip t1 rl' = cb'" for t1 by (simp add: bucket_of_def)
  have succ: "successively (\<lambda>a b. \<bar>b - a\<bar> < minute) (cb_lastDrop cb' # map snd ts)"
    using Cons.prems(4) f(4) [of 0] b' by (cases ts) (auto simp: a)
  have tok: "cb_tokens cb' = int (k - 1)" and ok: "ok = (k > 0)"
    using r(1) r(2) [of 0] Cons.prems(3) b' by (auto split: if_splits)
  have "fst (rl_run ip ts rl') = replicate (min (k - 1) (length ts)) True @ replicate (length ts - (k - 1)) False"
    using f(2) Cons.prems(1) by (intro Cons.IH [OF _ cb' tok succ]) simp
  then show ?case
    by (cases k) (auto simp: a al ok case_prod_unfold)
qed

text \<open>
  C14: a client whose requests are always less than a minute apart is admitted exactly as many
  times as the configured rate and then never again, however slowly it goes on: the bucket is
  refilled by whole minutes between two requests only, and every request restarts the clock.
\<close>

theorem rate_limit_starves:
  assumes "rl = newRateLimiter rpm" and "0 < rpm" and "ts \<noteq> []"
    and "\<bar>snd (hd ts) - fst (hd ts)\<bar> < minute"
    and "successively (\<lambda>a b. \<bar>b - a\<bar> < minute) (map snd ts)"
  shows "fst (rl_run ip ts rl)
     = replicate (min (nat rpm) (length ts)) True @ replicate (length ts - nat rpm) False"
proof -
  obtain t0 t us where ts: "ts = (t0, t) # us" using assms(3) by (cases ts) auto
  let ?rl = "rl\<lparr>rl_clients := [ip \<mapsto> \<lparr>cb_tokens = rpm, cb_lastDrop = t0\<rparr>]\<rparr>"
  have same: "rl_allow t0 t ip rl = rl_allow t0 t ip ?rl"
    by (simp add: rl_allow_def assms(1) newRateLimiter_def Let_def)
  have "fst (rl_run ip ts rl) = fst (rl_run ip ts ?rl)" by (simp add: ts same)
  also have "\<dots> = replicate (min (nat rpm) (length ts)) True @ replicate (length ts - nat rpm) False"
    by (rule rl_run_close [where cb = "\<lparr>cb_tokens = rpm, cb_lastDrop = t0\<rparr>"])
       (use assms in \<open>simp_all add: newRateLimiter_def ts\<close>)
  finally show ?thesis .
qed

theorem rate_limit_starves_witness:
  "fst (rl_run ''10.0.0.1:5000'' [(0, 0), (0, 59 * 10 ^ 9), (0, 118 * 10 ^ 9), (0, 177 * 10 ^ 9)]
     (newRateLimiter 2)) = [True, True, False, False]"
  using rate_limit_starves [OF refl, of 2 "[(0, 0), (0, 59 * 10 ^ 9), (0, 118 * 10 ^ 9), (0, 177 * 10 ^ 9)]"
      "''10.0.0.1:5000''"]
  by (simp add: minute_def numeral_2_eq_2)

lemma bucket_upd: "bucket_of ip u (rl\<lparr>rl_clients := cs(ip \<mapsto> cb)\<rparr>) = cb"
  by (simp add: bucket_of_def)

lemma rl_allow_step:
  assumes "rl_allow t0 now ip rl = (ok, rl')" and "rl_interval rl = minute"
    and "0 \<le> rl_rate rl" and "rl_rate rl < 2 ^ 20"
    and "cb_lastDrop (bucket_of ip t0 rl) \<le> now" and "now - cb_lastDrop (bucket_of ip t0 rl) < 2 ^ 62"
    and "0 \<le> cb_tokens (bucket_of ip t0 rl)" and "cb_tokens (bucket_of ip t0 rl) \<le> rl_rate rl"
  shows "of_bool ok + cb_tokens (bucket_of ip u rl') \<le> cb_tokens (bucket_of ip t0 rl)
      + rl_rate rl * ((now - cb_lastDrop (bucket_of ip t0 rl)) div minute)"
    and "0 \<le> cb_tokens (bucket_of ip u rl')" and "cb_tokens (bucket_of ip u rl') \<le> rl_rate rl"
proof -
  let ?cb = "bucket_of ip t0 rl"
  let ?d = "now - cb_lastDrop ?cb"
  have sub: "time_sub now (cb_lastDrop ?cb) = ?d"
    using assms(5,6) by (simp add: time_sub_def)
  have q: "go_quot ?d minute = ?d div minute"
    using assms(5) by (intro go_quot_nonneg) (simp_all add: minute_def)
  have q0: "0 \<le> ?d div minute" using assms(5) by (simp add: pos_imp_zdiv_nonneg_iff minute_def)
  have "?d div minute \<le> 2 ^ 62 div minute"
    using assms(6) by (intro zdiv_mono1) (simp_all add: minute_def)
  then have q1: "?d div minute < 2 ^ 40" by (simp add: minute_def)
  have "?d div minute * rl_rate rl \<le> 2 ^ 40 * 2 ^ 20"
    using q0 q1 assms(3,4) by (intro mult_mono) simp_all
  then have p: "?d div minute * rl_rate rl \<le> 2 ^ 60" by simp
  have p0: "0 \<le> ?d div minute * rl_rate rl" using q0 assms(3) by simp
  have w: "wrap64 (?d div minute * rl_rate rl) = ?d div minute * rl_rate rl"
    using p p0 by (intro wrap64_in_range) simp_all
  have w2: "wrap64 (cb_tokens ?cb + ?d div minute * rl_rate rl) = cb_tokens ?cb + ?d div minute * rl_rate rl"
    using p p0 assms(4,7,8) by (intro wrap64_in_range) simp_all
  define R where "R = ?d div minute * rl_rate rl"
  have ref: "wrap64 (go_quot (time_sub now (cb_lastDrop ?cb)) minute * rl_rate rl) = R"
    by (simp only: sub q w R_def)
  have add: "wrap64 (cb_tokens ?cb + R) = cb_tokens ?cb + R"
    unfolding R_def by (rule w2)
  define tok where "tok = (if 0 < R then server_min (cb_tokens ?cb + R) (rl_rate rl) else cb_tokens ?cb)"
  have r: "ok = (0 < tok)" "cb_tokens (bucket_of ip u rl') = (if 0 < tok then tok - 1 else tok)"
  proof -
    let ?cb2 = "if 0 < R then ?cb\<lparr>cb_lastDrop := now, cb_tokens := server_min (cb_tokens ?cb + R) (rl_rate rl)\<rparr>
        else ?cb\<lparr>cb_lastDrop := now\<rparr>"
    have tk: "cb_tokens ?cb2 = tok" by (simp add: tok_def)
    have "rl_allow t0 now ip rl =
       (if cb_tokens ?cb2 \<le> 0 then (False, rl\<lparr>rl_clients := (rl_clients rl)(ip \<mapsto> ?cb2)\<rparr>)
        else (True, rl\<lparr>rl_clients := (rl_clients rl)(ip \<mapsto> ?cb2\<lparr>cb_tokens := cb_tokens ?cb2 - 1\<rparr>)\<rparr>))"
      unfolding rl_allow_def Let_def bucket_of_def [symmetric] assms(2) ref
      by (simp add: ref add)
    then have "(ok, rl') =
       (if tok \<le> 0 then (False, rl\<lparr>rl_clients := (rl_clients rl)(ip \<mapsto> ?cb2)\<rparr>)
        else (True, rl\<lparr>rl_clients := (rl_clients rl)(ip \<mapsto> ?cb2\<lparr>cb_tokens := tok - 1\<rparr>)\<rparr>))"
      by (simp only: tk assms(1))
    then show "ok = (0 < tok)" "cb_tokens (bucket_of ip u rl') = (if 0 < tok then tok - 1 else tok)"
      using tk by (cases "tok \<le> 0"; simp only: if_True if_False prod.inject bucket_upd; simp)+
  qed
  have "0 \<le> R" unfolding R_def by (rule p0)
  then have t: "0 \<le> tok" "tok \<le> rl_rate rl" "tok \<le> cb_tokens ?cb + R"
    using assms(3,7,8) by (auto simp: tok_def server_min_def)
  then have t3: "tok \<le> cb_tokens ?cb + rl_rate rl * (?d div minute)"
    by (simp add: R_def mult.commute)
  show "of_bool ok + cb_tokens (bucket_of ip u rl') \<le> cb_tokens ?cb + rl_rate rl * (?d div minute)"
    and "0 \<le> cb_tokens (bucket_of ip u rl')" and "cb_tokens (bucket_of ip u rl') \<le> rl_rate rl"
    using t(1,2) t3 r by auto
qed

lemma div_add_le:
  assumes "0 < (n::int)"
  shows "a div n + b div n \<le> (a + b) div n"
proof -
  have "(a div n) * n \<le> a" "(b div n) * n \<le> b"
    using assms pos_mod_sign [of n a] pos_mod_sign [of n b]
      div_mult_mod_eq [of a n] div_mult_mod_eq [of b n] by linarith+
  then have "(a div n + b div n) * n \<le> a + b" by (simp add: distrib_right)
  then have "(a div n + b div n) * n div n \<le> (a + b) div n"
    using assms by (intro zdiv_mono1)
  with assms show ?thesis by simp
qed

lemma rl_run_bound:
  assumes "rl_interval rl = minute" and "0 \<le> rl_rate rl" and "rl_rate rl < 2 ^ 20"
    and "rl_clients rl ip = Some cb" and "0 \<le> cb_tokens cb" and "cb_tokens cb \<le> rl_rate rl"
    and "sorted (cb_lastDrop cb # map snd ts)"
    and "\<forall>t \<in> set (map snd ts). t - cb_lastDrop cb < 2 ^ 62"
  shows "int (count_list (fst (rl_run ip ts rl)) True) \<le> cb_tokens cb
     + rl_rate rl * ((last (cb_lastDrop cb # map snd ts) - cb_lastDrop cb) div minute)"
  using assms
proof (induction ts arbitrary: rl cb)
  case Nil
  then show ?case by simp
next
  case (Cons a ts)
  obtain t0 t where a: "a = (t0, t)" by (cases a)
  obtain ok rl' where al: "rl_allow t0 t ip rl = (ok, rl')" by fastforce
  have b: "bucket_of ip t0 rl = cb" using Cons.prems(4) by (simp add: bucket_of_def)
  obtain cb' where cb': "rl_clients rl' ip = Some cb'"
    using al by (auto simp: rl_allow_def Let_def split: if_splits)
  then have b': "bucket_of ip 0 rl' = cb'" by (simp add: bucket_of_def)
  note f = rl_allow_frame [OF al]
  have last': "cb_lastDrop cb' = t" using f(4) [of 0] b' by simp
  have "cb_lastDrop cb \<le> t" "t - cb_lastDrop cb < 2 ^ 62"
    using Cons.prems(7,8) by (auto simp: a)
  note st = rl_allow_step [OF al Cons.prems(1-3), unfolded b, OF this Cons.prems(5,6), where u = 0,
      unfolded b']
  let ?l = "last (t # map snd ts)"
  have "int (count_list (fst (rl_run ip ts rl')) True) \<le> cb_tokens cb'
      + rl_rate rl' * ((last (cb_lastDrop cb' # map snd ts) - cb_lastDrop cb') div minute)"
    using Cons.prems f(1,2) st(2,3) last'
    by (intro Cons.IH cb') (auto simp: a)
  then have ih: "int (count_list (fst (rl_run ip ts rl')) True) \<le> cb_tokens cb'
      + rl_rate rl * ((?l - t) div minute)"
    by (simp add: f(1) last')
  have "(t - cb_lastDrop cb) div minute + (?l - t) div minute \<le> (?l - cb_lastDrop cb) div minute"
    using div_add_le [of minute "t - cb_lastDrop cb" "?l - t"] by (simp add: minute_def)
  then have "rl_rate rl * ((t - cb_lastDrop cb) div minute) + rl_rate rl * ((?l - t) div minute)
      \<le> rl_rate rl * ((?l - cb_lastDrop cb) div minute)"
    using Cons.prems(2) by (simp add: distrib_left [symmetric] mult_left_mono)
  with ih st(1) show ?case
    by (cases ok) (auto simp: a al case_prod_unfold)
qed



section \<open>Cross-origin requests\<close>

text \<open>
  With allowed origins configured, a preflight is answered with 204 before anything else
  looks at the request and changes no state, and the answer names the requesting origin
  as allowed exactly when it is on the list or the list starts with the wildcard.
\<close>

theorem cors_preflight:
  assumes "cfg_AllowedOrigins cfg \<noteq> []" and "r_method r = ''OPTIONS''" and "w = new_writer"
    and "buildHandler cfg tk mux s r w = (s', w')"
  shows "s' = s \<and> status_of w' = Some 204 \<and> w_out w' = []
     \<and> sent_header w' ''Access-Control-Allow-Origin''
         = (if r_header r ''Origin'' \<in> set (cfg_AllowedOrigins cfg) \<or> hd (cfg_AllowedOrigins cfg) = ''*''
            then Some (r_header r ''Origin'') else None)"
  using assms
  by (auto simp: buildHandler_def withCORS_def Let_def status_of_def sent_header_def write_header_def
      set_header_def new_writer_def)

theorem cors_preflight_witness:
  "status_of (snd (buildHandler (demo_config None) demo_ticks (\<lambda>s r w. (s, Internal ''x'' w))
     (server_New (demo_config None) ()) ((demo_request [] [] JNull)\<lparr>r_method := ''OPTIONS''\<rparr>) new_writer))
   = Some 204"
proof -
  have "cfg_AllowedOrigins (demo_config None :: unit server_config) \<noteq> []"
    by (simp add: demo_config_def)
  moreover have "r_method ((demo_request [] [] JNull)\<lparr>r_method := ''OPTIONS''\<rparr>) = ''OPTIONS''" by simp
  ultimately show ?thesis
    using cors_preflight [OF _ _ refl surjective_pairing] by blast
qed

end
