(* ===== verification/Commands.thy ===== *)
theory Commands
  imports Tenancy "HOL-Library.AList"
begin

text \<open>
  \<open>modules/commands\<close>: commands for devices, their results, and the WebSocket feed. Next to
  the table the module keeps the map \<open>pending\<close>, an association list here; the order in
  which the map is walked is not specified by Go.
\<close>

section \<open>Data\<close>

record Command =
  Cmd_ID :: string
  Cmd_DeviceID :: string
  Cmd_Command :: string
  Cmd_Payload :: "json option"
  Cmd_Status :: string
  Cmd_Result :: "json option"
  Cmd_CreatedAt :: int
  Cmd_CompletedAt :: "int option"

definition zero_Command :: Command where
  "zero_Command =
     \<lparr>Cmd_ID = [], Cmd_DeviceID = [], Cmd_Command = [], Cmd_Payload = None, Cmd_Status = [],
      Cmd_Result = None, Cmd_CreatedAt = zero_time, Cmd_CompletedAt = None\<rparr>"

definition Command_json :: "Command \<Rightarrow> json" where
  "Command_json c =
     JObj ([(''id'', JStr (Cmd_ID c)), (''device_id'', JStr (Cmd_DeviceID c)),
            (''command'', JStr (Cmd_Command c))]
       @ omit_raw ''payload'' (Cmd_Payload c) @ [(''status'', JStr (Cmd_Status c))]
       @ omit_raw ''result'' (Cmd_Result c) @ [(''created_at'', JTime (Cmd_CreatedAt c))]
       @ omit_time ''completed_at'' (Cmd_CompletedAt c))"

record SendRequest =
  Send_Command :: string
  Send_Payload :: "json option"

definition SendRequest_fields :: "SendRequest fields" where
  "SendRequest_fields =
     [(''command'', set_string Send_Command_update), (''payload'', set_raw Send_Payload_update)]"

record ResultRequest =
  Res_Result :: "json option"
  Res_Status :: string

definition ResultRequest_fields :: "ResultRequest fields" where
  "ResultRequest_fields =
     [(''result'', set_raw Res_Result_update), (''status'', set_string Res_Status_update)]"

record 'd commands_state =
  cs_db :: 'd
  cs_pending :: "(string \<times> Command) list"

definition generateCmdID :: "string \<Rightarrow> string" where
  "generateCmdID b = ''cmd_'' @ hex_encode b"

section \<open>Handlers\<close>

definition sql_insert_command :: stmt where
  "sql_insert_command =
     Insert ''commands'' [(''id'', Param 0), (''device_id'', Param 1), (''command'', Param 2),
       (''payload'', Param 3), (''status'', Lit (SText ''pending'')), (''created_at'', Param 4),
       (''org_id'', Param 5)] Abort"

definition commands_handleSend ::
    "'d engine \<Rightarrow> string \<Rightarrow> int \<Rightarrow> 'd commands_state handler" where
  "commands_handleSend E rnd now s r w =
     (case decode_body SendRequest_fields (r_body r) \<lparr>Send_Command = [], Send_Payload = None\<rparr> of
        None \<Rightarrow> (s, BadRequest ''invalid request'' w)
      | Some req \<Rightarrow>
          if Send_Command req = [] then (s, BadRequest ''command is required'' w)
          else
            (let payload = (case Send_Payload req of None \<Rightarrow> JObj [] | Some j \<Rightarrow> j);
                 cmd = zero_Command\<lparr>Cmd_ID := generateCmdID rnd, Cmd_DeviceID := r_pathval r ''id'',
                         Cmd_Command := Send_Command req, Cmd_Payload := Some payload,
                         Cmd_Status := ''pending'', Cmd_CreatedAt := now\<rparr>
             in case db_exec E (cs_db s) sql_insert_command
                       [SText (Cmd_ID cmd), SText (Cmd_DeviceID cmd), SText (Cmd_Command cmd),
                        SDoc payload, STime (Cmd_CreatedAt cmd), SText (OrgID r)] of
                  (d', Inl e) \<Rightarrow> (s\<lparr>cs_db := d'\<rparr>, Internal ''failed to create command'' w)
                | (d', Inr res) \<Rightarrow>
                    (s\<lparr>cs_db := d', cs_pending := AList.update (Cmd_DeviceID cmd) cmd (cs_pending s)\<rparr>,
                     writeJSON 201 (Command_json cmd) w)))"

definition command_columns :: "proj list" where
  "command_columns =
     [PCol ''id'', PCol ''device_id'', PCol ''command'', PCol ''payload'', PCol ''status'', PCol ''result'',
      PCol ''created_at'', PCol ''completed_at'']"

definition Command_scan :: "Command scanner list" where
  "Command_scan =
     [into scan_string Cmd_ID_update, into scan_string Cmd_DeviceID_update,
      into scan_string Cmd_Command_update, into scan_nulldoc Cmd_Payload_update,
      into scan_string Cmd_Status_update, into scan_nulldoc Cmd_Result_update,
      into scan_time Cmd_CreatedAt_update, into scan_time_ptr Cmd_CompletedAt_update]"

definition sql_list_commands :: query where
  "sql_list_commands =
     \<lparr>sel = Fields command_columns, from_src = Tab ''commands'',
      conds = [CEq ''device_id'' (Param 0), CEq ''org_id'' (Param 1)],
      order_by = Some (''created_at'', True), limit_of = Limit 50\<rparr>"

lemma sql_list_commands_plain [simp, intro!]: "limit_plain (limit_of sql_list_commands)"
  by (simp add: sql_list_commands_def)

definition commands_handleList :: "'d engine \<Rightarrow> 'd commands_state handler" where
  "commands_handleList E s r w =
     (case db_query E (cs_db s) sql_list_commands [SText (r_pathval r ''id''), SText (OrgID r)] of
        (d', Inl e) \<Rightarrow> (s\<lparr>cs_db := d'\<rparr>, Internal ''query failed'' w)
      | (d', Inr (rows, e)) \<Rightarrow>
          (s\<lparr>cs_db := d'\<rparr>, writeJSON 200
             (JObj [(''commands'',
                JArr (map Command_json (scan_skip Command_scan zero_Command rows)))]) w))"

definition sql_get_command :: query where
  "sql_get_command =
     \<lparr>sel = Fields command_columns, from_src = Tab ''commands'',
      conds = [CEq ''id'' (Param 0), CEq ''org_id'' (Param 1)], order_by = None, limit_of = NoLimit\<rparr>"

lemma sql_get_command_plain [simp, intro!]: "limit_plain (limit_of sql_get_command)"
  by (simp add: sql_get_command_def)

definition commands_handleGet :: "'d engine \<Rightarrow> 'd commands_state handler" where
  "commands_handleGet E s r w =
     (case db_query_row E (cs_db s) sql_get_command [SText (r_pathval r ''id''), SText (OrgID r)] of
        (d', Inl e) \<Rightarrow> (s\<lparr>cs_db := d'\<rparr>, NotFound ''command not found'' w)
      | (d', Inr vs) \<Rightarrow>
          (s\<lparr>cs_db := d'\<rparr>,
           case Scan Command_scan vs zero_Command of
             (c, Some e) \<Rightarrow> NotFound ''command not found'' w
           | (c, None) \<Rightarrow> writeJSON 200 (Command_json c) w))"

definition sql_command_result :: stmt where
  "sql_command_result =
     Update ''commands'' [(''status'', Param 0), (''result'', Param 1), (''completed_at'', Param 2)]
       [CEq ''id'' (Param 3), CEq ''org_id'' (Param 4)]"

text \<open>A missing result is stored as the empty string.\<close>

definition result_arg :: "json option \<Rightarrow> sqlval" where
  "result_arg x = (case x of None \<Rightarrow> SText [] | Some j \<Rightarrow> SDoc j)"

definition commands_handleResult :: "'d engine \<Rightarrow> int \<Rightarrow> 'd commands_state handler" where
  "commands_handleResult E now s r w =
     (case decode_body ResultRequest_fields (r_body r) \<lparr>Res_Result = None, Res_Status = []\<rparr> of
        None \<Rightarrow> (s, BadRequest ''invalid request'' w)
      | Some req0 \<Rightarrow>
          (let i = r_pathval r ''id'';
               req = (if Res_Status req0 = [] then req0\<lparr>Res_Status := ''completed''\<rparr> else req0)
           in case db_exec E (cs_db s) sql_command_result
                     [SText (Res_Status req), result_arg (Res_Result req), STime now, SText i,
                      SText (OrgID r)] of
                (d', Inl e) \<Rightarrow> (s\<lparr>cs_db := d'\<rparr>, Internal ''update failed'' w)
              | (d', Inr res) \<Rightarrow>
                  if RowsAffected res = 0
                  then (s\<lparr>cs_db := d'\<rparr>, NotFound ''command not found'' w)
                  else (s\<lparr>cs_db := d', cs_pending := AList.delete i (cs_pending s)\<rparr>,
                        writeJSON 200 (JObj [(''status'', JStr ''updated'')]) w)))"

section \<open>The WebSocket feed\<close>

text \<open>
  On connection the entries of \<open>pending\<close> are sent, all of them when no device is named;
  then every five seconds the oldest pending command of the device is read, sent, and
  marked as delivered. Reading and marking are two statements.
\<close>

definition commands_ws_hello :: "string \<Rightarrow> 'd commands_state \<Rightarrow> json list" where
  "commands_ws_hello deviceID s =
     map (\<lambda>(k, cmd). Command_json cmd)
       (filter (\<lambda>(k, cmd). deviceID = [] \<or> k = deviceID) (cs_pending s))"

definition sql_next_command :: query where
  "sql_next_command =
     \<lparr>sel = Fields command_columns, from_src = Tab ''commands'',
      conds = [CEq ''device_id'' (Param 0), CEq ''status'' (Lit (SText ''pending'')), CEq ''org_id'' (Param 1)],
      order_by = Some (''created_at'', False), limit_of = Limit 1\<rparr>"

lemma sql_next_command_plain [simp, intro!]: "limit_plain (limit_of sql_next_command)"
  by (simp add: sql_next_command_def)

definition commands_ws_read ::
    "'d engine \<Rightarrow> string \<Rightarrow> string \<Rightarrow> 'd commands_state \<Rightarrow> 'd commands_state \<times> Command option" where
  "commands_ws_read E deviceID oid s =
     (if deviceID = [] then (s, None)
      else case db_query_row E (cs_db s) sql_next_command [SText deviceID, SText oid] of
             (d', Inl e) \<Rightarrow> (s\<lparr>cs_db := d'\<rparr>, None)
           | (d', Inr vs) \<Rightarrow>
               (s\<lparr>cs_db := d'\<rparr>,
                case Scan Command_scan vs zero_Command of
                  (c, Some e) \<Rightarrow> None | (c, None) \<Rightarrow> Some c))"

definition sql_delivered :: stmt where
  "sql_delivered = Update ''commands'' [(''status'', Lit (SText ''delivered''))] [CEq ''id'' (Param 0)]"

definition commands_ws_mark :: "'d engine \<Rightarrow> Command \<Rightarrow> 'd commands_state \<Rightarrow> 'd commands_state" where
  "commands_ws_mark E cmd s = s\<lparr>cs_db := fst (db_exec E (cs_db s) sql_delivered [SText (Cmd_ID cmd)])\<rparr>"

definition commands_ws_tick ::
    "'d engine \<Rightarrow> string \<Rightarrow> string \<Rightarrow> 'd commands_state \<Rightarrow> 'd commands_state \<times> json list" where
  "commands_ws_tick E deviceID oid s =
     (case commands_ws_read E deviceID oid s of
        (s', None) \<Rightarrow> (s', [])
      | (s', Some cmd) \<Rightarrow> (commands_ws_mark E cmd s', [Command_json cmd]))"

datatype commands_route = SendCommand | ListCommands | GetCommand | CommandResult | CommandsWS

definition commands_routes :: "(string \<times> commands_route) list" where
  "commands_routes =
     [(''POST /api/v1/devices/{id}/commands'', SendCommand),
      (''GET /api/v1/devices/{id}/commands'', ListCommands),
      (''GET /api/v1/commands/{id}'', GetCommand), (''PUT /api/v1/commands/{id}/result'', CommandResult),
      (''GET /api/v1/ws/commands'', CommandsWS)]"

text \<open>A step of the module: a request with its random bytes and clock, or a tick of the feed.\<close>

datatype commands_op =
    Serve_Send string int request
  | Serve_List request
  | Serve_Get request
  | Serve_Result int request
  | Feed_Read string string
  | Feed_Mark Command

fun commands_step :: "'d engine \<Rightarrow> commands_op \<Rightarrow> 'd commands_state \<Rightarrow> 'd commands_state" where
  "commands_step E (Serve_Send rnd now r) s = fst (commands_handleSend E rnd now s r new_writer)"
| "commands_step E (Serve_List r) s = fst (commands_handleList E s r new_writer)"
| "commands_step E (Serve_Get r) s = fst (commands_handleGet E s r new_writer)"
| "commands_step E (Serve_Result now r) s = fst (commands_handleResult E now s r new_writer)"
| "commands_step E (Feed_Read dev oid) s = fst (commands_ws_read E dev oid s)"
| "commands_step E (Feed_Mark cmd) s = commands_ws_mark E cmd s"

fun commands_run :: "'d engine \<Rightarrow> commands_op list \<Rightarrow> 'd commands_state \<Rightarrow> 'd commands_state" where
  "commands_run E [] s = s"
| "commands_run E (x # xs) s = commands_run E xs (commands_step E x s)"

lemmas commands_handlers =
  commands_handleSend_def commands_handleList_def commands_handleGet_def commands_handleResult_def

lemmas commands_sql =
  sql_insert_command_def sql_command_result_def sql_delivered_def

section \<open>The life of a command\<close>

text \<open>
  How a stored command may change: a result of its own organisation sets status, result and
  completion time, the feed sets the status to delivered. Everything else is fixed.
\<close>

inductive cmd_change :: "row \<Rightarrow> row \<Rightarrow> bool" where
  report: "q ''id'' = SText i \<Longrightarrow> q ''org_id'' = SText org \<Longrightarrow>
     cmd_change q (q(''status'' := SText st, ''result'' := result_arg x, ''completed_at'' := STime t))"
| deliver: "q ''id'' = SText i \<Longrightarrow> cmd_change q (q(''status'' := SText ''delivered''))"

inductive_cases cmd_changeE: "cmd_change p q"

definition cmd_fixed :: "string list" where
  "cmd_fixed = [''id'', ''device_id'', ''command'', ''payload'', ''created_at'', ''org_id'']"

lemma cmd_change_fixed: "cmd_change p q \<Longrightarrow> c \<in> set cmd_fixed \<Longrightarrow> q c = p c"
  by (erule cmd_changeE) (auto simp: cmd_fixed_def)

lemma cmd_changes_fixed: "cmd_change\<^sup>*\<^sup>* p q \<Longrightarrow> c \<in> set cmd_fixed \<Longrightarrow> q c = p c"
  by (induction rule: rtranclp_induct) (auto dest: cmd_change_fixed)

lemma list_all2_memberE:
  assumes "list_all2 P xs ys" and "x \<in> set xs"
  obtains y where "y \<in> set ys" and "P x y"
  using assms by (induction rule: list_all2_induct) auto

text \<open>The table grows at its end, and each earlier row went through changes of that kind.\<close>

definition cmds_evolve :: "row list \<Rightarrow> row list \<Rightarrow> bool" where
  "cmds_evolve rs qs \<longleftrightarrow> (\<exists>us vs. qs = us @ vs \<and> list_all2 cmd_change\<^sup>*\<^sup>* rs us)"

lemma cmds_evolveI: "list_all2 cmd_change\<^sup>*\<^sup>* rs us \<Longrightarrow> cmds_evolve rs (us @ vs)"
  by (auto simp: cmds_evolve_def)

lemma cmds_evolve_snoc: "cmds_evolve rs (rs @ qs)"
  by (rule cmds_evolveI) (simp add: list_all2_same)

lemma cmds_evolve_refl: "cmds_evolve rs rs"
  using cmds_evolve_snoc [of rs "[]"] by simp

lemma cmds_evolve_trans: "cmds_evolve rs qs \<Longrightarrow> cmds_evolve qs ps \<Longrightarrow> cmds_evolve rs ps"
proof -
  assume "cmds_evolve rs qs" and "cmds_evolve qs ps"
  then obtain us vs xs ys where h: "qs = us @ vs" "list_all2 cmd_change\<^sup>*\<^sup>* rs us"
      "ps = xs @ ys" "list_all2 cmd_change\<^sup>*\<^sup>* (us @ vs) xs"
    by (auto simp: cmds_evolve_def)
  then obtain xs1 xs2 where "xs = xs1 @ xs2" "list_all2 cmd_change\<^sup>*\<^sup>* us xs1"
    by (auto simp: list_all2_append1)
  moreover have "list_all2 cmd_change\<^sup>*\<^sup>* rs xs1"
    by (rule list_all2_trans [OF _ h(2) calculation(2)]) (rule rtranclp_trans)
  ultimately show ?thesis using h(3) by (auto intro: cmds_evolveI)
qed

lemma cmds_evolve_map:
  assumes "\<And>q. q \<in> set rs \<Longrightarrow> f q = q \<or> cmd_change q (f q)"
  shows "cmds_evolve rs (map f rs)"
proof -
  have "cmd_change\<^sup>*\<^sup>* q (f q)" if "q \<in> set rs" for q
    using assms [OF that] by (metis r_into_rtranclp rtranclp.rtrancl_refl)
  then have "list_all2 cmd_change\<^sup>*\<^sup>* rs (map f rs)"
    by (simp add: list_all2_map2 list_all2_same)
  then show ?thesis using cmds_evolveI [of rs "map f rs" "[]"] by simp
qed

context deviceos_db
begin

lemma command_insert_evolves:
  assumes "db_exec E d sql_insert_command args = (d', r)"
  shows "cmds_evolve (contents d ''commands'') (contents d' ''commands'')"
proof (cases r)
  case (Inl e)
  with assms show ?thesis by (auto dest!: exec_err simp: cmds_evolve_refl)
next
  case (Inr res)
  from sem_insert_abort(1) [OF exec_ok [OF assms [unfolded Inr sql_insert_command_def]] deviceos_schema(6)]
  show ?thesis by (simp add: cmds_evolve_snoc)
qed

lemma command_result_evolves:
  assumes "db_exec E d sql_command_result [SText st, result_arg x, STime t, SText i, SText org] = (d', r)"
  shows "cmds_evolve (contents d ''commands'') (contents d' ''commands'')"
proof (cases r)
  case (Inl e)
  with assms show ?thesis by (auto dest!: exec_err simp: cmds_evolve_refl)
next
  case (Inr res)
  let ?f = "\<lambda>q. if sat lt [SText st, result_arg x, STime t, SText i, SText org]
      [CEq ''id'' (Param 3), CEq ''org_id'' (Param 4)] q
    then q(''status'' := SText st, ''result'' := result_arg x, ''completed_at'' := STime t) else q"
  have "contents d' ''commands'' = map ?f (contents d ''commands'')"
    using sem_update_rows(1) [OF exec_ok [OF assms [unfolded Inr sql_command_result_def]]]
    by (simp add: update_rows_def numeral_3_eq_3 cong: if_cong)
  moreover have "?f q = q \<or> cmd_change q (?f q)" for q
    by (auto simp: sat_def intro: report)
  ultimately show ?thesis by (simp add: cmds_evolve_map)
qed

lemma command_delivered_evolves:
  assumes "db_exec E d sql_delivered [SText i] = (d', r)"
  shows "cmds_evolve (contents d ''commands'') (contents d' ''commands'')"
proof (cases r)
  case (Inl e)
  with assms show ?thesis by (auto dest!: exec_err simp: cmds_evolve_refl)
next
  case (Inr res)
  let ?f = "\<lambda>q. if sat lt [SText i] [CEq ''id'' (Param 0)] q then q(''status'' := SText ''delivered'') else q"
  have "contents d' ''commands'' = map ?f (contents d ''commands'')"
    using sem_update_rows(1) [OF exec_ok [OF assms [unfolded Inr sql_delivered_def]]]
    by (simp add: update_rows_def cong: if_cong)
  moreover have "?f q = q \<or> cmd_change q (?f q)" for q
    by (auto simp: sat_def intro: deliver)
  ultimately show ?thesis by (simp add: cmds_evolve_map)
qed

lemma commands_step_evolves:
  "cmds_evolve (contents (cs_db s) ''commands'') (contents (cs_db (commands_step E x s)) ''commands'')"
proof (cases x)
  case (Serve_Send rnd now r)
  then show ?thesis
    by (auto simp: commands_handleSend_def Let_def cmds_evolve_refl dest: command_insert_evolves
        split: option.splits prod.splits sum.splits)
next
  case (Serve_List r)
  then show ?thesis
    by (auto simp: commands_handleList_def cmds_evolve_refl dest!: query_frame
        split: prod.splits sum.splits)
next
  case (Serve_Get r)
  then show ?thesis
    by (auto simp: commands_handleGet_def cmds_evolve_refl dest!: query_row_frame
        split: prod.splits sum.splits)
next
  case (Serve_Result now r)
  then show ?thesis
    by (auto simp: commands_handleResult_def Let_def cmds_evolve_refl dest: command_result_evolves
        split: option.splits prod.splits sum.splits)
next
  case (Feed_Read dev oid)
  then show ?thesis
    by (auto simp: commands_ws_read_def cmds_evolve_refl dest!: query_row_frame
        split: prod.splits sum.splits)
next
  case (Feed_Mark cmd)
  obtain d' r where "db_exec E (cs_db s) sql_delivered [SText (Cmd_ID cmd)] = (d', r)" by fastforce
  with Feed_Mark command_delivered_evolves show ?thesis by (simp add: commands_ws_mark_def)
qed

lemma commands_run_evolves:
  "cmds_evolve (contents (cs_db s) ''commands'') (contents (cs_db (commands_run E xs s)) ''commands'')"
proof (induction xs arbitrary: s)
  case Nil
  then show ?case by (simp add: cmds_evolve_refl)
next
  case (Cons x xs)
  from cmds_evolve_trans [OF commands_step_evolves Cons.IH] show ?case by simp
qed

end


definition demo_command :: row where
  "demo_command = (\<lambda>c. SNull)(''id'' := SText ''cmd_1'', ''device_id'' := SText ''dev_1'',
     ''command'' := SText ''reboot'', ''payload'' := SDoc (JObj []), ''status'' := SText ''pending'',
     ''created_at'' := STime 1, ''org_id'' := SText ''acme'')"

definition demo_commands :: "tables commands_state" where
  "demo_commands = \<lparr>cs_db = (\<lambda>n. [])(''commands'' := [demo_command]), cs_pending = []\<rparr>"


section \<open>Organisations\<close>

datatype commands_rest = Rest_Send string int | Rest_List | Rest_Get | Rest_Result int

fun commands_handle :: "'d engine \<Rightarrow> commands_rest \<Rightarrow> 'd commands_state handler" where
  "commands_handle E (Rest_Send rnd now) = commands_handleSend E rnd now"
| "commands_handle E Rest_List = commands_handleList E"
| "commands_handle E Rest_Get = commands_handleGet E"
| "commands_handle E (Rest_Result now) = commands_handleResult E now"

context deviceos_db
begin

lemma commands_keeps_foreign:
  assumes "commands_handle E x s r w = (s', w')"
  shows "filter (foreign (OrgID r)) (contents (cs_db s') ''commands'')
       = filter (foreign (OrgID r)) (contents (cs_db s) ''commands'')"
proof -
  let ?own = "SText (OrgID r)"
  have ins: "filter (foreign (OrgID r)) (contents d1 ''commands'')
       = filter (foreign (OrgID r)) (contents d ''commands'')"
    if "db_exec E d sql_insert_command [a0, a1, a2, a3, a4, ?own] = (d1, res)"
    for d d1 a0 a1 a2 a3 a4 res
    by (rule exec_foreign_tab [OF that]) (simp add: commands_sql)
  have upd: "filter (foreign (OrgID r)) (contents d1 ''commands'')
       = filter (foreign (OrgID r)) (contents d ''commands'')"
    if "db_exec E d sql_command_result [a0, a1, a2, a3, ?own] = (d1, res)"
    for d d1 a0 a1 a2 a3 res
    by (rule exec_foreign_tab [OF that]) (simp add: commands_sql)
  show ?thesis
    using assms
    by (cases x)
       (auto simp: commands_handlers Let_def split: prod.splits sum.splits option.splits if_splits
         dest: ins upd query_frame query_row_frame)
qed

end

lemma commands_tenant_module:
  assumes "deviceos_db E contents fk_on lt"
  shows "tenant_module (commands_handle E) (\<lambda>s. contents (cs_db s)) ''commands'' (\<lambda>r. True)"
  using deviceos_db.commands_keeps_foreign [OF assms] by unfold_locales blast

interpretation commands_rows:
  tenant_module "commands_handle (memory_db fk)" cs_db "''commands''" "\<lambda>r. True" for fk
  by (rule commands_tenant_module) (rule memdb.deviceos_db_axioms)

text \<open>
  Requests made in the name of other organisations never change the commands of an
  organisation, and a command is only shown to callers of its own organisation.
\<close>

theorem commands_isolated:
  assumes "deviceos_db E contents fk_on lt"
    and "\<And>x r. (x, r) \<in> set reqs \<Longrightarrow> OrgID r \<noteq> b"
    and "fresh w" and "commands_handleGet E s g w = (s', w')" and "status_of w' = Some 200"
  shows "rows_of b (contents (cs_db (serve (commands_handle E) s0 reqs)) ''commands'')
       = rows_of b (contents (cs_db s0) ''commands'')
    \<and> (\<exists>q \<in> set (rows_of (OrgID g) (contents (cs_db s) ''commands'')).
         q ''id'' = SText (r_pathval g ''id'')
         \<and> w_out w' = [Cjson (Command_json (fst (Scan Command_scan
               (map (project1 q) command_columns) zero_Command)))])"
proof -
  have "rows_of b (contents (cs_db (serve (commands_handle E) s0 reqs)) ''commands'')
       = rows_of b (contents (cs_db s0) ''commands'')"
    by (rule tenant_module.serve_isolated [OF commands_tenant_module [OF assms(1)]])
       (use assms(2) in simp)
  moreover
  let ?args = "[SText (r_pathval g ''id''), SText (OrgID g)]"
  obtain d' vs where row: "db_query_row E (cs_db s) sql_get_command ?args = (d', Inr vs)"
    using assms(3-5) by (auto simp: commands_handleGet_def http_simps split: prod.splits sum.splits)
  have "\<exists>q \<in> set (matching lt sql_get_command ?args (contents (cs_db s))).
      vs = map (project1 q) command_columns"
    by (rule sql_engine.query_row_from [OF deviceos_db.axioms(1) [OF assms(1)] row])
       (simp_all add: sql_get_command_def)
  then obtain q where q: "q \<in> set (contents (cs_db s) ''commands'')"
      "q ''id'' = SText (r_pathval g ''id'')" "q ''org_id'' = SText (OrgID g)"
      "vs = map (project1 q) command_columns"
    by (auto simp: matching_def sql_get_command_def sat_def)
  moreover obtain c where "Scan Command_scan vs zero_Command = (c, None)"
    and "w' = writeJSON 200 (Command_json c) w"
    using assms(3-5) row
    by (auto simp: commands_handleGet_def http_simps split: prod.splits option.splits)
  ultimately show ?thesis
    using assms(3) by (auto simp: rows_of_def http_simps)
qed

theorem commands_isolated_witness:
  "rows_of ''acme'' (cs_db (serve (commands_handle (memory_db False)) demo_commands
      [(Rest_Result 5, demo_request ''evil'' ''cmd_1'' (JObj []))]) ''commands'') = [demo_command]"
proof -
  have st: "status_of (snd (commands_handleGet (memory_db False) demo_commands
      (demo_request ''acme'' ''cmd_1'' JNull) new_writer)) = Some 200"
    by (simp add: commands_handleGet_def sql_get_command_def memory_db_eval DB_same db_query_row_def
        demo_commands_def demo_command_def command_columns_def Command_scan_def into_def http_simps)
  have o: "OrgID r \<noteq> ''acme''" if "(x, r) \<in> set [(Rest_Result 5, demo_request ''evil'' ''cmd_1'' (JObj []))]"
    for x r using that by simp
  note t = commands_isolated [OF memdb.deviceos_db_axioms [of False], where b = "''acme''"
      and reqs = "[(Rest_Result 5, demo_request ''evil'' ''cmd_1'' (JObj []))]" and ?s0.0 = demo_commands]
  note t = t [OF o fresh_new_writer surjective_pairing st]
  then have "rows_of ''acme'' (cs_db (serve (commands_handle (memory_db False)) demo_commands
      [(Rest_Result 5, demo_request ''evil'' ''cmd_1'' (JObj []))]) ''commands'')
      = rows_of ''acme'' (cs_db demo_commands ''commands'')" by (rule conjunct1)
  also have "\<dots> = [demo_command]" by (simp add: rows_of_def demo_commands_def demo_command_def)
  finally show ?thesis .
qed

section \<open>The map of pending commands\<close>

text \<open>
  It is filled under the identifier of the device and emptied under the identifier of the
  command.
\<close>

lemma map_of_adelete: "k \<noteq> i \<Longrightarrow> map_of (AList.delete i al) k = map_of al k"
  by (simp add: delete_conv')

lemma map_of_aupdate: "map_of (AList.update i v al) k = (if k = i then Some v else map_of al k)"
  by (simp add: update_conv')

lemma commands_step_pending:
  assumes "\<And>rnd now r. x = Serve_Send rnd now r \<Longrightarrow> r_pathval r ''id'' \<noteq> dev"
    and "\<And>now r. x = Serve_Result now r \<Longrightarrow> r_pathval r ''id'' \<noteq> dev"
  shows "map_of (cs_pending (commands_step E x s)) dev = map_of (cs_pending s) dev"
proof (cases x)
  case (Serve_Send rnd now r)
  with assms(1) have "dev \<noteq> r_pathval r ''id''" by auto
  with Serve_Send show ?thesis
    by (auto simp: commands_handleSend_def Let_def map_of_aupdate split: option.splits prod.splits sum.splits)
next
  case (Serve_Result now r)
  with assms(2) have "dev \<noteq> r_pathval r ''id''" by auto
  with Serve_Result show ?thesis
    by (auto simp: commands_handleResult_def Let_def map_of_adelete split: option.splits prod.splits sum.splits)
qed (auto simp: commands_handlers commands_ws_read_def commands_ws_mark_def split: prod.splits sum.splits)

lemma commands_run_pending:
  assumes "\<And>rnd now r. Serve_Send rnd now r \<in> set xs \<Longrightarrow> r_pathval r ''id'' \<noteq> dev"
    and "\<And>now r. Serve_Result now r \<in> set xs \<Longrightarrow> r_pathval r ''id'' \<noteq> dev"
  shows "map_of (cs_pending (commands_run E xs s)) dev = map_of (cs_pending s) dev"
  using assms
proof (induction xs arbitrary: s)
  case (Cons x xs)
  have "map_of (cs_pending (commands_run E xs (commands_step E x s))) dev
      = map_of (cs_pending (commands_step E x s)) dev"
    by (rule Cons.IH) (rule Cons.prems, rule list.set_intros(2), assumption)+
  also have "\<dots> = map_of (cs_pending s) dev"
    by (rule commands_step_pending) (metis Cons.prems list.set_intros(1))+
  finally show ?case by simp
qed simp


definition demo_send :: request where
  "demo_send = demo_request ''acme'' ''dev_1'' (JObj [(''command'', JStr ''reboot'')])"

definition demo_result :: request where
  "demo_result = demo_request ''acme'' ''cmd_61'' (JObj [(''status'', JStr ''completed'')])"


section \<open>A result that arrives between reading and marking\<close>

text \<open>
  The feed marks by identifier only: a result reported after the command was read and
  before it is marked is overwritten, the completed command counts as delivered.
\<close>

definition demo_read :: Command where
  "demo_read = \<lparr>Cmd_ID = ''cmd_1'', Cmd_DeviceID = ''dev_1'', Cmd_Command = ''reboot'',
     Cmd_Payload = Some (JObj []), Cmd_Status = ''pending'', Cmd_Result = None, Cmd_CreatedAt = 1,
     Cmd_CompletedAt = None\<rparr>"

lemma result_overwritten_by_feed:
  "snd (commands_ws_read (memory_db False) ''dev_1'' ''acme'' demo_commands) = Some demo_read"
  "map (\<lambda>q. q ''status'') (cs_db (commands_run (memory_db False)
     [Feed_Read ''dev_1'' ''acme'', Serve_Result 5 (demo_request ''acme'' ''cmd_1'' (JObj [])),
      Feed_Mark demo_read] demo_commands) ''commands'') = [SText ''delivered'']"
  "map (\<lambda>q. q ''status'') (cs_db (commands_run (memory_db False)
     [Feed_Read ''dev_1'' ''acme'', Feed_Mark demo_read,
      Serve_Result 5 (demo_request ''acme'' ''cmd_1'' (JObj []))] demo_commands) ''commands'')
     = [SText ''completed'']"
  by (simp_all add: commands_ws_read_def commands_ws_mark_def commands_handleResult_def
      sql_next_command_def memory_db_eval DB_same db_query_row_def demo_commands_def demo_command_def
      demo_read_def command_columns_def Command_scan_def into_def zero_Command_def Let_def
      commands_sql update_rows_def result_arg_def)

end
