(* ===== verification/Webhooks.thy ===== *)
theory Webhooks
  imports Devices
begin

text \<open>
  \<open>modules/webhooks\<close>: subscriptions and the delivery of events to them. The HTTP client is
  a parameter, \<open>post url payload s\<close>: the status code it gets, or an error.
\<close>

section \<open>Data\<close>

record Webhook =
  Wh_ID :: string
  Wh_Name :: string
  Wh_URL :: string
  Wh_Secret :: string
  Wh_Events :: "string list option"
  Wh_Enabled :: bool
  Wh_CreatedAt :: string

definition zero_Webhook :: Webhook where
  "zero_Webhook =
     \<lparr>Wh_ID = [], Wh_Name = [], Wh_URL = [], Wh_Secret = [], Wh_Events = None, Wh_Enabled = False,
      Wh_CreatedAt = []\<rparr>"

definition Webhook_fields :: "Webhook fields" where
  "Webhook_fields =
     [(''id'', set_string Wh_ID_update), (''name'', set_string Wh_Name_update),
      (''url'', set_string Wh_URL_update), (''secret'', set_string Wh_Secret_update),
      (''events'', set_strings Wh_Events_update), (''enabled'', set_bool Wh_Enabled_update),
      (''created_at'', set_string Wh_CreatedAt_update)]"

definition Webhook_json :: "Webhook \<Rightarrow> json" where
  "Webhook_json h =
     JObj ([(''id'', JStr (Wh_ID h)), (''name'', JStr (Wh_Name h)), (''url'', JStr (Wh_URL h))]
       @ omit_str ''secret'' (Wh_Secret h)
       @ [(''events'', jstrs (Wh_Events h)), (''enabled'', JBool (Wh_Enabled h)),
          (''created_at'', JStr (Wh_CreatedAt h))])"

record Delivery =
  Del_ID :: string
  Del_WebhookID :: string
  Del_Event :: string
  Del_Payload :: string
  Del_Status :: string
  Del_StatusCode :: int
  Del_CreatedAt :: string

definition zero_Delivery :: Delivery where
  "zero_Delivery =
     \<lparr>Del_ID = [], Del_WebhookID = [], Del_Event = [], Del_Payload = [], Del_Status = [],
      Del_StatusCode = 0, Del_CreatedAt = []\<rparr>"

definition Delivery_json :: "Delivery \<Rightarrow> json" where
  "Delivery_json d =
     JObj [(''id'', JStr (Del_ID d)), (''webhook_id'', JStr (Del_WebhookID d)),
           (''event'', JStr (Del_Event d)), (''payload'', JStr (Del_Payload d)),
           (''status'', JStr (Del_Status d)), (''status_code'', JInt (Del_StatusCode d)),
           (''created_at'', JStr (Del_CreatedAt d))]"

section \<open>Handlers\<close>

definition sql_insert_webhook :: stmt where
  "sql_insert_webhook =
     Insert ''webhooks'' [(''id'', Param 0), (''name'', Param 1), (''url'', Param 2),
       (''secret'', Param 3), (''events'', Param 4), (''enabled'', Param 5), (''created_at'', Param 6),
       (''org_id'', Param 7)] Abort"

text \<open>\<open>rfc\<close> prints an instant in UTC as RFC 3339; \<open>t1\<close>, \<open>t2\<close> are readings of the clock.\<close>

definition webhooks_handleCreate :: "(int \<Rightarrow> string) \<Rightarrow> 'd engine \<Rightarrow> int \<Rightarrow> int \<Rightarrow> 'd handler" where
  "webhooks_handleCreate rfc E t1 t2 d r w =
     (case decode_body Webhook_fields (r_body r) zero_Webhook of
        None \<Rightarrow> (d, BadRequest ''invalid request'' w)
      | Some wh0 \<Rightarrow>
          if Wh_Name wh0 = [] \<or> Wh_URL wh0 = [] then (d, BadRequest ''name and url are required'' w)
          else
            (let wh = wh0\<lparr>Wh_ID := ''wh_'' @ itoa t1, Wh_CreatedAt := rfc t2\<rparr>
             in case db_exec E d sql_insert_webhook
                       [SText (Wh_ID wh), SText (Wh_Name wh), SText (Wh_URL wh), SText (Wh_Secret wh),
                        SDoc (jstrs (Wh_Events wh)), sql_bool (Wh_Enabled wh), SText (Wh_CreatedAt wh),
                        SText (OrgID r)] of
                  (d', Inl e) \<Rightarrow> (d', Internal ''failed to create webhook'' w)
                | (d', Inr res) \<Rightarrow> (d', writeJSON 201 (Webhook_json wh) w)))"

definition sql_list_webhooks :: query where
  "sql_list_webhooks =
     \<lparr>sel = Fields [PCol ''id'', PCol ''name'', PCol ''url'', PCol ''secret'', PCol ''events'', PCol ''enabled'',
        PCol ''created_at''],
      from_src = Tab ''webhooks'', conds = [CEq ''org_id'' (Param 0)],
      order_by = Some (''created_at'', True), limit_of = NoLimit\<rparr>"

lemma sql_list_webhooks_plain [simp, intro!]: "limit_plain (limit_of sql_list_webhooks)"
  by (simp add: sql_list_webhooks_def)

definition Webhook_scan :: "Webhook scanner list" where
  "Webhook_scan =
     [into scan_string Wh_ID_update, into scan_string Wh_Name_update, into scan_string Wh_URL_update,
      into scan_string Wh_Secret_update,
      into scan_doc (\<lambda>f. Wh_Events_update (\<lambda>_. lax_strings (f None))),
      into scan_bool Wh_Enabled_update, into scan_string Wh_CreatedAt_update]"

definition webhooks_handleList :: "'d engine \<Rightarrow> 'd handler" where
  "webhooks_handleList E d r w =
     (case db_query E d sql_list_webhooks [SText (OrgID r)] of
        (d', Inl e) \<Rightarrow> (d', Internal ''query failed'' w)
      | (d', Inr (rows, e)) \<Rightarrow>
          (d', writeJSON 200
             (JObj [(''webhooks'',
                JArr (map Webhook_json (scan_lax Webhook_scan zero_Webhook rows)))]) w))"

definition sql_update_webhook :: stmt where
  "sql_update_webhook =
     Update ''webhooks'' [(''name'', Param 0), (''url'', Param 1), (''secret'', Param 2),
       (''events'', Param 3), (''enabled'', Param 4)]
       [CEq ''id'' (Param 5), CEq ''org_id'' (Param 6)]"

definition webhooks_handleUpdate :: "'d engine \<Rightarrow> 'd handler" where
  "webhooks_handleUpdate E d r w =
     (case decode_body Webhook_fields (r_body r) zero_Webhook of
        None \<Rightarrow> (d, BadRequest ''invalid request'' w)
      | Some wh \<Rightarrow>
          (case db_exec E d sql_update_webhook
                  [SText (Wh_Name wh), SText (Wh_URL wh), SText (Wh_Secret wh),
                   SDoc (jstrs (Wh_Events wh)), sql_bool (Wh_Enabled wh),
                   SText (r_pathval r ''id''), SText (OrgID r)] of
             (d', Inl e) \<Rightarrow> (d', Internal ''update failed'' w)
           | (d', Inr res) \<Rightarrow>
               if RowsAffected res = 0 then (d', NotFound ''webhook not found'' w)
               else (d', writeJSON 200 (Webhook_json (wh\<lparr>Wh_ID := r_pathval r ''id''\<rparr>)) w)))"

definition sql_delete_webhook :: stmt where
  "sql_delete_webhook = Delete ''webhooks'' [CEq ''id'' (Param 0), CEq ''org_id'' (Param 1)]"

definition webhooks_handleDelete :: "'d engine \<Rightarrow> 'd handler" where
  "webhooks_handleDelete E d r w =
     (case db_exec E d sql_delete_webhook [SText (r_pathval r ''id''), SText (OrgID r)] of
        (d', Inl e) \<Rightarrow> (d', NotFound ''webhook not found'' w)
      | (d', Inr res) \<Rightarrow>
          if RowsAffected res = 0 then (d', NotFound ''webhook not found'' w)
          else (d', write_header 204 w))"

definition sql_deliveries :: query where
  "sql_deliveries =
     \<lparr>sel = Fields [PCol ''d.id'', PCol ''d.webhook_id'', PCol ''d.event'', PCol ''d.payload'',
        PCol ''d.status'', PCol ''d.status_code'', PCol ''d.created_at''],
      from_src = Join ''d'' ''webhook_deliveries'' ''w'' ''webhooks'' ''webhook_id'' ''id'',
      conds = [CEq ''d.webhook_id'' (Param 0), CEq ''w.org_id'' (Param 1)],
      order_by = Some (''d.created_at'', True), limit_of = Limit 50\<rparr>"

lemma sql_deliveries_plain [simp, intro!]: "limit_plain (limit_of sql_deliveries)"
  by (simp add: sql_deliveries_def)

definition Delivery_scan :: "Delivery scanner list" where
  "Delivery_scan =
     [into scan_string Del_ID_update, into scan_string Del_WebhookID_update,
      into scan_string Del_Event_update, into scan_string Del_Payload_update,
      into scan_string Del_Status_update, into scan_int Del_StatusCode_update,
      into scan_string Del_CreatedAt_update]"

definition webhooks_handleDeliveries :: "'d engine \<Rightarrow> 'd handler" where
  "webhooks_handleDeliveries E d r w =
     (case db_query E d sql_deliveries [SText (r_pathval r ''id''), SText (OrgID r)] of
        (d', Inl e) \<Rightarrow> (d', Internal ''query failed'' w)
      | (d', Inr (rows, e)) \<Rightarrow>
          (d', writeJSON 200
             (JObj [(''deliveries'',
                JArr (map Delivery_json (scan_lax Delivery_scan zero_Delivery rows)))]) w))"

section \<open>Delivery\<close>

fun contains :: "string list \<Rightarrow> string \<Rightarrow> bool" where
  "contains [] item = False"
| "contains (s # ss) item = (s = item \<or> contains ss item)"

definition sql_insert_delivery :: stmt where
  "sql_insert_delivery =
     Insert ''webhook_deliveries'' [(''id'', Param 0), (''webhook_id'', Param 1), (''event'', Param 2),
       (''payload'', Param 3), (''status'', Param 4), (''status_code'', Param 5),
       (''created_at'', Param 6)] Abort"

definition webhooks_deliver ::
    "(int \<Rightarrow> string) \<Rightarrow> 'd engine \<Rightarrow> (string \<Rightarrow> string \<Rightarrow> 'd \<Rightarrow> 'd \<times> int option) \<Rightarrow> int \<times> int \<Rightarrow>
     Webhook \<Rightarrow> string \<Rightarrow> string \<Rightarrow> 'd \<Rightarrow> 'd" where
  "webhooks_deliver rfc E post t wh event payload d =
     (let i = ''del_'' @ itoa (fst t)
      in case post (Wh_URL wh) payload d of
           (d1, resp) \<Rightarrow>
             (let (status, code) =
                    (case resp of
                       None \<Rightarrow> (''failed'', 0)
                     | Some c \<Rightarrow> (if c \<ge> 400 then ''failed'' else ''success'', c))
              in fst (db_exec E d1 sql_insert_delivery
                   [SText i, SText (Wh_ID wh), SText event, SText payload, SText status, SInt code,
                    SText (rfc (snd t))])))"

text \<open>
  Each delivery is a goroutine of its own; here they run one after another, in the order
  of the list, the \<open>k\<close>-th with its own readings \<open>clk k\<close> of the clock.
\<close>

fun webhooks_Deliver ::
    "(int \<Rightarrow> string) \<Rightarrow> 'd engine \<Rightarrow> (string \<Rightarrow> string \<Rightarrow> 'd \<Rightarrow> 'd \<times> int option) \<Rightarrow>
     (nat \<Rightarrow> int \<times> int) \<Rightarrow> string \<Rightarrow> string \<Rightarrow> Webhook list \<Rightarrow> 'd \<Rightarrow> 'd" where
  "webhooks_Deliver rfc E post clk event payload [] d = d"
| "webhooks_Deliver rfc E post clk event payload (wh # whs) d =
     (if \<not> Wh_Enabled wh then webhooks_Deliver rfc E post clk event payload whs d
      else if \<not> contains (case Wh_Events wh of None \<Rightarrow> [] | Some es \<Rightarrow> es) event
      then webhooks_Deliver rfc E post clk event payload whs d
      else webhooks_Deliver rfc E post (\<lambda>k. clk (Suc k)) event payload whs
             (webhooks_deliver rfc E post (clk 0) wh event payload d))"

datatype webhooks_route = CreateWebhook | ListWebhooks | UpdateWebhook | DeleteWebhook | ListDeliveries

definition webhooks_routes :: "(string \<times> webhooks_route) list" where
  "webhooks_routes =
     [(''POST /api/v1/webhooks'', CreateWebhook), (''GET /api/v1/webhooks'', ListWebhooks),
      (''PUT /api/v1/webhooks/{id}'', UpdateWebhook), (''DELETE /api/v1/webhooks/{id}'', DeleteWebhook),
      (''GET /api/v1/webhooks/{id}/deliveries'', ListDeliveries)]"

fun webhooks_handle ::
    "(int \<Rightarrow> string) \<Rightarrow> 'd engine \<Rightarrow> webhooks_route \<times> int \<times> int \<Rightarrow> 'd handler" where
  "webhooks_handle rfc E (CreateWebhook, t1, t2) = webhooks_handleCreate rfc E t1 t2"
| "webhooks_handle rfc E (ListWebhooks, _) = webhooks_handleList E"
| "webhooks_handle rfc E (UpdateWebhook, _) = webhooks_handleUpdate E"
| "webhooks_handle rfc E (DeleteWebhook, _) = webhooks_handleDelete E"
| "webhooks_handle rfc E (ListDeliveries, _) = webhooks_handleDeliveries E"

lemmas webhooks_handlers =
  webhooks_handleCreate_def webhooks_handleList_def webhooks_handleUpdate_def
  webhooks_handleDelete_def webhooks_handleDeliveries_def

lemmas webhooks_sql =
  sql_insert_webhook_def sql_update_webhook_def sql_delete_webhook_def sql_insert_delivery_def

section \<open>Organisations\<close>

context deviceos_db
begin

lemma webhooks_keeps_foreign:
  assumes "webhooks_handle rfc E x d r w = (d', w')"
  shows "filter (foreign (OrgID r)) (contents d' ''webhooks'')
       = filter (foreign (OrgID r)) (contents d ''webhooks'')"
proof -
  let ?own = "SText (OrgID r)"
  have ins: "filter (foreign (OrgID r)) (contents d1 ''webhooks'')
       = filter (foreign (OrgID r)) (contents d ''webhooks'')"
    if "db_exec E d sql_insert_webhook [a0, a1, a2, a3, a4, a5, a6, ?own] = (d1, res)"
    for d1 a0 a1 a2 a3 a4 a5 a6 res
    by (rule exec_foreign_tab [OF that]) (simp add: webhooks_sql)
  have upd: "filter (foreign (OrgID r)) (contents d1 ''webhooks'')
       = filter (foreign (OrgID r)) (contents d ''webhooks'')"
    if "db_exec E d sql_update_webhook [a0, a1, a2, a3, a4, a5, ?own] = (d1, res)"
    for d1 a0 a1 a2 a3 a4 a5 res
    by (rule exec_foreign_tab [OF that]) (simp add: webhooks_sql)
  have del: "filter (foreign (OrgID r)) (contents d1 ''webhooks'')
       = filter (foreign (OrgID r)) (contents d ''webhooks'')"
    if "db_exec E d sql_delete_webhook [a0, ?own] = (d1, res)" for d1 a0 res
    by (rule exec_foreign_tab [OF that]) (simp add: webhooks_sql)
  show ?thesis
    using assms
    by (cases "(rfc, E, x)" rule: webhooks_handle.cases)
       (auto simp: webhooks_handlers Let_def split: prod.splits sum.splits option.splits if_splits
         dest: ins upd del query_frame)
qed

end

lemma webhooks_tenant_module:
  assumes "deviceos_db E contents fk_on lt"
  shows "tenant_module (webhooks_handle rfc E) contents ''webhooks'' (\<lambda>r. True)"
  using deviceos_db.webhooks_keeps_foreign [OF assms] by unfold_locales blast

interpretation webhooks_rows:
  tenant_module "webhooks_handle rfc (memory_db fk)" "\<lambda>t. t" "''webhooks''" "\<lambda>r. True" for rfc fk
  by (rule webhooks_tenant_module) (rule memdb.deviceos_db_axioms)

text \<open>
  The webhooks of an organisation are never changed by requests of others, and the
  deliveries a caller is shown are deliveries of the named webhook, which is his own.
\<close>

theorem webhooks_isolated:
  assumes "deviceos_db E contents fk_on lt"
    and "\<And>x r. (x, r) \<in> set reqs \<Longrightarrow> OrgID r \<noteq> b"
    and "fresh w" and "webhooks_handleDeliveries E d g w = (d', w')" and "status_of w' = Some 200"
  shows "rows_of b (contents (serve (webhooks_handle rfc E) d0 reqs) ''webhooks'')
       = rows_of b (contents d0 ''webhooks'')
    \<and> (\<exists>qs. w_out w' = [Cjson (JObj [(''deliveries'', JArr (map (\<lambda>q. Delivery_json
            (fst (Scan Delivery_scan (map q [''id'', ''webhook_id'', ''event'', ''payload'', ''status'',
               ''status_code'', ''created_at'']) zero_Delivery))) qs))])]
         \<and> (\<forall>q \<in> set qs. q \<in> set (contents d ''webhook_deliveries'')
              \<and> q ''webhook_id'' = SText (r_pathval g ''id'')
              \<and> (\<exists>p \<in> set (rows_of (OrgID g) (contents d ''webhooks'')).
                    p ''id'' = SText (r_pathval g ''id''))))"
proof -
  have iso: "rows_of b (contents (serve (webhooks_handle rfc E) d0 reqs) ''webhooks'')
       = rows_of b (contents d0 ''webhooks'')"
    by (rule tenant_module.serve_isolated [OF webhooks_tenant_module [OF assms(1)]])
       (use assms(2) in simp)
  let ?i = "r_pathval g ''id''" and ?args = "[SText (r_pathval g ''id''), SText (OrgID g)]"
  obtain rows e where q: "db_query E d sql_deliveries ?args = (d', Inr (rows, e))"
    and out: "w_out w' = [Cjson (JObj [(''deliveries'',
                JArr (map Delivery_json (scan_lax Delivery_scan zero_Delivery rows)))])]"
    using assms(3-5)
    by (auto simp: webhooks_handleDeliveries_def http_simps split: prod.splits sum.splits)
  have "\<exists>q. vs = map q [''id'', ''webhook_id'', ''event'', ''payload'', ''status'', ''status_code'', ''created_at'']
      \<and> q \<in> set (contents d ''webhook_deliveries'') \<and> q ''webhook_id'' = SText ?i
      \<and> (\<exists>p \<in> set (rows_of (OrgID g) (contents d ''webhooks'')). p ''id'' = SText ?i)"
    if v: "vs \<in> set rows" for vs
  proof -
    have "\<exists>r \<in> set (matching lt sql_deliveries ?args (contents d)). vs = map (project1 r)
        [PCol ''d.id'', PCol ''d.webhook_id'', PCol ''d.event'', PCol ''d.payload'', PCol ''d.status'',
         PCol ''d.status_code'', PCol ''d.created_at'']"
      by (rule sql_engine.rows_from [OF deviceos_db.axioms(1) [OF assms(1)] q _ _ v])
         (simp_all add: sql_deliveries_def)
    then obtain r where r: "r \<in> set (matching lt sql_deliveries ?args (contents d))"
      and vs: "vs = map (project1 r) [PCol ''d.id'', PCol ''d.webhook_id'', PCol ''d.event'',
         PCol ''d.payload'', PCol ''d.status'', PCol ''d.status_code'', PCol ''d.created_at'']" by blast
    from r obtain q p where qp: "q \<in> set (contents d ''webhook_deliveries'')"
        "p \<in> set (contents d ''webhooks'')" "r = qualify ''d'' q ''w'' p" "q ''webhook_id'' = p ''id''"
      and s: "sat lt ?args (conds sql_deliveries) r"
      by (auto simp: matching_def sql_deliveries_def)
    from s have "q ''webhook_id'' = SText ?i" "p ''org_id'' = SText (OrgID g)"
      by (auto simp: sql_deliveries_def sat_def qp(3) qualify_def trim_prefix_def)
    with qp show ?thesis
      by (intro exI [of _ q]) (auto simp: vs qualify_def trim_prefix_def rows_of_def)
  qed
  then have "\<forall>vs \<in> set rows. \<exists>q. vs = map q [''id'', ''webhook_id'', ''event'', ''payload'', ''status'',
      ''status_code'', ''created_at''] \<and> q \<in> set (contents d ''webhook_deliveries'')
      \<and> q ''webhook_id'' = SText ?i
      \<and> (\<exists>p \<in> set (rows_of (OrgID g) (contents d ''webhooks'')). p ''id'' = SText ?i)" by blast
  from bchoice [OF this] obtain f where f: "\<forall>vs \<in> set rows. vs = map (f vs) [''id'', ''webhook_id'', ''event'',
      ''payload'', ''status'', ''status_code'', ''created_at''] \<and> f vs \<in> set (contents d ''webhook_deliveries'')
      \<and> f vs ''webhook_id'' = SText ?i
      \<and> (\<exists>p \<in> set (rows_of (OrgID g) (contents d ''webhooks'')). p ''id'' = SText ?i)" by blast
  have "scan_lax Delivery_scan zero_Delivery rows = map (\<lambda>q. fst (Scan Delivery_scan (map q [''id'',
      ''webhook_id'', ''event'', ''payload'', ''status'', ''status_code'', ''created_at'']) zero_Delivery)) (map f rows)"
    unfolding scan_lax_def map_map o_def
    by (rule map_cong [OF refl]) (use f in \<open>simp del: Scan_Cons\<close>, metis)
  with iso out f show ?thesis
    by (intro conjI exI [of _ "map f rows"]) (auto simp del: Scan_Cons)
qed

section \<open>What is delivered\<close>

definition wants_event :: "string \<Rightarrow> Webhook \<Rightarrow> bool" where
  "wants_event event wh \<longleftrightarrow> Wh_Enabled wh \<and> (\<exists>es. Wh_Events wh = Some es \<and> event \<in> set es)"

lemma contains_set: "contains ss x \<longleftrightarrow> x \<in> set ss"
  by (induction ss) auto

lemma Deliver_Cons:
  "webhooks_Deliver rfc E post clk event payload (wh # whs) d =
     (if wants_event event wh
      then webhooks_Deliver rfc E post (\<lambda>k. clk (Suc k)) event payload whs
             (webhooks_deliver rfc E post (clk 0) wh event payload d)
      else webhooks_Deliver rfc E post clk event payload whs d)"
  by (auto simp: wants_event_def contains_set split: option.splits)

context deviceos_db
begin

lemma deliver_effect:
  assumes "\<And>u p d. contents (fst (post u p d)) = contents d"
  shows "contents (webhooks_deliver rfc E post t wh event payload d) = contents d
     \<or> (\<exists>q. contents (webhooks_deliver rfc E post t wh event payload d)
            = (contents d)(''webhook_deliveries'' := contents d ''webhook_deliveries'' @ [q])
          \<and> q ''webhook_id'' = SText (Wh_ID wh) \<and> q ''event'' = SText event
          \<and> q ''payload'' = SText payload
          \<and> q ''status'' = (case snd (post (Wh_URL wh) payload d) of
                 Some c \<Rightarrow> if c < 400 then SText ''success'' else SText ''failed''
               | None \<Rightarrow> SText ''failed'')
          \<and> q ''status_code'' = (case snd (post (Wh_URL wh) payload d) of Some c \<Rightarrow> SInt c | None \<Rightarrow> SInt 0))"
proof -
  obtain d1 resp where p: "post (Wh_URL wh) payload d = (d1, resp)" by fastforce
  then have c1: "contents d1 = contents d" using assms [of "Wh_URL wh" payload d] by simp
  define st where "st = (case resp of Some c \<Rightarrow> if c < (400::int) then ''success'' else ''failed'' | None \<Rightarrow> ''failed'')"
  define code where "code = (case resp of Some c \<Rightarrow> c | None \<Rightarrow> 0)"
  let ?args = "[SText (''del_'' @ itoa (fst t)), SText (Wh_ID wh), SText event, SText payload, SText st,
      SInt code, SText (rfc (snd t))]"
  obtain d2 r where ex: "db_exec E d1 sql_insert_delivery ?args = (d2, r)" by fastforce
  have res: "webhooks_deliver rfc E post t wh event payload d = d2"
    using ex by (auto simp: webhooks_deliver_def p st_def code_def split: option.splits if_splits)
  show ?thesis
  proof (cases r)
    case (Inl e)
    with ex res c1 show ?thesis by (auto dest: exec_err)
  next
    case (Inr x)
    note ins = sem_insert_abort(1) [OF exec_ok [OF ex [unfolded Inr sql_insert_delivery_def]] deviceos_schema(11)]
    show ?thesis
      by (rule disjI2, unfold res ins c1, rule exI, rule conjI, rule refl)
         (simp add: insert_row_def default_row_def webhook_deliveries_schema_def p st_def code_def
            split: option.splits)
  qed
qed

end

theorem webhooks_isolated_witness:
  "rows_of ''acme'' (serve (webhooks_handle (\<lambda>t. []) (memory_db False))
      ((\<lambda>n. [])(''webhooks'' := [(\<lambda>c. SNull)(''id'' := SText ''wh_1'', ''org_id'' := SText ''acme'')]))
      [((DeleteWebhook, 0, 0), demo_request ''evil'' ''wh_1'' JNull)] ''webhooks'')
   = [(\<lambda>c. SNull)(''id'' := SText ''wh_1'', ''org_id'' := SText ''acme'')]"
proof -
  let ?d = "(\<lambda>n. [])(''webhooks'' := [(\<lambda>c. SNull)(''id'' := SText ''wh_1'', ''org_id'' := SText ''acme'')])"
  let ?reqs = "[((DeleteWebhook, 0, 0), demo_request ''evil'' ''wh_1'' JNull)]"
  have o: "OrgID r \<noteq> ''acme''" if "(x, r) \<in> set ?reqs" for x r using that by simp
  have st: "status_of (snd (webhooks_handleDeliveries (memory_db False) ?d
      (demo_request ''acme'' ''wh_1'' JNull) new_writer)) = Some 200"
    by (simp add: webhooks_handleDeliveries_def memory_db_def DB_same ref_engine_def ref_query_def http_simps)
  note t = webhooks_isolated [OF memdb.deviceos_db_axioms [of False], where b = "''acme''" and reqs = ?reqs
      and ?d0.0 = ?d and rfc = "\<lambda>t. []"]
  note t = t [OF o fresh_new_writer surjective_pairing st]
  then have "rows_of ''acme'' (serve (webhooks_handle (\<lambda>t. []) (memory_db False)) ?d ?reqs ''webhooks'')
      = rows_of ''acme'' (?d ''webhooks'')" by (rule conjunct1)
  then show ?thesis by (simp add: rows_of_def)
qed

context deviceos_db
begin

lemma Deliver_rows:
  assumes "\<And>u p d. contents (fst (post u p d)) = contents d"
  shows "\<exists>new. contents (webhooks_Deliver rfc E post clk event payload whs d)
        = (contents d)(''webhook_deliveries'' := contents d ''webhook_deliveries'' @ new)
     \<and> (\<forall>q \<in> set new. \<exists>wh d'. wh \<in> set whs \<and> wants_event event wh
          \<and> q ''webhook_id'' = SText (Wh_ID wh) \<and> q ''event'' = SText event \<and> q ''payload'' = SText payload
          \<and> q ''status'' = (case snd (post (Wh_URL wh) payload d') of
                 Some c \<Rightarrow> if c < 400 then SText ''success'' else SText ''failed''
               | None \<Rightarrow> SText ''failed''))"
proof (induction whs arbitrary: d clk)
  case Nil
  then show ?case by (intro exI [of _ "[]"]) simp
next
  case (Cons wh whs)
  show ?case
  proof (cases "wants_event event wh")
    case False
    from Cons.IH [of clk d] obtain new where "contents (webhooks_Deliver rfc E post clk event payload whs d)
        = (contents d)(''webhook_deliveries'' := contents d ''webhook_deliveries'' @ new)"
      "\<forall>q \<in> set new. \<exists>wh d'. wh \<in> set whs \<and> wants_event event wh
          \<and> q ''webhook_id'' = SText (Wh_ID wh) \<and> q ''event'' = SText event \<and> q ''payload'' = SText payload
          \<and> q ''status'' = (case snd (post (Wh_URL wh) payload d') of
                 Some c \<Rightarrow> if c < 400 then SText ''success'' else SText ''failed''
               | None \<Rightarrow> SText ''failed'')" by blast
    with False show ?thesis
      by (intro exI [of _ new]) (auto simp: Deliver_Cons simp del: webhooks_Deliver.simps; blast)
  next
    case True
    let ?d1 = "webhooks_deliver rfc E post (clk 0) wh event payload d"
    from Cons.IH [of "\<lambda>k. clk (Suc k)" ?d1] obtain new
      where new: "contents (webhooks_Deliver rfc E post (\<lambda>k. clk (Suc k)) event payload whs ?d1)
        = (contents ?d1)(''webhook_deliveries'' := contents ?d1 ''webhook_deliveries'' @ new)"
      "\<forall>q \<in> set new. \<exists>wh d'. wh \<in> set whs \<and> wants_event event wh
          \<and> q ''webhook_id'' = SText (Wh_ID wh) \<and> q ''event'' = SText event \<and> q ''payload'' = SText payload
          \<and> q ''status'' = (case snd (post (Wh_URL wh) payload d') of
                 Some c \<Rightarrow> if c < 400 then SText ''success'' else SText ''failed''
               | None \<Rightarrow> SText ''failed'')" by blast
    from deliver_effect [of post rfc "clk 0" wh event payload d] assms
    have "contents ?d1 = contents d
      \<or> (\<exists>q. contents ?d1 = (contents d)(''webhook_deliveries'' := contents d ''webhook_deliveries'' @ [q])
          \<and> q ''webhook_id'' = SText (Wh_ID wh) \<and> q ''event'' = SText event \<and> q ''payload'' = SText payload
          \<and> q ''status'' = (case snd (post (Wh_URL wh) payload d) of
                 Some c \<Rightarrow> if c < 400 then SText ''success'' else SText ''failed''
               | None \<Rightarrow> SText ''failed''))" by blast
    then show ?thesis
    proof (elim disjE exE conjE)
      assume "contents ?d1 = contents d"
      with True new show ?thesis
        by (intro exI [of _ new]) (auto simp: Deliver_Cons simp del: webhooks_Deliver.simps; blast)
    next
      fix q
      assume q: "contents ?d1 = (contents d)(''webhook_deliveries'' := contents d ''webhook_deliveries'' @ [q])"
        "q ''webhook_id'' = SText (Wh_ID wh)" "q ''event'' = SText event" "q ''payload'' = SText payload"
        "q ''status'' = (case snd (post (Wh_URL wh) payload d) of
                 Some c \<Rightarrow> if c < 400 then SText ''success'' else SText ''failed''
               | None \<Rightarrow> SText ''failed'')"
      have "contents (webhooks_Deliver rfc E post clk event payload (wh # whs) d)
        = (contents d)(''webhook_deliveries'' := contents d ''webhook_deliveries'' @ q # new)"
        using True new(1) q(1) by (simp add: Deliver_Cons del: webhooks_Deliver.simps)
      with True new(2) q show ?thesis
        by (intro exI [of _ "q # new"]) (simp del: webhooks_Deliver.simps, blast)
    qed
  qed
qed

end

lemma Deliver_posts:
  assumes "\<And>u p d. sent (fst (post u p d)) = sent d @ [(u, p)]"
    and "\<And>d st args. sent (fst (db_exec E d st args)) = sent d"
  shows "sent (webhooks_Deliver rfc E post clk event payload whs d)
     = sent d @ map (\<lambda>wh. (Wh_URL wh, payload)) (filter (wants_event event) whs)"
proof -
  have "sent (webhooks_deliver rfc E post t wh event payload d) = sent d @ [(Wh_URL wh, payload)]" for t wh d
    using assms(1) [of "Wh_URL wh" payload d]
    by (simp add: webhooks_deliver_def assms(2) case_prod_unfold Let_def)
  then show ?thesis
    by (induction whs arbitrary: d clk) (simp_all add: Deliver_Cons del: webhooks_Deliver.simps(2))
qed


text \<open>A world of tables and a log of posts, whose server answers 200 to everything.\<close>

definition demo_post :: "string \<Rightarrow> string \<Rightarrow> tables \<times> (string \<times> string) list \<Rightarrow>
    (tables \<times> (string \<times> string) list) \<times> int option" where
  "demo_post u p s = ((fst s, snd s @ [(u, p)]), Some 200)"

definition demo_hook :: "string \<Rightarrow> bool \<Rightarrow> Webhook" where
  "demo_hook i en = zero_Webhook\<lparr>Wh_ID := i, Wh_URL := i, Wh_Enabled := en, Wh_Events := Some [''alert'']\<rparr>"


end
