(* ===== verification/Ota.thy ===== *)
theory Ota
  imports Tenancy
begin

text \<open>
  \<open>modules/ota\<close>: firmware, its files, deployments and the state of the devices in them. The
  directory \<open>data/firmware\<close> is a map from file names to contents. Hashing is a parameter.
\<close>

section \<open>Data\<close>

record Firmware =
  Fw_ID :: string
  Fw_Version :: string
  Fw_TargetDeviceType :: string
  Fw_Checksum :: string
  Fw_Size :: int
  Fw_Changelog :: string
  Fw_CreatedAt :: int

definition zero_Firmware :: Firmware where
  "zero_Firmware =
     \<lparr>Fw_ID = [], Fw_Version = [], Fw_TargetDeviceType = [], Fw_Checksum = [], Fw_Size = 0,
      Fw_Changelog = [], Fw_CreatedAt = zero_time\<rparr>"

definition Firmware_json :: "Firmware \<Rightarrow> json" where
  "Firmware_json f =
     JObj ([(''id'', JStr (Fw_ID f)), (''version'', JStr (Fw_Version f)),
            (''target_device_type'', JStr (Fw_TargetDeviceType f)), (''checksum'', JStr (Fw_Checksum f)),
            (''size'', JInt (Fw_Size f))]
       @ omit_str ''changelog'' (Fw_Changelog f) @ [(''created_at'', JTime (Fw_CreatedAt f))])"

record DeviceState =
  Ds_DeviceID :: string
  Ds_Status :: string

definition DeviceState_json :: "DeviceState \<Rightarrow> json" where
  "DeviceState_json x =
     JObj [(''device_id'', JStr (Ds_DeviceID x)), (''status'', JStr (Ds_Status x))]"

record Deployment =
  Dep_ID :: string
  Dep_FirmwareID :: string
  Dep_TargetGroup :: string
  Dep_RolloutPercent :: int
  Dep_Status :: string
  Dep_DeviceStates :: "DeviceState list"
  Dep_CreatedAt :: int

definition zero_Deployment :: Deployment where
  "zero_Deployment =
     \<lparr>Dep_ID = [], Dep_FirmwareID = [], Dep_TargetGroup = [], Dep_RolloutPercent = 0, Dep_Status = [],
      Dep_DeviceStates = [], Dep_CreatedAt = zero_time\<rparr>"

definition Deployment_json :: "Deployment \<Rightarrow> json" where
  "Deployment_json x =
     JObj ([(''id'', JStr (Dep_ID x)), (''firmware_id'', JStr (Dep_FirmwareID x)),
            (''target_group'', JStr (Dep_TargetGroup x)), (''rollout_percent'', JInt (Dep_RolloutPercent x)),
            (''status'', JStr (Dep_Status x))]
       @ (if Dep_DeviceStates x = [] then []
          else [(''device_states'', JArr (map DeviceState_json (Dep_DeviceStates x)))])
       @ [(''created_at'', JTime (Dep_CreatedAt x))])"

record firmwareUploadRequest =
  Up_Version :: string
  Up_TargetDeviceType :: string
  Up_Changelog :: string

definition firmwareUploadRequest_fields :: "firmwareUploadRequest fields" where
  "firmwareUploadRequest_fields =
     [(''version'', set_string Up_Version_update),
      (''target_device_type'', set_string Up_TargetDeviceType_update),
      (''changelog'', set_string Up_Changelog_update)]"

text \<open>
  What the multipart parser makes of the body: whether it parses, the file part (missing,
  unreadable or its bytes) and the form values. And what the file system does.
\<close>

datatype form_file = NoFile | Unreadable | FileData string

record multipart =
  mp_ok :: bool
  mp_file :: form_file
  mp_value :: "string \<Rightarrow> string"

datatype write_outcome = Written | WriteFailed "string option"

record fs_env =
  fs_write :: write_outcome
  fs_remove :: bool

record 'd ota_state =
  ota_db :: 'd
  ota_files :: "string \<rightharpoonup> string"

section \<open>Firmware\<close>

definition sql_insert_firmware :: stmt where
  "sql_insert_firmware =
     Insert ''firmware'' [(''id'', Param 0), (''version'', Param 1), (''target_device_type'', Param 2),
       (''checksum'', Param 3), (''size'', Param 4), (''changelog'', Param 5), (''created_at'', Param 6),
       (''org_id'', Param 7)] Abort"

definition firmware_id :: "(string \<Rightarrow> string) \<Rightarrow> string \<Rightarrow> string" where
  "firmware_id sha256 data = ''fw_'' @ take 12 (hex_encode (sha256 data))"

text \<open>The first half: what the request says. \<open>Inl\<close> is the answer to a bad request.\<close>

definition read_upload ::
    "multipart \<Rightarrow> request \<Rightarrow> writer \<Rightarrow> writer + (string \<times> string \<times> string \<times> string)" where
  "read_upload mp r w =
     (if has_prefix (r_header r ''Content-Type'') ''multipart/form-data'' then
        (if \<not> mp_ok mp then Inl (BadRequest ''file too large'' w)
         else (case mp_file mp of
                 NoFile \<Rightarrow> Inl (BadRequest ''file required'' w)
               | Unreadable \<Rightarrow> Inl (Internal ''failed to read file'' w)
               | FileData data \<Rightarrow>
                   Inr (mp_value mp ''version'', mp_value mp ''target_device_type'',
                        mp_value mp ''changelog'', data)))
      else (case decode_body firmwareUploadRequest_fields (r_body r)
                    \<lparr>Up_Version = [], Up_TargetDeviceType = [], Up_Changelog = []\<rparr> of
              None \<Rightarrow> Inl (BadRequest ''invalid request body'' w)
            | Some req \<Rightarrow> Inr (Up_Version req, Up_TargetDeviceType req, Up_Changelog req, [])))"

definition ota_handleUpload ::
    "(string \<Rightarrow> string) \<Rightarrow> 'd engine \<Rightarrow> multipart \<Rightarrow> fs_env \<Rightarrow> int \<Rightarrow> int \<Rightarrow> 'd ota_state handler" where
  "ota_handleUpload sha256 E mp fs t1 t2 s r w =
     (case read_upload mp r w of
        Inl w' \<Rightarrow> (s, w')
      | Inr (ver, targetType, changelog, data) \<Rightarrow>
          if ver = [] \<or> targetType = []
          then (s, BadRequest ''version and target_device_type required'' w)
          else
            (let i = (if data \<noteq> [] then firmware_id sha256 data else ''fw_'' @ itoa t1);
                 checksum = (if data \<noteq> [] then hex_encode (sha256 data) else ''metadata-only'');
                 size = int (length data)
             in case (if data = [] then (s, True)
                      else case fs_write fs of
                             Written \<Rightarrow> (s\<lparr>ota_files := (ota_files s)(i \<mapsto> data)\<rparr>, True)
                           | WriteFailed x \<Rightarrow> (s\<lparr>ota_files := (ota_files s)(i := x)\<rparr>, False)) of
                  (s1, False) \<Rightarrow> (s1, Internal ''failed to store file'' w)
                | (s1, True) \<Rightarrow>
                    (let fw = \<lparr>Fw_ID = i, Fw_Version = ver, Fw_TargetDeviceType = targetType,
                               Fw_Checksum = checksum, Fw_Size = size, Fw_Changelog = changelog,
                               Fw_CreatedAt = t2\<rparr>
                     in case db_exec E (ota_db s1) sql_insert_firmware
                               [SText (Fw_ID fw), SText (Fw_Version fw), SText (Fw_TargetDeviceType fw),
                                SText (Fw_Checksum fw), SInt (Fw_Size fw), SText (Fw_Changelog fw),
                                STime (Fw_CreatedAt fw), SText (OrgID r)] of
                          (d', Inl e) \<Rightarrow>
                            (let s2 = s1\<lparr>ota_db := d'\<rparr>;
                                 s3 = (if data \<noteq> [] \<and> fs_remove fs
                                       then s2\<lparr>ota_files := (ota_files s2)(i := None)\<rparr> else s2)
                             in (s3, Internal ''failed to register firmware'' w))
                        | (d', Inr res) \<Rightarrow>
                            (s1\<lparr>ota_db := d'\<rparr>, writeJSON 201 (Firmware_json fw) w))))"

definition firmware_columns :: "proj list" where
  "firmware_columns =
     [PCol ''id'', PCol ''version'', PCol ''target_device_type'', PCol ''checksum'', PCol ''size'',
      PCol ''changelog'', PCol ''created_at'']"

definition Firmware_scan :: "Firmware scanner list" where
  "Firmware_scan =
     [into scan_string Fw_ID_update, into scan_string Fw_Version_update,
      into scan_string Fw_TargetDeviceType_update, into scan_string Fw_Checksum_update,
      into scan_int Fw_Size_update, into scan_string Fw_Changelog_update,
      into scan_time Fw_CreatedAt_update]"

definition sql_list_firmware :: query where
  "sql_list_firmware =
     \<lparr>sel = Fields firmware_columns, from_src = Tab ''firmware'', conds = [CEq ''org_id'' (Param 0)],
      order_by = Some (''created_at'', True), limit_of = NoLimit\<rparr>"

lemma sql_list_firmware_plain [simp, intro!]: "limit_plain (limit_of sql_list_firmware)"
  by (simp add: sql_list_firmware_def)

definition ota_handleList :: "'d engine \<Rightarrow> 'd ota_state handler" where
  "ota_handleList E s r w =
     (case db_query E (ota_db s) sql_list_firmware [SText (OrgID r)] of
        (d', Inl e) \<Rightarrow> (s\<lparr>ota_db := d'\<rparr>, Internal ''query failed'' w)
      | (d', Inr (rows, e)) \<Rightarrow>
          (s\<lparr>ota_db := d'\<rparr>, writeJSON 200
             (JObj [(''firmware'',
                JArr (map Firmware_json (scan_lax Firmware_scan zero_Firmware rows)))]) w))"

definition sql_get_firmware :: query where
  "sql_get_firmware =
     \<lparr>sel = Fields firmware_columns, from_src = Tab ''firmware'',
      conds = [CEq ''id'' (Param 0), CEq ''org_id'' (Param 1)], order_by = None, limit_of = NoLimit\<rparr>"

lemma sql_get_firmware_plain [simp, intro!]: "limit_plain (limit_of sql_get_firmware)"
  by (simp add: sql_get_firmware_def)

definition ota_handleGet :: "'d engine \<Rightarrow> 'd ota_state handler" where
  "ota_handleGet E s r w =
     (case db_query_row E (ota_db s) sql_get_firmware [SText (r_pathval r ''id''), SText (OrgID r)] of
        (d', Inl e) \<Rightarrow> (s\<lparr>ota_db := d'\<rparr>, NotFound ''firmware not found'' w)
      | (d', Inr vs) \<Rightarrow>
          (s\<lparr>ota_db := d'\<rparr>,
           case Scan Firmware_scan vs zero_Firmware of
             (f, Some e) \<Rightarrow> NotFound ''firmware not found'' w
           | (f, None) \<Rightarrow> writeJSON 200 (Firmware_json f) w))"

section \<open>Deployments\<close>

record DeployRequest =
  Dr_TargetGroup :: string
  Dr_RolloutPercent :: int

definition DeployRequest_fields :: "DeployRequest fields" where
  "DeployRequest_fields =
     [(''target_group'', set_string Dr_TargetGroup_update),
      (''rollout_percent'', set_int Dr_RolloutPercent_update)]"

definition sql_insert_deployment :: stmt where
  "sql_insert_deployment =
     Insert ''deployments'' [(''id'', Param 0), (''firmware_id'', Param 1), (''target_group'', Param 2),
       (''rollout_percent'', Param 3), (''status'', Lit (SText ''in_progress'')), (''created_at'', Param 4)]
       Abort"

definition ota_handleDeploy :: "'d engine \<Rightarrow> int \<Rightarrow> int \<Rightarrow> 'd ota_state handler" where
  "ota_handleDeploy E t1 t2 s r w =
     (case decode_body DeployRequest_fields (r_body r) \<lparr>Dr_TargetGroup = [], Dr_RolloutPercent = 0\<rparr> of
        None \<Rightarrow> (s, BadRequest ''invalid request'' w)
      | Some req0 \<Rightarrow>
          (let req = (if Dr_RolloutPercent req0 \<le> 0 \<or> Dr_RolloutPercent req0 > 100
                      then req0\<lparr>Dr_RolloutPercent := 100\<rparr> else req0);
               deployID = ''dep_'' @ itoa t1
           in case db_exec E (ota_db s) sql_insert_deployment
                     [SText deployID, SText (r_pathval r ''id''), SText (Dr_TargetGroup req),
                      SInt (Dr_RolloutPercent req), STime t2] of
                (d', Inl e) \<Rightarrow> (s\<lparr>ota_db := d'\<rparr>, Internal ''failed to create deployment'' w)
              | (d', Inr res) \<Rightarrow>
                  (s\<lparr>ota_db := d'\<rparr>, writeJSON 201
                     (JObj [(''firmware_id'', JStr (r_pathval r ''id'')), (''id'', JStr deployID),
                            (''rollout_percent'', JInt (Dr_RolloutPercent req)),
                            (''status'', JStr ''in_progress'')]) w)))"

definition sql_get_deployment :: query where
  "sql_get_deployment =
     \<lparr>sel = Fields [PCol ''id'', PCol ''firmware_id'', PCol ''target_group'', PCol ''rollout_percent'',
        PCol ''status'', PCol ''created_at''],
      from_src = Tab ''deployments'', conds = [CEq ''id'' (Param 0)], order_by = None, limit_of = NoLimit\<rparr>"

lemma sql_get_deployment_plain [simp, intro!]: "limit_plain (limit_of sql_get_deployment)"
  by (simp add: sql_get_deployment_def)

definition Deployment_scan :: "Deployment scanner list" where
  "Deployment_scan =
     [into scan_string Dep_ID_update, into scan_string Dep_FirmwareID_update,
      into scan_string Dep_TargetGroup_update, into scan_int Dep_RolloutPercent_update,
      into scan_string Dep_Status_update, into scan_time Dep_CreatedAt_update]"

definition sql_deployment_devices :: query where
  "sql_deployment_devices =
     \<lparr>sel = Fields [PCol ''device_id'', PCol ''status''], from_src = Tab ''deployment_devices'',
      conds = [CEq ''deployment_id'' (Param 0)], order_by = None, limit_of = NoLimit\<rparr>"

lemma sql_deployment_devices_plain [simp, intro!]: "limit_plain (limit_of sql_deployment_devices)"
  by (simp add: sql_deployment_devices_def)

definition DeviceState_scan :: "DeviceState scanner list" where
  "DeviceState_scan = [into scan_string Ds_DeviceID_update, into scan_string Ds_Status_update]"

definition ota_handleDeploymentStatus :: "'d engine \<Rightarrow> 'd ota_state handler" where
  "ota_handleDeploymentStatus E s r w =
     (let i = r_pathval r ''id''
      in case db_query_row E (ota_db s) sql_get_deployment [SText i] of
           (d', Inl e) \<Rightarrow> (s\<lparr>ota_db := d'\<rparr>, NotFound ''deployment not found'' w)
         | (d', Inr vs) \<Rightarrow>
             (case Scan Deployment_scan vs zero_Deployment of
                (x, Some e) \<Rightarrow> (s\<lparr>ota_db := d'\<rparr>, NotFound ''deployment not found'' w)
              | (x, None) \<Rightarrow>
                  (case db_query E d' sql_deployment_devices [SText i] of
                     (d2, Inl e) \<Rightarrow> (s\<lparr>ota_db := d2\<rparr>, writeJSON 200 (Deployment_json x) w)
                   | (d2, Inr (rows, e)) \<Rightarrow>
                       (s\<lparr>ota_db := d2\<rparr>, writeJSON 200 (Deployment_json
                          (x\<lparr>Dep_DeviceStates := scan_lax DeviceState_scan
                                \<lparr>Ds_DeviceID = [], Ds_Status = []\<rparr> rows\<rparr>)) w))))"

definition DeviceStatusRequest_fields :: "DeviceState fields" where
  "DeviceStatusRequest_fields =
     [(''device_id'', set_string Ds_DeviceID_update), (''status'', set_string Ds_Status_update)]"

definition sql_device_status :: stmt where
  "sql_device_status =
     Insert ''deployment_devices'' [(''deployment_id'', Param 0), (''device_id'', Param 1),
       (''status'', Param 2)] (DoUpdate [''deployment_id'', ''device_id''] [''status''])"

definition ota_handleDeviceStatus :: "'d engine \<Rightarrow> 'd ota_state handler" where
  "ota_handleDeviceStatus E s r w =
     (case decode_body DeviceStatusRequest_fields (r_body r) \<lparr>Ds_DeviceID = [], Ds_Status = []\<rparr> of
        None \<Rightarrow> (s, BadRequest ''invalid request'' w)
      | Some req \<Rightarrow>
          (case db_exec E (ota_db s) sql_device_status
                  [SText (r_pathval r ''id''), SText (Ds_DeviceID req), SText (Ds_Status req)] of
             (d', Inl e) \<Rightarrow> (s\<lparr>ota_db := d'\<rparr>, Internal ''update failed'' w)
           | (d', Inr res) \<Rightarrow>
               (s\<lparr>ota_db := d'\<rparr>, writeJSON 200 (JObj [(''status'', JStr ''recorded'')]) w)))"

datatype ota_route = UploadFirmware | ListFirmware | GetFirmware | DeployFirmware | DeploymentStatus
  | DeviceStatus

definition ota_routes :: "(string \<times> ota_route) list" where
  "ota_routes =
     [(''POST /api/v1/firmware'', UploadFirmware), (''GET /api/v1/firmware'', ListFirmware),
      (''GET /api/v1/firmware/{id}'', GetFirmware), (''POST /api/v1/firmware/{id}/deploy'', DeployFirmware),
      (''GET /api/v1/deployments/{id}'', DeploymentStatus),
      (''PUT /api/v1/deployments/{id}/device-status'', DeviceStatus)]"

lemmas ota_sql =
  sql_insert_firmware_def sql_insert_deployment_def sql_device_status_def

section \<open>Uploading\<close>

context deviceos_db
begin

lemma firmware_exists_fails:
  assumes "p \<in> set (contents d ''firmware'')" and "p ''id'' = SText i"
    and "db_exec E d sql_insert_firmware [SText i, a1, a2, a3, a4, a5, a6, a7] = (d', r)"
  shows "\<exists>e. r = Inl e"
proof (cases r)
  case (Inr res)
  let ?as = "[(''id'', Param 0), (''version'', Param 1), (''target_device_type'', Param 2),
       (''checksum'', Param 3), (''size'', Param 4), (''changelog'', Param 5), (''created_at'', Param 6),
       (''org_id'', Param 7)]"
  let ?q = "insert_row firmware_schema ?as [SText i, a1, a2, a3, a4, a5, a6, a7] (LastInsertId res)"
  have "\<not> same_key [''id''] p ?q"
    by (rule sem_insert_abort(3) [OF exec_ok [OF assms(3) [unfolded Inr sql_insert_firmware_def]]
          deviceos_schema(7) assms(1)])
       (simp add: firmware_schema_def)
  moreover have "?q ''id'' = SText i"
    by (simp add: insert_row_def default_row_def firmware_schema_def)
  ultimately show ?thesis using assms(2) by (simp add: same_key_def)
qed blast

end

text \<open>
  C16: firmware is named by its content, so a binary that is uploaded again is refused with
  500, and the refusal deletes the file of the firmware that is already registered under
  that name, whichever organisation it belongs to.
\<close>

theorem reupload_deletes_file:
  assumes "deviceos_db E contents fk_on lt" and "fresh w"
    and "p \<in> set (contents (ota_db s) ''firmware'')"
    and "p ''id'' = SText (firmware_id sha256 data)" and "data \<noteq> []"
    and "has_prefix (r_header r ''Content-Type'') ''multipart/form-data''"
    and "mp_ok mp" and "mp_file mp = FileData data"
    and "mp_value mp ''version'' \<noteq> []" and "mp_value mp ''target_device_type'' \<noteq> []"
    and "fs_write fs = Written" and "fs_remove fs"
    and "ota_handleUpload sha256 E mp fs t1 t2 s r w = (s', w')"
  shows "status_of w' = Some 500 \<and> contents (ota_db s') = contents (ota_db s)
     \<and> ota_files s' (firmware_id sha256 data) = None
     \<and> (\<forall>f. f \<noteq> firmware_id sha256 data \<longrightarrow> ota_files s' f = ota_files s f)"
proof -
  let ?i = "firmware_id sha256 data"
  let ?args = "[SText ?i, SText (mp_value mp ''version''), SText (mp_value mp ''target_device_type''),
      SText (hex_encode (sha256 data)), SInt (int (length data)), SText (mp_value mp ''changelog''),
      STime t2, SText (OrgID r)]"
  obtain d' x where ex: "db_exec E (ota_db s) sql_insert_firmware ?args = (d', x)" by fastforce
  obtain e where e: "x = Inl e"
    using deviceos_db.firmware_exists_fails [OF assms(1,3,4) ex] by blast
  have "contents d' = contents (ota_db s)"
    by (rule sql_engine.exec_err [OF deviceos_db.axioms(1) [OF assms(1)] ex [unfolded e]])
  with assms(2,5-13) ex e show ?thesis
    by (auto simp: ota_handleUpload_def read_upload_def Let_def http_simps)
qed

definition demo_upload :: multipart where
  "demo_upload = \<lparr>mp_ok = True, mp_file = FileData ''bin'', mp_value = (\<lambda>k. ''1'')\<rparr>"

definition demo_upload_request :: request where
  "demo_upload_request = (demo_request ''evil'' [] JNull)\<lparr>r_header :=
     (\<lambda>h. if h = ''Content-Type'' then ''multipart/form-data'' else ''evil'')\<rparr>"

theorem reupload_deletes_file_witness:
  "ota_files (fst (ota_handleUpload (\<lambda>b. b) (memory_db False) demo_upload
      \<lparr>fs_write = Written, fs_remove = True\<rparr> 1 2
      \<lparr>ota_db = (\<lambda>n. [])(''firmware'' := [(\<lambda>c. SNull)(''id'' := SText (firmware_id (\<lambda>b. b) ''bin''),
          ''org_id'' := SText ''acme'')]),
       ota_files = [firmware_id (\<lambda>b. b) ''bin'' \<mapsto> ''bin'']\<rparr>
      demo_upload_request new_writer)) (firmware_id (\<lambda>b. b) ''bin'') = None"
proof -
  let ?p = "(\<lambda>c. SNull)(''id'' := SText (firmware_id (\<lambda>b. b) ''bin''), ''org_id'' := SText ''acme'')"
  let ?s = "\<lparr>ota_db = (\<lambda>n. [])(''firmware'' := [?p]), ota_files = [firmware_id (\<lambda>b. b) ''bin'' \<mapsto> ''bin'']\<rparr>"
  note t = reupload_deletes_file [OF memdb.deviceos_db_axioms [of False] fresh_new_writer,
      where s = ?s and p = ?p and data = "''bin''" and ?sha256.0 = "\<lambda>b. b" and mp = demo_upload
        and fs = "\<lparr>fs_write = Written, fs_remove = True\<rparr>" and r = demo_upload_request and ?t1.0 = 1
        and ?t2.0 = 2]
  show ?thesis
    using t [OF _ _ _ _ _ _ _ _ _ _ surjective_pairing]
    by (simp add: demo_upload_def demo_upload_request_def)
qed

text \<open>
  An upload answered with 201 stored what it says: one firmware row of the caller's
  organisation, and for a binary the file under the name of that row, with its length as
  the size and its digest as the checksum; no other file is touched.
\<close>

theorem upload_stores:
  assumes "deviceos_db E contents fk_on lt" and "fresh w"
    and "ota_handleUpload sha256 E mp fs t1 t2 s r w = (s', w')" and "status_of w' = Some 201"
  shows "\<exists>q i data. contents (ota_db s')
          = (contents (ota_db s))(''firmware'' := contents (ota_db s) ''firmware'' @ [q])
     \<and> q ''id'' = SText i \<and> q ''org_id'' = SText (OrgID r) \<and> q ''size'' = SInt (int (length data))
     \<and> (\<forall>p \<in> set (contents (ota_db s) ''firmware''). p ''id'' \<noteq> SText i)
     \<and> (if data = [] then q ''checksum'' = SText ''metadata-only'' \<and> ota_files s' = ota_files s
        else q ''checksum'' = SText (hex_encode (sha256 data)) \<and> i = firmware_id sha256 data
             \<and> mp_file mp = FileData data \<and> ota_files s' = (ota_files s)(i \<mapsto> data))"
proof -
  obtain ver tt cl data where rd: "read_upload mp r w = Inr (ver, tt, cl, data)"
    using assms(2-4)
    by (cases "read_upload mp r w")
       (auto simp: ota_handleUpload_def read_upload_def http_simps split: if_splits form_file.splits option.splits)
  then have fdata: "data \<noteq> [] \<Longrightarrow> mp_file mp = FileData data"
    by (auto simp: read_upload_def split: if_splits form_file.splits option.splits)
  define i where "i = (if data \<noteq> [] then firmware_id sha256 data else ''fw_'' @ itoa t1)"
  have i_data: "data \<noteq> [] \<Longrightarrow> i = firmware_id sha256 data" by (simp add: i_def)
  define cs where "cs = (if data \<noteq> [] then hex_encode (sha256 data) else ''metadata-only'')"
  let ?args = "[SText i, SText ver, SText tt, SText cs, SInt (int (length data)), SText cl, STime t2,
      SText (OrgID r)]"
  obtain d' x where ex: "db_exec E (ota_db s) sql_insert_firmware ?args = (d', x)" by fastforce
  have h: "ver \<noteq> []" "tt \<noteq> []" "data = [] \<or> fs_write fs = Written" "\<exists>res. x = Inr res"
    "ota_db s' = d'" "ota_files s' = (if data = [] then ota_files s else (ota_files s)(i \<mapsto> data))"
    using assms(2-4) rd ex
    by (auto simp: ota_handleUpload_def Let_def i_def cs_def http_simps
        split: if_splits write_outcome.splits sum.splits prod.splits)
  then obtain res where res: "x = Inr res" by blast
  let ?as = "[(''id'', Param 0), (''version'', Param 1), (''target_device_type'', Param 2),
       (''checksum'', Param 3), (''size'', Param 4), (''changelog'', Param 5), (''created_at'', Param 6),
       (''org_id'', Param 7)]"
  let ?q = "insert_row firmware_schema ?as ?args (LastInsertId res)"
  have q: "?q ''id'' = SText i" "?q ''org_id'' = SText (OrgID r)" "?q ''size'' = SInt (int (length data))"
      "?q ''checksum'' = SText cs"
    by (simp_all add: insert_row_def default_row_def firmware_schema_def)
  note ins = sem_insert_abort [OF sql_engine.exec_ok [OF deviceos_db.axioms(1) [OF assms(1)]
      ex [unfolded res sql_insert_firmware_def]] deviceos_schema(7)]
  have "p ''id'' \<noteq> SText i" if "p \<in> set (contents (ota_db s) ''firmware'')" for p
    using ins(3) [OF that, of "[''id'']"] q(1) by (auto simp: firmware_schema_def same_key_def)
  then show ?thesis
    using ins(1) h(5,6) q fdata
    by (intro exI [of _ ?q] exI [of _ i] exI [of _ data]) (auto simp: i_data cs_def)
qed

section \<open>Deploying\<close>

text \<open>
  A deployment that is created (201) has a rollout between 1 and 100 percent, the one that
  was asked for if it is in that range and 100 otherwise, and, where foreign keys are
  enforced, names a firmware that exists.
\<close>

theorem deploy_percent:
  assumes "deviceos_db E contents fk_on lt" and "fresh w"
    and "ota_handleDeploy E t1 t2 s r w = (s', w')" and "status_of w' = Some 201"
  shows "\<exists>q n req. contents (ota_db s')
          = (contents (ota_db s))(''deployments'' := contents (ota_db s) ''deployments'' @ [q])
     \<and> decode_body DeployRequest_fields (r_body r) \<lparr>Dr_TargetGroup = [], Dr_RolloutPercent = 0\<rparr> = Some req
     \<and> q ''rollout_percent'' = SInt n \<and> 1 \<le> n \<and> n \<le> 100
     \<and> n = (if 1 \<le> Dr_RolloutPercent req \<and> Dr_RolloutPercent req \<le> 100 then Dr_RolloutPercent req else 100)
     \<and> q ''firmware_id'' = SText (r_pathval r ''id'') \<and> q ''status'' = SText ''in_progress''
     \<and> (fk_on (ota_db s) \<longrightarrow> (\<exists>p \<in> set (contents (ota_db s) ''firmware''). p ''id'' = SText (r_pathval r ''id'')))"
proof -
  obtain req where req: "decode_body DeployRequest_fields (r_body r)
      \<lparr>Dr_TargetGroup = [], Dr_RolloutPercent = 0\<rparr> = Some req"
    using assms(2-4) by (auto simp: ota_handleDeploy_def http_simps split: option.splits)
  define n where "n = (if Dr_RolloutPercent req \<le> 0 \<or> Dr_RolloutPercent req > 100 then 100
      else Dr_RolloutPercent req)"
  let ?i = "r_pathval r ''id''"
  let ?args = "[SText (''dep_'' @ itoa t1), SText ?i, SText (Dr_TargetGroup req), SInt n, STime t2]"
  obtain d' x where ex: "db_exec E (ota_db s) sql_insert_deployment ?args = (d', x)" by fastforce
  have "\<exists>res. x = Inr res" "ota_db s' = d'"
    using assms(2-4) req ex
    by (auto simp: ota_handleDeploy_def Let_def n_def http_simps split: if_splits sum.splits)
  then obtain res where res: "x = Inr res" and d: "ota_db s' = d'" by blast
  note sem = sql_engine.exec_ok [OF deviceos_db.axioms(1) [OF assms(1)]
      ex [unfolded res sql_insert_deployment_def]]
  note ins = sem_insert_abort(1) [OF sem deviceos_schema(8)]
  let ?q = "insert_row deployments_schema [(''id'', Param 0), (''firmware_id'', Param 1),
      (''target_group'', Param 2), (''rollout_percent'', Param 3),
      (''status'', Lit (SText ''in_progress'')), (''created_at'', Param 4)] ?args (LastInsertId res)"
  have q: "?q ''rollout_percent'' = SInt n" "?q ''firmware_id'' = SText ?i" "?q ''status'' = SText ''in_progress''"
    by (simp_all add: insert_row_def default_row_def deployments_schema_def)
  have fk: "\<exists>p \<in> set (contents (ota_db s) ''firmware''). p ''id'' = SText ?i" if "fk_on (ota_db s)"
  proof -
    from sem that have "\<not> orphan (contents d') (fk_to ''firmware_id'' ''firmware'' False) ?q"
      by (auto simp: sem_insert deployments_schema_def simp del: sem_exec.simps)
    with q(2) ins show ?thesis by (auto simp: orphan_def fk_to_def list_ex_iff)
  qed
  show ?thesis
    using ins d q req fk
    by (intro exI [of _ ?q] exI [of _ n] exI [of _ req]) (auto simp: n_def)
qed

section \<open>Reporting\<close>

text \<open>
  A device's report in a deployment is recorded (200) in exactly one row for the pair of
  deployment and device, which holds the last status; the rows of other pairs stay.
\<close>

theorem device_status_upsert:
  assumes "deviceos_db E contents fk_on lt" and "fresh w"
    and "ota_handleDeviceStatus E s r w = (s', w')" and "status_of w' = Some 200"
  shows "\<exists>req. decode_body DeviceStatusRequest_fields (r_body r) \<lparr>Ds_DeviceID = [], Ds_Status = []\<rparr> = Some req
     \<and> (\<exists>q. filter (\<lambda>q. q ''deployment_id'' = SText (r_pathval r ''id'')
                        \<and> q ''device_id'' = SText (Ds_DeviceID req))
              (contents (ota_db s') ''deployment_devices'') = [q]
            \<and> q ''status'' = SText (Ds_Status req))
     \<and> filter (\<lambda>q. \<not> (q ''deployment_id'' = SText (r_pathval r ''id'')
                        \<and> q ''device_id'' = SText (Ds_DeviceID req)))
         (contents (ota_db s') ''deployment_devices'')
       = filter (\<lambda>q. \<not> (q ''deployment_id'' = SText (r_pathval r ''id'')
                        \<and> q ''device_id'' = SText (Ds_DeviceID req)))
         (contents (ota_db s) ''deployment_devices'')"
proof -
  obtain req where req: "decode_body DeviceStatusRequest_fields (r_body r)
      \<lparr>Ds_DeviceID = [], Ds_Status = []\<rparr> = Some req"
    using assms(2-4) by (auto simp: ota_handleDeviceStatus_def http_simps split: option.splits)
  let ?a = "SText (r_pathval r ''id'')" and ?b = "SText (Ds_DeviceID req)" and ?c = "SText (Ds_Status req)"
  let ?key = "\<lambda>q. q ''deployment_id'' = ?a \<and> q ''device_id'' = ?b"
  let ?as = "[(''deployment_id'', Param 0), (''device_id'', Param 1), (''status'', Param 2)]"
  let ?tgt = "[''deployment_id'', ''device_id'']"
  obtain d' res where ex: "db_exec E (ota_db s) sql_device_status [?a, ?b, ?c] = (d', Inr res)"
    and d: "ota_db s' = d'"
    using assms(2-4) req
    by (auto simp: ota_handleDeviceStatus_def http_simps split: prod.splits sum.splits)
  define nr where "nr = insert_row deployment_devices_schema ?as [?a, ?b, ?c] (LastInsertId res)"
  let ?rs = "contents (ota_db s) ''deployment_devices''"
  from sql_engine.exec_ok [OF deviceos_db.axioms(1) [OF assms(1)] ex [unfolded sql_device_status_def]]
  have c': "contents d' ''deployment_devices''
        = insert_rows (DoUpdate ?tgt [''status'']) deployment_devices_schema ?rs nr"
    and ok: "no_clash deployment_devices_schema (contents d' ''deployment_devices'')"
    by (auto simp: sem_insert rows_ok_def nr_def simp del: sem_exec.simps)
  have n: "nr ''deployment_id'' = ?a" "nr ''device_id'' = ?b" "nr ''status'' = ?c"
    by (simp_all add: nr_def insert_row_def default_row_def deployment_devices_schema_def)
  have k: "same_key ?tgt nr q = ?key q" for q
    using n by (auto simp: same_key_def)
  let ?upd = "\<lambda>q. if ?key q then (\<lambda>c. if c = ''status'' then nr c else q c) else q"
  have c'': "contents d' ''deployment_devices'' = (if \<exists>q \<in> set ?rs. ?key q then map ?upd ?rs else ?rs @ [nr])"
    using c' unfolding insert_rows_def conflict.case k list_ex_iff
    by (simp only: list.set insert_iff empty_iff simp_thms)
  have single: "length (filter ?key qs) \<le> 1" if "no_clash deployment_devices_schema qs" for qs
    using that
  proof (induction qs)
    case (Cons q qs)
    have "filter ?key qs = []" if "?key q"
      using Cons.prems that
      by (auto simp: filter_empty_conv clash_def deployment_devices_schema_def same_key_def list_all_iff)
    with Cons show ?case by simp
  qed simp
  have other: "filter (\<lambda>q. \<not> ?key q) (contents d' ''deployment_devices'') = filter (\<lambda>q. \<not> ?key q) ?rs"
  proof -
    have "?key (?upd q) = ?key q" for q by simp
    then have "filter (\<lambda>q. \<not> ?key q) (map ?upd qs) = filter (\<lambda>q. \<not> ?key q) qs" for qs
      by (induction qs) (simp_all del: if_split split: if_split)
    with n show ?thesis by (simp add: c'')
  qed
  have "\<exists>q \<in> set (contents d' ''deployment_devices''). ?key q \<and> q ''status'' = ?c"
  proof (cases "\<exists>q \<in> set ?rs. ?key q")
    case True
    then obtain q where q: "q \<in> set ?rs" "?key q" by blast
    have "?upd q \<in> set (map ?upd ?rs)" unfolding set_map by (rule imageI) (rule q(1))
    moreover have "?key (?upd q) \<and> ?upd q ''status'' = ?c" using q(2) n by simp
    moreover have "contents d' ''deployment_devices'' = map ?upd ?rs" using c'' True by (simp only: if_True)
    ultimately show ?thesis by (intro bexI [of _ "?upd q"]) (simp_all only:)
  next
    case False
    then have "contents d' ''deployment_devices'' = ?rs @ [nr]" using c'' by (simp only: if_False)
    with n show ?thesis by simp
  qed
  moreover have all: "\<forall>q \<in> set (contents d' ''deployment_devices''). ?key q \<longrightarrow> q ''status'' = ?c"
    using n by (auto simp: c'')
  ultimately obtain a where a: "filter ?key (contents d' ''deployment_devices'') = [a]"
    using single [OF ok] filter_empty_conv [of ?key "contents d' ''deployment_devices''"]
    by (cases "filter ?key (contents d' ''deployment_devices'')") auto
  then have "a \<in> set (filter ?key (contents d' ''deployment_devices''))" by simp
  with all have "a ''status'' = ?c" by simp
  with a req other d show ?thesis by auto
qed

definition demo_ota :: "tables ota_state" where
  "demo_ota = \<lparr>ota_db = (\<lambda>n. []), ota_files = Map.empty\<rparr>"

theorem upload_stores_witness:
  "ota_files (fst (ota_handleUpload (\<lambda>b. b) (memory_db False) demo_upload
      \<lparr>fs_write = Written, fs_remove = True\<rparr> 1 2 demo_ota demo_upload_request new_writer))
      (firmware_id (\<lambda>b. b) ''bin'') = Some ''bin''"
proof -
  let ?out = "ota_handleUpload (\<lambda>b. b) (memory_db False) demo_upload
      \<lparr>fs_write = Written, fs_remove = True\<rparr> 1 2 demo_ota demo_upload_request new_writer"
  have st: "status_of (snd ?out) = Some 201"
    by (simp add: ota_handleUpload_def read_upload_def demo_upload_def demo_upload_request_def
        demo_ota_def firmware_id_def memory_db_eval DB_same Let_def ota_sql http_simps)
  from upload_stores [OF memdb.deviceos_db_axioms [of False] fresh_new_writer surjective_pairing st]
  obtain q i data where q: "fst ?out = fst ?out" "if data = []
        then q ''checksum'' = SText ''metadata-only'' \<and> ota_files (fst ?out) = ota_files demo_ota
        else q ''checksum'' = SText (hex_encode data) \<and> i = firmware_id (\<lambda>b. b) data
             \<and> mp_file demo_upload = FileData data
             \<and> ota_files (fst ?out) = (ota_files demo_ota)(i \<mapsto> data)"
    by blast
  show ?thesis
  proof (cases "data = []")
    case True
    have "ota_files (fst ?out) (firmware_id (\<lambda>b. b) ''bin'') = Some ''bin''"
      by (simp add: ota_handleUpload_def read_upload_def demo_upload_def demo_upload_request_def
          demo_ota_def firmware_id_def memory_db_eval DB_same Let_def ota_sql)
    then show ?thesis .
  next
    case False
    with q(2) show ?thesis by (auto simp: demo_upload_def)
  qed
qed

theorem deploy_percent_witness:
  "map (\<lambda>q. q ''rollout_percent'') (ota_db (fst (ota_handleDeploy (memory_db False) 1 2 demo_ota
      (demo_request [] ''fw_1'' (JObj [(''rollout_percent'', JInt 250)])) new_writer)) ''deployments'')
   = [SInt 100]"
proof -
  let ?r = "demo_request [] ''fw_1'' (JObj [(''rollout_percent'', JInt 250)])"
  let ?out = "ota_handleDeploy (memory_db False) 1 2 demo_ota ?r new_writer"
  have st: "status_of (snd ?out) = Some 201"
    by (simp add: ota_handleDeploy_def DeployRequest_fields_def find_field_def demo_ota_def
        memory_db_eval DB_same Let_def ota_sql http_simps)
  from deploy_percent [OF memdb.deviceos_db_axioms [of False] fresh_new_writer surjective_pairing st]
  show ?thesis
    by (auto simp: demo_ota_def DeployRequest_fields_def find_field_def)
qed

theorem device_status_upsert_witness:
  "map (\<lambda>q. q ''status'') (ota_db (fst (ota_handleDeviceStatus (memory_db False)
      \<lparr>ota_db = (\<lambda>n. [])(''deployment_devices'' := [(\<lambda>c. SNull)(''deployment_id'' := SText ''dep_1'',
          ''device_id'' := SText ''dev_1'', ''status'' := SText ''pending'', ''updated_at'' := STime 0)]),
       ota_files = Map.empty\<rparr>
      (demo_request [] ''dep_1'' (JObj [(''device_id'', JStr ''dev_1''), (''status'', JStr ''done'')]))
      new_writer)) ''deployment_devices'') = [SText ''done'']"
proof -
  let ?s = "\<lparr>ota_db = (\<lambda>n. [])(''deployment_devices'' := [(\<lambda>c. SNull)(''deployment_id'' := SText ''dep_1'',
          ''device_id'' := SText ''dev_1'', ''status'' := SText ''pending'', ''updated_at'' := STime 0)]),
       ota_files = Map.empty\<rparr>"
  let ?r = "demo_request [] ''dep_1'' (JObj [(''device_id'', JStr ''dev_1''), (''status'', JStr ''done'')])"
  let ?out = "ota_handleDeviceStatus (memory_db False) ?s ?r new_writer"
  have st: "status_of (snd ?out) = Some 200"
    by (simp add: ota_handleDeviceStatus_def DeviceStatusRequest_fields_def find_field_def
        memory_db_eval DB_same Let_def ota_sql http_simps)
  from device_status_upsert [OF memdb.deviceos_db_axioms [of False] fresh_new_writer surjective_pairing st]
  obtain q where q: "filter (\<lambda>q. q ''deployment_id'' = SText ''dep_1'' \<and> q ''device_id'' = SText ''dev_1'')
        (ota_db (fst ?out) ''deployment_devices'') = [q]" "q ''status'' = SText ''done''"
    and rest: "filter (\<lambda>q. \<not> (q ''deployment_id'' = SText ''dep_1'' \<and> q ''device_id'' = SText ''dev_1''))
        (ota_db (fst ?out) ''deployment_devices'') = []"
    by (auto simp: DeviceStatusRequest_fields_def find_field_def)
  from rest have "filter (\<lambda>q. q ''deployment_id'' = SText ''dep_1'' \<and> q ''device_id'' = SText ''dev_1'')
        (ota_db (fst ?out) ''deployment_devices'') = ota_db (fst ?out) ''deployment_devices''"
    by (auto simp: filter_empty_conv filter_id_conv)
  with q show ?thesis by simp
qed

end
