(* ===== verification/Tenant.thy ===== *)
theory Tenant
  imports Tenancy
begin

text \<open>
  \<open>modules/tenant\<close>: organisations and their users. \<open>pt\<close> reads an RFC 3339 time, \<open>rfc\<close>
  prints an instant in UTC, \<open>t1\<close> and \<open>t2\<close> are the two readings of the clock a handler
  makes.
\<close>

section \<open>Data\<close>

record Org =
  Org_ID :: string
  Org_Name :: string
  Org_CreatedAt :: int

record User =
  User_ID :: string
  User_OrgID :: string
  User_Email :: string
  User_Role :: string
  User_CreatedAt :: string

definition zero_Org :: Org where
  "zero_Org = \<lparr>Org_ID = [], Org_Name = [], Org_CreatedAt = zero_time\<rparr>"

definition zero_User :: User where
  "zero_User =
     \<lparr>User_ID = [], User_OrgID = [], User_Email = [], User_Role = [], User_CreatedAt = []\<rparr>"

definition Org_fields :: "(string \<Rightarrow> int option) \<Rightarrow> Org fields" where
  "Org_fields pt =
     [(''id'', set_string Org_ID_update), (''name'', set_string Org_Name_update),
      (''created_at'', set_time pt Org_CreatedAt_update)]"

definition User_fields :: "User fields" where
  "User_fields =
     [(''id'', set_string User_ID_update), (''org_id'', set_string User_OrgID_update),
      (''email'', set_string User_Email_update), (''role'', set_string User_Role_update),
      (''created_at'', set_string User_CreatedAt_update)]"

definition Org_json :: "Org \<Rightarrow> json" where
  "Org_json x =
     JObj [(''id'', JStr (Org_ID x)), (''name'', JStr (Org_Name x)),
           (''created_at'', JTime (Org_CreatedAt x))]"

definition User_json :: "User \<Rightarrow> json" where
  "User_json u =
     JObj [(''id'', JStr (User_ID u)), (''org_id'', JStr (User_OrgID u)),
           (''email'', JStr (User_Email u)), (''role'', JStr (User_Role u)),
           (''created_at'', JStr (User_CreatedAt u))]"

section \<open>Handlers\<close>

definition sql_insert_org :: stmt where
  "sql_insert_org =
     Insert ''orgs'' [(''id'', Param 0), (''name'', Param 1), (''created_at'', Param 2)] Abort"

definition tenant_handleCreate ::
    "(string \<Rightarrow> int option) \<Rightarrow> 'd engine \<Rightarrow> int \<Rightarrow> int \<Rightarrow> 'd handler" where
  "tenant_handleCreate pt E t1 t2 d r w =
     (case decode_body (Org_fields pt) (r_body r) zero_Org of
        None \<Rightarrow> (d, BadRequest ''invalid request'' w)
      | Some org0 \<Rightarrow>
          if Org_Name org0 = [] then (d, BadRequest ''name is required'' w)
          else
            (let org = org0\<lparr>Org_ID := ''org_'' @ itoa t1, Org_CreatedAt := t2\<rparr>
             in case db_exec E d sql_insert_org
                       [SText (Org_ID org), SText (Org_Name org), STime (Org_CreatedAt org)] of
                  (d', Inl e) \<Rightarrow> (d', Internal ''failed to create org'' w)
                | (d', Inr res) \<Rightarrow> (d', writeJSON 201 (Org_json org) w)))"

definition sql_list_orgs :: query where
  "sql_list_orgs =
     \<lparr>sel = Fields [PCol ''id'', PCol ''name'', PCol ''created_at''], from_src = Tab ''orgs'',
      conds = [], order_by = Some (''name'', False), limit_of = NoLimit\<rparr>"

lemma sql_list_orgs_plain [simp, intro!]: "limit_plain (limit_of sql_list_orgs)"
  by (simp add: sql_list_orgs_def)

definition Org_scan :: "Org scanner list" where
  "Org_scan =
     [into scan_string Org_ID_update, into scan_string Org_Name_update,
      into scan_time Org_CreatedAt_update]"

definition tenant_handleList :: "'d engine \<Rightarrow> 'd handler" where
  "tenant_handleList E d r w =
     (case db_query E d sql_list_orgs [] of
        (d', Inl e) \<Rightarrow> (d', Internal ''query failed'' w)
      | (d', Inr (rows, e)) \<Rightarrow>
          (d', writeJSON 200
             (JObj [(''orgs'', JArr (map Org_json (scan_lax Org_scan zero_Org rows)))]) w))"

definition sql_insert_user :: stmt where
  "sql_insert_user =
     Insert ''org_users'' [(''id'', Param 0), (''org_id'', Param 1), (''email'', Param 2),
       (''role'', Param 3), (''created_at'', Param 4)] Abort"

definition tenant_handleInviteUser ::
    "(int \<Rightarrow> string) \<Rightarrow> 'd engine \<Rightarrow> int \<Rightarrow> int \<Rightarrow> 'd handler" where
  "tenant_handleInviteUser rfc E t1 t2 d r w =
     (let orgID = r_pathval r ''id''
      in case decode_body User_fields (r_body r) zero_User of
           None \<Rightarrow> (d, BadRequest ''invalid request'' w)
         | Some u0 \<Rightarrow>
             if User_Email u0 = [] then (d, BadRequest ''email is required'' w)
             else
               (let u1 = (if User_Role u0 = [] then u0\<lparr>User_Role := ''viewer''\<rparr> else u0);
                    u = u1\<lparr>User_ID := ''usr_'' @ itoa t1, User_OrgID := orgID,
                           User_CreatedAt := rfc t2\<rparr>
                in case db_exec E d sql_insert_user
                          [SText (User_ID u), SText (User_OrgID u), SText (User_Email u),
                           SText (User_Role u), SText (User_CreatedAt u)] of
                     (d', Inl e) \<Rightarrow> (d', Internal ''failed to invite user'' w)
                   | (d', Inr res) \<Rightarrow> (d', writeJSON 201 (User_json u) w)))"

definition sql_list_users :: query where
  "sql_list_users =
     \<lparr>sel = Fields [PCol ''id'', PCol ''org_id'', PCol ''email'', PCol ''role'', PCol ''created_at''],
      from_src = Tab ''org_users'', conds = [CEq ''org_id'' (Param 0)],
      order_by = Some (''email'', False), limit_of = NoLimit\<rparr>"

lemma sql_list_users_plain [simp, intro!]: "limit_plain (limit_of sql_list_users)"
  by (simp add: sql_list_users_def)

definition User_scan :: "User scanner list" where
  "User_scan =
     [into scan_string User_ID_update, into scan_string User_OrgID_update,
      into scan_string User_Email_update, into scan_string User_Role_update,
      into scan_string User_CreatedAt_update]"

definition tenant_handleListUsers :: "'d engine \<Rightarrow> 'd handler" where
  "tenant_handleListUsers E d r w =
     (let orgID = r_pathval r ''id''
      in case db_query E d sql_list_users [SText orgID] of
           (d', Inl e) \<Rightarrow> (d', Internal ''query failed'' w)
         | (d', Inr (rows, e)) \<Rightarrow>
             (d', writeJSON 200
                (JObj [(''users'', JArr (map User_json (scan_lax User_scan zero_User rows)))]) w))"

datatype tenant_route = CreateOrg | ListOrgs | InviteUser | ListUsers

definition tenant_routes :: "(string \<times> tenant_route) list" where
  "tenant_routes =
     [(''POST /api/v1/orgs'', CreateOrg), (''GET /api/v1/orgs'', ListOrgs),
      (''POST /api/v1/orgs/{id}/users'', InviteUser), (''GET /api/v1/orgs/{id}/users'', ListUsers)]"

section \<open>Inviting a user\<close>

definition invited_role :: "string \<Rightarrow> string" where
  "invited_role s = (if s = [] then ''viewer'' else s)"

context deviceos_db
begin

lemma invite_row:
  assumes "db_exec E d sql_insert_user [i, SText o', SText e, SText ro, SText c] = (d', Inr res)"
  shows "\<exists>q. contents d' = (contents d)(''org_users'' := contents d ''org_users'' @ [q])
     \<and> q ''id'' = i \<and> q ''org_id'' = SText o' \<and> q ''email'' = SText e \<and> q ''role'' = SText ro
     \<and> (fk_on d \<longrightarrow> (\<exists>p \<in> set (contents d ''orgs''). p ''id'' = SText o'))"
proof -
  note ex = exec_ok [OF assms, unfolded sql_insert_user_def]
  note ins = sem_insert_abort(1) [OF ex deviceos_schema(14)]
  let ?q = "insert_row org_users_schema [(''id'', Param 0), (''org_id'', Param 1), (''email'', Param 2),
      (''role'', Param 3), (''created_at'', Param 4)] [i, SText o', SText e, SText ro, SText c]
      (LastInsertId res)"
  have q: "?q ''id'' = i" "?q ''org_id'' = SText o'" "?q ''email'' = SText e" "?q ''role'' = SText ro"
    by (simp_all add: insert_row_def org_users_schema_def)
  have "\<exists>p \<in> set (contents d ''orgs''). p ''id'' = SText o'" if fk: "fk_on d"
  proof -
    have "list_all (\<lambda>f. \<not> orphan (contents d') f ?q) (fks org_users_schema)"
      using ex fk by (auto simp: Let_def split: if_splits)
    then have "\<not> orphan (contents d') (fk_to ''org_id'' ''orgs'' False) ?q"
      by (simp add: org_users_schema_def)
    with q(2) show ?thesis by (auto simp: orphan_def fk_to_def list_ex_iff ins)
  qed
  with ins q show ?thesis by blast
qed

end

text \<open>
  An invitation answered with 201 adds exactly one user, to the organisation of the path
  and with the role the body asks for, a viewer when it asks for none; where foreign keys are
  enforced that organisation exists. Nothing depends on the headers that say who is asking:
  any caller can make himself an administrator of any organisation.
\<close>

theorem tenant_invite:
  assumes "deviceos_db E contents fk_on lt"
    and "fresh w" and "tenant_handleInviteUser rfc E t1 t2 d r w = (d', w')"
    and "status_of w' = Some 201"
  shows "(\<exists>u q. decode_body User_fields (r_body r) zero_User = Some u \<and> User_Email u \<noteq> []
        \<and> contents d' = (contents d)(''org_users'' := contents d ''org_users'' @ [q])
        \<and> q ''id'' = SText (''usr_'' @ itoa t1) \<and> q ''org_id'' = SText (r_pathval r ''id'')
        \<and> q ''email'' = SText (User_Email u) \<and> q ''role'' = SText (invited_role (User_Role u)))
     \<and> (fk_on d \<longrightarrow> (\<exists>p \<in> set (contents d ''orgs''). p ''id'' = SText (r_pathval r ''id'')))
     \<and> (\<forall>hs. tenant_handleInviteUser rfc E t1 t2 d (r\<lparr>r_header := hs\<rparr>) w = (d', w'))"
proof -
  obtain u res where u: "decode_body User_fields (r_body r) zero_User = Some u" "User_Email u \<noteq> []"
    and ex: "db_exec E d sql_insert_user [SText (''usr_'' @ itoa t1), SText (r_pathval r ''id''),
        SText (User_Email u), SText (invited_role (User_Role u)), SText (rfc t2)] = (d', Inr res)"
    using assms(2-4)
    by (auto simp: tenant_handleInviteUser_def invited_role_def Let_def http_simps
        split: option.splits if_splits prod.splits sum.splits)
  have "tenant_handleInviteUser rfc E t1 t2 d (r\<lparr>r_header := hs\<rparr>) w = (d', w')" for hs
    using assms(3) by (simp add: tenant_handleInviteUser_def)
  with u deviceos_db.invite_row [OF assms(1) ex] show ?thesis by blast
qed

definition demo_orgs :: tables where
  "demo_orgs = (\<lambda>n. [])(''orgs'' := [(\<lambda>c. SNull)(''id'' := SText ''acme'', ''name'' := SText ''Acme'',
     ''created_at'' := STime 0)])"

definition demo_invitation :: request where
  "demo_invitation = demo_request ''evil'' ''acme''
     (JObj [(''email'', JStr ''mallory@evil.org''), (''role'', JStr ''admin'')])"

theorem tenant_invite_witness:
  "map (\<lambda>q. (q ''org_id'', q ''role''))
     (fst (tenant_handleInviteUser (\<lambda>t. ''now'') (memory_db True) 1 2 demo_orgs demo_invitation new_writer)
        ''org_users'')
   = [(SText ''acme'', SText ''admin'')]"
proof -
  let ?h = "tenant_handleInviteUser (\<lambda>t. ''now'') (memory_db True) 1 2 demo_orgs demo_invitation new_writer"
  have dec: "decode_body User_fields (r_body demo_invitation) zero_User
      = Some (zero_User\<lparr>User_Email := ''mallory@evil.org'', User_Role := ''admin''\<rparr>)"
    by (simp add: demo_invitation_def User_fields_def find_field_def)
  have st: "status_of (snd ?h) = Some 201"
    unfolding tenant_handleInviteUser_def dec
    by (simp add: sql_insert_user_def Let_def memory_db_eval deviceos_catalog_def demo_orgs_def
        demo_invitation_def zero_User_def http_simps)
  note t = tenant_invite [OF memdb.deviceos_db_axioms [of True] fresh_new_writer surjective_pairing st]
  then obtain u q where "decode_body User_fields (r_body demo_invitation) zero_User = Some u"
    "fst ?h = demo_orgs(''org_users'' := demo_orgs ''org_users'' @ [q])"
    "q ''org_id'' = SText (r_pathval demo_invitation ''id'')" "q ''role'' = SText (invited_role (User_Role u))"
    by blast
  with dec show ?thesis
    by (auto simp: demo_orgs_def demo_invitation_def invited_role_def)
qed

end
