(* ===== verification/Auditlog.thy ===== *)
theory Auditlog
  imports Tenancy
begin

text \<open>
  \<open>modules/audit\<close>: the audit log. \<open>Log\<close> drops the result of its statement, so an entry
  that cannot be written is lost without notice.
\<close>

section \<open>Data\<close>

record Entry =
  Ent_ID :: string
  Ent_Actor :: string
  Ent_Action :: string
  Ent_Target :: string
  Ent_Details :: "json option"
  Ent_CreatedAt :: int

definition zero_Entry :: Entry where
  "zero_Entry =
     \<lparr>Ent_ID = [], Ent_Actor = [], Ent_Action = [], Ent_Target = [], Ent_Details = None,
      Ent_CreatedAt = zero_time\<rparr>"

definition Entry_json :: "Entry \<Rightarrow> json" where
  "Entry_json e =
     JObj ([(''id'', JStr (Ent_ID e)), (''actor'', JStr (Ent_Actor e)),
            (''action'', JStr (Ent_Action e)), (''target'', JStr (Ent_Target e))]
       @ omit_raw ''details'' (Ent_Details e)
       @ [(''created_at'', JTime (Ent_CreatedAt e))])"

section \<open>Operations\<close>

definition sql_insert_audit :: stmt where
  "sql_insert_audit =
     Insert ''audit_log'' [(''id'', Param 0), (''actor'', Param 1), (''action'', Param 2),
       (''target'', Param 3), (''details'', Param 4), (''created_at'', Param 5)] Abort"

definition details_arg :: "json option \<Rightarrow> sqlval" where
  "details_arg details = (case details of None \<Rightarrow> SText [] | Some j \<Rightarrow> SDoc j)"

definition audit_Log ::
    "'d engine \<Rightarrow> int \<Rightarrow> int \<Rightarrow> string \<Rightarrow> string \<Rightarrow> string \<Rightarrow> json option \<Rightarrow> 'd \<Rightarrow> 'd" where
  "audit_Log E t1 t2 actor action target details d =
     fst (db_exec E d sql_insert_audit
       [SText (''aud_'' @ itoa t1), SText actor, SText action, SText target, details_arg details,
        STime t2])"

definition sql_audit :: "limit \<Rightarrow> query" where
  "sql_audit l =
     \<lparr>sel = Fields [PCol ''id'', PCol ''actor'', PCol ''action'', PCol ''target'', PCol ''details'',
        PCol ''created_at''],
      from_src = Tab ''audit_log'', conds = [CEq ''org_id'' (Param 0)],
      order_by = Some (''created_at'', True), limit_of = l\<rparr>"

definition Entry_scan :: "Entry scanner list" where
  "Entry_scan =
     [into scan_string Ent_ID_update, into scan_string Ent_Actor_update,
      into scan_string Ent_Action_update, into scan_string Ent_Target_update,
      into scan_doc Ent_Details_update, into scan_time Ent_CreatedAt_update]"

definition audit_handleQuery :: "'d engine \<Rightarrow> 'd handler" where
  "audit_handleQuery E d r w =
     (let limit = (if r_query r ''limit'' = [] then ''100'' else r_query r ''limit'')
      in case db_query E d (sql_audit (LimitText limit)) [SText (OrgID r)] of
           (d', Inl e) \<Rightarrow> (d', Internal ''query failed'' w)
         | (d', Inr (rows, e)) \<Rightarrow>
             (d', writeJSON 200
                (JObj [(''audit_logs'',
                   JArr (map Entry_json (scan_lax Entry_scan zero_Entry rows)))]) w))"

definition audit_routes :: "string list" where
  "audit_routes = [''GET /api/v1/audit'']"

section \<open>A run of the log\<close>

record log_call =
  lc_clock :: "int \<times> int"
  lc_actor :: string
  lc_action :: string
  lc_target :: string
  lc_details :: "json option"

fun audit_Log_all :: "'d engine \<Rightarrow> log_call list \<Rightarrow> 'd \<Rightarrow> 'd" where
  "audit_Log_all E [] d = d"
| "audit_Log_all E (c # cs) d =
     audit_Log_all E cs
       (audit_Log E (fst (lc_clock c)) (snd (lc_clock c)) (lc_actor c) (lc_action c) (lc_target c)
          (lc_details c) d)"

text \<open>The row a call writes: what it says, and the empty organisation.\<close>

definition logged :: "log_call \<Rightarrow> row \<Rightarrow> bool" where
  "logged c q \<longleftrightarrow>
     q ''actor'' = SText (lc_actor c) \<and> q ''action'' = SText (lc_action c)
     \<and> q ''target'' = SText (lc_target c) \<and> q ''details'' = details_arg (lc_details c)
     \<and> q ''created_at'' = STime (snd (lc_clock c)) \<and> q ''org_id'' = SText []"

context deviceos_db
begin

lemma Log_row:
  assumes "d' = audit_Log E (fst (lc_clock c)) (snd (lc_clock c)) (lc_actor c) (lc_action c) (lc_target c)
     (lc_details c) d"
  shows "contents d' = contents d
     \<or> (\<exists>q. contents d' = (contents d)(''audit_log'' := contents d ''audit_log'' @ [q]) \<and> logged c q)"
proof -
  let ?args = "[SText (''aud_'' @ itoa (fst (lc_clock c))), SText (lc_actor c), SText (lc_action c),
      SText (lc_target c), details_arg (lc_details c), STime (snd (lc_clock c))]"
  obtain d1 r where ex: "db_exec E d sql_insert_audit ?args = (d1, r)" by fastforce
  then have d': "d' = d1" using assms by (simp add: audit_Log_def)
  show ?thesis
  proof (cases r)
    case (Inl e)
    with ex d' show ?thesis by (auto dest: exec_err)
  next
    case (Inr x)
    note ins = sem_insert_abort(1) [OF exec_ok [OF ex [unfolded Inr sql_insert_audit_def]] deviceos_schema(15)]
    show ?thesis
      by (rule disjI2, unfold d' ins, rule exI, rule conjI, rule refl)
         (simp add: logged_def insert_row_def default_row_def audit_log_schema_def)
  qed
qed

lemma Log_all_rows:
  "\<exists>new cs'. contents (audit_Log_all E cs d)
        = (contents d)(''audit_log'' := contents d ''audit_log'' @ new)
     \<and> subseq cs' cs \<and> list_all2 logged cs' new"
proof (induction cs arbitrary: d)
  case Nil
  show ?case by (intro exI [of _ "[]"]) simp
next
  case (Cons c cs)
  let ?d1 = "audit_Log E (fst (lc_clock c)) (snd (lc_clock c)) (lc_actor c) (lc_action c) (lc_target c)
     (lc_details c) d"
  obtain new cs' where new: "contents (audit_Log_all E cs ?d1)
        = (contents ?d1)(''audit_log'' := contents ?d1 ''audit_log'' @ new)"
      "subseq cs' cs" "list_all2 logged cs' new"
    using Cons.IH [of ?d1] by blast
  from Log_row [OF refl, of c d] show ?case
  proof (elim disjE exE conjE)
    assume "contents ?d1 = contents d"
    with new show ?thesis
      by (intro exI [of _ new] exI [of _ cs']) (auto intro: list_emb_Cons)
  next
    fix q
    assume "contents ?d1 = (contents d)(''audit_log'' := contents d ''audit_log'' @ [q])" "logged c q"
    with new show ?thesis
      by (intro exI [of _ "q # new"] exI [of _ "c # cs'"]) auto
  qed
qed

end

text \<open>
  The audit log only grows, by one row for each call of a subsequence of the calls
  \<open>Log\<close>, in their order and with what they say (the others failed without notice). None of
  these rows belongs to an organisation: a caller whose organisation had no entries before is
  still shown none.
\<close>

theorem audit_entries_unseen:
  assumes "deviceos_db E contents fk_on lt" and "fresh w"
    and "HasOrgID r" and "list_all is_digit (r_query r ''limit'')"
    and "rows_of (OrgID r) (contents d ''audit_log'') = []"
    and "audit_handleQuery E (audit_Log_all E cs d) r w = (d', w')"
  shows "(\<exists>new cs'. contents d' = (contents d)(''audit_log'' := contents d ''audit_log'' @ new)
        \<and> subseq cs' cs \<and> list_all2 logged cs' new)
     \<and> (status_of w' = Some 500
        \<or> status_of w' = Some 200 \<and> w_out w' = [Cjson (JObj [(''audit_logs'', JArr [])])])"
proof -
  let ?d = "audit_Log_all E cs d"
  define L where "L = (if r_query r ''limit'' = [] then ''100'' else r_query r ''limit'')"
  have plain: "limit_plain (limit_of (sql_audit (LimitText L)))"
    using assms(4) by (auto simp: L_def sql_audit_def is_digit_def)
  obtain new cs' where new: "contents ?d = (contents d)(''audit_log'' := contents d ''audit_log'' @ new)"
      "subseq cs' cs" "list_all2 logged cs' new"
    using deviceos_db.Log_all_rows [OF assms(1)] by blast
  have "q ''org_id'' \<noteq> SText (OrgID r)" if "q \<in> set new" for q
    using that new(3) assms(3) by (auto simp: list_all2_conv_all_nth in_set_conv_nth logged_def HasOrgID_def OrgID_def)
  then have none: "matching lt (sql_audit (LimitText L)) [SText (OrgID r)] (contents ?d) = []"
    using assms(5) by (auto simp: new(1) matching_def sql_audit_def sat_own_rows rows_of_def filter_empty_conv)
  obtain s1 x where q: "db_query E ?d (sql_audit (LimitText L)) [SText (OrgID r)] = (s1, x)" by fastforce
  have frame: "contents s1 = contents ?d"
    by (rule sql_engine.query_frame [OF deviceos_db.axioms(1) [OF assms(1)] q plain])
  have h: "(d', w') = (case x of Inl e \<Rightarrow> (s1, Internal ''query failed'' w)
      | Inr (rows, e) \<Rightarrow> (s1, writeJSON 200 (JObj [(''audit_logs'',
          JArr (map Entry_json (scan_lax Entry_scan zero_Entry rows)))]) w))"
    using assms(6) q by (simp add: audit_handleQuery_def L_def Let_def)
  have "status_of w' = Some 500
      \<or> status_of w' = Some 200 \<and> w_out w' = [Cjson (JObj [(''audit_logs'', JArr [])])]"
  proof (cases x)
    case (Inl e)
    with h assms(2) show ?thesis by (simp add: http_simps)
  next
    case (Inr re)
    obtain rows e where re: "re = (rows, e)" by (cases re)
    from sql_engine.rows_prefix [OF deviceos_db.axioms(1) [OF assms(1)] q [unfolded Inr re] plain]
    obtain full where "query_ok lt (sql_audit (LimitText L)) [SText (OrgID r)] (contents ?d) full"
      and "prefix rows full" .
    then have "rows = []"
      using query_none [OF _ _ none] by (fastforce simp: sql_audit_def)
    with h Inr re assms(2) show ?thesis by (simp add: scan_lax_def http_simps)
  qed
  moreover have "contents d' = contents ?d"
    using h frame by (auto split: sum.splits)
  ultimately show ?thesis using new by auto
qed

definition demo_log :: log_call where
  "demo_log = \<lparr>lc_clock = (1, 2), lc_actor = ''acme-admin'', lc_action = ''delete'', lc_target = ''dev_1'',
     lc_details = None\<rparr>"

theorem audit_entries_unseen_witness:
  "w_out (snd (audit_handleQuery (memory_db False) (audit_Log_all (memory_db False) [demo_log] (\<lambda>n. []))
      (demo_request ''acme'' [] JNull) new_writer)) = [Cjson (JObj [(''audit_logs'', JArr [])])]"
proof -
  let ?r = "demo_request ''acme'' [] JNull"
  let ?h = "audit_handleQuery (memory_db False) (audit_Log_all (memory_db False) [demo_log] (\<lambda>n. [])) ?r new_writer"
  have r: "HasOrgID ?r" "list_all is_digit (r_query ?r ''limit'')"
    by (simp_all add: HasOrgID_def demo_request_def)
  note t = audit_entries_unseen [OF memdb.deviceos_db_axioms [of False] fresh_new_writer r,
      where d = "\<lambda>n. []" and cs = "[demo_log]"]
  note t = t [OF _ surjective_pairing]
  have "status_of (snd ?h) = Some 200"
    by (simp add: audit_handleQuery_def memory_db_def DB_same ref_engine_def ref_query_def
        Let_def http_simps del: audit_Log_all.simps)
  with t show ?thesis by (auto simp: rows_of_def simp del: audit_Log_all.simps)
qed

end
