(* ===== verification/Registry.thy ===== *)
theory Registry
  imports Gojson
begin

text \<open>
  \<open>internal/registry\<close>: the modules of the program and their life cycle. A module is the
  record of the methods of the interface \<open>Module\<close>; each acts on the state of the program
  and may return an error. \<open>'c\<close> is the type of the configuration.
\<close>

section \<open>Data\<close>

type_synonym 's action = "'s \<Rightarrow> 's \<times> string option"

record ('c, 's) go_module =
  Mod_Name :: string
  Mod_Init :: "'c \<Rightarrow> 's action"
  Mod_RegisterRoutes :: "'s action"
  Mod_Start :: "'s action"
  Mod_Stop :: "'s action"

text \<open>\<open>TelemetryHook\<close>: the device, the metrics and the metadata.\<close>

type_synonym 's TelemetryHook = "string \<Rightarrow> json option \<Rightarrow> json option \<Rightarrow> 's \<Rightarrow> 's"

record ('c, 's) Registry =
  modules :: "string \<rightharpoonup> ('c, 's) go_module"
  order :: "string list"
  telemetryHooks :: "'s TelemetryHook list"

section \<open>Operations\<close>

definition registry_New :: "('c, 's) Registry" where
  "registry_New = \<lparr>modules = Map.empty, order = [], telemetryHooks = []\<rparr>"

text \<open>\<open>Register\<close> panics on a name that is taken: \<open>Inl\<close> is the panic value.\<close>

definition Register :: "('c, 's) Registry \<Rightarrow> ('c, 's) go_module \<Rightarrow> ('c, 's) Registry result" where
  "Register r m =
     (let name = Mod_Name m
      in case modules r name of
           Some _ \<Rightarrow> Inl (''module already registered: '' @ name)
         | None \<Rightarrow> Inr (r\<lparr>modules := (modules r)(name \<mapsto> m), order := order r @ [name]\<rparr>))"

definition registry_Get :: "('c, 's) Registry \<Rightarrow> string \<Rightarrow> ('c, 's) go_module option" where
  "registry_Get r name = modules r name"

text \<open>
  The loops of \<open>InitAll\<close>, \<open>RegisterAllRoutes\<close> and \<open>StartAll\<close>: the method of each module
  in the order of registration, up to the first error. A name without a module would be a
  call on a nil interface, which panics; it is a branch here, \<open>nil_call\<close>, and never taken.
\<close>

definition nil_call :: string where
  "nil_call = ''invalid memory address or nil pointer dereference''"

fun each_module ::
    "(('c, 's) go_module \<Rightarrow> 's action) \<Rightarrow> ('c, 's) Registry \<Rightarrow> string list \<Rightarrow> 's action" where
  "each_module f r [] s = (s, None)"
| "each_module f r (name # names) s =
     (case modules r name of
        None \<Rightarrow> (s, Some nil_call)
      | Some m \<Rightarrow>
          (case f m s of
             (s', Some err) \<Rightarrow> (s', Some err)
           | (s', None) \<Rightarrow> each_module f r names s'))"

definition InitAll :: "'c \<Rightarrow> ('c, 's) Registry \<Rightarrow> 's action" where
  "InitAll cfg r s = each_module (\<lambda>m. Mod_Init m cfg) r (order r) s"

definition RegisterAllRoutes :: "('c, 's) Registry \<Rightarrow> 's action" where
  "RegisterAllRoutes r s = each_module Mod_RegisterRoutes r (order r) s"

definition StartAll :: "('c, 's) Registry \<Rightarrow> 's action" where
  "StartAll r s = each_module Mod_Start r (order r) s"

definition registry_OnTelemetry :: "('c, 's) Registry \<Rightarrow> 's TelemetryHook \<Rightarrow> ('c, 's) Registry" where
  "registry_OnTelemetry r fn = r\<lparr>telemetryHooks := telemetryHooks r @ [fn]\<rparr>"

definition TriggerTelemetry ::
    "('c, 's) Registry \<Rightarrow> string \<Rightarrow> json option \<Rightarrow> json option \<Rightarrow> 's \<Rightarrow> 's" where
  "TriggerTelemetry r deviceID metrics metadata s =
     fold (\<lambda>fn. fn deviceID metrics metadata) (telemetryHooks r) s"

definition Names :: "('c, 's) Registry \<Rightarrow> string list" where
  "Names r = order r"

text \<open>\<open>StopAll\<close> runs backwards and ignores what \<open>Stop\<close> returns.\<close>

definition StopAll :: "('c, 's) Registry \<Rightarrow> 's \<Rightarrow> 's" where
  "StopAll r s =
     fold (\<lambda>name s. case modules r name of None \<Rightarrow> s | Some m \<Rightarrow> fst (Mod_Stop m s))
       (rev (order r)) s"

fun Register_all ::
    "('c, 's) Registry \<Rightarrow> ('c, 's) go_module list \<Rightarrow> ('c, 's) Registry result" where
  "Register_all r [] = Inr r"
| "Register_all r (m # ms) = bind_result (Register r m) (\<lambda>r'. Register_all r' ms)"

section \<open>The registry is the list of its modules\<close>

text \<open>\<open>registered r ms\<close>: the registry holds the modules \<open>ms\<close>, in this order.\<close>

definition registered :: "('c, 's) Registry \<Rightarrow> ('c, 's) go_module list \<Rightarrow> bool" where
  "registered r ms \<longleftrightarrow>
     order r = map Mod_Name ms \<and> distinct (order r) \<and> modules r = map_of (map (\<lambda>m. (Mod_Name m, m)) ms)"

lemma registered_New [simp]: "registered registry_New []"
  by (simp add: registered_def registry_New_def)

lemma map_of_named: "map_of (map (\<lambda>m. (Mod_Name m, m)) ms) n = None \<longleftrightarrow> n \<notin> Mod_Name ` set ms"
  by (force simp: map_of_eq_None_iff)

lemma Register_registered:
  assumes "registered r ms"
  shows "Mod_Name m \<notin> Mod_Name ` set ms \<Longrightarrow> \<exists>r'. Register r m = Inr r' \<and> registered r' (ms @ [m])"
    and "Mod_Name m \<in> Mod_Name ` set ms \<Longrightarrow>
         Register r m = Inl (''module already registered: '' @ Mod_Name m)"
proof -
  let ?t = "map_of (map (\<lambda>m. (Mod_Name m, m)) ms)"
  have t: "modules r = ?t" using assms by (simp add: registered_def)
  {
    assume new: "Mod_Name m \<notin> Mod_Name ` set ms"
    then have none: "?t (Mod_Name m) = None" by (simp only: map_of_named not_False_eq_True)
    then have "?t(Mod_Name m \<mapsto> m) = map_of (map (\<lambda>m. (Mod_Name m, m)) (ms @ [m]))"
      by (auto simp: fun_eq_iff map_add_def split: option.splits)
    with none show "\<exists>r'. Register r m = Inr r' \<and> registered r' (ms @ [m])"
      using new assms by (auto simp: Register_def registered_def t Let_def)
  next
    assume "Mod_Name m \<in> Mod_Name ` set ms"
    then have "?t (Mod_Name m) \<noteq> None" by (simp add: map_of_named)
    with t show "Register r m = Inl (''module already registered: '' @ Mod_Name m)"
      by (auto simp: Register_def)
  }
qed

lemma Register_all_registered:
  assumes "registered r ms" and "distinct (map Mod_Name (ms @ ns))"
  shows "\<exists>r'. Register_all r ns = Inr r' \<and> registered r' (ms @ ns)"
  using assms
proof (induction ns arbitrary: r ms)
  case Nil
  then show ?case by simp
next
  case (Cons n ns)
  obtain r' where r': "Register r n = Inr r'" "registered r' (ms @ [n])"
    using Register_registered(1) [OF Cons.prems(1), of n] Cons.prems(2) by auto
  with Cons.IH [OF r'(2)] Cons.prems(2) show ?case by simp
qed

lemma Register_all_duplicate:
  assumes "registered r ms" and "\<not> distinct (map Mod_Name (ms @ ns))" and "distinct (map Mod_Name ms)"
  shows "\<exists>n \<in> set ns. Register_all r ns = Inl (''module already registered: '' @ Mod_Name n)"
  using assms
proof (induction ns arbitrary: r ms)
  case Nil
  then show ?case by simp
next
  case (Cons n ns)
  show ?case
  proof (cases "Mod_Name n \<in> Mod_Name ` set ms")
    case True
    with Register_registered(2) [OF Cons.prems(1)] show ?thesis by simp
  next
    case False
    obtain r' where r': "Register r n = Inr r'" "registered r' (ms @ [n])"
      using Register_registered(1) [OF Cons.prems(1) False] by blast
    with Cons.IH [OF r'(2)] Cons.prems(2,3) False show ?thesis by auto
  qed
qed

text \<open>The reference: one pass over the modules themselves.\<close>

fun until_error :: "('m \<Rightarrow> 's action) \<Rightarrow> 'm list \<Rightarrow> 's action" where
  "until_error f [] s = (s, None)"
| "until_error f (m # ms) s =
     (case f m s of (s', None) \<Rightarrow> until_error f ms s' | (s', Some err) \<Rightarrow> (s', Some err))"

lemma until_error_append:
  "until_error f (ms @ ns) s =
     (case until_error f ms s of (s', None) \<Rightarrow> until_error f ns s' | (s', Some e) \<Rightarrow> (s', Some e))"
  by (induction ms arbitrary: s) (auto split: prod.splits option.splits)

lemma registered_lookup:
  assumes "registered r ms" and "m \<in> set ms"
  shows "modules r (Mod_Name m) = Some m"
proof -
  have "distinct (map fst (map (\<lambda>m. (Mod_Name m, m)) ms))"
    using assms(1) by (auto simp: registered_def comp_def)
  then show ?thesis
    using assms by (auto simp: registered_def intro!: map_of_is_SomeI)
qed

lemma each_module_until:
  assumes "registered r ms" and "set ns \<subseteq> set ms"
  shows "each_module f r (map Mod_Name ns) s = until_error f ns s"
  using assms(2)
  by (induction ns arbitrary: s)
     (auto simp: registered_lookup [OF assms(1)] split: prod.splits option.splits)

lemma StopAll_registered:
  assumes "registered r ms"
  shows "StopAll r s = fold (\<lambda>m s. fst (Mod_Stop m s)) (rev ms) s"
proof -
  have "fold (\<lambda>name s. case modules r name of None \<Rightarrow> s | Some m \<Rightarrow> fst (Mod_Stop m s))
      (map Mod_Name ns) s = fold (\<lambda>m s. fst (Mod_Stop m s)) ns s" if "set ns \<subseteq> set ms" for ns s
    using that by (induction ns arbitrary: s) (auto simp: registered_lookup [OF assms])
  from this [of "rev ms"] show ?thesis
    using assms by (simp add: StopAll_def registered_def rev_map)
qed

lemmas registry_passes =
  InitAll_def RegisterAllRoutes_def StartAll_def

lemma registered_passes:
  assumes "registered r ms"
  shows "InitAll cfg r s = until_error (\<lambda>m. Mod_Init m cfg) ms s"
    and "RegisterAllRoutes r s = until_error Mod_RegisterRoutes ms s"
    and "StartAll r s = until_error Mod_Start ms s"
  using assms each_module_until [OF assms subset_refl]
  by (simp_all add: registry_passes registered_def)

text \<open>
  C38: registering modules of different names succeeds, and the registry then is the list of
  them: the names are reported in order, each pass calls every module once in the order of
  registration and stops at the first error, and stopping calls every module once in the
  reverse order. Registering a name twice panics with that name.
\<close>

theorem registry_lifecycle:
  shows "if distinct (map Mod_Name ms)
     then \<exists>r. Register_all registry_New ms = Inr r
        \<and> Names r = map Mod_Name ms \<and> map (registry_Get r) (Names r) = map Some ms
        \<and> (\<forall>cfg s. InitAll cfg r s = until_error (\<lambda>m. Mod_Init m cfg) ms s)
        \<and> (\<forall>s. RegisterAllRoutes r s = until_error Mod_RegisterRoutes ms s)
        \<and> (\<forall>s. StartAll r s = until_error Mod_Start ms s)
        \<and> (\<forall>s. StopAll r s = fold (\<lambda>m s. fst (Mod_Stop m s)) (rev ms) s)
     else \<exists>m \<in> set ms. Register_all registry_New ms = Inl (''module already registered: '' @ Mod_Name m)"
proof (cases "distinct (map Mod_Name ms)")
  case True
  then obtain r where r: "Register_all registry_New ms = Inr r" "registered r ms"
    using Register_all_registered [OF registered_New, of ms] by auto
  have "Names r = map Mod_Name ms" "map (registry_Get r) (Names r) = map Some ms"
    using r(2) registered_lookup [OF r(2)] by (auto simp: Names_def registry_Get_def registered_def [of r])
  with True r(1) registered_passes [OF r(2)] StopAll_registered [OF r(2)] show ?thesis by auto
next
  case False
  then show ?thesis
    using Register_all_duplicate [OF registered_New, of ms] by simp
qed

end
