(* ===== verification/Events.thy ===== *)
theory Events
  imports Http "HOL-Library.AList" "HOL-Library.Multiset"
begin

text \<open>
  \<open>modules/events\<close>: the WebSocket hub that forwards events to subscribers. The WebSocket
  library is a parameter: \<open>up\<close> takes a connection over from a request, \<open>okc\<close> says which
  connections take a message.
\<close>

section \<open>Events and subscribers\<close>

text \<open>\<open>Evt_Data\<close> is \<open>None\<close> for data that \<open>json.Marshal\<close> refuses.\<close>

record Event =
  Evt_Type :: string
  Evt_Data :: "json option"

definition marshal_event :: "Event \<Rightarrow> json option" where
  "marshal_event e =
     map_option (\<lambda>v. JObj [(''type'', JStr (Evt_Type e)), (''data'', v)]) (Evt_Data e)"

text \<open>A \<open>map[string]bool\<close> whose values are all true is a set; \<open>None\<close> is the nil map.\<close>

record subscriber =
  sub_events :: "string set option"

definition wants :: "subscriber \<Rightarrow> string \<Rightarrow> bool" where
  "wants s eventType = (case sub_events s of None \<Rightarrow> True | Some es \<Rightarrow> eventType \<in> es)"

section \<open>The hub\<close>

text \<open>
  \<open>ev_subs\<close> is the map of the subscribers; beside it the state records what each connection
  was sent, the connections that were closed, and those whose removal waits in a goroutine.
\<close>

record 'c event_hub =
  ev_subs :: "('c \<times> subscriber) list"
  ev_inbox :: "'c \<Rightarrow> json list"
  ev_closed :: "'c set"
  ev_removing :: "'c set"

definition events_NewHub :: "'c event_hub" where
  "events_NewHub = \<lparr>ev_subs = [], ev_inbox = (\<lambda>c. []), ev_closed = {}, ev_removing = {}\<rparr>"

definition Subscribe :: "'c \<Rightarrow> string list option \<Rightarrow> 'c event_hub \<Rightarrow> 'c event_hub" where
  "Subscribe conn eventTypes h =
     (let events = map_option set eventTypes
      in h\<lparr>ev_subs := AList.update conn \<lparr>sub_events = events\<rparr> (ev_subs h)\<rparr>)"

definition Unsubscribe :: "'c \<Rightarrow> 'c event_hub \<Rightarrow> 'c event_hub" where
  "Unsubscribe conn h = h\<lparr>ev_subs := AList.delete conn (ev_subs h)\<rparr>"

definition send_event :: "'c \<Rightarrow> json \<Rightarrow> 'c event_hub \<Rightarrow> 'c event_hub" where
  "send_event conn msg h = h\<lparr>ev_inbox := (ev_inbox h)(conn := ev_inbox h conn @ [msg])\<rparr>"

text \<open>One turn of the loop of \<open>Publish\<close>; a failed write closes and schedules the removal.\<close>

definition publish_to ::
    "('c \<Rightarrow> bool) \<Rightarrow> string \<Rightarrow> json \<Rightarrow> 'c \<Rightarrow> 'c event_hub \<Rightarrow> 'c event_hub" where
  "publish_to okc ty msg conn h =
     (case map_of (ev_subs h) conn of
        None \<Rightarrow> h
      | Some sub \<Rightarrow>
          if \<not> wants sub ty then h
          else if okc conn then send_event conn msg h
          else h\<lparr>ev_closed := insert conn (ev_closed h), ev_removing := insert conn (ev_removing h)\<rparr>)"

text \<open>\<open>visit\<close> is the order in which the range statement enumerates the map, any order.\<close>

definition Publish :: "('c \<Rightarrow> bool) \<Rightarrow> 'c list \<Rightarrow> Event \<Rightarrow> 'c event_hub \<Rightarrow> 'c event_hub" where
  "Publish okc visit evt h =
     (case marshal_event evt of
        None \<Rightarrow> h
      | Some msg \<Rightarrow> fold (publish_to okc (Evt_Type evt) msg) visit h)"

definition hub_Len :: "'c event_hub \<Rightarrow> nat" where
  "hub_Len h = length (ev_subs h)"

section \<open>Connections\<close>

text \<open>
  The loop reads index by index: \<open>start\<close> is the index after the last comma, \<open>None\<close> as a
  result is the nil slice.
\<close>

function parse_loop :: "string \<Rightarrow> nat \<Rightarrow> nat \<Rightarrow> string list \<Rightarrow> string list" where
  "parse_loop raw i start types =
     (if i \<le> length raw then
        (if i = length raw \<or> raw ! i = CHR '',''
         then parse_loop raw (i + 1) (i + 1)
                (if start < i then types @ [take (i - start) (drop start raw)] else types)
         else parse_loop raw (i + 1) start types)
      else types)"
  by pat_completeness auto
termination by (relation "measure (\<lambda>(raw, i, start, types). Suc (length raw) - i)") auto

declare parse_loop.simps [simp del]

definition parseEventsParam :: "string \<Rightarrow> string list option" where
  "parseEventsParam raw =
     (if raw = [] then None
      else (case parse_loop raw 0 0 [] of [] \<Rightarrow> None | types \<Rightarrow> Some types))"

definition events_handleWS ::
    "(request \<Rightarrow> writer \<Rightarrow> 'c option \<times> writer) \<Rightarrow> 'c event_hub handler" where
  "events_handleWS up h r w =
     (case up r w of
        (None, w') \<Rightarrow> (h, w')
      | (Some conn, w') \<Rightarrow> (Subscribe conn (parseEventsParam (r_query r ''events'')) h, w'))"

text \<open>
  The goroutine of a connection: it waits for the ticker, the stop channel or, by default,
  a message of the client, and ends on a failed ping, a failed read or the stop channel.
\<close>

datatype reader_event = Ping bool | StopClosed | ReadMessage bool

fun reader_ends :: "reader_event list \<Rightarrow> bool" where
  "reader_ends [] = False"
| "reader_ends (Ping ok # es) = (if ok then reader_ends es else True)"
| "reader_ends (StopClosed # es) = True"
| "reader_ends (ReadMessage ok # es) = (if ok then reader_ends es else True)"

definition reader_exit :: "'c \<Rightarrow> 'c event_hub \<Rightarrow> 'c event_hub" where
  "reader_exit conn h =
     (let h' = Unsubscribe conn h in h'\<lparr>ev_closed := insert conn (ev_closed h')\<rparr>)"

definition events_routes :: "string list" where
  "events_routes = [''GET /api/v1/ws/events'']"

section \<open>Runs of the hub\<close>

text \<open>
  The hub is locked by every operation, so a run is a sequence of them: connections that
  subscribe, events that are published, goroutines that remove a broken connection and
  readers that end.
\<close>

datatype 'c hub_op =
    Connect 'c "string list option"
  | Published Event
  | RunRemoval 'c
  | ReaderEnds 'c

inductive hub_step :: "('c \<Rightarrow> bool) \<Rightarrow> 'c hub_op \<Rightarrow> 'c event_hub \<Rightarrow> 'c event_hub \<Rightarrow> bool"
  for okc :: "'c \<Rightarrow> bool" where
  connect: "hub_step okc (Connect c types) h (Subscribe c types h)"
| publish: "mset visit = mset (map fst (ev_subs h)) \<Longrightarrow>
     hub_step okc (Published evt) h (Publish okc visit evt h)"
| removal: "c \<in> ev_removing h \<Longrightarrow>
     hub_step okc (RunRemoval c) h ((Unsubscribe c h)\<lparr>ev_removing := ev_removing h - {c}\<rparr>)"
| reader: "hub_step okc (ReaderEnds c) h (reader_exit c h)"

inductive_cases hub_stepE:
  "hub_step okc (Connect c types) h h'"
  "hub_step okc (Published evt) h h'"
  "hub_step okc (RunRemoval c) h h'"
  "hub_step okc (ReaderEnds c) h h'"

inductive hub_run :: "('c \<Rightarrow> bool) \<Rightarrow> 'c hub_op list \<Rightarrow> 'c event_hub \<Rightarrow> 'c event_hub \<Rightarrow> bool"
  for okc :: "'c \<Rightarrow> bool" where
  stop: "hub_run okc [] h h"
| step: "hub_step okc x h h1 \<Longrightarrow> hub_run okc xs h1 h2 \<Longrightarrow> hub_run okc (x # xs) h h2"

inductive_simps hub_run_simps:
  "hub_run okc [] h h'"
  "hub_run okc (x # xs) h h'"

definition hub_inv :: "'c event_hub \<Rightarrow> bool" where
  "hub_inv h \<longleftrightarrow> distinct (map fst (ev_subs h)) \<and> ev_removing h \<subseteq> ev_closed h"

text \<open>One publication, connection by connection.\<close>

definition receives :: "'c event_hub \<Rightarrow> string \<Rightarrow> 'c \<Rightarrow> bool" where
  "receives h ty c \<longleftrightarrow> (\<exists>sub. map_of (ev_subs h) c = Some sub \<and> wants sub ty)"

lemma publish_to_subs [simp]: "ev_subs (publish_to okc ty msg c h) = ev_subs h"
  by (simp add: publish_to_def send_event_def split: option.splits)

lemma publish_to_effect:
  shows "ev_inbox (publish_to okc ty msg c h) =
       (if receives h ty c \<and> okc c then (ev_inbox h)(c := ev_inbox h c @ [msg]) else ev_inbox h)"
    and "ev_closed (publish_to okc ty msg c h) =
       (if receives h ty c \<and> \<not> okc c then insert c (ev_closed h) else ev_closed h)"
    and "ev_removing (publish_to okc ty msg c h) =
       (if receives h ty c \<and> \<not> okc c then insert c (ev_removing h) else ev_removing h)"
  by (auto simp: publish_to_def send_event_def receives_def split: option.splits)

lemma receives_publish_to [simp]: "receives (publish_to okc ty msg c h) = receives h"
  by (simp add: receives_def fun_eq_iff)

lemma fold_publish_subs [simp]: "ev_subs (fold (publish_to okc ty msg) visit h) = ev_subs h"
  by (induction visit arbitrary: h) auto

lemma fold_publish_inbox:
  "distinct visit \<Longrightarrow> ev_inbox (fold (publish_to okc ty msg) visit h) c
     = ev_inbox h c @ (if c \<in> set visit \<and> receives h ty c \<and> okc c then [msg] else [])"
  by (induction visit arbitrary: h) (auto simp: publish_to_effect)

lemma fold_publish_closed:
  "ev_closed (fold (publish_to okc ty msg) visit h)
     = ev_closed h \<union> {c \<in> set visit. receives h ty c \<and> \<not> okc c}"
  by (induction visit arbitrary: h) (auto simp: publish_to_effect)

lemma fold_publish_removing:
  "ev_removing (fold (publish_to okc ty msg) visit h)
     = ev_removing h \<union> {c \<in> set visit. receives h ty c \<and> \<not> okc c}"
  by (induction visit arbitrary: h) (auto simp: publish_to_effect)

lemma Publish_effect:
  assumes "mset visit = mset (map fst (ev_subs h))" and "hub_inv h"
    and "marshal_event evt = Some msg"
  shows "ev_subs (Publish okc visit evt h) = ev_subs h"
    and "ev_inbox (Publish okc visit evt h) c
       = ev_inbox h c @ (if receives h (Evt_Type evt) c \<and> okc c then [msg] else [])"
    and "ev_closed (Publish okc visit evt h) = ev_closed h \<union> {c. receives h (Evt_Type evt) c \<and> \<not> okc c}"
    and "ev_removing (Publish okc visit evt h) = ev_removing h \<union> {c. receives h (Evt_Type evt) c \<and> \<not> okc c}"
proof -
  have v: "set visit = fst ` set (ev_subs h)"
    using mset_eq_setD [OF assms(1)] by simp
  have d: "distinct visit"
    using assms(1,2) mset_eq_imp_distinct_iff [OF assms(1)] by (simp add: hub_inv_def)
  have r: "c \<in> set visit" if "receives h ty c" for c ty
    using that v by (auto simp: receives_def dest!: map_of_SomeD intro: rev_image_eqI)
  show "ev_subs (Publish okc visit evt h) = ev_subs h"
    "ev_inbox (Publish okc visit evt h) c
       = ev_inbox h c @ (if receives h (Evt_Type evt) c \<and> okc c then [msg] else [])"
    "ev_closed (Publish okc visit evt h) = ev_closed h \<union> {c. receives h (Evt_Type evt) c \<and> \<not> okc c}"
    "ev_removing (Publish okc visit evt h) = ev_removing h \<union> {c. receives h (Evt_Type evt) c \<and> \<not> okc c}"
    using r assms(3) by (auto simp: Publish_def fold_publish_inbox [OF d] fold_publish_closed fold_publish_removing)
qed

lemma hub_inv_step:
  assumes "hub_step okc x h h'" and "hub_inv h"
  shows "hub_inv h'"
  using assms
proof cases
  case (publish visit evt)
  with assms(2) Publish_effect [OF publish(3) assms(2)] show ?thesis
    by (cases "marshal_event evt") (auto simp: hub_inv_def Publish_def)
qed (auto simp: hub_inv_def Subscribe_def Unsubscribe_def reader_exit_def Let_def
       distinct_update distinct_delete)

lemma hub_inv_run: "hub_run okc xs h h' \<Longrightarrow> hub_inv h \<Longrightarrow> hub_inv h'"
  by (induction rule: hub_run.induct) (auto dest: hub_inv_step)

section \<open>What a subscriber sees\<close>

fun touches :: "'c \<Rightarrow> 'c hub_op \<Rightarrow> bool" where
  "touches c (Connect d types) = (d = c)"
| "touches c (ReaderEnds d) = (d = c)"
| "touches c _ = False"

text \<open>The messages of the published events a subscriber wants, in order.\<close>

fun seen :: "subscriber \<Rightarrow> 'c hub_op list \<Rightarrow> json list" where
  "seen sub [] = []"
| "seen sub (Published evt # xs) =
     (case marshal_event evt of
        Some msg \<Rightarrow> if wants sub (Evt_Type evt) then msg # seen sub xs else seen sub xs
      | None \<Rightarrow> seen sub xs)"
| "seen sub (_ # xs) = seen sub xs"

text \<open>A connection that no operation of a run is about sees what is published, if it works.\<close>

lemma alive_step:
  assumes "hub_step okc x h h'" and "hub_inv h" and "\<not> touches c x"
    and "map_of (ev_subs h) c = Some sub" and "okc c" and "c \<notin> ev_removing h"
  shows "ev_inbox h' c = ev_inbox h c @ seen sub [x] \<and> map_of (ev_subs h') c = Some sub
     \<and> c \<notin> ev_removing h' \<and> (c \<in> ev_closed h' \<longleftrightarrow> c \<in> ev_closed h)"
  using assms(1)
proof cases
  case (publish visit evt)
  with assms Publish_effect [OF publish(3) assms(2)] show ?thesis
    by (cases "marshal_event evt") (auto simp: Publish_def receives_def)
next
  case (removal d)
  with assms show ?thesis by (auto simp: Unsubscribe_def map_of_delete delete_conv')
qed (use assms in \<open>auto simp: Subscribe_def Unsubscribe_def reader_exit_def Let_def update_conv'
       delete_conv'\<close>)

lemma seen_Cons: "seen sub (x # xs) = seen sub [x] @ seen sub xs"
  by (cases x) (auto split: option.splits)

lemma alive_run:
  assumes "hub_run okc xs h h'" and "hub_inv h" and "\<forall>x \<in> set xs. \<not> touches c x"
    and "map_of (ev_subs h) c = Some sub" and "okc c" and "c \<notin> ev_removing h"
  shows "ev_inbox h' c = ev_inbox h c @ seen sub xs \<and> map_of (ev_subs h') c = Some sub
     \<and> (c \<in> ev_closed h' \<longleftrightarrow> c \<in> ev_closed h)"
  using assms
proof (induction rule: hub_run.induct)
  case (stop h)
  then show ?case by simp
next
  case (step x h h1 xs h2)
  note one = alive_step [OF step.hyps(1) step.prems(1) _ step.prems(3-5)]
  have "hub_inv h1" using step.hyps(1) step.prems(1) by (rule hub_inv_step)
  with step.IH one step.prems(2,4) show ?case
    by (subst seen_Cons) auto
qed

text \<open>
  A broken connection gets nothing, and from the first event it wants it is closed and its
  removal is scheduled or done.
\<close>

definition falls :: "'c \<Rightarrow> 'c event_hub \<Rightarrow> bool" where
  "falls c h \<longleftrightarrow> c \<in> ev_closed h \<and> (c \<in> ev_removing h \<or> map_of (ev_subs h) c = None)"

lemma broken_step:
  assumes "hub_step okc x h h'" and "hub_inv h" and "\<not> touches c x" and "\<not> okc c"
  shows "ev_inbox h' c = ev_inbox h c \<and> (falls c h \<longrightarrow> falls c h')
     \<and> (map_of (ev_subs h) c = Some sub \<longrightarrow> seen sub [x] \<noteq> [] \<longrightarrow> falls c h')
     \<and> (map_of (ev_subs h) c = Some sub \<longrightarrow> map_of (ev_subs h') c = Some sub \<or> falls c h')"
  using assms(1)
proof cases
  case (publish visit evt)
  with assms Publish_effect [OF publish(3) assms(2)] show ?thesis
    by (cases "marshal_event evt") (auto simp: Publish_def receives_def falls_def split: if_splits)
next
  case (removal d)
  with assms(2,3) show ?thesis
    by (auto simp: Unsubscribe_def falls_def delete_conv' hub_inv_def)
qed (use assms(3) in \<open>auto simp: Subscribe_def Unsubscribe_def reader_exit_def Let_def update_conv'
       delete_conv' falls_def\<close>)

lemma broken_run:
  assumes "hub_run okc xs h h'" and "hub_inv h" and "\<forall>x \<in> set xs. \<not> touches c x" and "\<not> okc c"
  shows "ev_inbox h' c = ev_inbox h c \<and> (falls c h \<longrightarrow> falls c h')
     \<and> (map_of (ev_subs h) c = Some sub \<longrightarrow> seen sub xs \<noteq> [] \<longrightarrow> falls c h')"
  using assms
proof (induction rule: hub_run.induct)
  case (stop h)
  then show ?case by simp
next
  case (step x h h1 xs h2)
  note one = broken_step [OF step.hyps(1) step.prems(1) _ step.prems(3), of sub]
  have "hub_inv h1" using step.hyps(1) step.prems(1) by (rule hub_inv_step)
  with step.IH one step.prems(2,3) show ?case
    by (subst seen_Cons) auto
qed


definition demo_hub :: "string event_hub" where
  "demo_hub = Subscribe ''b'' None (Subscribe ''a'' (Some [''telemetry'']) events_NewHub)"

definition demo_event :: "string \<Rightarrow> Event" where
  "demo_event ty = \<lparr>Evt_Type = ty, Evt_Data = Some JNull\<rparr>"


section \<open>The filter of a subscription\<close>

text \<open>The loop cuts the text at the commas and keeps the parts that are not empty.\<close>

lemma parse_loop_split:
  assumes "start \<le> i" and "i \<le> length raw" and "CHR '','' \<notin> set (take (i - start) (drop start raw))"
  shows "parse_loop raw i start types
     = types @ filter (\<lambda>w. w \<noteq> []) (split_on CHR '','' (drop start raw))"
  using assms
proof (induction raw i start types rule: parse_loop.induct)
  case (1 raw i start types)
  let ?part = "take (i - start) (drop start raw)"
  consider (last) "i = length raw" | (comma) "i < length raw" "raw ! i = CHR '',''"
    | (other) "i < length raw" "raw ! i \<noteq> CHR '',''"
    using "1.prems"(2) by linarith
  then show ?case
  proof cases
    case last
    have "parse_loop raw (Suc i) (Suc i) ts = ts" for ts
      by (subst parse_loop.simps) (simp add: last)
    with last "1.prems" show ?thesis
      by (subst parse_loop.simps) (simp add: split_on_plain)
  next
    case comma
    have "drop start raw = ?part @ CHR '','' # drop (Suc i) raw"
      using comma "1.prems"(1) by (metis Cons_nth_drop_Suc append_take_drop_id drop_drop le_add_diff_inverse2)
    then have split: "split_on CHR '','' (drop start raw) = ?part # split_on CHR '','' (drop (Suc i) raw)"
      by (metis split_on_append "1.prems"(3))
    have e: "?part = [] \<longleftrightarrow> \<not> start < i"
      using comma "1.prems"(1) by auto
    have "parse_loop raw i start types
        = parse_loop raw (i + 1) (i + 1) (if start < i then types @ [?part] else types)"
      using comma by (subst parse_loop.simps) simp
    also have "\<dots> = (if start < i then types @ [?part] else types)
        @ filter (\<lambda>w. w \<noteq> []) (split_on CHR '','' (drop (i + 1) raw))"
      by (rule "1.IH"(1)) (use comma in auto)
    finally show ?thesis using e by (simp add: split)
  next
    case other
    have "take (i + 1 - start) (drop start raw) = ?part @ [raw ! i]"
      using other "1.prems"(1)
      by (simp add: Suc_diff_le take_Suc_conv_app_nth)
    then have free: "CHR '','' \<notin> set (take (i + 1 - start) (drop start raw))"
      using other "1.prems"(3) by simp
    have "parse_loop raw i start types = parse_loop raw (i + 1) start types"
      using other by (subst parse_loop.simps) simp
    also have "\<dots> = types @ filter (\<lambda>w. w \<noteq> []) (split_on CHR '','' (drop start raw))"
      by (rule "1.IH"(2)) (use other free "1.prems"(1) in auto)
    finally show ?thesis .
  qed
qed

lemma parseEventsParam_split:
  "parseEventsParam raw =
     (case filter (\<lambda>w. w \<noteq> []) (split_on CHR '','' raw) of [] \<Rightarrow> None | ts \<Rightarrow> Some ts)"
  using parse_loop_split [of 0 0 raw "[]"] by (simp add: parseEventsParam_def)

text \<open>
  A client that connects with the parameter \<open>events\<close> is subscribed to the non-empty
  items of the comma-separated list, and to everything when there is none; a client whose
  upgrade fails is not subscribed.
\<close>

theorem subscription_filter:
  "case up r w of
     (None, w') \<Rightarrow> events_handleWS up h r w = (h, w')
   | (Some c, w') \<Rightarrow> \<exists>h' sub. events_handleWS up h r w = (h', w') \<and> map_of (ev_subs h') c = Some sub
       \<and> (\<forall>ty. wants sub ty \<longleftrightarrow>
            ty \<noteq> [] \<and> ty \<in> set (split_on CHR '','' (r_query r ''events''))
            \<or> set (split_on CHR '','' (r_query r ''events'')) \<subseteq> {[]})
       \<and> (\<forall>d. d \<noteq> c \<longrightarrow> map_of (ev_subs h') d = map_of (ev_subs h) d)"
proof -
  let ?ps = "split_on CHR '','' (r_query r ''events'')"
  have empty: "filter (\<lambda>w. w \<noteq> []) ?ps = [] \<longleftrightarrow> set ?ps \<subseteq> {[]}"
    by (auto simp: filter_empty_conv)
  have "(case map_option set (parseEventsParam (r_query r ''events'')) of None \<Rightarrow> True | Some es \<Rightarrow> ty \<in> es)
      \<longleftrightarrow> ty \<noteq> [] \<and> ty \<in> set ?ps \<or> set ?ps \<subseteq> {[]}" for ty
  proof (cases "filter (\<lambda>w. w \<noteq> []) ?ps")
    case Nil
    with empty show ?thesis by (simp add: parseEventsParam_split)
  next
    case (Cons t ts)
    then have "set (t # ts) = {x \<in> set ?ps. x \<noteq> []}" by (metis set_filter)
    with Cons empty show ?thesis by (auto simp: parseEventsParam_split)
  qed
  then show ?thesis
    by (auto simp: events_handleWS_def Subscribe_def update_conv' wants_def split: prod.splits option.splits)
qed

definition demo_connect :: "request \<Rightarrow> writer \<Rightarrow> string option \<times> writer" where
  "demo_connect r w = (Some (r_remote r), w)"

definition demo_subscription :: request where
  "demo_subscription =
     \<lparr>r_method = ''GET'', r_path = ''/api/v1/ws/events'', r_remote = ''c'', r_header = (\<lambda>h. []),
      r_pathval = (\<lambda>p. []), r_query = (\<lambda>q. ''alert,,telemetry''), r_body = None\<rparr>"

theorem subscription_filter_witness:
  "\<exists>sub. map_of (ev_subs (fst (events_handleWS demo_connect events_NewHub demo_subscription new_writer))) ''c''
       = Some sub \<and> wants sub ''alert'' \<and> wants sub ''telemetry'' \<and> \<not> wants sub ''ota''"
proof -
  have up: "demo_connect demo_subscription new_writer = (Some ''c'', new_writer)"
    by (simp add: demo_connect_def demo_subscription_def)
  have parts: "split_on CHR '','' (r_query demo_subscription ''events'') = [''alert'', [], ''telemetry'']"
    by (simp add: demo_subscription_def)
  obtain h' sub where "events_handleWS demo_connect events_NewHub demo_subscription new_writer = (h', new_writer)"
      "map_of (ev_subs h') ''c'' = Some sub"
      "\<forall>ty. wants sub ty \<longleftrightarrow> ty \<noteq> [] \<and> ty \<in> set [''alert'', [], ''telemetry'']
        \<or> set [''alert'', [], ''telemetry''] \<subseteq> {[]}"
    using subscription_filter [where up = demo_connect and r = demo_subscription and w = new_writer
        and h = events_NewHub]
    unfolding up parts prod.case option.case by (elim exE conjE) iprover
  then show ?thesis by (intro exI [of _ sub]) simp
qed

end
