(* ===== verification/Mqtt.thy ===== *)
theory Mqtt
  imports Alerts Telemetry "HOL-Library.AList"
begin

text \<open>
  \<open>modules/mqtt\<close>: the hook the module adds to the MQTT broker. The broker itself is a
  library: it calls the methods of the hook in some order, with client identifiers, topics
  and payloads of the clients' choosing, and nothing is assumed about it.
\<close>

section \<open>Data\<close>

definition DefaultPort :: int where
  "DefaultPort = 1883"

record deviceInfo =
  di_DeviceID :: string
  di_OrgID :: string

text \<open>\<open>TelemetryStore\<close>: the interface the module stores readings through.\<close>

type_synonym 's TelemetryStore =
  "string \<Rightarrow> int \<Rightarrow> json option \<Rightarrow> json option \<Rightarrow> string \<Rightarrow> 's \<Rightarrow> 's \<times> int result"

record 's deviceAuthHook =
  mh_db :: "'s engine"
  mh_telemetry :: "'s TelemetryStore"

text \<open>The state of the program and the map \<open>devices\<close> from client identifiers.\<close>

record 's mqtt_state =
  mq_app :: 's
  mq_devices :: "(string \<times> deviceInfo) list"

section \<open>Topics\<close>

fun parts_topic :: "string list \<Rightarrow> string \<times> bool" where
  "parts_topic [a, b, c] = (if a = ''deviceos'' \<and> c = ''telemetry'' then (b, True) else ([], False))"
| "parts_topic _ = ([], False)"

definition parseTelemetryTopic :: "string \<Rightarrow> string \<times> bool" where
  "parseTelemetryTopic topic = parts_topic (split_on CHR ''/'' topic)"

definition expectedTopic :: "string \<Rightarrow> string" where
  "expectedTopic deviceID = ''deviceos/'' @ deviceID @ ''/telemetry''"

fun_cases parts_topicE: "parts_topic ps = (d, True)"

lemma parse_topic: "parseTelemetryTopic t = (d, True) \<Longrightarrow> t = expectedTopic d"
proof -
  assume "parseTelemetryTopic t = (d, True)"
  then have "split_on CHR ''/'' t = [''deviceos'', d, ''telemetry'']"
    unfolding parseTelemetryTopic_def by (rule parts_topicE) (auto split: if_splits)
  then have "t = join_on CHR ''/'' [''deviceos'', d, ''telemetry'']"
    by (metis join_split)
  then show ?thesis by (simp add: expectedTopic_def)
qed

lemma parse_expected:
  assumes "CHR ''/'' \<notin> set d"
  shows "parseTelemetryTopic (expectedTopic d) = (d, True)"
proof -
  have "split_on CHR ''/'' (join_on CHR ''/'' [''deviceos'', d, ''telemetry''])
      = [''deviceos'', d, ''telemetry'']"
    by (rule split_join) (use assms in auto)
  then show ?thesis by (simp add: parseTelemetryTopic_def expectedTopic_def)
qed

section \<open>The hook\<close>

definition sql_mqtt_auth :: query where
  "sql_mqtt_auth =
     \<lparr>sel = Fields [PCol ''secret_key'', PCoalesce ''org_id'' (SText [])], from_src = Tab ''devices'',
      conds = [CEq ''id'' (Param 0)], order_by = None, limit_of = NoLimit\<rparr>"

lemma sql_mqtt_auth_plain [simp, intro!]: "limit_plain (limit_of sql_mqtt_auth)"
  by (simp add: sql_mqtt_auth_def)

definition OnConnectAuthenticate ::
    "'s deviceAuthHook \<Rightarrow> string \<Rightarrow> string \<Rightarrow> string \<Rightarrow> 's mqtt_state \<Rightarrow> 's mqtt_state \<times> bool" where
  "OnConnectAuthenticate h clID username password s =
     (if username = [] then (s, False)
      else
        (case db_query_row (mh_db h) (mq_app s) sql_mqtt_auth [SText username] of
           (a, Inl err) \<Rightarrow> (s\<lparr>mq_app := a\<rparr>, False)
         | (a, Inr vs) \<Rightarrow>
             (case Scan [into scan_string apfst, into scan_string apsnd] vs ([], []) of
                (_, Some err) \<Rightarrow> (s\<lparr>mq_app := a\<rparr>, False)
              | ((storedKey, orgID), None) \<Rightarrow>
                  if storedKey \<noteq> password then (s\<lparr>mq_app := a\<rparr>, False)
                  else
                    (s\<lparr>mq_app := a,
                       mq_devices := AList.update clID \<lparr>di_DeviceID = username, di_OrgID = orgID\<rparr>
                         (mq_devices s)\<rparr>, True))))"

definition OnDisconnect :: "string \<Rightarrow> 's mqtt_state \<Rightarrow> 's mqtt_state" where
  "OnDisconnect clID s =
     (case map_of (mq_devices s) clID of
        None \<Rightarrow> s
      | Some info \<Rightarrow> s\<lparr>mq_devices := AList.delete clID (mq_devices s)\<rparr>)"

definition OnACLCheck :: "string \<Rightarrow> string \<Rightarrow> bool \<Rightarrow> 's mqtt_state \<Rightarrow> bool" where
  "OnACLCheck clID topic write s =
     (if \<not> write then True
      else
        (case map_of (mq_devices s) clID of
           None \<Rightarrow> False
         | Some info \<Rightarrow> topic = expectedTopic (di_DeviceID info)))"

text \<open>The payload is its JSON value, \<open>None\<close> when it does not parse.\<close>

definition OnPublished ::
    "'s deviceAuthHook \<Rightarrow> int \<Rightarrow> string \<Rightarrow> string \<Rightarrow> json option \<Rightarrow> 's mqtt_state \<Rightarrow> 's mqtt_state" where
  "OnPublished h now clID topic payload s =
     (case parseTelemetryTopic topic of
        (deviceID, False) \<Rightarrow> s
      | (deviceID, True) \<Rightarrow>
          (case map_of (mq_devices s) clID of
             None \<Rightarrow> s
           | Some info \<Rightarrow>
               if di_DeviceID info \<noteq> deviceID then s
               else
                 (case payload of
                    None \<Rightarrow> s
                  | Some metrics \<Rightarrow>
                      s\<lparr>mq_app := fst (mh_telemetry h deviceID now (Some metrics) None (di_OrgID info)
                          (mq_app s))\<rparr>)))"

section \<open>The module\<close>

record mqtt_module =
  mq_server :: bool
  mq_Port :: int

text \<open>\<open>listen\<close> opens the TCP listener of the broker, \<open>launch\<close> starts its goroutine.\<close>

definition mqtt_Start ::
    "(string \<Rightarrow> 's \<Rightarrow> 's \<times> string option) \<Rightarrow> ('s \<Rightarrow> 's) \<Rightarrow> mqtt_module \<Rightarrow> 's \<Rightarrow> 's \<times> string option" where
  "mqtt_Start listen launch m s =
     (if \<not> mq_server m then (s, Some ''mqtt: server not initialized'')
      else
        (case listen ('':'' @ itoa (mq_Port m)) s of
           (s', Some err) \<Rightarrow> (s', Some (''mqtt: add tcp listener: '' @ err))
         | (s', None) \<Rightarrow> (launch s', None)))"

definition mqtt_Stop ::
    "('s \<Rightarrow> 's \<times> string option) \<Rightarrow> mqtt_module \<Rightarrow> 's \<Rightarrow> 's \<times> string option" where
  "mqtt_Stop close_server m s = (if mq_server m then close_server s else (s, None))"

definition mqtt_handleStatus :: "mqtt_module \<Rightarrow> 's mqtt_state handler" where
  "mqtt_handleStatus m s r w =
     (s, write_body
           (Cjson (JObj [(''connected'', JInt (int (length (mq_devices s)))), (''port'', JInt (mq_Port m)),
                         (''status'', JStr ''running'')]))
           (set_header ''Content-Type'' ''application/json'' w))"

definition mqtt_routes :: "string list" where
  "mqtt_routes = [''GET /api/v1/mqtt/status'']"

section \<open>The store\<close>

text \<open>
  The contract of \<open>TelemetryStore\<close>: a call adds at most one reading, the one it was given.
\<close>

locale telemetry_store =
  fixes store :: "'s TelemetryStore"
    and contents :: "'s \<Rightarrow> tables"
  assumes store_rows: "store dev ts (Some mx) md org s = (s', r) \<Longrightarrow>
      contents s' ''telemetry'' = contents s ''telemetry''
      \<or> (\<exists>n q. contents s' ''telemetry'' = contents s ''telemetry'' @ [q]
            \<and> reading dev org ts mx (case md of None \<Rightarrow> JObj [] | Some j \<Rightarrow> j) n q)"

text \<open>The telemetry module provides it when its hooks leave the table of the readings alone.\<close>

lemma fold_hooks_frame:
  assumes "\<And>h s. h \<in> set hs \<Longrightarrow> contents (h i mx md s) ''telemetry'' = contents s ''telemetry''"
  shows "contents (fold (\<lambda>h. h i mx md) hs s) ''telemetry'' = contents s ''telemetry''"
  using assms by (induction hs arbitrary: s) auto

lemma Store_telemetry_store:
  assumes "deviceos_db (tel_db m) contents fk_on lt"
    and bc: "\<And>j s. contents (tel_broadcast m j s) ''telemetry'' = contents s ''telemetry''"
    and hk: "\<And>h i mx md s. h \<in> set (tel_hooks m) \<Longrightarrow>
      contents (h i mx md s) ''telemetry'' = contents s ''telemetry''"
  shows "telemetry_store (\<lambda>dev ts mx md org s. telemetry_Store m s dev ts mx md org) contents"
proof
  fix dev ts mx md org s s' r
  assume "telemetry_Store m s dev ts (Some mx) md org = (s', r)"
  moreover obtain s1 x where st: "storeTelemetry (tel_db m) s dev ts mx
      (case md of None \<Rightarrow> JObj [] | Some j \<Rightarrow> j) org = (s1, x)" by fastforce
  ultimately have "contents s' ''telemetry'' = contents s1 ''telemetry''"
    by (auto simp: telemetry_Store_def Let_def fold_hooks_frame hk bc split: sum.splits)
  with deviceos_db.storeTelemetry_effect [OF assms(1) st]
  show "contents s' ''telemetry'' = contents s ''telemetry''
      \<or> (\<exists>n q. contents s' ''telemetry'' = contents s ''telemetry'' @ [q]
            \<and> reading dev org ts mx (case md of None \<Rightarrow> JObj [] | Some j \<Rightarrow> j) n q)"
    by auto
qed

text \<open>The store of the program with its alert hook, on tables in memory.\<close>

definition alerting_telemetry :: "bool \<Rightarrow> (rat \<Rightarrow> string) \<Rightarrow> (nat \<Rightarrow> int \<times> int) \<Rightarrow> tables telemetry_module" where
  "alerting_telemetry fk fmtv clk =
     \<lparr>tel_db = memory_db fk, tel_broadcast = (\<lambda>j t. t), tel_hooks = [OnTelemetry (memory_db fk) fmtv clk],
      telemetryTTL = 0, pruneInterval = 0\<rparr>"

interpretation tel_store:
  telemetry_store "\<lambda>dev ts mx md org s. telemetry_Store (alerting_telemetry fk fmtv clk) s dev ts mx md org"
    "\<lambda>t. t" for fk fmtv clk
proof (rule Store_telemetry_store)
  show "deviceos_db (tel_db (alerting_telemetry fk fmtv clk)) (\<lambda>t. t) (\<lambda>t. fk) ref_lt"
    using memdb.deviceos_db_axioms by (simp add: alerting_telemetry_def)
  fix h i mx md and s :: tables
  show "tel_broadcast (alerting_telemetry fk fmtv clk) j s ''telemetry'' = s ''telemetry''" for j
    by (simp add: alerting_telemetry_def)
  assume "h \<in> set (tel_hooks (alerting_telemetry fk fmtv clk))"
  then show "h i mx md s ''telemetry'' = s ''telemetry''"
    using memdb.OnTelemetry_effect [where s = s and fmtv = fmtv and clk = clk and metrics = mx] by (simp add: alerting_telemetry_def)
qed

section \<open>Histories\<close>

text \<open>
  What happened to the hook so far, latest last: a login that was accepted, with the state of
  the program it was accepted in, a client that left, and anything else: refused logins,
  messages, and whatever the rest of the program does to its state.
\<close>

datatype 's mqtt_event = Login string string string 's | Left string | Other

inductive mqtt_history ::
    "'s deviceAuthHook \<Rightarrow> 's mqtt_event list \<Rightarrow> 's mqtt_state \<Rightarrow> bool"
  for h :: "'s deviceAuthHook" where
  start: "mqtt_history h [] \<lparr>mq_app = a, mq_devices = []\<rparr>"
| accepted: "mqtt_history h es s \<Longrightarrow> OnConnectAuthenticate h c u p s = (s', True) \<Longrightarrow>
     mqtt_history h (es @ [Login c u p (mq_app s)]) s'"
| refused: "mqtt_history h es s \<Longrightarrow> OnConnectAuthenticate h c u p s = (s', False) \<Longrightarrow>
     mqtt_history h (es @ [Other]) s'"
| left: "mqtt_history h es s \<Longrightarrow> mqtt_history h (es @ [Left c]) (OnDisconnect c s)"
| published: "mqtt_history h es s \<Longrightarrow>
     mqtt_history h (es @ [Other]) (OnPublished h now c topic payload s)"
| elsewhere: "mqtt_history h es s \<Longrightarrow> mqtt_history h (es @ [Other]) (s\<lparr>mq_app := a\<rparr>)"

text \<open>\<open>in_session c u p a es\<close>: the last login of \<open>c\<close> was \<open>u\<close> with \<open>p\<close>, and it did not leave.\<close>

definition in_session ::
    "string \<Rightarrow> string \<Rightarrow> string \<Rightarrow> 's \<Rightarrow> 's mqtt_event list \<Rightarrow> bool" where
  "in_session c u p a es \<longleftrightarrow>
     (\<exists>es1 es2. es = es1 @ Login c u p a # es2 \<and> Left c \<notin> set es2
        \<and> (\<forall>u' p' a'. Login c u' p' a' \<notin> set es2))"

definition credentials :: "tables \<Rightarrow> string \<Rightarrow> string \<Rightarrow> string \<Rightarrow> bool" where
  "credentials t u p org \<longleftrightarrow>
     (\<exists>q \<in> set (t ''devices''). q ''id'' = SText u \<and> scan_string (q ''secret_key'') = Inr p
        \<and> scan_string (if q ''org_id'' = SNull then SText [] else q ''org_id'') = Inr org)"

lemma in_session_snoc:
  assumes "in_session c u p a es" and "x \<noteq> Left c" and "\<And>u p a. x \<noteq> Login c u p a"
  shows "in_session c u p a (es @ [x])"
proof -
  obtain es1 es2 where "es = es1 @ Login c u p a # es2" "Left c \<notin> set es2"
    "\<forall>u' p' a'. Login c u' p' a' \<notin> set es2"
    using assms(1) unfolding in_session_def by blast
  with assms(2,3) show ?thesis
    unfolding in_session_def by (intro exI [of _ es1] exI [of _ "es2 @ [x]"]) auto
qed

lemma in_session_login: "in_session c u p a (es @ [Login c u p a])"
  unfolding in_session_def by (intro exI [of _ es] exI [of _ "[]"]) simp

context deviceos_db
begin

lemma authenticate_ok:
  assumes "OnConnectAuthenticate h c u p s = (s', True)" and "mh_db h = E"
  shows "\<exists>org. mq_devices s' = AList.update c \<lparr>di_DeviceID = u, di_OrgID = org\<rparr> (mq_devices s)
     \<and> credentials (contents (mq_app s)) u p org"
proof -
  obtain a vs org where q: "db_query_row E (mq_app s) sql_mqtt_auth [SText u] = (a, Inr vs)"
    and sc: "Scan [into scan_string apfst, into scan_string apsnd] vs ([], []) = ((p, org), None)"
    and s': "mq_devices s' = AList.update c \<lparr>di_DeviceID = u, di_OrgID = org\<rparr> (mq_devices s)"
    using assms by (auto simp: OnConnectAuthenticate_def split: if_splits prod.splits sum.splits option.splits)
  obtain r where r: "r \<in> set (matching lt sql_mqtt_auth [SText u] (contents (mq_app s)))"
    and vs: "vs = map (project1 r) [PCol ''secret_key'', PCoalesce ''org_id'' (SText [])]"
    using query_row_from [OF q] by (auto simp: sql_mqtt_auth_def)
  from r have "r \<in> set (contents (mq_app s) ''devices'')" "r ''id'' = SText u"
    by (auto simp: matching_def sql_mqtt_auth_def sat_def)
  moreover have "scan_string (r ''secret_key'') = Inr p"
    "scan_string (if r ''org_id'' = SNull then SText [] else r ''org_id'') = Inr org"
    using sc by (auto simp: vs into_def split: sum.splits)
  ultimately show ?thesis using s' unfolding credentials_def by blast
qed

lemma refused_devices:
  "OnConnectAuthenticate h c u p s = (s', False) \<Longrightarrow> mq_devices s' = mq_devices s"
  by (auto simp: OnConnectAuthenticate_def split: if_splits prod.splits sum.splits option.splits)

text \<open>Every entry of the map is the login of a session, with the credentials it had.\<close>

lemma session_inv:
  assumes "mqtt_history h es s" and "mh_db h = E" and "map_of (mq_devices s) c = Some info"
  shows "\<exists>p a. in_session c (di_DeviceID info) p a es
     \<and> credentials (contents a) (di_DeviceID info) p (di_OrgID info)"
  using assms
proof (induction arbitrary: c info rule: mqtt_history.induct)
  case (start a)
  then show ?case by simp
next
  case (accepted es s d u p s')
  obtain org where org: "mq_devices s' = AList.update d \<lparr>di_DeviceID = u, di_OrgID = org\<rparr> (mq_devices s)"
    "credentials (contents (mq_app s)) u p org"
    using authenticate_ok [OF accepted.hyps(2) accepted.prems(1)] by blast
  show ?case
  proof (cases "c = d")
    case True
    with org(1) accepted.prems(2) have "info = \<lparr>di_DeviceID = u, di_OrgID = org\<rparr>"
      by (simp add: update_conv')
    with True org(2) in_session_login [of d u p "mq_app s" es] show ?thesis by auto
  next
    case False
    with org accepted.prems accepted.IH show ?thesis
      by (fastforce simp: update_conv' intro: in_session_snoc)
  qed
next
  case (refused es s d u p s')
  with refused_devices [OF refused.hyps(2)] show ?case
    by (fastforce intro: in_session_snoc)
next
  case (left es s d)
  then have "c \<noteq> d" "map_of (mq_devices s) c = Some info"
    by (auto simp: OnDisconnect_def delete_conv' split: option.splits if_splits)
  with left.IH left.prems(1) show ?case by (fastforce intro: in_session_snoc)
next
  case (published es s now d topic payload)
  then have "map_of (mq_devices s) c = Some info"
    by (auto simp: OnPublished_def split: prod.splits bool.splits option.splits if_splits)
  with published.IH published.prems(1) show ?case by (fastforce intro: in_session_snoc)
next
  case (elsewhere es s a)
  then show ?case by (fastforce intro: in_session_snoc)
qed

end

context telemetry_store
begin

lemma published_rows:
  assumes "mh_telemetry h = store"
  shows "contents (mq_app (OnPublished h now c topic payload s)) ''telemetry'' = contents (mq_app s) ''telemetry''
     \<or> (\<exists>info mx n q. map_of (mq_devices s) c = Some info \<and> topic = expectedTopic (di_DeviceID info)
          \<and> payload = Some mx
          \<and> contents (mq_app (OnPublished h now c topic payload s)) ''telemetry''
             = contents (mq_app s) ''telemetry'' @ [q]
          \<and> reading (di_DeviceID info) (di_OrgID info) now mx (JObj []) n q)"
proof (cases "OnPublished h now c topic payload s = s")
  case False
  then obtain info mx where i: "map_of (mq_devices s) c = Some info"
      "parseTelemetryTopic topic = (di_DeviceID info, True)" "payload = Some mx"
      "OnPublished h now c topic payload s = s\<lparr>mq_app := fst (store (di_DeviceID info) now (Some mx) None
         (di_OrgID info) (mq_app s))\<rparr>"
    by (auto simp: OnPublished_def assms split: prod.splits bool.splits option.splits if_splits)
  with store_rows [OF surjective_pairing, of "di_DeviceID info" now mx None "di_OrgID info" "mq_app s"]
    parse_topic [OF i(2)] show ?thesis by fastforce
qed simp

end

text \<open>
  C19: whatever the broker calls and the clients send, a message adds at most one reading, and
  only when the client has a session that was opened with the identifier and the secret key
  of a device: the reading is of that device, under the organisation the device had at the
  login, and the message was published on the telemetry topic of that device.
\<close>

theorem mqtt_authentic:
  assumes "deviceos_db (mh_db h) contents fk_on lt" and "telemetry_store (mh_telemetry h) contents"
    and "mqtt_history h es s" and "s' = OnPublished h now c topic payload s"
  shows "contents (mq_app s') ''telemetry'' = contents (mq_app s) ''telemetry''
     \<or> (\<exists>dev p a org mx n q. in_session c dev p a es \<and> credentials (contents a) dev p org
          \<and> topic = expectedTopic dev \<and> payload = Some mx
          \<and> contents (mq_app s') ''telemetry'' = contents (mq_app s) ''telemetry'' @ [q]
          \<and> reading dev org now mx (JObj []) n q)"
  using telemetry_store.published_rows [OF assms(2) refl, of now c topic payload s]
proof (elim disjE exE conjE)
  fix info mx n q
  assume i: "map_of (mq_devices s) c = Some info" "topic = expectedTopic (di_DeviceID info)"
    "payload = Some mx"
    "contents (mq_app (OnPublished h now c topic payload s)) ''telemetry''
       = contents (mq_app s) ''telemetry'' @ [q]"
    "reading (di_DeviceID info) (di_OrgID info) now mx (JObj []) n q"
  obtain p a where "in_session c (di_DeviceID info) p a es"
    "credentials (contents a) (di_DeviceID info) p (di_OrgID info)"
    using deviceos_db.session_inv [OF assms(1,3) refl i(1)] by blast
  with i(2-5) show ?thesis unfolding assms(4) by blast
qed (simp add: assms(4))

definition demo_hook_mqtt :: "tables deviceAuthHook" where
  "demo_hook_mqtt =
     \<lparr>mh_db = memory_db False,
      mh_telemetry = (\<lambda>dev ts mx md org s.
        telemetry_Store (alerting_telemetry False (\<lambda>q. []) (\<lambda>k. (0, 0))) s dev ts mx md org)\<rparr>"

definition demo_mqtt :: "tables mqtt_state" where
  "demo_mqtt =
     \<lparr>mq_app = (\<lambda>n. [])(''devices'' := [(\<lambda>c. SNull)(''id'' := SText ''dev_1'',
        ''secret_key'' := SText ''s3cret'', ''org_id'' := SText ''acme'')]), mq_devices = []\<rparr>"

theorem mqtt_authentic_witness:
  "\<exists>q. mq_app (OnPublished demo_hook_mqtt 7 ''client'' ''deviceos/dev_1/telemetry'' (Some (JStr ''x''))
        (fst (OnConnectAuthenticate demo_hook_mqtt ''client'' ''dev_1'' ''s3cret'' demo_mqtt))) ''telemetry'' = [q]
     \<and> q ''device_id'' = SText ''dev_1'' \<and> q ''org_id'' = SText ''acme''"
proof -
  let ?s = "demo_mqtt\<lparr>mq_devices := [(''client'', \<lparr>di_DeviceID = ''dev_1'', di_OrgID = ''acme''\<rparr>)]\<rparr>"
  let ?s' = "OnPublished demo_hook_mqtt 7 ''client'' ''deviceos/dev_1/telemetry'' (Some (JStr ''x'')) ?s"
  have auth: "OnConnectAuthenticate demo_hook_mqtt ''client'' ''dev_1'' ''s3cret'' demo_mqtt = (?s, True)"
    by (simp add: OnConnectAuthenticate_def demo_hook_mqtt_def demo_mqtt_def db_query_row_def memory_db_def
        DB_same ref_engine_def ref_query_def sql_mqtt_auth_def matching_def sat_def ref_sort_def into_def)
  have topic: "parseTelemetryTopic ''deviceos/dev_1/telemetry'' = (''dev_1'', True)"
    by (simp add: parseTelemetryTopic_def)
  have stored: "mq_app ?s' ''telemetry'' \<noteq> []"
    by (simp add: OnPublished_def topic demo_hook_mqtt_def demo_mqtt_def telemetry_Store_def
        storeTelemetry_def telemetry_sql alerting_telemetry_def memory_db_eval DB_same Let_def
        OnTelemetry_def)
  have hist: "mqtt_history demo_hook_mqtt ([] @ [Login ''client'' ''dev_1'' ''s3cret'' (mq_app demo_mqtt)]) ?s"
    by (rule mqtt_history.accepted [OF _ auth]) (unfold demo_mqtt_def, rule mqtt_history.start)
  have db: "deviceos_db (mh_db demo_hook_mqtt) (\<lambda>t. t) (\<lambda>t. False) ref_lt"
    using memdb.deviceos_db_axioms [of False] by (simp add: demo_hook_mqtt_def)
  have st: "telemetry_store (mh_telemetry demo_hook_mqtt) (\<lambda>t. t)"
    using tel_store.telemetry_store_axioms by (simp add: demo_hook_mqtt_def)
  have empty: "mq_app ?s ''telemetry'' = []" by (simp add: demo_mqtt_def)
  have cred: "org = ''acme''" if "credentials (mq_app demo_mqtt) ''dev_1'' p org" for p org
    using that by (auto simp: credentials_def demo_mqtt_def)
  note t = mqtt_authentic [OF db st hist refl, of 7 "''client''" "''deviceos/dev_1/telemetry''" "Some (JStr ''x'')"]
  then obtain dev p a org mx n q where
    q: "in_session ''client'' dev p a ([] @ [Login ''client'' ''dev_1'' ''s3cret'' (mq_app demo_mqtt)])"
      "credentials a dev p org" "mq_app ?s' ''telemetry'' = [q]" "reading dev org 7 mx (JObj []) n q"
    using stored empty by auto
  from q(1) have "dev = ''dev_1''" "a = mq_app demo_mqtt"
    by (auto simp: in_session_def append_eq_Cons_conv Cons_eq_append_conv)
  with q cred have "org = ''acme''" by blast
  with q \<open>dev = ''dev_1''\<close> auth show ?thesis by (auto simp: reading_def)
qed

end
