(* ===== verification/Migrate.thy ===== *)
theory Migrate
  imports Prelude
begin

text \<open>
  \<open>internal/db/migrate.go\<close>: schema migrations. The database is the table \<open>_migrations\<close> and
  the rest, an opaque value the statements of the migrations act on. The driver is a
  parameter: \<open>drv_err\<close> says which calls fail, \<open>drv_ddl\<close> what a statement that succeeds does
  to the rest, \<open>drv_sha\<close> is SHA-256. A transaction works on a copy that \<open>Commit\<close> installs and
  \<open>Rollback\<close> drops, as \<open>database/sql\<close> documents.
\<close>

section \<open>Data\<close>

record Migration =
  Mig_Version :: int
  Mig_Name :: string
  Mig_Up :: string
  Mig_Down :: string

record MigrationStatus =
  St_Version :: int
  St_Name :: string
  St_Checksum :: string

text \<open>
  The table may be missing, may have the old schema, which has no version column, or the
  current one: \<open>version\<close> is the primary key, and an index keeps the names unique.
\<close>

datatype mig_table = Missing | OldTable "string list" | NewTable "MigrationStatus list"

record 'x mig_db =
  mig_rows :: mig_table
  mig_rest :: 'x

datatype mig_call =
    CreateTable | CountName string | BeginTx | Ddl string | InsertRow int string | CommitTx
  | SchemaQuery | UpgradeStep nat | AppliedQuery | MaxQuery | DeleteRow int | StatusQuery

record 'x mig_driver =
  drv_err :: "mig_call \<Rightarrow> 'x mig_db \<Rightarrow> string option"
  drv_ddl :: "string \<Rightarrow> 'x \<Rightarrow> 'x"
  drv_sha :: "string \<Rightarrow> string"

text \<open>What the queries of the program see; those that name the column \<open>version\<close> fail on the old table.\<close>

fun rows_in :: "mig_table \<Rightarrow> MigrationStatus list result" where
  "rows_in (NewTable rs) = Inr rs"
| "rows_in (OldTable names) = Inl ''no such column: version''"
| "rows_in Missing = Inl ''no such table: _migrations''"

fun names_in :: "mig_table \<Rightarrow> string list" where
  "names_in (NewTable rs) = map St_Name rs"
| "names_in (OldTable names) = names"
| "names_in Missing = []"

definition unique_failed :: string where
  "unique_failed = ''UNIQUE constraint failed''"

fun insert_row_in :: "MigrationStatus \<Rightarrow> mig_table \<Rightarrow> mig_table result" where
  "insert_row_in r (NewTable rs) =
     (if list_ex (\<lambda>q. St_Version q = St_Version r \<or> St_Name q = St_Name r) rs then Inl unique_failed
      else Inr (NewTable (rs @ [r])))"
| "insert_row_in r (OldTable names) = Inl ''table _migrations has no column named version''"
| "insert_row_in r Missing = Inl ''no such table: _migrations''"

section \<open>The table of the migrations\<close>

text \<open>
  The errors of the look at the schema are ignored: the old table then stays as it is.
  Rewriting the old table gives every row the version 0; the primary key takes one such row
  only. The last two steps are the dropping of the old table and the renaming.
\<close>

definition upgrade_table ::
    "'x mig_driver \<Rightarrow> string list \<Rightarrow> 'x mig_db \<Rightarrow> 'x mig_db \<times> string option" where
  "upgrade_table drv names db =
     (case drv_err drv BeginTx db of
        Some err \<Rightarrow> (db, Some err)
      | None \<Rightarrow>
          (case drv_err drv (UpgradeStep 0) db of
             Some err \<Rightarrow> (db, Some err)
           | None \<Rightarrow>
               if length names > 1
               then (db, Some unique_failed)
               else
                 (case drv_err drv (UpgradeStep 1) db of
                    Some err \<Rightarrow> (db, Some err)
                  | None \<Rightarrow>
                      (case drv_err drv (UpgradeStep 2) db of
                         Some err \<Rightarrow> (db, Some err)
                       | None \<Rightarrow>
                           (case drv_err drv (UpgradeStep 3) db of
                              Some err \<Rightarrow> (db, Some err)
                            | None \<Rightarrow>
                                (case drv_err drv CommitTx db of
                                   Some err \<Rightarrow> (db, Some (''db: migrate _migrations schema: '' @ err))
                                 | None \<Rightarrow>
                                     (db\<lparr>mig_rows := NewTable (map (\<lambda>n. \<lparr>St_Version = 0, St_Name = n,
                                         St_Checksum = []\<rparr>) names)\<rparr>, None)))))))"

definition ensureMigrationTable :: "'x mig_driver \<Rightarrow> 'x mig_db \<Rightarrow> 'x mig_db \<times> string option" where
  "ensureMigrationTable drv db =
     (case drv_err drv CreateTable db of
        Some err \<Rightarrow> (db, Some (''db: init migrations: '' @ err))
      | None \<Rightarrow>
          (case mig_rows db of
             Missing \<Rightarrow> (db\<lparr>mig_rows := NewTable []\<rparr>, None)
           | NewTable rs \<Rightarrow> (db, None)
           | OldTable names \<Rightarrow>
               (case drv_err drv SchemaQuery db of
                  Some err \<Rightarrow> (db, None)
                | None \<Rightarrow> upgrade_table drv names db)))"

section \<open>\<open>Migrate\<close>\<close>

fun run_statements ::
    "'x mig_driver \<Rightarrow> string list \<Rightarrow> 'x mig_db \<Rightarrow> 'x mig_db \<times> string option" where
  "run_statements drv [] db = (db, None)"
| "run_statements drv (stmt # stmts) db =
     (let s = trim_space stmt
      in if s = [] then run_statements drv stmts db
         else
           (case drv_err drv (Ddl s) db of
              Some err \<Rightarrow> (db, Some err)
            | None \<Rightarrow> run_statements drv stmts (db\<lparr>mig_rest := drv_ddl drv s (mig_rest db)\<rparr>)))"

definition max_version :: "int \<Rightarrow> MigrationStatus list \<Rightarrow> int" where
  "max_version d rs = (case rs of [] \<Rightarrow> d | _ \<Rightarrow> Max (set (map St_Version rs)))"

definition checksum_of :: "'x mig_driver \<Rightarrow> string \<Rightarrow> string" where
  "checksum_of drv sql = hex_encode (drv_sha drv sql)"

text \<open>The next version; an error of the query leaves the maximum at zero.\<close>

definition next_version :: "'x mig_driver \<Rightarrow> 'x mig_db \<Rightarrow> int" where
  "next_version drv db =
     (case (drv_err drv MaxQuery db, rows_in (mig_rows db)) of
        (None, Inr rows) \<Rightarrow> max_version 0 rows + 1
      | _ \<Rightarrow> 1)"

text \<open>The tail of \<open>Migrate\<close>, \<open>Up\<close> and \<open>revert\<close>: a statement on the table, then the commit.\<close>

definition commit_row ::
    "'x mig_driver \<Rightarrow> mig_call \<Rightarrow> (mig_table \<Rightarrow> mig_table result) \<Rightarrow> string \<Rightarrow> string \<Rightarrow>
     'x mig_db \<Rightarrow> 'x mig_db \<Rightarrow> 'x mig_db \<times> string option" where
  "commit_row drv call change failed uncommitted db tx =
     (case (case drv_err drv call tx of Some err \<Rightarrow> Inl err | None \<Rightarrow> change (mig_rows tx)) of
        Inl err \<Rightarrow> (db, Some (failed @ err))
      | Inr t \<Rightarrow>
          (case drv_err drv CommitTx (tx\<lparr>mig_rows := t\<rparr>) of
             Some err \<Rightarrow> (db, Some (uncommitted @ err))
           | None \<Rightarrow> (tx\<lparr>mig_rows := t\<rparr>, None)))"

definition DB_Migrate ::
    "'x mig_driver \<Rightarrow> string \<Rightarrow> string \<Rightarrow> 'x mig_db \<Rightarrow> 'x mig_db \<times> string option" where
  "DB_Migrate drv name sql db0 =
     (case ensureMigrationTable drv db0 of
        (db, Some err) \<Rightarrow> (db, Some err)
      | (db, None) \<Rightarrow>
          (case drv_err drv (CountName name) db of
             Some err \<Rightarrow> (db, Some (''db: check migration: '' @ err))
           | None \<Rightarrow>
               if name \<in> set (names_in (mig_rows db)) then (db, None)
               else
                 (case drv_err drv BeginTx db of
                    Some err \<Rightarrow> (db, Some err)
                  | None \<Rightarrow>
                      (case run_statements drv (split_on CHR '';'' sql) db of
                         (tx, Some err) \<Rightarrow> (db, Some (''db: migration '' @ name @ '': '' @ err))
                       | (tx, None) \<Rightarrow>
                           (let v = next_version drv db
                            in commit_row drv (InsertRow v name)
                                 (insert_row_in \<lparr>St_Version = v, St_Name = name,
                                    St_Checksum = checksum_of drv sql\<rparr>)
                                 ''db: record migration: '' [] db tx)))))"

section \<open>The migrator\<close>

text \<open>\<open>appliedVersions\<close>; \<open>None\<close> is an error.\<close>

definition appliedVersions :: "'x mig_driver \<Rightarrow> 'x mig_db \<Rightarrow> int list result" where
  "appliedVersions drv db =
     (case drv_err drv AppliedQuery db of
        Some err \<Rightarrow> Inl (''db: query applied versions: '' @ err)
      | None \<Rightarrow>
          (case rows_in (mig_rows db) of
             Inl err \<Rightarrow> Inl (''db: query applied versions: '' @ err)
           | Inr rows \<Rightarrow> Inr (map St_Version rows)))"

text \<open>INSERT OR REPLACE drops the rows with the same version or the same name.\<close>

fun replace_row :: "MigrationStatus \<Rightarrow> mig_table \<Rightarrow> mig_table result" where
  "replace_row r (NewTable rs) =
     Inr (NewTable (filter (\<lambda>q. St_Version q \<noteq> St_Version r \<and> St_Name q \<noteq> St_Name r) rs @ [r]))"
| "replace_row r t = insert_row_in r t"

fun delete_row :: "int \<Rightarrow> mig_table \<Rightarrow> mig_table result" where
  "delete_row v (NewTable rs) = Inr (NewTable (filter (\<lambda>q. St_Version q \<noteq> v) rs))"
| "delete_row v t = map_sum id (\<lambda>_. t) (rows_in t)"

definition mig_label :: "Migration \<Rightarrow> string" where
  "mig_label m = itoa (Mig_Version m) @ '' ('' @ Mig_Name m @ '')''"

definition apply_up :: "'x mig_driver \<Rightarrow> Migration \<Rightarrow> 'x mig_db \<Rightarrow> 'x mig_db \<times> string option" where
  "apply_up drv m db =
     (case drv_err drv BeginTx db of
        Some err \<Rightarrow> (db, Some (''db: begin tx for migration '' @ itoa (Mig_Version m) @ '': '' @ err))
      | None \<Rightarrow>
          (case run_statements drv (split_on CHR '';'' (Mig_Up m)) db of
             (tx, Some err) \<Rightarrow> (db, Some (''db: migration '' @ mig_label m @ '': '' @ err))
           | (tx, None) \<Rightarrow>
               commit_row drv (InsertRow (Mig_Version m) (Mig_Name m))
                 (replace_row \<lparr>St_Version = Mig_Version m, St_Name = Mig_Name m,
                    St_Checksum = checksum_of drv (Mig_Up m)\<rparr>)
                 (''db: record migration '' @ itoa (Mig_Version m) @ '': '')
                 (''db: commit migration '' @ itoa (Mig_Version m) @ '': '') db tx))"

fun up_loop ::
    "'x mig_driver \<Rightarrow> int list \<Rightarrow> Migration list \<Rightarrow> 'x mig_db \<Rightarrow> 'x mig_db \<times> string option" where
  "up_loop drv applied [] db = (db, None)"
| "up_loop drv applied (m # ms) db =
     (if Mig_Version m \<in> set applied then up_loop drv applied ms db
      else
        (case apply_up drv m db of
           (db', Some err) \<Rightarrow> (db', Some err)
         | (db', None) \<Rightarrow> up_loop drv applied ms db'))"

definition Migrator_Up ::
    "'x mig_driver \<Rightarrow> Migration list \<Rightarrow> 'x mig_db \<Rightarrow> 'x mig_db \<times> string option" where
  "Migrator_Up drv ms db0 =
     (case ensureMigrationTable drv db0 of
        (db, Some err) \<Rightarrow> (db, Some err)
      | (db, None) \<Rightarrow>
          (case appliedVersions drv db of
             Inl err \<Rightarrow> (db, Some err)
           | Inr applied \<Rightarrow> up_loop drv applied ms db))"

definition revert :: "'x mig_driver \<Rightarrow> Migration \<Rightarrow> 'x mig_db \<Rightarrow> 'x mig_db \<times> string option" where
  "revert drv m db =
     (if Mig_Down m = [] then (db, None)
      else
        (case drv_err drv BeginTx db of
           Some err \<Rightarrow> (db, Some (''db: begin tx for revert '' @ itoa (Mig_Version m) @ '': '' @ err))
         | None \<Rightarrow>
             (case run_statements drv (split_on CHR '';'' (Mig_Down m)) db of
                (tx, Some err) \<Rightarrow> (db, Some (''db: revert migration '' @ mig_label m @ '': '' @ err))
              | (tx, None) \<Rightarrow>
                  commit_row drv (DeleteRow (Mig_Version m)) (delete_row (Mig_Version m))
                    (''db: unrecord migration '' @ itoa (Mig_Version m) @ '': '')
                    (''db: commit revert '' @ itoa (Mig_Version m) @ '': '') db tx)))"

definition Migrator_Down ::
    "'x mig_driver \<Rightarrow> Migration list \<Rightarrow> 'x mig_db \<Rightarrow> 'x mig_db \<times> string option" where
  "Migrator_Down drv ms db0 =
     (case ensureMigrationTable drv db0 of
        (db, Some err) \<Rightarrow> (db, Some err)
      | (db, None) \<Rightarrow>
          (case (case drv_err drv MaxQuery db of Some err \<Rightarrow> Inl err | None \<Rightarrow> rows_in (mig_rows db)) of
             Inl err \<Rightarrow> (db, Some (''db: query max version: '' @ err))
           | Inr rows \<Rightarrow>
               (let maxVersion = max_version (- 1) rows
                in if maxVersion < 0 then (db, None)
                   else
                     (case find (\<lambda>m. Mig_Version m = maxVersion) (rev ms) of
                        None \<Rightarrow> (db, None)
                      | Some m \<Rightarrow> revert drv m db))))"

fun down_loop ::
    "'x mig_driver \<Rightarrow> int list \<Rightarrow> int \<Rightarrow> Migration list \<Rightarrow> 'x mig_db \<Rightarrow> 'x mig_db \<times> string option" where
  "down_loop drv applied target [] db = (db, None)"
| "down_loop drv applied target (m # ms) db =
     (if Mig_Version m \<notin> set applied then down_loop drv applied target ms db
      else if target \<ge> 0 \<and> Mig_Version m \<le> target then (db, None)
      else
        (case revert drv m db of
           (db', Some err) \<Rightarrow> (db', Some err)
         | (db', None) \<Rightarrow> down_loop drv applied target ms db'))"

definition Migrator_DownTo ::
    "'x mig_driver \<Rightarrow> Migration list \<Rightarrow> int \<Rightarrow> 'x mig_db \<Rightarrow> 'x mig_db \<times> string option" where
  "Migrator_DownTo drv ms target db0 =
     (case ensureMigrationTable drv db0 of
        (db, Some err) \<Rightarrow> (db, Some err)
      | (db, None) \<Rightarrow>
          (case appliedVersions drv db of
             Inl err \<Rightarrow> (db, Some err)
           | Inr applied \<Rightarrow> down_loop drv applied target (rev ms) db))"

definition Migrator_Status ::
    "'x mig_driver \<Rightarrow> 'x mig_db \<Rightarrow> 'x mig_db \<times> MigrationStatus list result" where
  "Migrator_Status drv db0 =
     (case ensureMigrationTable drv db0 of
        (db, Some err) \<Rightarrow> (db, Inl err)
      | (db, None) \<Rightarrow>
          (case (case drv_err drv StatusQuery db of Some err \<Rightarrow> Inl err | None \<Rightarrow> rows_in (mig_rows db)) of
             Inl err \<Rightarrow> (db, Inl (''db: query migrations: '' @ err))
           | Inr rows \<Rightarrow> (db, Inr (sort_key St_Version rows))))"

section \<open>What a migration does\<close>

text \<open>The statements of a migration text, and what they do together.\<close>

definition statements :: "string \<Rightarrow> string list" where
  "statements sql = filter (\<lambda>s. s \<noteq> []) (map trim_space (split_on CHR '';'' sql))"

definition run_text :: "'x mig_driver \<Rightarrow> string \<Rightarrow> 'x \<Rightarrow> 'x" where
  "run_text drv sql x = fold (drv_ddl drv) (statements sql) x"

lemma run_statements_ok:
  "run_statements drv stmts db = (db', None) \<Longrightarrow>
   db' = db\<lparr>mig_rest := fold (drv_ddl drv) (filter (\<lambda>s. s \<noteq> []) (map trim_space stmts)) (mig_rest db)\<rparr>"
proof (induction stmts arbitrary: db)
  case (Cons s stmts)
  show ?case
  proof (cases "trim_space s = []")
    case False
    with Cons.prems have "run_statements drv stmts (db\<lparr>mig_rest := drv_ddl drv (trim_space s) (mig_rest db)\<rparr>)
        = (db', None)"
      by (simp add: Let_def split: option.splits)
    from Cons.IH [OF this] False show ?thesis by simp
  qed (use Cons in simp)
qed simp

lemma ensure_cases:
  assumes "ensureMigrationTable drv db = (db', r)"
  shows "mig_rest db' = mig_rest db \<and> names_in (mig_rows db') = names_in (mig_rows db)
     \<and> (db' = db \<or> r = None) \<and> (\<forall>rs. mig_rows db = NewTable rs \<longrightarrow> db' = db)"
proof (cases "drv_err drv CreateTable db")
  case None
  show ?thesis
  proof (cases "mig_rows db")
    case (OldTable names)
    with None assms show ?thesis
      by (cases "drv_err drv SchemaQuery db")
         (auto simp: ensureMigrationTable_def upgrade_table_def comp_def split: option.splits if_splits)
  qed (use None assms in \<open>auto simp: ensureMigrationTable_def\<close>)
qed (use assms in \<open>simp add: ensureMigrationTable_def\<close>)

lemma commit_row_cases:
  assumes "commit_row drv call change failed uncommitted db tx = (db', r)"
  obtains (fail) e where "db' = db" "r = Some e"
  | (ok) t where "change (mig_rows tx) = Inr t" "db' = tx\<lparr>mig_rows := t\<rparr>" "r = None"
  using assms by (auto simp: commit_row_def split: option.splits sum.splits)

text \<open>\<open>Migrate\<close> fails and changes nothing but the layout of its table, finds the name, or runs the text.\<close>

lemma Migrate_cases:
  assumes "DB_Migrate drv name sql db = (db', r)"
  obtains (fail) e where "r = Some e" "mig_rest db' = mig_rest db" "names_in (mig_rows db') = names_in (mig_rows db)"
  | (known) "r = None" "name \<in> set (names_in (mig_rows db))" "mig_rest db' = mig_rest db"
      "names_in (mig_rows db') = names_in (mig_rows db)"
  | (new) "r = None" "name \<notin> set (names_in (mig_rows db))" "mig_rest db' = run_text drv sql (mig_rest db)"
      "names_in (mig_rows db') = names_in (mig_rows db) @ [name]"
proof -
  obtain db1 r1 where e: "ensureMigrationTable drv db = (db1, r1)" by fastforce
  from ensure_cases [OF e] have same: "mig_rest db1 = mig_rest db" "names_in (mig_rows db1) = names_in (mig_rows db)"
    by simp_all
  let ?row = "\<lparr>St_Version = next_version drv db1, St_Name = name, St_Checksum = checksum_of drv sql\<rparr>"
  show thesis
  proof (cases "r1 = None \<and> drv_err drv (CountName name) db1 = None \<and> name \<notin> set (names_in (mig_rows db1))
      \<and> drv_err drv BeginTx db1 = None")
    case False
    with e assms same fail known show thesis
      by (auto simp: DB_Migrate_def split: option.splits if_splits dest: sym [of "Some _"])
  next
    case True
    obtain tx r2 where tx: "run_statements drv (split_on CHR '';'' sql) db1 = (tx, r2)" by fastforce
    show thesis
    proof (cases r2)
      case (Some err)
      with True tx e assms same fail show thesis by (auto simp: DB_Migrate_def)
    next
      case None
      with tx have txe: "tx = db1\<lparr>mig_rest := run_text drv sql (mig_rest db1)\<rparr>"
        by (auto dest: run_statements_ok simp: run_text_def statements_def)
      have "commit_row drv (InsertRow (next_version drv db1) name) (insert_row_in ?row)
          ''db: record migration: '' [] db1 tx = (db', r)"
        using True None tx e assms by (simp add: DB_Migrate_def Let_def)
      then show thesis
      proof (cases rule: commit_row_cases)
        case (fail e)
        with same that(1) show thesis by simp
      next
        case (ok t)
        then have "names_in t = names_in (mig_rows db1) @ [name]"
          by (cases "mig_rows tx") (auto simp: txe split: if_splits)
        with ok True same txe that(3) show thesis by simp
      qed
    qed
  qed
qed

text \<open>
  C21: a migration is all or nothing and runs once. If \<open>Migrate\<close> fails, the database is as
  before and no name is recorded; if it succeeds, the name is recorded, and the statements of
  the text ran exactly once and in order if it was not recorded before, not at all otherwise.
  From then on no call with this name, whatever its text, changes anything.
\<close>

theorem migrate_once:
  assumes "DB_Migrate drv name sql db = (db', r)"
  shows "if r \<noteq> None
     then mig_rest db' = mig_rest db \<and> names_in (mig_rows db') = names_in (mig_rows db)
     else name \<in> set (names_in (mig_rows db'))
        \<and> mig_rest db' = (if name \<in> set (names_in (mig_rows db)) then mig_rest db
                           else run_text drv sql (mig_rest db))
        \<and> (\<forall>drv' sql'. mig_rest (fst (DB_Migrate drv' name sql' db')) = mig_rest db'
              \<and> names_in (mig_rows (fst (DB_Migrate drv' name sql' db'))) = names_in (mig_rows db'))"
proof -
  have again: "mig_rest (fst (DB_Migrate drv' name sql' d)) = mig_rest d
      \<and> names_in (mig_rows (fst (DB_Migrate drv' name sql' d))) = names_in (mig_rows d)"
    if "name \<in> set (names_in (mig_rows d))" for drv' :: "'a mig_driver" and sql' d
    using Migrate_cases [OF prod.collapse [symmetric], of drv' name sql' d] that by metis
  from assms show ?thesis
    by (cases rule: Migrate_cases) (use again in auto)
qed

text \<open>A driver that never fails, whose statements append their text.\<close>

definition demo_driver :: "string list mig_driver" where
  "demo_driver = \<lparr>drv_err = (\<lambda>c d. None), drv_ddl = (\<lambda>s x. x @ [s]), drv_sha = (\<lambda>s. s)\<rparr>"

definition demo_db :: "string list mig_db" where
  "demo_db = \<lparr>mig_rows = Missing, mig_rest = []\<rparr>"

lemma demo_driver_sel [simp]:
  "drv_err demo_driver c d = None" "drv_ddl demo_driver = (\<lambda>s x. x @ [s])"
  by (simp_all add: demo_driver_def)

theorem migrate_once_witness:
  "\<exists>db'. DB_Migrate demo_driver ''m1'' ''a; b;'' demo_db = (db', None) \<and> mig_rest db' = [''a'', ''b'']
     \<and> mig_rest (fst (DB_Migrate demo_driver ''m1'' ''c'' db')) = [''a'', ''b'']"
proof -
  obtain db' r where r: "DB_Migrate demo_driver ''m1'' ''a; b;'' demo_db = (db', r)" by fastforce
  then have "r = None"
    by (auto simp: DB_Migrate_def ensureMigrationTable_def demo_db_def trim_space_def is_space_def Let_def
        commit_row_def)
  moreover have "run_text demo_driver ''a; b;'' [] = [''a'', ''b'']"
    by (simp add: run_text_def statements_def trim_space_def is_space_def)
  ultimately show ?thesis
    using migrate_once [OF r] r by (simp add: demo_db_def)
qed

section \<open>The old table\<close>

text \<open>
  A database that still has the old table with two migrations in it can never be used
  again: every migration fails, even with a driver that never does, and leaves the
  database as it is, so that the next start fails in the same way.
\<close>

theorem upgrade_blocked:
  assumes "mig_rows db = OldTable names" and "2 \<le> length names"
    and "\<And>c d. drv_err drv c d = None"
  shows "\<exists>e. DB_Migrate drv name sql db = (db, Some e)"
  using assms by (simp add: DB_Migrate_def ensureMigrationTable_def upgrade_table_def)

theorem upgrade_blocked_witness:
  "\<exists>e. DB_Migrate demo_driver ''fleet_v1'' [] \<lparr>mig_rows = OldTable [''devices_v1'', ''auth_v1''], mig_rest = []\<rparr>
     = (\<lparr>mig_rows = OldTable [''devices_v1'', ''auth_v1''], mig_rest = []\<rparr>, Some e)"
  by (rule upgrade_blocked [of _ "[''devices_v1'', ''auth_v1'']"]) simp_all

section \<open>The keys of the table\<close>

text \<open>\<open>keys_ok\<close>: the versions are different, and so are the names.\<close>

fun keys_ok :: "mig_table \<Rightarrow> bool" where
  "keys_ok (NewTable rs) = (distinct (map St_Version rs) \<and> distinct (map St_Name rs))"
| "keys_ok (OldTable names) = distinct names"
| "keys_ok Missing = True"

lemma keys_insert: "insert_row_in r t = Inr t' \<Longrightarrow> keys_ok t \<Longrightarrow> keys_ok t'"
  by (cases t) (fastforce simp: list_ex_iff split: if_splits)+

lemma keys_replace: "replace_row r t = Inr t' \<Longrightarrow> keys_ok t \<Longrightarrow> keys_ok t'"
  by (cases t) (auto intro: distinct_map_filter)

lemma keys_delete: "delete_row v t = Inr t' \<Longrightarrow> keys_ok t \<Longrightarrow> keys_ok t'"
  by (cases t) (auto intro: distinct_map_filter)

lemma keys_ensure:
  assumes "ensureMigrationTable drv db = (db', r)" and "keys_ok (mig_rows db)"
  shows "keys_ok (mig_rows db')"
proof (cases "mig_rows db")
  case (OldTable names)
  have "distinct names \<Longrightarrow> \<not> 1 < length names \<Longrightarrow>
      distinct (map St_Version (map (\<lambda>n. \<lparr>St_Version = 0, St_Name = n, St_Checksum = []\<rparr>) names))"
    by (cases names) auto
  with OldTable assms show ?thesis
    by (auto simp: ensureMigrationTable_def upgrade_table_def comp_def split: option.splits if_splits)
qed (use assms in \<open>auto simp: ensureMigrationTable_def split: option.splits\<close>)

lemma keys_commit:
  assumes "commit_row drv call change failed uncommitted db tx = (db', r)"
    and "keys_ok (mig_rows db)" and "mig_rows tx = mig_rows db"
    and "\<And>t t'. change t = Inr t' \<Longrightarrow> keys_ok t \<Longrightarrow> keys_ok t'"
  shows "keys_ok (mig_rows db')"
  using assms(1) by (cases rule: commit_row_cases) (use assms(2-4) in auto)

lemma run_statements_rows: "run_statements drv stmts db = (tx, r) \<Longrightarrow> mig_rows tx = mig_rows db"
  by (induction stmts arbitrary: db) (auto simp: Let_def split: if_splits option.splits)

lemma keys_apply_up:
  assumes "apply_up drv m db = (db', r)" and "keys_ok (mig_rows db)"
  shows "keys_ok (mig_rows db')"
  using assms
  by (auto simp: apply_up_def split: option.splits prod.splits
      dest!: run_statements_rows elim!: keys_commit intro: keys_replace)

lemma keys_revert:
  assumes "revert drv m db = (db', r)" and "keys_ok (mig_rows db)"
  shows "keys_ok (mig_rows db')"
  using assms
  by (auto simp: revert_def split: option.splits prod.splits if_splits
      dest!: run_statements_rows elim!: keys_commit intro: keys_delete)

lemma keys_up_loop:
  "up_loop drv applied ms db = (db', r) \<Longrightarrow> keys_ok (mig_rows db) \<Longrightarrow> keys_ok (mig_rows db')"
  by (induction ms arbitrary: db) (auto dest: keys_apply_up split: if_splits prod.splits option.splits)

lemma keys_down_loop:
  "down_loop drv applied target ms db = (db', r) \<Longrightarrow> keys_ok (mig_rows db) \<Longrightarrow> keys_ok (mig_rows db')"
  by (induction ms arbitrary: db) (auto dest: keys_revert split: if_splits prod.splits option.splits)

lemma keys_Migrate:
  assumes "DB_Migrate drv name sql db = (db', r)" and "keys_ok (mig_rows db)"
  shows "keys_ok (mig_rows db')"
  using assms
  by (auto simp: DB_Migrate_def Let_def split: option.splits prod.splits if_splits
      dest!: run_statements_rows keys_ensure elim!: keys_commit intro: keys_insert)

text \<open>The operations on the table, with the errors they may return.\<close>

datatype mig_op =
    OpMigrate string string
  | OpUp "Migration list"
  | OpDown "Migration list"
  | OpDownTo "Migration list" int
  | OpStatus

fun mig_step :: "'x mig_driver \<Rightarrow> mig_op \<Rightarrow> 'x mig_db \<Rightarrow> 'x mig_db" where
  "mig_step drv (OpMigrate name sql) db = fst (DB_Migrate drv name sql db)"
| "mig_step drv (OpUp ms) db = fst (Migrator_Up drv ms db)"
| "mig_step drv (OpDown ms) db = fst (Migrator_Down drv ms db)"
| "mig_step drv (OpDownTo ms v) db = fst (Migrator_DownTo drv ms v db)"
| "mig_step drv OpStatus db = fst (Migrator_Status drv db)"

lemma keys_step: "keys_ok (mig_rows db) \<Longrightarrow> keys_ok (mig_rows (mig_step drv x db))"
proof (cases x)
  case (OpMigrate name sql)
  then show "keys_ok (mig_rows db) \<Longrightarrow> ?thesis"
    using keys_Migrate [OF prod.collapse [symmetric]] by simp
next
  case (OpUp ms)
  then show "keys_ok (mig_rows db) \<Longrightarrow> ?thesis"
    by (auto simp: Migrator_Up_def dest: keys_ensure intro!: keys_up_loop [OF prod.collapse [symmetric]] split: prod.split option.split sum.split)
next
  case (OpDown ms)
  then show "keys_ok (mig_rows db) \<Longrightarrow> ?thesis"
    by (auto simp: Migrator_Down_def Let_def dest: keys_ensure intro!: keys_revert [OF prod.collapse [symmetric]]
        split: prod.split option.split sum.split)
next
  case (OpDownTo ms v)
  then show "keys_ok (mig_rows db) \<Longrightarrow> ?thesis"
    by (auto simp: Migrator_DownTo_def dest: keys_ensure intro!: keys_down_loop [OF prod.collapse [symmetric]] split: prod.split option.split sum.split)
next
  case OpStatus
  then show "keys_ok (mig_rows db) \<Longrightarrow> ?thesis"
    by (auto simp: Migrator_Status_def dest: keys_ensure split: prod.split option.split sum.split)
qed

text \<open>
  Whatever is done with the table, and whatever fails, no version and no name is ever
  recorded twice.
\<close>

theorem migration_keys:
  assumes "keys_ok (mig_rows db)"
  shows "keys_ok (mig_rows (fold (mig_step drv) ops db))"
  using assms by (induction ops arbitrary: db) (auto intro: keys_step)

theorem migration_keys_witness:
  "keys_ok (mig_rows (fold (mig_step demo_driver) [OpMigrate ''a'' ''x'', OpMigrate ''b'' ''y'', OpStatus] demo_db))"
  by (rule migration_keys) (simp add: demo_db_def)

section \<open>Up and down\<close>

lemma apply_up_ok:
  assumes "apply_up drv m db = (db', None)" and "mig_rows db = NewTable rs"
  shows "mig_rest db' = run_text drv (Mig_Up m) (mig_rest db)
     \<and> mig_rows db' = NewTable (filter (\<lambda>q. St_Version q \<noteq> Mig_Version m \<and> St_Name q \<noteq> Mig_Name m) rs
         @ [\<lparr>St_Version = Mig_Version m, St_Name = Mig_Name m, St_Checksum = checksum_of drv (Mig_Up m)\<rparr>])"
proof -
  obtain tx where tx: "run_statements drv (split_on CHR '';'' (Mig_Up m)) db = (tx, None)"
    and c: "commit_row drv (InsertRow (Mig_Version m) (Mig_Name m))
      (replace_row \<lparr>St_Version = Mig_Version m, St_Name = Mig_Name m, St_Checksum = checksum_of drv (Mig_Up m)\<rparr>)
      (''db: record migration '' @ itoa (Mig_Version m) @ '': '')
      (''db: commit migration '' @ itoa (Mig_Version m) @ '': '') db tx = (db', None)"
    using assms(1) by (auto simp: apply_up_def split: option.splits prod.splits)
  from c show ?thesis
    by (cases rule: commit_row_cases)
       (auto simp: run_statements_ok [OF tx] assms(2) run_text_def statements_def)
qed

lemma revert_ok:
  assumes "revert drv m db = (db', None)" and "mig_rows db = NewTable rs" and "Mig_Down m \<noteq> []"
  shows "mig_rest db' = run_text drv (Mig_Down m) (mig_rest db)
     \<and> mig_rows db' = NewTable (filter (\<lambda>q. St_Version q \<noteq> Mig_Version m) rs)"
proof -
  obtain tx where tx: "run_statements drv (split_on CHR '';'' (Mig_Down m)) db = (tx, None)"
    and c: "commit_row drv (DeleteRow (Mig_Version m)) (delete_row (Mig_Version m))
      (''db: unrecord migration '' @ itoa (Mig_Version m) @ '': '')
      (''db: commit revert '' @ itoa (Mig_Version m) @ '': '') db tx = (db', None)"
    using assms(1,3) by (auto simp: revert_def split: option.splits prod.splits)
  from c show ?thesis
    by (cases rule: commit_row_cases)
       (auto simp: run_statements_ok [OF tx] assms(2) run_text_def statements_def)
qed

lemma up_loop_applied:
  "\<forall>p \<in> set ps. Mig_Version p \<in> set applied \<Longrightarrow> up_loop drv applied (ps @ ms) db = up_loop drv applied ms db"
  by (induction ps) auto

lemma ensure_new:
  "mig_rows db = NewTable rs \<Longrightarrow> ensureMigrationTable drv db = (db', None) \<Longrightarrow> db' = db"
  using ensure_cases [of drv db db' None] by simp

text \<open>
  C40: when the last migration of the list is the only one not applied, has the greatest
  version and a new name, and its down text undoes its up text, then applying it with \<open>Up\<close>
  and reverting it with \<open>Down\<close> restores the database exactly.
\<close>

theorem up_down_roundtrip:
  assumes "mig_rows db = NewTable rs"
    and "\<And>p. p \<in> set ps \<Longrightarrow> Mig_Version p \<in> set (map St_Version rs)"
    and "\<And>q. q \<in> set rs \<Longrightarrow> St_Version q < Mig_Version m \<and> St_Name q \<noteq> Mig_Name m"
    and "0 \<le> Mig_Version m" and "Mig_Down m \<noteq> []"
    and "\<And>x. run_text drv (Mig_Down m) (run_text drv (Mig_Up m) x) = x"
    and "Migrator_Up drv (ps @ [m]) db = (db1, None)"
    and "Migrator_Down drv (ps @ [m]) db1 = (db2, None)"
  shows "Mig_Version m \<in> set (map St_Version (case mig_rows db1 of NewTable rs1 \<Rightarrow> rs1 | _ \<Rightarrow> []))
     \<and> mig_rest db1 = run_text drv (Mig_Up m) (mig_rest db) \<and> db2 = db"
proof -
  let ?row = "\<lparr>St_Version = Mig_Version m, St_Name = Mig_Name m, St_Checksum = checksum_of drv (Mig_Up m)\<rparr>"
  have fresh: "Mig_Version m \<notin> set (map St_Version rs)" by (auto dest: assms(3))
  obtain dbe where e: "ensureMigrationTable drv db = (dbe, None)"
    using assms(7) by (auto simp: Migrator_Up_def split: prod.splits option.splits)
  with assms(1) have "dbe = db" by (blast dest: ensure_new)
  with e assms(1,7) have "up_loop drv (map St_Version rs) (ps @ [m]) db = (db1, None)"
    by (auto simp: Migrator_Up_def appliedVersions_def split: option.splits)
  then have "apply_up drv m db = (db1, None)"
    using up_loop_applied [of ps "map St_Version rs" drv "[m]" db] assms(2) fresh
    by (auto split: prod.splits option.splits)
  note up = apply_up_ok [OF this assms(1)]
  have "filter (\<lambda>q. St_Version q \<noteq> Mig_Version m \<and> St_Name q \<noteq> Mig_Name m) rs = rs"
    by (auto simp: filter_id_conv dest: assms(3))
  with up have rows1: "mig_rows db1 = NewTable (rs @ [?row])" by simp
  obtain dbe1 where e1: "ensureMigrationTable drv db1 = (dbe1, None)"
    using assms(8) by (auto simp: Migrator_Down_def split: prod.splits option.splits)
  with rows1 have d1: "dbe1 = db1" by (blast dest: ensure_new)
  have "Max (set (map St_Version (rs @ [?row]))) = Mig_Version m"
    using assms(3) by (intro Max_eqI) (auto simp: less_imp_le)
  then have mx: "max_version (- 1) (rs @ [?row]) = Mig_Version m"
    by (cases rs) (simp_all add: max_version_def insert_commute)
  have "revert drv m db1 = (db2, None)"
    using assms(4,8) e1 d1 rows1 mx by (auto simp: Migrator_Down_def Let_def split: option.splits)
  note down = revert_ok [OF this rows1 assms(5)]
  have "filter (\<lambda>q. St_Version q \<noteq> Mig_Version m) (rs @ [?row]) = rs"
    by (auto simp: filter_id_conv dest: assms(3))
  with down up assms(1,6) have "db2 = db" by simp
  with up rows1 show ?thesis by simp
qed

text \<open>A driver whose statements push and pop.\<close>

definition stack_driver :: "string list mig_driver" where
  "stack_driver = \<lparr>drv_err = (\<lambda>c d. None), drv_ddl = (\<lambda>s x. if s = ''pop'' then tl x else s # x), drv_sha = (\<lambda>s. s)\<rparr>"

definition stack_migration :: Migration where
  "stack_migration = \<lparr>Mig_Version = 1, Mig_Name = ''one'', Mig_Up = ''t'', Mig_Down = ''pop''\<rparr>"

theorem up_down_roundtrip_witness:
  "fst (Migrator_Down stack_driver [stack_migration]
      (fst (Migrator_Up stack_driver [stack_migration] \<lparr>mig_rows = NewTable [], mig_rest = []\<rparr>)))
   = \<lparr>mig_rows = NewTable [], mig_rest = []\<rparr>"
proof -
  let ?db = "\<lparr>mig_rows = NewTable [], mig_rest = []\<rparr> :: string list mig_db"
  let ?up = "Migrator_Up stack_driver [stack_migration] ?db"
  have ok: "drv_err stack_driver c d = None" for c d by (simp add: stack_driver_def)
  have undo: "run_text stack_driver ''pop'' (run_text stack_driver ''t'' x) = x" for x
    by (simp add: run_text_def statements_def trim_space_def is_space_def stack_driver_def)
  obtain d1 where d1: "?up = (d1, None)"
    and rows: "mig_rows d1 = NewTable [\<lparr>St_Version = 1, St_Name = ''one'',
      St_Checksum = checksum_of stack_driver ''t''\<rparr>]"
    by (auto simp: Migrator_Up_def ensureMigrationTable_def appliedVersions_def ok apply_up_def commit_row_def
        stack_migration_def trim_space_def is_space_def)
  obtain d2 where d2: "Migrator_Down stack_driver [stack_migration] d1 = (d2, None)"
    by (auto simp: Migrator_Down_def ensureMigrationTable_def ok rows max_version_def revert_def commit_row_def
        stack_migration_def trim_space_def is_space_def)
  have "d2 = ?db"
    using up_down_roundtrip [where rs = "[]" and ps = "[]" and m = stack_migration and drv = stack_driver
        and db = ?db and ?db1.0 = d1 and ?db2.0 = d2] d1 d2 undo
    by (simp add: stack_migration_def)
  with d1 d2 show ?thesis by simp
qed

end
