(* ===== verification/Config.thy ===== *)
theory Config
  imports Prelude
begin

text \<open>
  \<open>internal/config\<close>: the configuration file, the overrides by environment variables and the
  validation. The environment is a map \<open>env\<close>; \<open>yaml\<close> is the YAML library's \<open>Unmarshal\<close>
  into a configuration that is already filled.
\<close>

section \<open>Data\<close>

record ServerConfig =
  Srv_Host :: string
  Srv_Port :: int
  Srv_TLSKey :: string
  Srv_TLSCert :: string
  Srv_AllowedOrigins :: "string list"
  Srv_RateLimitRPM :: int
  Srv_LogLevel :: string

record StorageConfig =
  Sto_Path :: string
  Sto_MaxOpenConns :: int
  Sto_MaxIdleConns :: int

record MQTTConfig =
  Mqtt_Port :: int

record ModulesConfig =
  Mod_JWTSecret :: string
  Mod_AdminAPIKey :: string
  Mod_TelemetryTTL :: string
  Mod_TelemetryPruneInterval :: string
  Mod_MQTT :: MQTTConfig

record Config =
  Cfg_Server :: ServerConfig
  Cfg_Storage :: StorageConfig
  Cfg_Modules :: ModulesConfig

definition config_Default :: Config where
  "config_Default =
     \<lparr>Cfg_Server = \<lparr>Srv_Host = ''0.0.0.0'', Srv_Port = 8080, Srv_TLSKey = [], Srv_TLSCert = [],
                    Srv_AllowedOrigins = [], Srv_RateLimitRPM = 0, Srv_LogLevel = ''info''\<rparr>,
      Cfg_Storage = \<lparr>Sto_Path = ''./data/deviceos.db'', Sto_MaxOpenConns = 0, Sto_MaxIdleConns = 0\<rparr>,
      Cfg_Modules = \<lparr>Mod_JWTSecret = ''dev-change-me-in-production'', Mod_AdminAPIKey = [],
                     Mod_TelemetryTTL = ''720h'', Mod_TelemetryPruneInterval = ''1h'',
                     Mod_MQTT = \<lparr>Mqtt_Port = 1883\<rparr>\<rparr>\<rparr>"

section \<open>Loading\<close>

type_synonym environment = "string \<Rightarrow> string option"

definition lookupEnv :: "environment \<Rightarrow> string \<Rightarrow> string \<times> bool" where
  "lookupEnv env key =
     (case env key of None \<Rightarrow> (trim_space [], False) | Some v \<Rightarrow> (trim_space v, True))"

text \<open>The two kinds of override; a number that does not parse is ignored.\<close>

definition override_string ::
    "environment \<Rightarrow> string \<Rightarrow> (string \<Rightarrow> Config \<Rightarrow> Config) \<Rightarrow> Config \<Rightarrow> Config" where
  "override_string env key put cfg =
     (case lookupEnv env key of (v, True) \<Rightarrow> put v cfg | (v, False) \<Rightarrow> cfg)"

definition override_int ::
    "environment \<Rightarrow> string \<Rightarrow> (int \<Rightarrow> Config \<Rightarrow> Config) \<Rightarrow> Config \<Rightarrow> Config" where
  "override_int env key put cfg =
     (case lookupEnv env key of
        (v, True) \<Rightarrow> (case atoi v of Some n \<Rightarrow> put n cfg | None \<Rightarrow> cfg)
      | (v, False) \<Rightarrow> cfg)"

abbreviation set_server :: "(ServerConfig \<Rightarrow> ServerConfig) \<Rightarrow> Config \<Rightarrow> Config" where
  "set_server f \<equiv> Cfg_Server_update f"

abbreviation set_storage :: "(StorageConfig \<Rightarrow> StorageConfig) \<Rightarrow> Config \<Rightarrow> Config" where
  "set_storage f \<equiv> Cfg_Storage_update f"

abbreviation set_modules :: "(ModulesConfig \<Rightarrow> ModulesConfig) \<Rightarrow> Config \<Rightarrow> Config" where
  "set_modules f \<equiv> Cfg_Modules_update f"

definition applyEnvOverrides :: "environment \<Rightarrow> Config \<Rightarrow> Config" where
  "applyEnvOverrides env cfg0 =
     (let c1 = override_string env ''DEVICEOS_SERVER_HOST'' (\<lambda>v. set_server (Srv_Host_update (\<lambda>_. v))) cfg0;
          c2 = override_int env ''DEVICEOS_SERVER_PORT'' (\<lambda>p. set_server (Srv_Port_update (\<lambda>_. p))) c1;
          c3 = override_string env ''DEVICEOS_TLS_CERT'' (\<lambda>v. set_server (Srv_TLSCert_update (\<lambda>_. v))) c2;
          c4 = override_string env ''DEVICEOS_TLS_KEY'' (\<lambda>v. set_server (Srv_TLSKey_update (\<lambda>_. v))) c3;
          c5 = override_string env ''DEVICEOS_ALLOWED_ORIGINS''
                 (\<lambda>v. set_server (Srv_AllowedOrigins_update (\<lambda>_. split_on CHR '','' v))) c4;
          c6 = override_int env ''DEVICEOS_RATE_LIMIT_RPM''
                 (\<lambda>n. set_server (Srv_RateLimitRPM_update (\<lambda>_. n))) c5;
          c7 = override_string env ''DEVICEOS_LOG_LEVEL'' (\<lambda>v. set_server (Srv_LogLevel_update (\<lambda>_. v))) c6;
          c8 = override_string env ''DEVICEOS_STORAGE_PATH'' (\<lambda>v. set_storage (Sto_Path_update (\<lambda>_. v))) c7;
          c9 = override_int env ''DEVICEOS_STORAGE_MAX_OPEN_CONNS''
                 (\<lambda>n. set_storage (Sto_MaxOpenConns_update (\<lambda>_. n))) c8;
          c10 = override_int env ''DEVICEOS_STORAGE_MAX_IDLE_CONNS''
                 (\<lambda>n. set_storage (Sto_MaxIdleConns_update (\<lambda>_. n))) c9;
          c11 = override_string env ''DEVICEOS_JWT_SECRET''
                 (\<lambda>v. set_modules (Mod_JWTSecret_update (\<lambda>_. v))) c10;
          c12 = override_string env ''DEVICEOS_ADMIN_TOKEN''
                 (\<lambda>v. set_modules (Mod_AdminAPIKey_update (\<lambda>_. v))) c11;
          c13 = override_string env ''DEVICEOS_TELEMETRY_TTL''
                 (\<lambda>v. set_modules (Mod_TelemetryTTL_update (\<lambda>_. v))) c12
      in override_string env ''DEVICEOS_TELEMETRY_PRUNE_INTERVAL''
           (\<lambda>v. set_modules (Mod_TelemetryPruneInterval_update (\<lambda>_. v))) c13)"

text \<open>\<open>None\<close> is success. The test of the JWT secret has an empty body.\<close>

definition config_Validate :: "Config \<Rightarrow> string option" where
  "config_Validate cfg =
     (let s = Cfg_Server cfg in
      if Srv_Port s < 1 \<or> Srv_Port s > 65535 then Some ''server.port must be between 1 and 65535''
      else if Srv_TLSCert s \<noteq> [] \<and> Srv_TLSKey s = []
      then Some ''server.tls_key is required when server.tls_cert is set''
      else if Srv_TLSKey s \<noteq> [] \<and> Srv_TLSCert s = []
      then Some ''server.tls_cert is required when server.tls_key is set''
      else if Sto_Path (Cfg_Storage cfg) = [] then Some ''storage.path must not be empty''
      else if Srv_RateLimitRPM s < 0 then Some ''server.rate_limit_rpm must not be negative''
      else if Srv_LogLevel s = ''debug'' \<or> Srv_LogLevel s = ''info'' \<or> Srv_LogLevel s = ''warn''
              \<or> Srv_LogLevel s = ''error'' \<or> Srv_LogLevel s = []
      then None
      else Some ''server.log_level must be one of: debug, info, warn, error'')"

datatype read_file = FileMissing | ReadError string | FileBytes string

definition config_Load ::
    "environment \<Rightarrow> (string \<Rightarrow> Config \<Rightarrow> Config result) \<Rightarrow> read_file \<Rightarrow> Config result" where
  "config_Load env yaml file =
     (case (case file of
              FileMissing \<Rightarrow> Inr config_Default
            | ReadError err \<Rightarrow> Inl (''read config: '' @ err)
            | FileBytes b \<Rightarrow>
                (case yaml b config_Default of
                   Inl err \<Rightarrow> Inl (''parse config: '' @ err) | Inr cfg \<Rightarrow> Inr cfg)) of
        Inl err \<Rightarrow> Inl err
      | Inr cfg0 \<Rightarrow>
          (let cfg = applyEnvOverrides env cfg0
           in case config_Validate cfg of
                Some err \<Rightarrow> Inl (''config validation: '' @ err)
              | None \<Rightarrow> Inr cfg))"

section \<open>What a loaded configuration is\<close>

text \<open>The reference: every field on its own, from the environment or else from the file.\<close>

definition env_text :: "environment \<Rightarrow> string \<Rightarrow> string \<Rightarrow> string" where
  "env_text env key d = (case env key of None \<Rightarrow> d | Some v \<Rightarrow> trim_space v)"

definition env_number :: "environment \<Rightarrow> string \<Rightarrow> int \<Rightarrow> int" where
  "env_number env key d =
     (case env key of None \<Rightarrow> d
      | Some v \<Rightarrow> (case atoi (trim_space v) of None \<Rightarrow> d | Some n \<Rightarrow> n))"

definition env_origins :: "environment \<Rightarrow> string list \<Rightarrow> string list" where
  "env_origins env d =
     (case env ''DEVICEOS_ALLOWED_ORIGINS'' of None \<Rightarrow> d | Some v \<Rightarrow> split_on CHR '','' (trim_space v))"

definition env_config :: "environment \<Rightarrow> Config \<Rightarrow> Config" where
  "env_config env c =
     \<lparr>Cfg_Server =
        \<lparr>Srv_Host = env_text env ''DEVICEOS_SERVER_HOST'' (Srv_Host (Cfg_Server c)),
         Srv_Port = env_number env ''DEVICEOS_SERVER_PORT'' (Srv_Port (Cfg_Server c)),
         Srv_TLSKey = env_text env ''DEVICEOS_TLS_KEY'' (Srv_TLSKey (Cfg_Server c)),
         Srv_TLSCert = env_text env ''DEVICEOS_TLS_CERT'' (Srv_TLSCert (Cfg_Server c)),
         Srv_AllowedOrigins = env_origins env (Srv_AllowedOrigins (Cfg_Server c)),
         Srv_RateLimitRPM = env_number env ''DEVICEOS_RATE_LIMIT_RPM'' (Srv_RateLimitRPM (Cfg_Server c)),
         Srv_LogLevel = env_text env ''DEVICEOS_LOG_LEVEL'' (Srv_LogLevel (Cfg_Server c))\<rparr>,
      Cfg_Storage =
        \<lparr>Sto_Path = env_text env ''DEVICEOS_STORAGE_PATH'' (Sto_Path (Cfg_Storage c)),
         Sto_MaxOpenConns = env_number env ''DEVICEOS_STORAGE_MAX_OPEN_CONNS'' (Sto_MaxOpenConns (Cfg_Storage c)),
         Sto_MaxIdleConns = env_number env ''DEVICEOS_STORAGE_MAX_IDLE_CONNS'' (Sto_MaxIdleConns (Cfg_Storage c))\<rparr>,
      Cfg_Modules =
        \<lparr>Mod_JWTSecret = env_text env ''DEVICEOS_JWT_SECRET'' (Mod_JWTSecret (Cfg_Modules c)),
         Mod_AdminAPIKey = env_text env ''DEVICEOS_ADMIN_TOKEN'' (Mod_AdminAPIKey (Cfg_Modules c)),
         Mod_TelemetryTTL = env_text env ''DEVICEOS_TELEMETRY_TTL'' (Mod_TelemetryTTL (Cfg_Modules c)),
         Mod_TelemetryPruneInterval = env_text env ''DEVICEOS_TELEMETRY_PRUNE_INTERVAL''
           (Mod_TelemetryPruneInterval (Cfg_Modules c)),
         Mod_MQTT = Mod_MQTT (Cfg_Modules c)\<rparr>\<rparr>"

lemmas override_defs =
  override_string_def override_int_def lookupEnv_def env_text_def env_number_def env_origins_def

text \<open>An override is the update of its field by the reference.\<close>

lemma override_field:
  "override_string env k (\<lambda>v. Cfg_Server_update (Srv_Host_update (\<lambda>_. v))) c =
     Cfg_Server_update (Srv_Host_update (env_text env k)) c"
  "override_string env k (\<lambda>v. Cfg_Server_update (Srv_TLSKey_update (\<lambda>_. v))) c =
     Cfg_Server_update (Srv_TLSKey_update (env_text env k)) c"
  "override_string env k (\<lambda>v. Cfg_Server_update (Srv_TLSCert_update (\<lambda>_. v))) c =
     Cfg_Server_update (Srv_TLSCert_update (env_text env k)) c"
  "override_string env k (\<lambda>v. Cfg_Server_update (Srv_LogLevel_update (\<lambda>_. v))) c =
     Cfg_Server_update (Srv_LogLevel_update (env_text env k)) c"
  "override_int env k (\<lambda>v. Cfg_Server_update (Srv_Port_update (\<lambda>_. v))) c =
     Cfg_Server_update (Srv_Port_update (env_number env k)) c"
  "override_int env k (\<lambda>v. Cfg_Server_update (Srv_RateLimitRPM_update (\<lambda>_. v))) c =
     Cfg_Server_update (Srv_RateLimitRPM_update (env_number env k)) c"
  "override_string env k (\<lambda>v. Cfg_Storage_update (Sto_Path_update (\<lambda>_. v))) c =
     Cfg_Storage_update (Sto_Path_update (env_text env k)) c"
  "override_int env k (\<lambda>v. Cfg_Storage_update (Sto_MaxOpenConns_update (\<lambda>_. v))) c =
     Cfg_Storage_update (Sto_MaxOpenConns_update (env_number env k)) c"
  "override_int env k (\<lambda>v. Cfg_Storage_update (Sto_MaxIdleConns_update (\<lambda>_. v))) c =
     Cfg_Storage_update (Sto_MaxIdleConns_update (env_number env k)) c"
  "override_string env k (\<lambda>v. Cfg_Modules_update (Mod_JWTSecret_update (\<lambda>_. v))) c =
     Cfg_Modules_update (Mod_JWTSecret_update (env_text env k)) c"
  "override_string env k (\<lambda>v. Cfg_Modules_update (Mod_AdminAPIKey_update (\<lambda>_. v))) c =
     Cfg_Modules_update (Mod_AdminAPIKey_update (env_text env k)) c"
  "override_string env k (\<lambda>v. Cfg_Modules_update (Mod_TelemetryTTL_update (\<lambda>_. v))) c =
     Cfg_Modules_update (Mod_TelemetryTTL_update (env_text env k)) c"
  "override_string env k (\<lambda>v. Cfg_Modules_update (Mod_TelemetryPruneInterval_update (\<lambda>_. v))) c =
     Cfg_Modules_update (Mod_TelemetryPruneInterval_update (env_text env k)) c"
  "override_string env ''DEVICEOS_ALLOWED_ORIGINS''
     (\<lambda>v. Cfg_Server_update (Srv_AllowedOrigins_update (\<lambda>_. split_on CHR '','' v))) c =
     Cfg_Server_update (Srv_AllowedOrigins_update (env_origins env)) c"
  by (cases c, cases "Cfg_Server c", cases "Cfg_Storage c", cases "Cfg_Modules c",
      simp add: override_defs split: option.splits)+

lemma applyEnvOverrides_exact: "applyEnvOverrides env c = env_config env c"
  unfolding applyEnvOverrides_def env_config_def Let_def override_field by simp

lemma config_Validate_None:
  "config_Validate c = None \<longleftrightarrow>
     1 \<le> Srv_Port (Cfg_Server c) \<and> Srv_Port (Cfg_Server c) \<le> 65535
     \<and> (Srv_TLSCert (Cfg_Server c) = [] \<longleftrightarrow> Srv_TLSKey (Cfg_Server c) = [])
     \<and> Sto_Path (Cfg_Storage c) \<noteq> [] \<and> 0 \<le> Srv_RateLimitRPM (Cfg_Server c)
     \<and> Srv_LogLevel (Cfg_Server c) \<in> {''debug'', ''info'', ''warn'', ''error'', []}"
  by (auto simp: config_Validate_def Let_def split: if_splits)

text \<open>
  A configuration loads exactly when the file is absent or parses, and the result is then the
  file's configuration (the defaults where there is none) with each field replaced by its
  environment variable, trimmed, where that variable is set (a numeric variable that is no numeral
  of an \<open>int\<close> leaves the field alone), provided that the port is a TCP port, certificate and
  key come together, the database path is there, the rate limit is not negative and the log
  level is one of the four or empty. No JWT secret is refused.
\<close>

theorem config_loaded:
  "config_Load env yaml file = Inr cfg \<longleftrightarrow>
     (\<exists>base. (case file of FileMissing \<Rightarrow> base = config_Default | ReadError err \<Rightarrow> False
              | FileBytes b \<Rightarrow> yaml b config_Default = Inr base)
       \<and> cfg = env_config env base)
     \<and> 1 \<le> Srv_Port (Cfg_Server cfg) \<and> Srv_Port (Cfg_Server cfg) \<le> 65535
     \<and> (Srv_TLSCert (Cfg_Server cfg) = [] \<longleftrightarrow> Srv_TLSKey (Cfg_Server cfg) = [])
     \<and> Sto_Path (Cfg_Storage cfg) \<noteq> [] \<and> 0 \<le> Srv_RateLimitRPM (Cfg_Server cfg)
     \<and> Srv_LogLevel (Cfg_Server cfg) \<in> {''debug'', ''info'', ''warn'', ''error'', []}"
  unfolding config_Validate_None [symmetric] config_Load_def applyEnvOverrides_exact Let_def
  by (auto split: read_file.splits sum.splits option.splits)

end
