(* ===== verification/Backup.thy ===== *)
theory Backup
  imports Config Gojson
begin

text \<open>
  \<open>cmd/deviceos/backup.go\<close>: backup and restore of the database file. The file system is a map
  from paths to nodes that every step takes and returns. What the operating system refuses, the
  SQLite driver and the gzip codec are the fields of an environment; the code's own branches,
  deferred calls and exits are spelled out.
\<close>

section \<open>Files\<close>

datatype node = FileNode string | DirNode

type_synonym fs = "string \<rightharpoonup> node"

text \<open>
  Paths are compared as texts. The fields \<open>os_*_err\<close> are the refusals of the system
  (permissions, missing parents, devices) with their messages; a failed write says what it left
  in the file. \<open>sq_exec\<close> runs a statement on the database of a path and may touch files.
\<close>

record os_env =
  os_stat_err :: "fs \<Rightarrow> string \<Rightarrow> string option"
  os_mkdir_temp :: "fs \<Rightarrow> string \<Rightarrow> string result"
  os_open_err :: "fs \<Rightarrow> string \<Rightarrow> string option"
  os_create_err :: "fs \<Rightarrow> string \<Rightarrow> string option"
  os_remove_err :: "fs \<Rightarrow> string \<Rightarrow> string option"
  os_rename_err :: "fs \<Rightarrow> string \<Rightarrow> string \<Rightarrow> string option"
  os_copy_err :: "fs \<Rightarrow> string \<Rightarrow> string \<Rightarrow> (string \<times> string) option"
  os_flush_err :: "fs \<Rightarrow> string \<Rightarrow> (string \<times> string) option"
  os_close_err :: "fs \<Rightarrow> string \<Rightarrow> (string \<times> string) option"
  os_dir_size :: int
  gz_compress :: "string \<Rightarrow> string"
  gz_header_err :: "string \<Rightarrow> string option"
  gz_read_all :: "string \<Rightarrow> string \<times> string option"
  sq_open_err :: "string \<Rightarrow> string option"
  sq_exec :: "fs \<Rightarrow> string \<Rightarrow> string \<Rightarrow> fs \<times> string option"
  sq_query_text :: "fs \<Rightarrow> string \<Rightarrow> string \<Rightarrow> string result"

datatype stat_result = StatOk node | StatMissing | StatError string

definition os_Stat :: "os_env \<Rightarrow> fs \<Rightarrow> string \<Rightarrow> stat_result" where
  "os_Stat e f p =
     (case os_stat_err e f p of
        Some err \<Rightarrow> StatError err
      | None \<Rightarrow> (case f p of None \<Rightarrow> StatMissing | Some n \<Rightarrow> StatOk n))"

definition node_size :: "os_env \<Rightarrow> node \<Rightarrow> int" where
  "node_size e n = (case n of FileNode s \<Rightarrow> int (length s) | DirNode \<Rightarrow> os_dir_size e)"

definition no_such_file :: "string \<Rightarrow> string \<Rightarrow> string" where
  "no_such_file call p = call @ '' '' @ p @ '': no such file or directory''"

definition os_Open :: "os_env \<Rightarrow> fs \<Rightarrow> string \<Rightarrow> node result" where
  "os_Open e f p =
     (case os_open_err e f p of
        Some err \<Rightarrow> Inl err
      | None \<Rightarrow> (case f p of None \<Rightarrow> Inl (no_such_file ''open'' p) | Some n \<Rightarrow> Inr n))"

text \<open>\<open>os.Create\<close> truncates a file that is there; a directory is refused.\<close>

definition os_Create :: "os_env \<Rightarrow> fs \<Rightarrow> string \<Rightarrow> fs result" where
  "os_Create e f p =
     (case os_create_err e f p of
        Some err \<Rightarrow> Inl err
      | None \<Rightarrow> (if f p = Some DirNode then Inl (''open '' @ p @ '': is a directory'')
                 else Inr (f(p \<mapsto> FileNode []))))"

text \<open>\<open>under d\<close>: the path \<open>d\<close> itself and everything in the directory \<open>d\<close>.\<close>

definition under :: "string \<Rightarrow> string \<Rightarrow> bool" where
  "under d p \<longleftrightarrow> p = d \<or> has_prefix p (d @ ''/'')"

definition filepath_Join :: "string \<Rightarrow> string \<Rightarrow> string" where
  "filepath_Join d name = d @ ''/'' @ name"

definition os_Remove :: "os_env \<Rightarrow> fs \<Rightarrow> string \<Rightarrow> fs" where
  "os_Remove e f p = (case os_remove_err e f p of Some err \<Rightarrow> f | None \<Rightarrow> f(p := None))"

definition os_RemoveAll :: "os_env \<Rightarrow> fs \<Rightarrow> string \<Rightarrow> fs" where
  "os_RemoveAll e f d =
     (case os_remove_err e f d of
        Some err \<Rightarrow> f | None \<Rightarrow> (\<lambda>p. if under d p then None else f p))"

definition os_MkdirTemp :: "os_env \<Rightarrow> fs \<Rightarrow> string \<Rightarrow> fs \<times> string result" where
  "os_MkdirTemp e f pattern =
     (case os_mkdir_temp e f pattern of
        Inl err \<Rightarrow> (f, Inl err) | Inr d \<Rightarrow> (f(d \<mapsto> DirNode), Inr d))"

text \<open>
  \<open>os.Rename\<close> moves the node with all below it, over a file but not over a directory and not
  into itself.
\<close>

definition os_Rename :: "os_env \<Rightarrow> fs \<Rightarrow> string \<Rightarrow> string \<Rightarrow> fs result" where
  "os_Rename e f src dst =
     (case os_rename_err e f src dst of
        Some err \<Rightarrow> Inl err
      | None \<Rightarrow>
          (case f src of
             None \<Rightarrow> Inl (no_such_file ''rename'' src)
           | Some n \<Rightarrow>
               if f dst = Some DirNode then Inl (''rename '' @ dst @ '': file exists'')
               else if n = DirNode \<and> (f dst \<noteq> None \<or> under src dst)
               then Inl (''rename '' @ dst @ '': invalid argument'')
               else Inr (\<lambda>p. if under dst p then f (src @ drop (length dst) p)
                             else if under src p then None else f p)))"

section \<open>Sizes\<close>

text \<open>
  \<open>%.1f\<close> of a non-negative \<open>float64\<close>: the nearest number of tenths, ties to even.
\<close>

definition fixed1 :: "rat \<Rightarrow> string" where
  "fixed1 q =
     (let t = 10 * q; n = \<lfloor>t\<rfloor>; d = t - of_int n;
          r = (if 1 / 2 < d \<or> (d = 1 / 2 \<and> odd n) then n + 1 else n)
      in itoa (r div 10) @ ''.'' @ itoa (r mod 10))"

function size_loop :: "int \<Rightarrow> int \<Rightarrow> nat \<Rightarrow> int \<times> nat" where
  "size_loop n d x = (if 1024 \<le> n then size_loop (go_quot n 1024) (wrap64 (d * 1024)) (x + 1) else (d, x))"
  by pat_completeness auto
termination
  by (relation "measure (\<lambda>(n, d, x). nat n)") auto

declare size_loop.simps [simp del]

text \<open>\<open>None\<close> is the panic of an index out of range.\<close>

definition fmtSize :: "int \<Rightarrow> string option" where
  "fmtSize bytes =
     (if bytes < 1024 then Some (itoa bytes @ '' B'')
      else (let (d, x) = size_loop (go_quot bytes 1024) 1024 0
            in if x < length ''KMGTPE''
               then Some (fixed1 (the (f64_of_int bytes) / the (f64_of_int d)) @ '' '' @ [''KMGTPE'' ! x] @ ''B'')
               else None))"

section \<open>Snapshot and compression\<close>

definition vacuum_into :: "string \<Rightarrow> string" where
  "vacuum_into p = ''VACUUM INTO '' @ [CHR 0x27] @ p @ [CHR 0x27]"

definition createSnapshot :: "os_env \<Rightarrow> fs \<Rightarrow> string \<Rightarrow> fs \<times> string result" where
  "createSnapshot e f src =
     (case os_MkdirTemp e f ''deviceos-snapshot-*'' of
        (f1, Inl err) \<Rightarrow> (f1, Inl (''create temp dir: '' @ err))
      | (f1, Inr tmpDir) \<Rightarrow>
          (let snapshotPath = filepath_Join tmpDir ''snapshot.db''
           in case sq_open_err e src of
                Some err \<Rightarrow> (os_RemoveAll e f1 tmpDir, Inl (''open database: '' @ err))
              | None \<Rightarrow>
                  (case sq_exec e f1 src (vacuum_into snapshotPath) of
                     (f2, Some err) \<Rightarrow> (os_RemoveAll e f2 tmpDir, Inl (''create snapshot: '' @ err))
                   | (f2, None) \<Rightarrow> (f2, Inr snapshotPath))))"

text \<open>The bytes an open file yields; reading a directory fails.\<close>

definition node_bytes :: "string \<Rightarrow> node option \<Rightarrow> string result" where
  "node_bytes p n =
     (case n of
        Some (FileNode s) \<Rightarrow> Inr s
      | Some DirNode \<Rightarrow> Inl (''read '' @ p @ '': is a directory'')
      | None \<Rightarrow> Inr [])"

text \<open>\<open>io.Copy\<close> from the file \<open>src\<close> to \<open>dst\<close>: what \<open>dst\<close> holds after a failure, and its error.\<close>

definition io_Copy :: "os_env \<Rightarrow> fs \<Rightarrow> string \<Rightarrow> string \<Rightarrow> string result \<Rightarrow> (string \<times> string) + string" where
  "io_Copy e f src dst bytes =
     (case bytes of
        Inl err \<Rightarrow> Inl ([], err)
      | Inr s \<Rightarrow> (case os_copy_err e f src dst of Some pe \<Rightarrow> Inl pe | None \<Rightarrow> Inr s))"

text \<open>\<open>gzip.NewWriterLevel\<close> refuses a level outside -2 to 9; \<open>BestSpeed\<close> is 1.\<close>

definition gzip_level_err :: "int \<Rightarrow> string option" where
  "gzip_level_err l =
     (if l < -2 \<or> 9 < l then Some (''gzip: invalid compression level: '' @ itoa l) else None)"

definition compressFile :: "os_env \<Rightarrow> fs \<Rightarrow> string \<Rightarrow> string \<Rightarrow> fs \<times> int result" where
  "compressFile e f src dest =
     (case os_Open e f src of
        Inl err \<Rightarrow> (f, Inl (''open source: '' @ err))
      | Inr _ \<Rightarrow>
     (case os_Create e f dest of
        Inl err \<Rightarrow> (f, Inl (''create output: '' @ err))
      | Inr f1 \<Rightarrow>
     (case gzip_level_err 1 of
        Some err \<Rightarrow> (os_Remove e f1 dest, Inl (''init gzip: '' @ err))
      | None \<Rightarrow>
     (case io_Copy e f1 src dest (node_bytes src (f1 src)) of
        Inl (part, err) \<Rightarrow> (os_Remove e (f1(dest \<mapsto> FileNode part)) dest, Inl (''compress: '' @ err))
      | Inr written \<Rightarrow>
     (case os_flush_err e f1 dest of
        Some (part, err) \<Rightarrow>
          (os_Remove e (f1(dest \<mapsto> FileNode part)) dest, Inl (''finalize gzip: '' @ err))
      | None \<Rightarrow>
     (let f2 = f1(dest \<mapsto> FileNode (gz_compress e written))
      in case os_close_err e f2 dest of
           Some (part, err) \<Rightarrow>
             (os_Remove e (f2(dest \<mapsto> FileNode part)) dest, Inl (''close output: '' @ err))
         | None \<Rightarrow> (f2, Inr (int (length written)))))))))"

text \<open>
  \<open>gzip.NewReader\<close> reads the header; the stream follows in the copy. A stream that breaks
  off leaves what was decompressed, in a directory that is removed with it.
\<close>

definition decompressAndVerify :: "os_env \<Rightarrow> fs \<Rightarrow> string \<Rightarrow> fs \<times> string result" where
  "decompressAndVerify e f backupFile =
     (case os_MkdirTemp e f ''deviceos-verify-*'' of
        (f1, Inl err) \<Rightarrow> (f1, Inl (''create temp dir: '' @ err))
      | (f1, Inr tmpDir) \<Rightarrow>
          (let restoredPath = filepath_Join tmpDir ''restored.db''
           in case os_Open e f1 backupFile of
                Inl err \<Rightarrow> (os_RemoveAll e f1 tmpDir, Inl (''open backup: '' @ err))
              | Inr n \<Rightarrow>
          (case bind_result (node_bytes backupFile (Some n))
                  (\<lambda>s. case gz_header_err e s of Some err \<Rightarrow> Inl err | None \<Rightarrow> Inr s) of
             Inl err \<Rightarrow> (os_RemoveAll e f1 tmpDir, Inl (''invalid gzip: '' @ err))
           | Inr packed \<Rightarrow>
          (case os_Create e f1 restoredPath of
             Inl err \<Rightarrow> (os_RemoveAll e f1 tmpDir, Inl (''create temp file: '' @ err))
           | Inr f2 \<Rightarrow>
          (case io_Copy e f2 backupFile restoredPath
                  (case gz_read_all e packed of (s, None) \<Rightarrow> Inr s | (s, Some err) \<Rightarrow> Inl err) of
             Inl (part, err) \<Rightarrow>
               (os_RemoveAll e (f2(restoredPath \<mapsto> FileNode part)) tmpDir, Inl (''decompress: '' @ err))
           | Inr plain \<Rightarrow>
          (let f3 = f2(restoredPath \<mapsto> FileNode plain)
           in case sq_open_err e restoredPath of
                Some err \<Rightarrow> (os_RemoveAll e f3 tmpDir, Inl (''open restored: '' @ err))
              | None \<Rightarrow>
          (case sq_query_text e f3 restoredPath ''PRAGMA integrity_check'' of
             Inl err \<Rightarrow> (os_RemoveAll e f3 tmpDir, Inl (''integrity check failed: ''))
           | Inr integrity \<Rightarrow>
               if integrity \<noteq> ''ok''
               then (os_RemoveAll e f3 tmpDir, Inl (''integrity check failed: '' @ integrity))
               else (f3, Inr restoredPath))))))))"

section \<open>The commands\<close>

text \<open>How a command ends: it returns, exits with a status, or panics.\<close>

datatype outcome = Returned | Exited int | Panicked

record terminal =
  t_fs :: fs
  t_stdin :: string
  t_stdout :: "string list"
  t_stderr :: "string list"

definition t_print :: "string \<Rightarrow> terminal \<Rightarrow> terminal" where
  "t_print s t = t\<lparr>t_stdout := t_stdout t @ [s]\<rparr>"

definition t_error :: "string \<Rightarrow> terminal \<Rightarrow> terminal" where
  "t_error s t = t\<lparr>t_stderr := t_stderr t @ [s]\<rparr>"

definition t_set_fs :: "fs \<Rightarrow> terminal \<Rightarrow> terminal" where
  "t_set_fs f t = t\<lparr>t_fs := f\<rparr>"

definition os_ReadFile :: "os_env \<Rightarrow> fs \<Rightarrow> string \<Rightarrow> read_file" where
  "os_ReadFile e f p =
     (case os_open_err e f p of
        Some err \<Rightarrow> ReadError err
      | None \<Rightarrow>
          (case f p of
             None \<Rightarrow> FileMissing
           | Some (FileNode s) \<Rightarrow> FileBytes s
           | Some DirNode \<Rightarrow> ReadError (''read '' @ p @ '': is a directory'')))"

text \<open>The arguments every command shares: the environment variables and the YAML library.\<close>

record cmd_env =
  ce_os :: os_env
  ce_vars :: environment
  ce_yaml :: "string \<Rightarrow> Config \<Rightarrow> Config result"
  ce_stamp :: string

definition load_config :: "cmd_env \<Rightarrow> terminal \<Rightarrow> string \<Rightarrow> Config result" where
  "load_config c t p = config_Load (ce_vars c) (ce_yaml c) (os_ReadFile (ce_os c) (t_fs t) p)"

definition cmdBackup :: "cmd_env \<Rightarrow> string \<Rightarrow> terminal \<Rightarrow> outcome \<times> terminal" where
  "cmdBackup c output0 t =
     (let e = ce_os c
      in case load_config c t ''deviceos.yaml'' of
           Inl err \<Rightarrow> (Exited 1, t_error (''error: failed to load config: '' @ err) t)
         | Inr cfg \<Rightarrow>
     (let src = Sto_Path (Cfg_Storage cfg)
      in if src = [] then (Exited 1, t_error ''error: storage.path not configured'' t)
         else if os_Stat e (t_fs t) src = StatMissing
         then (Exited 1, t_error (''error: database not found at '' @ src) t)
         else
     (let output = (if output0 = [] then ''backup-'' @ ce_stamp c @ ''.db.gz'' else output0)
      in case createSnapshot e (t_fs t) src of
           (f1, Inl err) \<Rightarrow> (Exited 1, t_error (''error: '' @ err) (t_set_fs f1 t))
         | (f1, Inr snapshotPath) \<Rightarrow>
     (case compressFile e f1 snapshotPath output of
        (f2, Inl err) \<Rightarrow> (Exited 1, t_error (''error: '' @ err) (t_set_fs f2 t))
      | (f2, Inr written) \<Rightarrow>
     (let t2 = t_set_fs (os_Remove e f2 snapshotPath) t
      in case os_Stat e f2 output of
           StatOk n \<Rightarrow>
             (case (fmtSize (node_size e n), fmtSize written) of
                (Some z, Some zw) \<Rightarrow>
                  (Returned,
                   t_print (''Database size:  '' @ zw @ '' ('' @ itoa written @ '' bytes)'')
                    (t_print (''Backup created: '' @ output @ '' ('' @ z @ '', ''
                              @ itoa (node_size e n) @ '' bytes)'') t2))
              | _ \<Rightarrow> (Panicked, t2))
         | _ \<Rightarrow> (Panicked, t2))))))"

text \<open>\<open>fmt.Scanln\<close> into one string: the first word of the line, if it has one.\<close>

definition scan_word :: "string \<Rightarrow> string" where
  "scan_word s =
     takeWhile (\<lambda>c. \<not> is_space c)
       (dropWhile (\<lambda>c. is_space c \<and> c \<noteq> CHR 0x0A) s)"

text \<open>
  The last steps of \<open>cmdRestore\<close>: the database that is there is set aside, the verified file
  is moved to its place. The deferred removal of \<open>restoredPath\<close> runs on a return, not on an
  exit.
\<close>

definition replace_database :: "os_env \<Rightarrow> string \<Rightarrow> string \<Rightarrow> terminal \<Rightarrow> outcome \<times> terminal" where
  "replace_database e restoredPath dest t =
     (let backupPath = dest @ ''.bak'';
          kept = (case os_Stat e (t_fs t) dest of
                    StatOk _ \<Rightarrow>
                      (case os_Rename e (t_fs t) dest backupPath of
                         Inl err \<Rightarrow> Inl err
                       | Inr f \<Rightarrow> Inr (t_print (''Current database backed up to: '' @ backupPath) (t_set_fs f t)))
                  | _ \<Rightarrow> Inr t)
      in case kept of
           Inl err \<Rightarrow> (Exited 1, t_error (''error: backup current database: '' @ err) t)
         | Inr t1 \<Rightarrow>
             (case os_Rename e (t_fs t1) restoredPath dest of
                Inl err \<Rightarrow> (Exited 1, t_error (''error: restore database: '' @ err) t1)
              | Inr f \<Rightarrow>
                  (Returned, t_set_fs (os_Remove e f restoredPath) (t_print ''Restore complete.'' t1))))"

definition cmdRestore :: "cmd_env \<Rightarrow> string \<Rightarrow> terminal \<Rightarrow> outcome \<times> terminal" where
  "cmdRestore c backupFile t =
     (let e = ce_os c
      in if backupFile = [] then (Exited 1, t_error ''usage: deviceos restore <backup-file>'' t)
         else if os_Stat e (t_fs t) backupFile = StatMissing
         then (Exited 1, t_error (''error: backup file not found: '' @ backupFile) t)
         else
     (case load_config c t ''deviceos.yaml'' of
        Inl err \<Rightarrow> (Exited 1, t_error (''error: failed to load config: '' @ err) t)
      | Inr cfg \<Rightarrow>
     (case decompressAndVerify e (t_fs t) backupFile of
        (f1, Inl err) \<Rightarrow> (Exited 1, t_error (''error: '' @ err) (t_set_fs f1 t))
      | (f1, Inr restoredPath) \<Rightarrow>
     (let dest = Sto_Path (Cfg_Storage cfg);
          panics = (Panicked, t_set_fs (os_Remove e f1 restoredPath) t)
      in case os_Stat e f1 backupFile of
           StatMissing \<Rightarrow> panics
         | StatError err \<Rightarrow> panics
         | StatOk n \<Rightarrow>
     (case fmtSize (node_size e n) of
        None \<Rightarrow> panics
      | Some z \<Rightarrow>
     (let t1 = t_print ''Continue? [y/N] ''
                (t_print ''WARNING: This will overwrite the current database.''
                 (t_print []
                  (t_print (''Destination:    '' @ dest)
                   (t_print (''Restoring from: '' @ backupFile @ '' ('' @ z @ '')'') (t_set_fs f1 t)))));
          confirm = scan_word (t_stdin t1)
      in if confirm \<noteq> ''y'' \<and> confirm \<noteq> ''Y''
         then (Exited 0, t_print ''Restore cancelled.'' t1)
         else replace_database e restoredPath dest t1))))))"

section \<open>The sizes printed\<close>

lemma size_loop_unit:
  assumes "d = 1024 ^ Suc x" "n = b div d" "d \<le> b" "b < 2 ^ 63"
  shows "\<exists>y. x \<le> y \<and> size_loop n d x = (1024 ^ Suc y, y) \<and> 1024 ^ Suc y \<le> b \<and> b < 1024 ^ Suc (Suc y)"
  using assms
proof (induction n d x rule: size_loop.induct)
  case (1 n d x)
  have d: "0 < d" using 1(2) by simp
  show ?case
  proof (cases "1024 \<le> n")
    case True
    have le: "d * 1024 \<le> b"
    proof -
      have "d * 1024 \<le> d * n" using True d by simp
      also have "\<dots> \<le> b"
        unfolding 1(3) using d mult_div_mod_eq [of d b] pos_mod_sign [OF d, of b] by linarith
      finally show ?thesis .
    qed
    have w: "wrap64 (d * 1024) = d * 1024"
      using le d 1(5) by (intro wrap64_in_range) auto
    have q: "go_quot n 1024 = b div (d * 1024)"
      using True 1(3) d by (simp add: zdiv_zmult2_eq [symmetric])
    have "\<exists>y. x + 1 \<le> y \<and> size_loop (go_quot n 1024) (wrap64 (d * 1024)) (x + 1) = (1024 ^ Suc y, y)
        \<and> 1024 ^ Suc y \<le> b \<and> b < 1024 ^ Suc (Suc y)"
    proof (rule 1(1) [OF True])
      show "wrap64 (d * 1024) = 1024 ^ Suc (x + 1)" unfolding w using 1(2) by simp
      show "go_quot n 1024 = b div wrap64 (d * 1024)" unfolding w by (rule q)
      show "wrap64 (d * 1024) \<le> b" unfolding w by (rule le)
    qed (rule 1(5))
    then obtain y where "Suc x \<le> y" "size_loop (go_quot n 1024) (wrap64 (d * 1024)) (x + 1) = (1024 ^ Suc y, y)"
        "1024 ^ Suc y \<le> b" "b < 1024 ^ Suc (Suc y)"
      by auto
    with True show ?thesis
      by (subst size_loop.simps) (auto intro!: exI [of _ y])
  next
    case False
    have "d * (b div d) \<le> d * 1023"
      using False 1(3) d by (intro mult_left_mono) auto
    moreover have "b = d * (b div d) + b mod d" "b mod d < d"
      using d by (simp_all add: mult_div_mod_eq)
    ultimately have "b < d * 1024" by linarith
    with False 1(2,4) show ?thesis
      by (subst size_loop.simps) (auto intro!: exI [of _ x])
  qed
qed

lemma f64_power_1024: "y < 6 \<Longrightarrow> f64_of_int (1024 ^ Suc y) = Some (1024 ^ Suc y)"
proof -
  assume "y < 6"
  then consider "y = 5" | "y < 5" by linarith
  then show ?thesis
  proof cases
    case 1
    have "floorlog 2 (1 * 2 ^ 60) = 61"
      by (subst floorlog_power) (simp_all add: floorlog_def)
    then have "floorlog 2 (1152921504606846976 :: nat) = 61" by simp
    with 1 show ?thesis by (simp add: f64_of_int_def Let_def)
  next
    case 2
    then have "(1024 :: int) ^ Suc y \<le> 1024 ^ 5" by (intro power_increasing) auto
    then have "(1024 :: int) ^ Suc y < 2 ^ 53" by (rule order.strict_trans1) simp
    then show ?thesis using f64_of_int_small [of "1024 ^ Suc y"] by simp
  qed
qed

lemma size_loop_bytes:
  assumes "1024 \<le> b" "b < 2 ^ 63"
  obtains y where "y < 6" "size_loop (go_quot b 1024) 1024 0 = (1024 ^ Suc y, y)"
    "1024 ^ Suc y \<le> b" "b < 1024 ^ Suc (Suc y)"
proof -
  obtain y where y: "size_loop (go_quot b 1024) 1024 0 = (1024 ^ Suc y, y)"
      "1024 ^ Suc y \<le> b" "b < 1024 ^ Suc (Suc y)"
    using size_loop_unit [of 1024 0 "go_quot b 1024" b] assms by auto
  have "y < 6"
  proof (rule ccontr)
    assume "\<not> y < 6"
    then have "(1024 :: int) ^ 7 \<le> 1024 ^ Suc y" by (intro power_increasing) auto
    with y(2) assms(2) show False by simp
  qed
  with y that show thesis by blast
qed

text \<open>
  The size of every \<open>int64\<close> is printed without running off the list of units; from 1024
  bytes on the unit printed is the greatest power of 1024 that is at most the size, and the
  number is the size in that unit, to one decimal.
\<close>

theorem fmtSize_unit:
  assumes "- (2 ^ 63) \<le> b" "b < 2 ^ 63"
  shows "if b < 1024 then fmtSize b = Some (itoa b @ '' B'')
     else \<exists>x < 6. 1024 ^ Suc x \<le> b \<and> b < 1024 ^ Suc (Suc x)
        \<and> fmtSize b = Some (fixed1 (the (f64_of_int b) / 1024 ^ Suc x) @ '' '' @ [''KMGTPE'' ! x] @ ''B'')"
proof (cases "b < 1024")
  case True
  then show ?thesis by (simp add: fmtSize_def)
next
  case False
  then obtain y where "y < 6" "size_loop (go_quot b 1024) 1024 0 = (1024 ^ Suc y, y)"
      "1024 ^ Suc y \<le> b" "b < 1024 ^ Suc (Suc y)"
    using size_loop_bytes [of b] assms by auto
  with False show ?thesis
    by (auto simp: fmtSize_def f64_power_1024 simp del: power_Suc intro!: exI [of _ y])
qed

theorem fmtSize_unit_witness: "fmtSize 1536 = Some ''1.5 KB''"
proof -
  obtain x where x: "1024 ^ Suc x \<le> (1536 :: int)"
      "fmtSize 1536 = Some (fixed1 (the (f64_of_int 1536) / 1024 ^ Suc x) @ '' '' @ [''KMGTPE'' ! x] @ ''B'')"
    using fmtSize_unit [of 1536] by auto
  have "x = 0"
  proof (rule ccontr)
    assume "x \<noteq> 0"
    then have "(1024 :: int) ^ 2 \<le> 1024 ^ Suc x" by (intro power_increasing) auto
    with x(1) show False by simp
  qed
  moreover have "f64_of_int 1536 = Some 1536" using f64_of_int_small [of 1536] by simp
  moreover have "fixed1 (3 / 2) = ''1.5''" by code_simp
  ultimately show ?thesis using x(2) by simp
qed

section \<open>What a restore does\<close>

lemma under_self [simp]: "under d d"
  by (simp add: under_def)

lemma under_Join [simp]: "under d (filepath_Join d name)"
  using has_prefix_append [of "d @ ''/''" name] by (simp add: under_def filepath_Join_def)

lemma under_bak [simp]: "\<not> under d (d @ ''.bak'')" "\<not> under (d @ ''.bak'') d"
  by (auto simp: under_def has_prefix_iff dest: arg_cong [where f = length])

lemma os_RemoveAll_outside: "\<not> under d p \<Longrightarrow> os_RemoveAll e f d p = f p"
  by (simp add: os_RemoveAll_def split: option.splits)

lemma os_Remove_other: "p \<noteq> q \<Longrightarrow> os_Remove e f q p = f p"
  by (simp add: os_Remove_def split: option.splits)

lemma os_MkdirTemp_Inr:
  "os_MkdirTemp e f pat = (f', Inr d) \<longleftrightarrow> os_mkdir_temp e f pat = Inr d \<and> f' = f(d \<mapsto> DirNode)"
  "os_MkdirTemp e f pat = (f', Inl err) \<longleftrightarrow> os_mkdir_temp e f pat = Inl err \<and> f' = f"
  by (auto simp: os_MkdirTemp_def split: sum.splits)

lemma io_Copy_Inr: "io_Copy e f src dst bytes = Inr s \<Longrightarrow> bytes = Inr s"
  by (auto simp: io_Copy_def split: sum.splits option.splits)

lemma os_Open_Inr: "os_Open e f p = Inr n \<Longrightarrow> f p = Some n"
  by (auto simp: os_Open_def split: option.splits)

lemma os_Create_Inr: "os_Create e f p = Inr f' \<Longrightarrow> f' = f(p \<mapsto> FileNode [])"
  by (auto simp: os_Create_def split: option.splits if_splits)

lemmas fs_steps =
  os_MkdirTemp_Inr os_RemoveAll_outside os_Remove_other

lemma decompress_outside:
  assumes "decompressAndVerify e f b = (f', r)"
    and "os_mkdir_temp e f ''deviceos-verify-*'' = Inr d" and "\<not> under d p"
  shows "f' p = f p"
proof -
  have "d \<noteq> p" "filepath_Join d ''restored.db'' \<noteq> p" using assms(3) by auto
  then show ?thesis
    using assms
    by (auto simp: decompressAndVerify_def os_MkdirTemp_def os_RemoveAll_outside Let_def
        dest!: os_Create_Inr split: sum.splits option.splits if_splits prod.splits)
qed

lemma decompress_Inr:
  assumes "decompressAndVerify e f b = (f', Inr rp)"
  obtains d packed plain where
    "os_mkdir_temp e f ''deviceos-verify-*'' = Inr d" "rp = filepath_Join d ''restored.db''"
    "(f(d \<mapsto> DirNode)) b = Some (FileNode packed)" "gz_read_all e packed = (plain, None)"
    "f' rp = Some (FileNode plain)" "sq_query_text e f' rp ''PRAGMA integrity_check'' = Inr ''ok''"
proof -
  have "\<exists>d packed plain. os_mkdir_temp e f ''deviceos-verify-*'' = Inr d
      \<and> rp = filepath_Join d ''restored.db'' \<and> (f(d \<mapsto> DirNode)) b = Some (FileNode packed)
      \<and> gz_read_all e packed = (plain, None) \<and> f' rp = Some (FileNode plain)
      \<and> sq_query_text e f' rp ''PRAGMA integrity_check'' = Inr ''ok''"
    using assms unfolding decompressAndVerify_def Let_def bind_result_def node_bytes_def
    by (auto simp: os_MkdirTemp_def
        dest!: io_Copy_Inr os_Open_Inr os_Create_Inr
        split: sum.splits option.splits if_splits prod.splits node.splits)
  then show thesis using that by blast
qed

lemma os_Rename_Inr:
  assumes "os_Rename e f src dst = Inr g"
  shows "g dst = f src" and "f src \<noteq> None" and "\<not> under dst src \<Longrightarrow> g src = None"
    and "\<not> under dst p \<Longrightarrow> \<not> under src p \<Longrightarrow> g p = f p"
  using assms by (auto simp: os_Rename_def split: option.splits if_splits)

lemma os_Stat_Ok: "os_Stat e f p = StatOk n \<Longrightarrow> f p = Some n"
  by (auto simp: os_Stat_def split: option.splits)

lemma terminal_fs [simp]:
  "t_fs (t_print s t) = t_fs t" "t_fs (t_error s t) = t_fs t" "t_fs (t_set_fs f t) = f"
  "t_stdin (t_print s t) = t_stdin t" "t_stdin (t_set_fs f t) = t_stdin t"
  by (simp_all add: t_print_def t_error_def t_set_fs_def)

text \<open>The three ways in which a restore of the database bytes \<open>s\<close> can leave the files.\<close>

definition database_left ::
    "os_env \<Rightarrow> string \<Rightarrow> fs \<Rightarrow> fs \<Rightarrow> outcome \<Rightarrow> string \<Rightarrow> bool" where
  "database_left e dest f f' r s \<longleftrightarrow>
     (if r = Returned
      then f' dest = Some (FileNode s) \<and> (\<forall>n. os_Stat e f dest = StatOk n \<longrightarrow> f' (dest @ ''.bak'') = Some n)
      else f' dest = f dest \<or> (r = Exited 1 \<and> f' dest = None \<and> f' (dest @ ''.bak'') = f dest))"

lemma replace_database_left:
  assumes run: "replace_database e rp dest t = (r, t')" and rp: "t_fs t rp = Some (FileNode s)"
    and apart: "\<And>p. p \<in> {dest, dest @ ''.bak''} \<Longrightarrow> \<not> under p rp \<and> \<not> under rp p"
  shows "database_left e dest (t_fs t) (t_fs t') r s"
proof -
  let ?bak = "dest @ ''.bak''"
  have ap: "\<not> under dest rp" "\<not> under rp dest" "\<not> under ?bak rp" "\<not> under rp ?bak" "rp \<noteq> dest" "rp \<noteq> ?bak"
    using apart [of dest] apart [of ?bak] under_self by auto
  have rename: "database_left e dest f0 (t_fs u') r s"
    if "(case os_Rename e (t_fs u) rp dest of
           Inl err \<Rightarrow> (Exited 1, t_error (''error: restore database: '' @ err) u)
         | Inr f \<Rightarrow> (Returned, t_set_fs (os_Remove e f rp) (t_print ''Restore complete.'' u))) = (r, u')"
      and u: "t_fs u rp = Some (FileNode s)"
        "(\<forall>n. os_Stat e f0 dest = StatOk n \<longrightarrow> t_fs u ?bak = Some n)"
        "t_fs u dest = f0 dest \<or> (t_fs u dest = None \<and> t_fs u ?bak = f0 dest)"
    for u u' f0
  proof (cases "os_Rename e (t_fs u) rp dest")
    case (Inl err)
    with that show ?thesis by (auto simp: database_left_def)
  next
    case (Inr g)
    have "g dest = Some (FileNode s)" "g ?bak = t_fs u ?bak"
      using os_Rename_Inr(1,4) [OF Inr] u(1) ap by simp_all
    with that(1) Inr u(2) ap show ?thesis
      by (auto simp: database_left_def os_Remove_other)
  qed
  show ?thesis
  proof (cases "os_Stat e (t_fs t) dest")
    case (StatOk n)
    note ok = this os_Stat_Ok [OF this]
    show ?thesis
    proof (cases "os_Rename e (t_fs t) dest ?bak")
      case (Inl err)
      with run ok show ?thesis
        by (auto simp: replace_database_def Let_def database_left_def)
    next
      case (Inr g)
      have "g ?bak = Some n" "g dest = None" "g rp = Some (FileNode s)"
        using os_Rename_Inr(1,3,4) [OF Inr] ok rp ap by simp_all
      with run ok Inr show ?thesis
        by (intro rename [of "t_print (''Current database backed up to: '' @ ?bak) (t_set_fs g t)"])
           (auto simp: replace_database_def Let_def simp del: append.simps append_Cons)
    qed
  next
    case StatMissing
    with run rp show ?thesis
      by (intro rename [of t]) (auto simp: replace_database_def Let_def)
  next
    case (StatError err)
    with run rp show ?thesis
      by (intro rename [of t]) (auto simp: replace_database_def Let_def)
  qed
qed

text \<open>
  \<open>temp_apart e ps\<close>: the temporary directories of the system are none of the paths \<open>ps\<close>, not
  below and not above them.
\<close>

definition temp_apart :: "os_env \<Rightarrow> string set \<Rightarrow> bool" where
  "temp_apart e ps \<longleftrightarrow>
     (\<forall>f pat d p q. os_mkdir_temp e f pat = Inr d \<longrightarrow> p \<in> ps \<longrightarrow> under d q \<longrightarrow> \<not> under p q \<and> \<not> under q p)"

lemma temp_apartD:
  assumes "temp_apart e ps" "os_mkdir_temp e f pat = Inr d" "p \<in> ps" "under d q"
  shows "\<not> under p q" "\<not> under q p" "p \<noteq> q"
  using assms under_self by (auto simp: temp_apart_def)

lemma cmdRestore_outcome:
  assumes "cmdRestore c backup t = (r, t')"
    and "load_config c t ''deviceos.yaml'' = Inr cfg" and "dest = Sto_Path (Cfg_Storage cfg)"
    and "temp_apart (ce_os c) {dest, dest @ ''.bak'', backup}"
  shows "(r = Returned \<and> scan_word (t_stdin t) \<in> {''y'', ''Y''}
      \<and> (\<exists>packed plain. t_fs t backup = Some (FileNode packed)
           \<and> gz_read_all (ce_os c) packed = (plain, None)
           \<and> (\<exists>f p. f p = Some (FileNode plain)
                 \<and> sq_query_text (ce_os c) f p ''PRAGMA integrity_check'' = Inr ''ok'')
           \<and> t_fs t' dest = Some (FileNode plain)
           \<and> ((\<forall>f. os_stat_err (ce_os c) f dest = None) \<longrightarrow> t_fs t dest \<noteq> None \<longrightarrow>
                t_fs t' (dest @ ''.bak'') = t_fs t dest)))
    \<or> (r \<noteq> Returned
      \<and> (t_fs t' dest = t_fs t dest
         \<or> (r = Exited 1 \<and> t_fs t' dest = None \<and> t_fs t' (dest @ ''.bak'') = t_fs t dest)))"
proof -
  let ?e = "ce_os c"
  note C = assms(1) [unfolded cmdRestore_def Let_def assms(2) sum.case assms(3) [symmetric]]
  obtain f1 dv where dv: "decompressAndVerify ?e (t_fs t) backup = (f1, dv)"
    by (cases "decompressAndVerify ?e (t_fs t) backup") auto
  have kept: "f1 p = t_fs t p" if "p \<in> {dest, dest @ ''.bak'', backup}" for p
  proof (cases "os_mkdir_temp ?e (t_fs t) ''deviceos-verify-*''")
    case (Inl err)
    then show ?thesis
      using dv by (auto simp: decompressAndVerify_def os_MkdirTemp_def)
  next
    case (Inr d)
    then show ?thesis
      using decompress_outside [OF dv] temp_apartD(1,2) [OF assms(4) Inr that under_self] by blast
  qed
  show ?thesis
  proof (cases dv)
    case (Inl err)
    then show ?thesis
      using C dv kept [of dest] by (auto split: if_splits)
  next
    case (Inr rp)
    obtain d packed plain where D:
        "os_mkdir_temp ?e (t_fs t) ''deviceos-verify-*'' = Inr d" "rp = filepath_Join d ''restored.db''"
        "((t_fs t)(d \<mapsto> DirNode)) backup = Some (FileNode packed)" "gz_read_all ?e packed = (plain, None)"
        "f1 rp = Some (FileNode plain)" "sq_query_text ?e f1 rp ''PRAGMA integrity_check'' = Inr ''ok''"
      using decompress_Inr dv Inr by blast
    have apart: "\<not> under p rp \<and> \<not> under rp p" if "p \<in> {dest, dest @ ''.bak'', backup}" for p
      using temp_apartD(1,2) [OF assms(4) D(1) that, of rp] D(2) by simp
    have panic: "os_Remove ?e f1 rp dest = t_fs t dest"
      using apart [of dest] kept [of dest] by (subst os_Remove_other) auto
    have b: "t_fs t backup = Some (FileNode packed)"
      using D(3) temp_apartD(3) [OF assms(4) D(1), of backup d] by simp
    show ?thesis
    proof (cases "\<exists>t1. replace_database ?e rp dest t1 = (r, t') \<and> t_fs t1 = f1
          \<and> scan_word (t_stdin t) \<in> {''y'', ''Y''}")
      case False
      show ?thesis
        using C [unfolded dv Inr prod.case sum.case] False panic kept [of dest]
        by (auto simp del: append.simps append_Cons split: if_splits option.splits stat_result.splits)
    next
      case True
      then obtain t1 where t1: "replace_database ?e rp dest t1 = (r, t')" "t_fs t1 = f1"
          "scan_word (t_stdin t) \<in> {''y'', ''Y''}"
        by blast
      have left: "database_left ?e dest f1 (t_fs t') r plain"
        using apart D(5) by (intro replace_database_left [OF t1(1), unfolded t1(2)]) auto
      have stat: "\<exists>n. os_Stat ?e f1 dest = StatOk n \<and> t_fs t dest = Some n"
        if "\<forall>f. os_stat_err ?e f dest = None" "t_fs t dest \<noteq> None"
        using that kept [of dest] by (auto simp: os_Stat_def split: option.splits)
      show ?thesis
      proof (cases "r = Returned")
        case True
        with left have "t_fs t' dest = Some (FileNode plain)"
            "\<forall>n. os_Stat ?e f1 dest = StatOk n \<longrightarrow> t_fs t' (dest @ ''.bak'') = Some n"
          by (simp_all add: database_left_def)
        with True t1(3) b D(4,5,6) stat show ?thesis by auto
      next
        case False
        with left kept [of dest] show ?thesis by (simp add: database_left_def)
      qed
    qed
  qed
qed


lemma compressFile_Inr:
  assumes "compressFile e f src dest = (f', Inr n)" and "src \<noteq> dest"
  obtains s where "f src = Some (FileNode s)" "f' dest = Some (FileNode (gz_compress e s))"
    "n = int (length s)"
proof -
  have "\<exists>s. f src = Some (FileNode s) \<and> f' dest = Some (FileNode (gz_compress e s)) \<and> n = int (length s)"
    using assms
    by (auto simp: compressFile_def Let_def node_bytes_def
        dest!: io_Copy_Inr os_Open_Inr os_Create_Inr
        split: sum.splits option.splits prod.splits node.splits)
  then show thesis using that by blast
qed

lemma createSnapshot_Inr:
  assumes "createSnapshot e f src = (f', Inr sp)"
  obtains d where "os_mkdir_temp e f ''deviceos-snapshot-*'' = Inr d" "sp = filepath_Join d ''snapshot.db''"
    "sq_exec e (f(d \<mapsto> DirNode)) src (vacuum_into sp) = (f', None)"
proof -
  have "\<exists>d. os_mkdir_temp e f ''deviceos-snapshot-*'' = Inr d \<and> sp = filepath_Join d ''snapshot.db''
      \<and> sq_exec e (f(d \<mapsto> DirNode)) src (vacuum_into sp) = (f', None)"
    using assms
    by (auto simp: createSnapshot_def Let_def os_MkdirTemp_def split: sum.splits option.splits prod.splits)
  then show thesis using that by blast
qed

lemma cmdBackup_Returned:
  assumes "cmdBackup c out t = (Returned, t1)" and "load_config c t ''deviceos.yaml'' = Inr cfg"
    and "out \<noteq> []" and "temp_apart (ce_os c) {out}"
  obtains f f2 sp snap where
    "sq_exec (ce_os c) f (Sto_Path (Cfg_Storage cfg)) (vacuum_into sp) = (f2, None)"
    "f2 sp = Some (FileNode snap)" "t_fs t1 out = Some (FileNode (gz_compress (ce_os c) snap))"
proof -
  let ?e = "ce_os c"
  let ?src = "Sto_Path (Cfg_Storage cfg)"
  note B = assms(1) [unfolded cmdBackup_def Let_def assms(2) sum.case]
  obtain f1 r1 where s1: "createSnapshot ?e (t_fs t) ?src = (f1, r1)" by fastforce
  have src: "?src \<noteq> []" using B by auto
  note B0 = B [unfolded if_not_P [OF src]]
  have found: "os_Stat ?e (t_fs t) ?src \<noteq> StatMissing" using B0 by auto
  note B1 = B0 [unfolded if_not_P [OF found] if_not_P [OF assms(3)] s1 prod.case]
  obtain sp where r1: "r1 = Inr sp"
    using B1 by (cases r1) simp_all
  obtain f2 r2 where s2: "compressFile ?e f1 sp out = (f2, r2)" by fastforce
  note B2 = B1 [unfolded r1 sum.case s2 prod.case]
  obtain n where r2: "r2 = Inr n"
    using B2 by (cases r2) simp_all
  have s3: "t_fs t1 = os_Remove ?e f2 sp"
    using B2 [unfolded r2 sum.case]
    by (cases "os_Stat ?e f2 out") (auto simp del: append.simps append_Cons split: option.splits)
  note s = s1 [unfolded r1] s2 [unfolded r2] s3
  obtain d where d: "os_mkdir_temp ?e (t_fs t) ''deviceos-snapshot-*'' = Inr d" "sp = filepath_Join d ''snapshot.db''"
      "sq_exec ?e ((t_fs t)(d \<mapsto> DirNode)) (Sto_Path (Cfg_Storage cfg)) (vacuum_into sp) = (f1, None)"
    using createSnapshot_Inr [OF s(1)] by blast
  have ne: "out \<noteq> sp" using temp_apartD(3) [OF assms(4) d(1), of out sp] d(2) by simp
  obtain snap where "f1 sp = Some (FileNode snap)" "f2 out = Some (FileNode (gz_compress ?e snap))"
    using compressFile_Inr [OF s(2)] ne by metis
  with that [OF d(3)] s(3) ne show thesis by (simp add: os_Remove_other)
qed

text \<open>
  C23: what a successful backup wrote, a successful restore puts back: the database file then holds
  the snapshot the database itself wrote (\<open>VACUUM INTO\<close>), byte for byte, whatever happened in
  between to anything but the backup file and the configuration.
\<close>

theorem backup_roundtrip:
  assumes "cmdBackup c out t = (Returned, t1)" and "out \<noteq> []"
    and "load_config c t ''deviceos.yaml'' = Inr cfg"
    and "t_fs t2 out = t_fs t1 out" and "load_config c t2 ''deviceos.yaml'' = Inr cfg"
    and "cmdRestore c out t2 = (Returned, t3)"
    and "\<And>s. gz_read_all (ce_os c) (gz_compress (ce_os c) s) = (s, None)"
    and "temp_apart (ce_os c) {Sto_Path (Cfg_Storage cfg), Sto_Path (Cfg_Storage cfg) @ ''.bak'', out}"
  shows "\<exists>f f2 sp snap. sq_exec (ce_os c) f (Sto_Path (Cfg_Storage cfg)) (vacuum_into sp) = (f2, None)
     \<and> f2 sp = Some (FileNode snap)
     \<and> t_fs t3 (Sto_Path (Cfg_Storage cfg)) = Some (FileNode snap)"
proof -
  have ta: "temp_apart (ce_os c) {out}"
    using assms(8) by (simp add: temp_apart_def)
  obtain f f2 sp snap where s:
      "sq_exec (ce_os c) f (Sto_Path (Cfg_Storage cfg)) (vacuum_into sp) = (f2, None)"
      "f2 sp = Some (FileNode snap)" "t_fs t1 out = Some (FileNode (gz_compress (ce_os c) snap))"
    by (rule cmdBackup_Returned [OF assms(1,3,2) ta])
  have "\<exists>packed plain. t_fs t2 out = Some (FileNode packed) \<and> gz_read_all (ce_os c) packed = (plain, None)
      \<and> t_fs t3 (Sto_Path (Cfg_Storage cfg)) = Some (FileNode plain)"
    using cmdRestore_outcome [OF assms(6,5) refl assms(8)]
    by (elim disjE conjE exE) ((intro exI conjI, assumption+), simp_all)
  then obtain packed plain where r: "t_fs t2 out = Some (FileNode packed)"
      "gz_read_all (ce_os c) packed = (plain, None)"
      "t_fs t3 (Sto_Path (Cfg_Storage cfg)) = Some (FileNode plain)"
    by blast
  have "packed = gz_compress (ce_os c) snap"
    using r(1) assms(4) s(3) by simp
  then have "plain = snap"
    using r(2) assms(7) [of snap] by simp
  with r(3) have "t_fs t3 (Sto_Path (Cfg_Storage cfg)) = Some (FileNode snap)" by simp
  with s show ?thesis by blast
qed

section \<open>A system on which both commands run\<close>

definition plain_os :: os_env where
  "plain_os =
     \<lparr>os_stat_err = \<lambda>f p. None, os_mkdir_temp = \<lambda>f pat. Inr ''/tmp/t'', os_open_err = \<lambda>f p. None,
      os_create_err = \<lambda>f p. None, os_remove_err = \<lambda>f p. None, os_rename_err = \<lambda>f p q. None,
      os_copy_err = \<lambda>f p q. None, os_flush_err = \<lambda>f p. None, os_close_err = \<lambda>f p. None,
      os_dir_size = 0, gz_compress = \<lambda>s. s, gz_header_err = \<lambda>s. None, gz_read_all = \<lambda>s. (s, None),
      sq_open_err = \<lambda>p. None, sq_exec = \<lambda>f src stmt. (f(butlast (drop 13 stmt) := f src), None),
      sq_query_text = \<lambda>f p q. Inr ''ok''\<rparr>"

definition plain_cmd :: cmd_env where
  "plain_cmd =
     \<lparr>ce_os = plain_os, ce_vars = Map.empty, ce_yaml = \<lambda>b cfg. Inr cfg, ce_stamp = ''now''\<rparr>"

definition plain_terminal :: "string \<Rightarrow> terminal" where
  "plain_terminal answer =
     \<lparr>t_fs = [''./data/deviceos.db'' \<mapsto> FileNode ''rows''], t_stdin = answer, t_stdout = [], t_stderr = []\<rparr>"

lemma plain_temp_apart:
  "temp_apart (ce_os plain_cmd) {''./data/deviceos.db'', ''./data/deviceos.db.bak'', ''b.gz''}"
  by (auto simp: temp_apart_def plain_cmd_def plain_os_def under_def has_prefix_iff)

lemma plain_config:
  "load_config plain_cmd t ''deviceos.yaml'' = Inr config_Default"
  if "t_fs t ''deviceos.yaml'' = None"
proof -
  have "config_Load Map.empty y FileMissing = Inr config_Default" for y by code_simp
  with that show ?thesis
    by (simp add: load_config_def os_ReadFile_def plain_cmd_def plain_os_def)
qed

lemma plain_path [simp]: "Sto_Path (Cfg_Storage config_Default) = ''./data/deviceos.db''"
  by (simp add: config_Default_def)

definition plain_backup :: terminal where
  "plain_backup = snd (cmdBackup plain_cmd ''b.gz'' (plain_terminal ''y''))"

lemma plain_runs:
  "fst (cmdBackup plain_cmd ''b.gz'' (plain_terminal ''y'')) = Returned"
  "t_fs plain_backup ''deviceos.yaml'' = None"
  "fst (cmdRestore plain_cmd ''b.gz'' plain_backup) = Returned"
  by code_simp+


theorem backup_roundtrip_witness:
  "\<exists>snap. t_fs (snd (cmdRestore plain_cmd ''b.gz'' plain_backup)) ''./data/deviceos.db'' = Some (FileNode snap)"
proof -
  have b: "cmdBackup plain_cmd ''b.gz'' (plain_terminal ''y'') = (Returned, plain_backup)"
    using plain_runs(1) by (simp add: prod_eq_iff plain_backup_def)
  have r: "cmdRestore plain_cmd ''b.gz'' plain_backup
      = (Returned, snd (cmdRestore plain_cmd ''b.gz'' plain_backup))"
    using plain_runs(3) by (simp add: prod_eq_iff)
  have c: "load_config plain_cmd (plain_terminal ''y'') ''deviceos.yaml'' = Inr config_Default"
    by (rule plain_config) (simp add: plain_terminal_def)
  have g: "gz_read_all (ce_os plain_cmd) (gz_compress (ce_os plain_cmd) s) = (s, None)" for s
    by (simp add: plain_cmd_def plain_os_def)
  have a: "temp_apart (ce_os plain_cmd) {Sto_Path (Cfg_Storage config_Default),
      Sto_Path (Cfg_Storage config_Default) @ ''.bak'', ''b.gz''}"
    using plain_temp_apart by simp
  have ne: "''b.gz'' \<noteq> []" by simp
  show ?thesis
    using backup_roundtrip [OF b ne c refl plain_config [OF plain_runs(2)] r g a]
    by (elim exE conjE, unfold plain_path) (rule exI)
qed

end
