(* ===== verification/Crypto.thy ===== *)
theory Crypto
  imports Prelude
begin

text \<open>
  \<open>internal/crypto\<close>: AES-256-GCM on hexadecimal texts. The cipher of the standard library is
  the pair of functions \<open>seal\<close> and \<open>unseal\<close> of key, nonce and text; that opening undoes sealing
  is what GCM promises.
\<close>

section \<open>The cipher\<close>

datatype crypto_error = DecodeKey | KeyLength | CipherError string | DecodeText | TextTooShort | OpenError string

record gcm =
  gcm_seal :: "string \<Rightarrow> string \<Rightarrow> string \<Rightarrow> string"
  gcm_open :: "string \<Rightarrow> string \<Rightarrow> string \<Rightarrow> string result"

text \<open>\<open>aes.NewCipher\<close> takes keys of 16, 24 and 32 bytes; a GCM nonce has 12 bytes.\<close>

definition aes_NewCipher :: "string \<Rightarrow> string result" where
  "aes_NewCipher key =
     (if length key = 16 \<or> length key = 24 \<or> length key = 32 then Inr key
      else Inl (''crypto/aes: invalid key size '' @ itoa (int (length key))))"

definition NonceSize :: nat where
  "NonceSize = 12"

text \<open>The error of filling the nonce is ignored: \<open>nonce\<close> is whatever it then holds.\<close>

definition Encrypt :: "gcm \<Rightarrow> string \<Rightarrow> string \<Rightarrow> string \<Rightarrow> crypto_error + string" where
  "Encrypt g nonce plaintext hexKey =
     (case hex_decode hexKey of
        None \<Rightarrow> Inl DecodeKey
      | Some key \<Rightarrow>
          if length key \<noteq> 32 then Inl KeyLength
          else (case aes_NewCipher key of
                  Inl err \<Rightarrow> Inl (CipherError err)
                | Inr block \<Rightarrow>
                    Inr (hex_encode (nonce @ gcm_seal g block nonce plaintext))))"

definition Decrypt :: "gcm \<Rightarrow> string \<Rightarrow> string \<Rightarrow> crypto_error + string" where
  "Decrypt g cipherHex hexKey =
     (case hex_decode hexKey of
        None \<Rightarrow> Inl DecodeKey
      | Some key \<Rightarrow>
          if length key \<noteq> 32 then Inl KeyLength
          else (case hex_decode cipherHex of
                  None \<Rightarrow> Inl DecodeText
                | Some ciphertext \<Rightarrow>
          (case aes_NewCipher key of
             Inl err \<Rightarrow> Inl (CipherError err)
           | Inr block \<Rightarrow>
               if length ciphertext < NonceSize then Inl TextTooShort
               else (case gcm_open g block (take NonceSize ciphertext) (drop NonceSize ciphertext) of
                       Inl err \<Rightarrow> Inl (OpenError err)
                     | Inr plain \<Rightarrow> Inr plain))))"

section \<open>Round trip\<close>

text \<open>
  For a key of 64 hexadecimal digits encryption succeeds and decryption with the same key
  gives the text back; any other key is refused by both, before the cipher is used.
\<close>

theorem crypto_roundtrip:
  assumes "length nonce = NonceSize"
    and "\<And>key n p. gcm_open g key n (gcm_seal g key n p) = Inr p"
  shows "if \<exists>key. hex_decode hexKey = Some key \<and> length key = 32
     then \<exists>c. Encrypt g nonce p hexKey = Inr c \<and> Decrypt g c hexKey = Inr p
     else Encrypt g nonce p hexKey \<in> {Inl DecodeKey, Inl KeyLength}
        \<and> (\<forall>c. Decrypt g c hexKey = Encrypt g nonce p hexKey)"
  using assms by (auto simp: Encrypt_def Decrypt_def aes_NewCipher_def split: option.splits)

theorem crypto_roundtrip_witness:
  "\<exists>c. Encrypt \<lparr>gcm_seal = \<lambda>k n p. p, gcm_open = \<lambda>k n p. Inr p\<rparr> ''twelve bytes'' ''text''
       (hex_encode (replicate 32 CHR ''k'')) = Inr c
     \<and> Decrypt \<lparr>gcm_seal = \<lambda>k n p. p, gcm_open = \<lambda>k n p. Inr p\<rparr> c
       (hex_encode (replicate 32 CHR ''k'')) = Inr ''text''"
proof -
  let ?g = "\<lparr>gcm_seal = \<lambda>k n p. p, gcm_open = \<lambda>k n p. Inr p\<rparr> :: gcm"
  have "length ''twelve bytes'' = NonceSize" by (simp add: NonceSize_def)
  from crypto_roundtrip [OF this, where g = ?g and p = "''text''" and hexKey = "hex_encode (replicate 32 CHR ''k'')"]
  show ?thesis unfolding hex_decode_encode by (simp del: hex_encode.simps)
qed

end
