(* ===== verification/Simulator.thy ===== *)
theory Simulator
  imports Http
begin

text \<open>
  \<open>modules/simulator\<close>: the module that registers made-up devices through the program's own
  API and posts readings for them from a goroutine. Random numbers, the clock, \<open>math.Sin\<close> and
  what the API answers are arguments. The goroutines and the handlers are the steps of a relation;
  what runs under the mutex is one step.
\<close>

section \<open>Floating point\<close>

text \<open>
  \<open>f64_round\<close> is the \<open>float64\<close> nearest to a rational, ties to even (values in the exponent range,
  which the simulator never leaves); \<open>f64_exp q\<close> is the exponent of the power of two below \<open>q\<close>.
\<close>

definition f64_exp :: "rat \<Rightarrow> int" where
  "f64_exp q =
     (if 1 \<le> q then int (floorlog 2 (nat \<lfloor>q\<rfloor>)) - 1
      else - int (floorlog 2 (nat (\<lceil>1 / q\<rceil> - 1))))"

definition f64_round :: "rat \<Rightarrow> rat" where
  "f64_round q =
     (if q = 0 then 0
      else (let x = max (f64_exp \<bar>q\<bar>) (- 1022) - 52;
                ulp = (if 0 \<le> x then 2 ^ nat x else 1 / 2 ^ nat (- x)) :: rat;
                t = \<bar>q\<bar> / ulp; n = \<lfloor>t\<rfloor>; d = t - of_int n;
                r = (if 1 / 2 < d \<or> (d = 1 / 2 \<and> odd n) then n + 1 else n)
            in sgn q * of_int r * ulp))"

definition fadd :: "rat \<Rightarrow> rat \<Rightarrow> rat" where "fadd a b = f64_round (a + b)"

definition fsub :: "rat \<Rightarrow> rat \<Rightarrow> rat" where "fsub a b = f64_round (a - b)"

definition fmul :: "rat \<Rightarrow> rat \<Rightarrow> rat" where "fmul a b = f64_round (a * b)"

definition fdiv :: "rat \<Rightarrow> rat \<Rightarrow> rat" where "fdiv a b = f64_round (a / b)"

text \<open>\<open>math.Round\<close>: half away from zero.\<close>

definition math_Round :: "rat \<Rightarrow> rat" where
  "math_Round q = sgn q * of_int \<lfloor>\<bar>q\<bar> + 1 / 2\<rfloor>"

section \<open>Data\<close>

record SimDevice =
  Sim_ID :: string
  Sim_Name :: string
  Sim_Type :: string
  Sim_TempBase :: rat
  Sim_HumidBase :: rat
  Sim_Battery :: rat
  Sim_Connected :: bool

definition simdevice_json :: "SimDevice \<Rightarrow> json" where
  "simdevice_json d =
     JObj [(''id'', JStr (Sim_ID d)), (''name'', JStr (Sim_Name d)), (''type'', JStr (Sim_Type d)),
           (''temp_base'', jfloat (Sim_TempBase d)), (''humid_base'', jfloat (Sim_HumidBase d)),
           (''battery'', jfloat (Sim_Battery d)), (''connected'', JBool (Sim_Connected d))]"

text \<open>
  A goroutine of \<open>run\<close> is about to evaluate its select statement, waits in it on a channel,
  has received a tick and waits for the mutex, or has returned.
\<close>

datatype sim_run = AtSelect | Waiting nat | InTick | Ended

text \<open>
  The module, and beside it the run time's part: the channels that were made and those that
  were closed, the goroutines, and the requests sent.
\<close>

record simulator =
  sim_running :: bool
  sim_stopCh :: "nat option"
  sim_devices :: "SimDevice list"
  sim_made :: nat
  sim_closed :: "nat set"
  sim_runs :: "sim_run list"
  sim_posts :: "(string \<times> json) list"

definition simulator_New :: simulator where
  "simulator_New =
     \<lparr>sim_running = False, sim_stopCh = None, sim_devices = [], sim_made = 0, sim_closed = {},
      sim_runs = [], sim_posts = []\<rparr>"

definition simulator_routes :: "string list" where
  "simulator_routes = [''POST /api/v1/simulator/start'', ''POST /api/v1/simulator/stop'']"

section \<open>Start and stop\<close>

text \<open>\<open>close\<close> panics on a nil channel and on a closed one: the left value.\<close>

definition close_chan :: "nat option \<Rightarrow> simulator \<Rightarrow> simulator result" where
  "close_chan ch s =
     (case ch of
        None \<Rightarrow> Inl ''close of nil channel''
      | Some c \<Rightarrow>
          if c \<in> sim_closed s then Inl ''close of closed channel''
          else Inr (s\<lparr>sim_closed := insert c (sim_closed s)\<rparr>))"

definition simulator_Stop :: "simulator \<Rightarrow> simulator result" where
  "simulator_Stop s =
     (if sim_running s
      then bind_result (close_chan (sim_stopCh s) s) (\<lambda>s'. Inr (s'\<lparr>sim_running := False\<rparr>))
      else Inr s)"

definition sim_names :: "string list" where
  "sim_names =
     [''alpha'', ''bravo'', ''charlie'', ''delta'', ''echo'', ''foxtrot'', ''golf'', ''hotel'',
      ''india'', ''juliett'', ''kilo'', ''lima'', ''mike'', ''november'', ''oscar'', ''papa'']"

definition randomName :: "nat \<Rightarrow> string" where
  "randomName n = sim_names ! (n mod length sim_names)"

text \<open>The random numbers of one device: two names and three fractions.\<close>

record sim_draw =
  dr_id :: nat
  dr_name :: nat
  dr_temp :: rat
  dr_humid :: rat
  dr_battery :: rat

definition sim_device :: "sim_draw \<Rightarrow> nat \<Rightarrow> SimDevice" where
  "sim_device r i =
     \<lparr>Sim_ID = ''sim_'' @ randomName (dr_id r) @ ''_'' @ itoa (int i),
      Sim_Name = ''sim-'' @ randomName (dr_name r) @ ''-'' @ itoa (int i),
      Sim_Type = [''temp-sensor'', ''gps-tracker'', ''multi-sensor''] ! (i mod 3),
      Sim_TempBase = fadd 20 (fmul (dr_temp r) 15),
      Sim_HumidBase = fadd 40 (fmul (dr_humid r) 30),
      Sim_Battery = fadd 80 (fmul (dr_battery r) 20),
      Sim_Connected = True\<rparr>"

definition sim_api :: "string \<Rightarrow> string" where
  "sim_api path = ''http://localhost:8080/api/v1/'' @ path"

definition register_request :: "SimDevice \<Rightarrow> json" where
  "register_request d =
     JObj [(''name'', JStr (Sim_Name d)), (''type'', JStr (Sim_Type d)),
           (''metadata'', JObj [(''simulated'', JBool True)])]"

text \<open>
  The API's answer: no answer, or a body. The body is decoded into a map; the last member of a
  name counts. A device whose answer carries no text as its identifier keeps its own.
\<close>

datatype post_reply = PostFailed | PostReply "json option"

definition json_member :: "string \<Rightarrow> json \<Rightarrow> json option" where
  "json_member k j = (case j of JObj kvs \<Rightarrow> map_of (rev kvs) k | _ \<Rightarrow> None)"

definition registered_id :: "post_reply \<Rightarrow> string option" where
  "registered_id p =
     (case p of
        PostReply (Some result) \<Rightarrow>
          (case json_member ''device'' result of
             Some d \<Rightarrow> (case json_member ''id'' d of Some (JStr i) \<Rightarrow> Some i | _ \<Rightarrow> None)
           | None \<Rightarrow> None)
      | _ \<Rightarrow> None)"

fun sim_register ::
    "(nat \<Rightarrow> sim_draw) \<Rightarrow> (nat \<Rightarrow> post_reply) \<Rightarrow> nat \<Rightarrow> nat \<Rightarrow> simulator \<Rightarrow> simulator" where
  "sim_register draw reply i 0 s = s"
| "sim_register draw reply i (Suc n) s =
     (let dev = sim_device (draw i) i;
          dev' = (case registered_id (reply i) of None \<Rightarrow> dev | Some j \<Rightarrow> dev\<lparr>Sim_ID := j\<rparr>)
      in sim_register draw reply (i + 1) n
           (s\<lparr>sim_devices := sim_devices s @ [dev'],
              sim_posts := sim_posts s @ [(sim_api ''devices'', register_request dev)]\<rparr>))"

record StartRequest =
  Count :: int

definition StartRequest_fields :: "StartRequest fields" where
  "StartRequest_fields = [(''count'', set_int Count_update)]"

definition start_count :: "json option \<Rightarrow> int" where
  "start_count body =
     (let n = (case decode_body StartRequest_fields body \<lparr>Count = 0\<rparr> of
                 None \<Rightarrow> 3 | Some req \<Rightarrow> Count req)
      in if n \<le> 0 then 3 else n)"

definition handleStart ::
    "(nat \<Rightarrow> sim_draw) \<Rightarrow> (nat \<Rightarrow> post_reply) \<Rightarrow> simulator handler" where
  "handleStart draw reply s r w =
     (let n = start_count (r_body r)
      in if sim_running s then (s, Conflict ''simulator already running'' w)
         else (let s1 = sim_register draw reply 0 (nat n) (s\<lparr>sim_devices := []\<rparr>);
                   s2 = s1\<lparr>sim_stopCh := Some (sim_made s1), sim_made := sim_made s1 + 1,
                          sim_running := True, sim_runs := sim_runs s1 @ [AtSelect]\<rparr>
               in (s2, writeJSON 200
                         (JObj [(''status'', JStr ''started''), (''count'', JInt n),
                                (''devices'', JArr (map simdevice_json (sim_devices s2)))]) w)))"

definition handleStop :: "simulator \<Rightarrow> request \<Rightarrow> writer \<Rightarrow> (simulator \<times> writer) result" where
  "handleStop s r w =
     bind_result (simulator_Stop s)
       (\<lambda>s'. Inr (s', writeJSON 200 (JObj [(''status'', JStr ''stopped'')]) w))"

section \<open>The readings\<close>

text \<open>What a device meets in a tick: the clock, in seconds since 1970, and the random fractions.\<close>

record tick_draw =
  td_unix :: int
  td_reconnect :: rat
  td_flaky :: rat
  td_temp :: rat
  td_humid :: rat
  td_battery :: rat

definition metrics_request :: "SimDevice \<Rightarrow> rat \<Rightarrow> rat \<Rightarrow> json" where
  "metrics_request d temp humid =
     (let tenths = (\<lambda>x. jfloat (fdiv (math_Round (fmul x 10)) 10))
      in JObj [(''device_id'', JStr (Sim_ID d)),
               (''metrics'', JObj [(''battery'', tenths (Sim_Battery d)), (''humidity'', tenths humid),
                                  (''temperature'', tenths temp)])])"

text \<open>One turn of the loop over the devices: the device afterwards, and the request if one is sent.\<close>

definition sim_tick_device ::
    "(rat \<Rightarrow> rat) \<Rightarrow> tick_draw \<Rightarrow> SimDevice \<Rightarrow> SimDevice \<times> json option" where
  "sim_tick_device msin r d =
     (if \<not> Sim_Connected d
      then (if td_reconnect r < f64_round (1 / 10) then d\<lparr>Sim_Connected := True\<rparr> else d, None)
      else if td_flaky r < f64_round (1 / 20) then (d\<lparr>Sim_Connected := False\<rparr>, None)
      else
        (let temp = fadd (fadd (Sim_TempBase d) (fmul (msin (fdiv (of_int (td_unix r mod 60)) 10)) 5))
                      (fmul (td_temp r) 2);
             humid = fsub (fadd (Sim_HumidBase d) (fmul (td_humid r) 5)) (5 / 2);
             b = fsub (Sim_Battery d) (fmul (td_battery r) (1 / 2));
             d' = d\<lparr>Sim_Battery := (if b < 0 then 0 else b)\<rparr>
         in (d', Some (metrics_request d' temp humid))))"

definition sim_tick ::
    "(rat \<Rightarrow> rat) \<Rightarrow> (nat \<Rightarrow> tick_draw) \<Rightarrow> simulator \<Rightarrow> simulator" where
  "sim_tick msin draw s =
     (let out = map (\<lambda>(i, d). sim_tick_device msin (draw i) d)
                  (zip [0..<length (sim_devices s)] (sim_devices s))
      in s\<lparr>sim_devices := map fst out,
           sim_posts := sim_posts s @ map (\<lambda>j. (sim_api ''telemetry'', j)) (List.map_filter snd out)\<rparr>)"

section \<open>Interleavings\<close>

text \<open>
  The steps: a handler that has the mutex, and a goroutine \<open>i\<close> that evaluates its select
  statement (which reads the channel of the module at that moment, without the mutex), sees its
  channel closed, receives a tick, or runs the body of a tick. Of the random fractions, which
  \<open>math/rand\<close> draws from \<open>[0, 1)\<close>, only that they are not negative matters.
\<close>

inductive sim_step :: "(rat \<Rightarrow> rat) \<Rightarrow> simulator \<Rightarrow> simulator \<Rightarrow> bool" for msin :: "rat \<Rightarrow> rat" where
  started: "(\<And>i. 0 \<le> dr_battery (draw i)) \<Longrightarrow> sim_step msin s (fst (handleStart draw reply s r w))"
| stopped: "simulator_Stop s = Inr s' \<Longrightarrow> sim_step msin s s'"
| select: "i < length (sim_runs s) \<Longrightarrow> sim_runs s ! i = AtSelect \<Longrightarrow> sim_stopCh s = Some c \<Longrightarrow>
    sim_step msin s (s\<lparr>sim_runs := (sim_runs s)[i := Waiting c]\<rparr>)"
| quit: "i < length (sim_runs s) \<Longrightarrow> sim_runs s ! i = Waiting c \<Longrightarrow> c \<in> sim_closed s \<Longrightarrow>
    sim_step msin s (s\<lparr>sim_runs := (sim_runs s)[i := Ended]\<rparr>)"
| tick: "i < length (sim_runs s) \<Longrightarrow> sim_runs s ! i = Waiting c \<Longrightarrow>
    sim_step msin s (s\<lparr>sim_runs := (sim_runs s)[i := InTick]\<rparr>)"
| body: "i < length (sim_runs s) \<Longrightarrow> sim_runs s ! i = InTick \<Longrightarrow>
    sim_step msin s ((sim_tick msin draw s)\<lparr>sim_runs := (sim_runs s)[i := AtSelect]\<rparr>)"

abbreviation sim_reaches :: "(rat \<Rightarrow> rat) \<Rightarrow> simulator \<Rightarrow> bool" where
  "sim_reaches msin \<equiv> (sim_step msin)\<^sup>*\<^sup>* simulator_New"

text \<open>
  The invariant: channels are numbered as they are made, all but the module's own are closed,
  that one is open exactly while the module runs, and a battery is never negative.
\<close>

definition sim_ok :: "simulator \<Rightarrow> bool" where
  "sim_ok s \<longleftrightarrow>
     (case sim_stopCh s of
        None \<Rightarrow> sim_made s = 0 \<and> \<not> sim_running s \<and> sim_closed s = {} \<and> sim_runs s = []
      | Some c \<Rightarrow> sim_made s = c + 1
          \<and> sim_closed s = {x. x < (if sim_running s then c else c + 1)})
     \<and> (\<forall>x. Waiting x \<in> set (sim_runs s) \<longrightarrow> x < sim_made s)
     \<and> (\<forall>d \<in> set (sim_devices s). 0 \<le> Sim_Battery d)"

lemma f64_round_nonneg: "0 \<le> q \<Longrightarrow> 0 \<le> f64_round q"
  by (auto simp: f64_round_def Let_def sgn_if intro!: mult_nonneg_nonneg)

lemma sim_ok_New: "sim_ok simulator_New"
  by (simp add: sim_ok_def simulator_New_def)

lemma sim_register_frame:
  "sim_running (sim_register draw reply i n s) = sim_running s"
  "sim_stopCh (sim_register draw reply i n s) = sim_stopCh s"
  "sim_made (sim_register draw reply i n s) = sim_made s"
  "sim_closed (sim_register draw reply i n s) = sim_closed s"
  "sim_runs (sim_register draw reply i n s) = sim_runs s"
  by (induction n arbitrary: i s) (simp_all add: Let_def)

definition sim_registered :: "(nat \<Rightarrow> sim_draw) \<Rightarrow> (nat \<Rightarrow> post_reply) \<Rightarrow> nat \<Rightarrow> SimDevice" where
  "sim_registered draw reply i =
     (let dev = sim_device (draw i) i
      in case registered_id (reply i) of None \<Rightarrow> dev | Some j \<Rightarrow> dev\<lparr>Sim_ID := j\<rparr>)"

lemma sim_register_exact:
  "sim_devices (sim_register draw reply i n s) = sim_devices s @ map (sim_registered draw reply) [i..<i + n]"
  "sim_posts (sim_register draw reply i n s) =
     sim_posts s @ map (\<lambda>k. (sim_api ''devices'', register_request (sim_device (draw k) k))) [i..<i + n]"
proof (induction n arbitrary: i s)
  case (Suc n)
  { case 1 show ?case using Suc(1) by (simp add: Let_def sim_registered_def upt_conv_Cons del: upt_Suc) }
  { case 2 show ?case using Suc(2) by (simp add: Let_def upt_conv_Cons del: upt_Suc) }
qed simp_all

lemma sim_tick_battery: "d \<in> set (sim_devices (sim_tick msin draw s)) \<Longrightarrow>
  (\<forall>d \<in> set (sim_devices s). 0 \<le> Sim_Battery d) \<Longrightarrow> 0 \<le> Sim_Battery d"
proof -
  have "0 \<le> Sim_Battery (fst (sim_tick_device msin r d))" if "0 \<le> Sim_Battery d" for r d
    using that by (simp add: sim_tick_device_def Let_def)
  then show "d \<in> set (sim_devices (sim_tick msin draw s)) \<Longrightarrow>
      (\<forall>d \<in> set (sim_devices s). 0 \<le> Sim_Battery d) \<Longrightarrow> 0 \<le> Sim_Battery d"
    by (auto simp: sim_tick_def Let_def in_set_zip)
qed

lemma sim_device_battery: "0 \<le> dr_battery r \<Longrightarrow> 0 \<le> Sim_Battery (sim_device r i)"
  by (simp add: sim_device_def fadd_def fmul_def f64_round_nonneg)

lemma sim_registered_battery: "0 \<le> dr_battery (draw i) \<Longrightarrow> 0 \<le> Sim_Battery (sim_registered draw reply i)"
  by (simp add: sim_registered_def Let_def sim_device_battery split: option.splits)

text \<open>Starting is refused while the module runs; else it begins with a fresh channel.\<close>

lemma handleStart_cases:
  "sim_running s \<Longrightarrow> handleStart draw reply s r w = (s, Conflict ''simulator already running'' w)"
  "\<not> sim_running s \<Longrightarrow> fst (handleStart draw reply s r w) =
     s\<lparr>sim_running := True, sim_stopCh := Some (sim_made s), sim_made := sim_made s + 1,
       sim_runs := sim_runs s @ [AtSelect],
       sim_devices := map (sim_registered draw reply) [0..<nat (start_count (r_body r))],
       sim_posts := sim_posts s
         @ map (\<lambda>k. (sim_api ''devices'', register_request (sim_device (draw k) k)))
             [0..<nat (start_count (r_body r))]\<rparr>"
proof -
  assume "\<not> sim_running s"
  then show "fst (handleStart draw reply s r w) =
     s\<lparr>sim_running := True, sim_stopCh := Some (sim_made s), sim_made := sim_made s + 1,
       sim_runs := sim_runs s @ [AtSelect],
       sim_devices := map (sim_registered draw reply) [0..<nat (start_count (r_body r))],
       sim_posts := sim_posts s
         @ map (\<lambda>k. (sim_api ''devices'', register_request (sim_device (draw k) k)))
             [0..<nat (start_count (r_body r))]\<rparr>"
    by (intro simulator.equality)
       (simp_all add: handleStart_def Let_def sim_register_frame sim_register_exact)
qed (simp add: handleStart_def Let_def)

lemma simulator_Stop_ok:
  assumes "sim_ok s"
  shows "\<exists>s'. simulator_Stop s = Inr s' \<and> \<not> sim_running s' \<and> sim_ok s'
    \<and> sim_devices s' = sim_devices s \<and> sim_runs s' = sim_runs s \<and> sim_posts s' = sim_posts s"
  using assms
  by (auto simp: simulator_Stop_def close_chan_def sim_ok_def Let_def split: option.splits)

lemma sim_ok_runs:
  assumes "sim_ok s" "\<And>x. r = Waiting x \<Longrightarrow> x < sim_made s"
    "i < length (sim_runs s)"
  shows "sim_ok (s\<lparr>sim_runs := (sim_runs s)[i := r]\<rparr>)"
  using assms by (auto simp: sim_ok_def split: option.splits dest!: set_update_subset_insert [THEN subsetD])

lemma sim_tick_frame:
  "sim_running (sim_tick msin draw s) = sim_running s" "sim_stopCh (sim_tick msin draw s) = sim_stopCh s"
  "sim_made (sim_tick msin draw s) = sim_made s" "sim_closed (sim_tick msin draw s) = sim_closed s"
  "sim_runs (sim_tick msin draw s) = sim_runs s"
  by (simp_all add: sim_tick_def Let_def)

lemma sim_ok_tick: "sim_ok s \<Longrightarrow> sim_ok (sim_tick msin draw s)"
  using sim_tick_battery [of _ msin draw s] unfolding sim_ok_def sim_tick_frame by auto

lemma sim_ok_step: "sim_step msin s s' \<Longrightarrow> sim_ok s \<Longrightarrow> sim_ok s'"
proof (induction rule: sim_step.cases)
  case (started draw s reply r w)
  show ?case
  proof (cases "sim_running s")
    case True
    with started show ?thesis by (simp add: handleStart_cases(1))
  next
    case False
    with started show ?thesis
      by (auto simp: handleStart_cases(2) sim_ok_def less_Suc_eq_le sim_registered_battery
          split: option.splits)
  qed
next
  case (stopped s s')
  then show ?case using simulator_Stop_ok [of s] by auto
next
  case (body i s draw)
  then show ?case
    using sim_ok_runs [OF sim_ok_tick [of s msin draw], where r = AtSelect and i = i] by (simp add: sim_tick_frame)
next
  case (select i s c)
  then have "c < sim_made s" by (auto simp: sim_ok_def)
  with select show ?case by (auto intro!: sim_ok_runs)
qed (auto intro!: sim_ok_runs)

lemma sim_reaches_ok: "sim_reaches msin s \<Longrightarrow> sim_ok s"
  by (induction rule: rtranclp_induct) (auto intro: sim_ok_New sim_ok_step)

section \<open>Properties\<close>

text \<open>
  C32: in every interleaving of the handlers with the goroutines, stopping the module never panics
  (it never closes a nil or a closed channel) and leaves it stopped; the module runs exactly
  while its channel is open; and no battery is ever below zero.
\<close>

theorem simulator_never_panics:
  assumes "sim_reaches msin s"
  shows "(\<exists>s'. simulator_Stop s = Inr s' \<and> \<not> sim_running s')
     \<and> (sim_running s \<longleftrightarrow> (\<exists>c. sim_stopCh s = Some c \<and> c \<notin> sim_closed s))
     \<and> (\<forall>d \<in> set (sim_devices s). 0 \<le> Sim_Battery d)"
proof (intro conjI)
  have ok: "sim_ok s" using assms by (rule sim_reaches_ok)
  then show "\<exists>s'. simulator_Stop s = Inr s' \<and> \<not> sim_running s'"
    using simulator_Stop_ok by blast
  show "sim_running s \<longleftrightarrow> (\<exists>c. sim_stopCh s = Some c \<and> c \<notin> sim_closed s)"
    using ok by (auto simp: sim_ok_def split: option.splits)
  show "\<forall>d \<in> set (sim_devices s). 0 \<le> Sim_Battery d"
    using ok by (simp add: sim_ok_def)
qed

theorem simulator_never_panics_witness:
  "sim_running simulator_New \<longleftrightarrow>
     (\<exists>c. sim_stopCh simulator_New = Some c \<and> c \<notin> sim_closed simulator_New)"
  using simulator_never_panics [of "\<lambda>x. x" simulator_New] by simp

text \<open>
  A start is answered 409 and changes nothing while the module runs. Otherwise it registers
  as many devices as asked for, three when the body does not parse or the count is not positive,
  one request each and in order; the module then holds exactly these devices, each under the
  identifier the API answered where it answered one, and lists them in its answer.
\<close>

theorem simulator_start:
  assumes "fresh w" and "handleStart draw reply s r w = (s', w')"
  shows "if sim_running s then s' = s \<and> status_of w' = Some 409
     else let n = nat (start_count (r_body r)) in
        0 < n \<and> status_of w' = Some 200
        \<and> sim_devices s' = map (sim_registered draw reply) [0..<n]
        \<and> sim_posts s' = sim_posts s
            @ map (\<lambda>k. (sim_api ''devices'', register_request (sim_device (draw k) k))) [0..<n]
        \<and> w_out w' = [Cjson (JObj [(''status'', JStr ''started''), (''count'', JInt (int n)),
            (''devices'', JArr (map simdevice_json (sim_devices s')))])]"
proof (cases "sim_running s")
  case True
  then show ?thesis
    using assms by (auto simp: handleStart_cases(1) http_simps)
next
  case False
  have n: "0 < start_count (r_body r)"
    by (simp add: start_count_def Let_def)
  have "s' = fst (handleStart draw reply s r w)" "w' = snd (handleStart draw reply s r w)"
    using assms(2) by simp_all
  with False n assms(1) show ?thesis
    by (simp add: handleStart_cases(2)) (simp add: handleStart_def Let_def http_simps sim_register_exact)
qed

theorem simulator_start_witness:
  "length (sim_devices (fst (handleStart (\<lambda>i. \<lparr>dr_id = i, dr_name = 0, dr_temp = 0, dr_humid = 0, dr_battery = 0\<rparr>)
     (\<lambda>i. PostFailed) simulator_New
     \<lparr>r_method = ''POST'', r_path = [], r_remote = [], r_header = \<lambda>k. [], r_pathval = \<lambda>k. [],
      r_query = \<lambda>k. [], r_body = Some (JObj [(''count'', JInt 2)])\<rparr> new_writer))) = 2"
proof -
  let ?r = "\<lparr>r_method = ''POST'', r_path = [], r_remote = [], r_header = \<lambda>k. [], r_pathval = \<lambda>k. [],
      r_query = \<lambda>k. [], r_body = Some (JObj [(''count'', JInt 2)])\<rparr>"
  have c: "start_count (r_body ?r) = 2" by code_simp
  have "\<not> sim_running simulator_New" by (simp add: simulator_New_def)
  with simulator_start [OF fresh_new_writer prod.collapse [symmetric], where s = simulator_New and r = ?r]
  show ?thesis unfolding c by (simp add: Let_def)
qed

text \<open>
  A stop followed at once by a start leaves two goroutines at work on the same devices: the
  first one, caught with a tick when the module was stopped, reads the new channel afterwards.
\<close>

theorem simulator_overlap:
  "\<exists>s. sim_reaches msin s \<and> sim_running s \<and> sim_runs s = [Waiting 1, Waiting 1]
     \<and> sim_stopCh s = Some 1 \<and> 1 \<notin> sim_closed s"
proof -
  define dr where "dr = (\<lambda>i :: nat. \<lparr>dr_id = i, dr_name = 0, dr_temp = 0, dr_humid = 0, dr_battery = 0 :: rat\<rparr>)"
  have dr: "\<And>i. 0 \<le> dr_battery (dr i)" by (simp add: dr_def)
  obtain r :: request and w :: writer where True by blast
  define start where "start s = fst (handleStart dr (\<lambda>i. PostFailed) s r w)" for s
  have start: "sim_step msin s (start s)" for s
    unfolding start_def using dr by (rule sim_step.started)
  note started = handleStart_cases(2) [of _ dr "\<lambda>i. PostFailed" r w, folded start_def]
  define s1 where "s1 = start simulator_New"
  define s2 where "s2 = s1\<lparr>sim_runs := [Waiting 0]\<rparr>"
  define s3 where "s3 = s2\<lparr>sim_runs := [InTick]\<rparr>"
  define s4 where "s4 = s3\<lparr>sim_closed := {0}, sim_running := False\<rparr>"
  define s5 where "s5 = start s4"
  define s6 where "s6 = (sim_tick msin undefined s5)\<lparr>sim_runs := [AtSelect, AtSelect]\<rparr>"
  define s7 where "s7 = s6\<lparr>sim_runs := [Waiting 1, AtSelect]\<rparr>"
  define s8 where "s8 = s7\<lparr>sim_runs := [Waiting 1, Waiting 1]\<rparr>"
  have f1: "sim_running s1" "sim_stopCh s1 = Some 0" "sim_made s1 = 1" "sim_closed s1 = {}" "sim_runs s1 = [AtSelect]"
    by (simp_all add: s1_def started simulator_New_def)
  have f4: "\<not> sim_running s4" "sim_made s4 = 1" "sim_closed s4 = {0}" "sim_runs s4 = [InTick]"
    using f1 by (simp_all add: s4_def s3_def s2_def)
  have f5: "sim_running s5" "sim_stopCh s5 = Some 1" "sim_closed s5 = {0}" "sim_runs s5 = [InTick, AtSelect]"
    using f4 by (simp_all add: s5_def started)
  have f6: "sim_running s6" "sim_stopCh s6 = Some 1" "sim_closed s6 = {0}" "sim_runs s6 = [AtSelect, AtSelect]"
    using f5 by (simp_all add: s6_def sim_tick_frame)
  have "sim_step msin simulator_New s1" unfolding s1_def by (rule start)
  moreover have "sim_step msin s1 s2"
    using sim_step.select [of 0 s1 0 msin] f1 by (simp add: s2_def)
  moreover have "sim_step msin s2 s3"
    using sim_step.tick [of 0 s2 0 msin] by (simp add: s3_def s2_def)
  moreover have "sim_step msin s3 s4"
    by (rule sim_step.stopped) (use f1 in \<open>simp add: simulator_Stop_def close_chan_def s4_def s3_def s2_def\<close>)
  moreover have "sim_step msin s4 s5" unfolding s5_def by (rule start)
  moreover have "sim_step msin s5 s6"
    using sim_step.body [of 0 s5 msin undefined] f5 by (simp add: s6_def)
  moreover have "sim_step msin s6 s7"
    using sim_step.select [of 0 s6 1 msin] f6 by (simp add: s7_def)
  moreover have "sim_step msin s7 s8"
    using sim_step.select [of 1 s7 1 msin] f6 by (simp add: s8_def s7_def)
  ultimately have "sim_reaches msin s8" by (meson rtranclp.rtrancl_refl converse_rtranclp_into_rtranclp)
  with f6 show ?thesis by (intro exI [of _ s8]) (simp add: s8_def s7_def)
qed

end
