(* ===== verification/Version.thy ===== *)
theory Version
  imports Http
begin

text \<open>
  \<open>internal/version\<close> and \<open>modules/dashboard\<close>: what the build says of itself, and the page the
  binary carries. The run time's answers (\<open>runtime\<close>, \<open>debug.ReadBuildInfo\<close>) are a record; the
  embedded page is an argument.
\<close>

section \<open>Build information\<close>

definition Version :: string where "Version = ''0.1.0''"
definition ReleaseName :: string where "ReleaseName = ''Hummingbird''"
definition Commit :: string where "Commit = []"

record BuildInfo =
  BI_Version :: string
  BI_Commit :: string
  BI_CommitDate :: string
  BI_GoVersion :: string
  BI_OS :: string
  BI_Arch :: string

text \<open>\<open>rt_settings\<close> is \<open>None\<close> for a binary without build information.\<close>

record go_runtime =
  rt_version :: string
  rt_os :: string
  rt_arch :: string
  rt_settings :: "(string \<times> string) list option"

definition apply_setting :: "string \<times> string \<Rightarrow> BuildInfo \<Rightarrow> BuildInfo" where
  "apply_setting kv b =
     (case kv of (k, v) \<Rightarrow>
        if k = ''vcs.revision'' then b\<lparr>BI_Commit := v\<rparr>
        else if k = ''vcs.time'' then b\<lparr>BI_CommitDate := v\<rparr> else b)"

definition ReadBuildInfo :: "go_runtime \<Rightarrow> BuildInfo" where
  "ReadBuildInfo rt =
     (let info = \<lparr>BI_Version = Version, BI_Commit = [], BI_CommitDate = [], BI_GoVersion = rt_version rt,
                  BI_OS = rt_os rt, BI_Arch = rt_arch rt\<rparr>;
          info' = (case rt_settings rt of None \<Rightarrow> info | Some ss \<Rightarrow> fold apply_setting ss info)
      in if BI_Commit info' = [] then info'\<lparr>BI_Commit := Commit\<rparr> else info')"

definition Display :: "BuildInfo \<Rightarrow> string" where
  "Display b =
     (let s = ''DeviceOS v'' @ BI_Version b @ '' '' @ ReleaseName;
          c = (if length (BI_Commit b) > 8 then take 8 (BI_Commit b) else BI_Commit b)
      in if c \<noteq> [] then s @ '' ('' @ c @ '')'' else s)"

definition buildinfo_String :: "BuildInfo \<Rightarrow> string" where
  "buildinfo_String b =
     Display b @ '' | '' @ BI_GoVersion b @ '' | '' @ BI_OS b @ ''/'' @ BI_Arch b"

text \<open>The box drawing characters in UTF-8.\<close>

definition box :: "nat \<Rightarrow> string" where
  "box n = [CHR 0xE2, CHR 0x95, char_of n]"

definition repeat_string :: "string \<Rightarrow> nat \<Rightarrow> string" where
  "repeat_string s n = concat (replicate n s)"

definition banner_title :: "string \<Rightarrow> string" where
  "banner_title title =
     (let line = (if length title > 34 then take 34 title else title);
          padding = 34 - length line;
          left = padding div 2;
          right = padding - left
      in repeat_string '' '' left @ line @ repeat_string '' '' right)"

definition Banner :: string where
  "Banner =
     box 0x94 @ repeat_string (box 0x90) 38 @ box 0x97 @ [CHR 0x0A]
     @ box 0x91 @ banner_title (''DeviceOS v'' @ Version @ '' '' @ ReleaseName) @ box 0x91 @ [CHR 0x0A]
     @ box 0x91 @ ''   Self-hosted IoT Backend           '' @ box 0x91 @ [CHR 0x0A]
     @ box 0x9A @ repeat_string (box 0x90) 38 @ box 0x9D"

text \<open>The lines of the banner are 38, 34 and 37 columns wide inside their frame.\<close>

lemma banner_title_width: "length (banner_title t) = 34"
  by (simp add: banner_title_def repeat_string_def Let_def length_concat sum_list_replicate)

text \<open>The revision of the build settings wins over the built-in commit, the last one if there are several.\<close>

lemma apply_settings_commit:
  "BI_Commit (fold apply_setting ss b) =
     (case find (\<lambda>kv. fst kv = ''vcs.revision'') (rev ss) of Some (k, v) \<Rightarrow> v | None \<Rightarrow> BI_Commit b)"
proof (induction ss rule: rev_induct)
  case (snoc x xs)
  then show ?case by (cases x) (simp add: apply_setting_def)
qed simp

lemma ReadBuildInfo_fields:
  "BI_Version (ReadBuildInfo rt) = Version" "BI_GoVersion (ReadBuildInfo rt) = rt_version rt"
proof -
  have "BI_Version (fold apply_setting ss b) = BI_Version b
      \<and> BI_GoVersion (fold apply_setting ss b) = BI_GoVersion b" for ss b
    by (induction ss arbitrary: b) (auto simp: apply_setting_def split: prod.splits)
  then show "BI_Version (ReadBuildInfo rt) = Version" "BI_GoVersion (ReadBuildInfo rt) = rt_version rt"
    by (auto simp: ReadBuildInfo_def Let_def split: option.splits)
qed

section \<open>The dashboard\<close>

text \<open>\<open>http.NotFound\<close> and \<open>http.Redirect\<close> of the standard library, for a GET request.\<close>

definition go_NotFound :: "writer \<Rightarrow> writer" where
  "go_NotFound w =
     write_body (Ctext (''404 page not found'' @ [CHR 0x0A]))
       (write_header 404
          (set_header ''X-Content-Type-Options'' ''nosniff''
            (set_header ''Content-Type'' ''text/plain; charset=utf-8'' w)))"

text \<open>A redirect writes its small page only when no content type was set before.\<close>

definition go_Redirect :: "string \<Rightarrow> int \<Rightarrow> writer \<Rightarrow> writer" where
  "go_Redirect url code w =
     (let had = (w_headers w ''Content-Type'' \<noteq> None);
          w1 = set_header ''Location'' url w;
          w2 = (if had then w1 else set_header ''Content-Type'' ''text/html; charset=utf-8'' w1);
          w3 = write_header code w2
      in if had then w3 else write_body (Ctext (''<a href='' @ [CHR 0x22] @ url @ [CHR 0x22] @ ''>Found</a>.''
                                 @ [CHR 0x0A, CHR 0x0A])) w3)"

definition handleDashboard :: "string \<Rightarrow> 's handler" where
  "handleDashboard indexHTML s r w =
     (s, write_body (Ctext indexHTML)
           (write_header 200 (set_header ''Content-Type'' ''text/html; charset=utf-8'' w)))"

definition handleRoot :: "'s handler" where
  "handleRoot s r w =
     (s, if r_path r \<noteq> ''/'' then go_NotFound w else go_Redirect ''/dashboard'' 302 w)"

definition dashboard_routes :: "string list" where
  "dashboard_routes = [''GET /dashboard'', ''GET /'']"

lemma handleRoot_status:
  "fresh w \<Longrightarrow> status_of (snd (handleRoot s r w)) = Some (if r_path r = ''/'' then 302 else 404)"
  by (simp add: handleRoot_def go_NotFound_def go_Redirect_def Let_def status_of_write_body
      http_simps fresh_def status_of_write_header)

end
