(* ===== verification/Routes.thy ===== *)
theory Routes
  imports Devices Telemetry Alerts Auth Server Commands Webhooks Ota Fleet Tenant Auditlog Events Mqtt
    Simulator Version
begin

text \<open>
  The program's route table and \<open>http.ServeMux\<close> as the modules use it: patterns of a method and
  a path whose segments are literal or a wildcard, and the pattern that ends in a slash. The more
  specific of two patterns wins; two patterns of which neither is more specific and which some
  request matches both make the registration panic.
\<close>

section \<open>Patterns\<close>

datatype segment = Lit string | Wild | Rest

record route_pattern =
  rp_method :: string
  rp_segs :: "segment list"

definition parse_segment :: "string \<Rightarrow> segment" where
  "parse_segment w = (if w = [] then Rest else if hd w = CHR ''{'' then Wild else Lit w)"

definition path_segs :: "string \<Rightarrow> string list" where
  "path_segs path = split_on CHR ''/'' (drop 1 path)"

definition parse_pattern :: "string \<Rightarrow> route_pattern" where
  "parse_pattern p =
     (case split_on CHR '' '' p of
        [m, path] \<Rightarrow> \<lparr>rp_method = m, rp_segs = map parse_segment (path_segs path)\<rparr>
      | _ \<Rightarrow> \<lparr>rp_method = [], rp_segs = []\<rparr>)"

fun segs_match :: "segment list \<Rightarrow> string list \<Rightarrow> bool" where
  "segs_match [] [] = True"
| "segs_match (Rest # ps) (w # ws) = True"
| "segs_match (Lit a # ps) (w # ws) = (a = w \<and> segs_match ps ws)"
| "segs_match (Wild # ps) (w # ws) = (w \<noteq> [] \<and> segs_match ps ws)"
| "segs_match _ _ = False"

text \<open>A pattern for GET also takes HEAD.\<close>

definition route_matches :: "route_pattern \<Rightarrow> string \<Rightarrow> string list \<Rightarrow> bool" where
  "route_matches p m ws \<longleftrightarrow>
     (rp_method p = m \<or> (rp_method p = ''GET'' \<and> m = ''HEAD'')) \<and> segs_match (rp_segs p) ws"

fun segs_below :: "segment list \<Rightarrow> segment list \<Rightarrow> bool" where
  "segs_below [] [] = True"
| "segs_below (p # ps) (Rest # qs) = True"
| "segs_below (Lit a # ps) (Lit b # qs) = (a = b \<and> segs_below ps qs)"
| "segs_below (Lit a # ps) (Wild # qs) = (a \<noteq> [] \<and> segs_below ps qs)"
| "segs_below (Wild # ps) (Wild # qs) = segs_below ps qs"
| "segs_below _ _ = False"

fun segs_overlap :: "segment list \<Rightarrow> segment list \<Rightarrow> bool" where
  "segs_overlap [] [] = True"
| "segs_overlap (Rest # ps) (q # qs) = True"
| "segs_overlap (p # ps) (Rest # qs) = True"
| "segs_overlap (Lit a # ps) (Lit b # qs) = (a = b \<and> segs_overlap ps qs)"
| "segs_overlap (_ # ps) (_ # qs) = segs_overlap ps qs"
| "segs_overlap _ _ = False"

text \<open>Patterns of different methods do not conflict here: no pattern is for HEAD.\<close>

definition below :: "route_pattern \<Rightarrow> route_pattern \<Rightarrow> bool" where
  "below p q \<longleftrightarrow> rp_method p = rp_method q \<and> segs_below (rp_segs p) (rp_segs q)"

definition overlap :: "route_pattern \<Rightarrow> route_pattern \<Rightarrow> bool" where
  "overlap p q \<longleftrightarrow> rp_method p = rp_method q \<and> segs_overlap (rp_segs p) (rp_segs q)"

definition conflict :: "route_pattern \<Rightarrow> route_pattern \<Rightarrow> bool" where
  "conflict p q \<longleftrightarrow> overlap p q \<and> (below p q \<longleftrightarrow> below q p)"

section \<open>The multiplexer\<close>

text \<open>\<open>HandleFunc\<close>: the left value is the panic of a conflict.\<close>

definition HandleFunc :: "string list \<Rightarrow> string \<Rightarrow> string list result" where
  "HandleFunc mux p =
     (case find (\<lambda>q. conflict (parse_pattern p) (parse_pattern q)) mux of
        None \<Rightarrow> Inr (mux @ [p])
      | Some q \<Rightarrow> Inl (''pattern '' @ p @ '' conflicts with pattern '' @ q))"

fun HandleFuncs :: "string list \<Rightarrow> string list \<Rightarrow> string list result" where
  "HandleFuncs mux [] = Inr mux"
| "HandleFuncs mux (p # ps) = bind_result (HandleFunc mux p) (\<lambda>mux'. HandleFuncs mux' ps)"

text \<open>The pattern a request is dispatched to; \<open>None\<close> is the multiplexer's own 404 or 405.\<close>

definition mux_dispatch :: "string list \<Rightarrow> string \<Rightarrow> string \<Rightarrow> string option" where
  "mux_dispatch mux m path =
     (let ms = filter (\<lambda>p. route_matches (parse_pattern p) m (path_segs path)) mux
      in find (\<lambda>p. list_all (\<lambda>q. below (parse_pattern p) (parse_pattern q)) ms) ms)"

section \<open>The table of the program\<close>

text \<open>The server's own route, and the modules' in the order of their registration.\<close>

definition server_routes :: "string list" where
  "server_routes = [''GET /healthz'']"

definition module_routes :: "(string \<times> string list) list" where
  "module_routes =
     [(''devices'', map fst devices_routes), (''telemetry'', map fst telemetry_routes),
      (''mqtt'', mqtt_routes), (''events'', events_routes), (''alerts'', map fst alerts_routes),
      (''auth'', map fst auth_routes), (''commands'', map fst commands_routes),
      (''ota'', map fst ota_routes), (''webhooks'', map fst webhooks_routes),
      (''fleet'', map fst fleet_routes), (''tenant'', map fst tenant_routes),
      (''audit'', audit_routes), (''simulator'', simulator_routes), (''dashboard'', dashboard_routes)]"

definition deviceos_routes :: "string list" where
  "deviceos_routes = server_routes @ concat (map snd module_routes)"

definition own_routes :: "string list" where
  "own_routes = filter (\<lambda>p. p \<noteq> ''GET /'') deviceos_routes"

text \<open>The checks on pairs are made on the parsed table.\<close>

lemma routes_free_of_conflict:
  "sorted_wrt (\<lambda>q p. \<not> conflict p q) (map parse_pattern deviceos_routes)"
  by code_simp

lemma HandleFuncs_free:
  "sorted_wrt (\<lambda>q p. \<not> conflict p q) (map parse_pattern (mux @ ps)) \<Longrightarrow> HandleFuncs mux ps = Inr (mux @ ps)"
proof (induction ps arbitrary: mux)
  case (Cons p ps)
  have "find (\<lambda>q. conflict (parse_pattern p) (parse_pattern q)) mux = None"
    using Cons.prems by (auto simp: sorted_wrt_append find_None_iff)
  with Cons.IH [of "mux @ [p]"] Cons.prems show ?case by (simp add: HandleFunc_def)
qed simp

lemma routes_registered:
  "HandleFuncs server_routes (concat (map snd module_routes)) = Inr deviceos_routes"
  using HandleFuncs_free [of server_routes] routes_free_of_conflict by (simp add: deviceos_routes_def)

lemma own_routes_apart:
  "sorted_wrt (\<lambda>p q. \<not> overlap p q) (map parse_pattern own_routes)"
  by code_simp

lemma own_routes_shape:
  "list_all (\<lambda>p. rp_method (parse_pattern p) \<noteq> ''HEAD'' \<and> rp_segs (parse_pattern p) \<noteq> []
     \<and> hd (rp_segs (parse_pattern p)) \<noteq> Rest) own_routes"
  by code_simp

lemma root_pattern: "parse_pattern ''GET /'' = \<lparr>rp_method = ''GET'', rp_segs = [Rest]\<rparr>"
  by code_simp

lemma root_in_routes: "''GET /'' \<in> set deviceos_routes"
  by code_simp

section \<open>Dispatch\<close>

lemma segs_match_overlap: "segs_match ps ws \<Longrightarrow> segs_match qs ws \<Longrightarrow> segs_overlap ps qs"
proof (induction ps ws arbitrary: qs rule: segs_match.induct)
  case (1 qs)
  then show ?case by (cases qs) auto
next
  case (2 ps w ws qs)
  then show ?case by (cases qs) auto
next
  case (3 a ps w ws qs)
  then show ?case by (cases qs; cases "hd qs") auto
next
  case (4 ps w ws qs)
  then show ?case by (cases qs; cases "hd qs") auto
qed auto

lemma segs_below_refl [simp]: "segs_below ps ps"
proof (induction ps)
  case (Cons p ps)
  then show ?case by (cases p) auto
qed simp

lemma sorted_wrt_pairs:
  "sorted_wrt P xs \<Longrightarrow> x \<in> set xs \<Longrightarrow> y \<in> set xs \<Longrightarrow> x \<noteq> y \<Longrightarrow> P x y \<or> P y x"
  by (induction xs) auto

lemma own_route_unique:
  assumes "p \<in> set own_routes" "q \<in> set own_routes"
    and "route_matches (parse_pattern p) m ws" "route_matches (parse_pattern q) m ws"
  shows "p = q"
proof (rule ccontr)
  assume "p \<noteq> q"
  moreover have "overlap (parse_pattern p) (parse_pattern q)" "overlap (parse_pattern q) (parse_pattern p)"
    using assms own_routes_shape
    by (auto simp: overlap_def route_matches_def list_all_iff intro: segs_match_overlap)
  ultimately show False
    using sorted_wrt_pairs [OF own_routes_apart [unfolded sorted_wrt_map] assms(1,2)] by blast
qed

lemma own_below_root:
  assumes "p \<in> set own_routes" "route_matches (parse_pattern p) m ws" "m = ''GET'' \<or> m = ''HEAD''"
  shows "below (parse_pattern p) (parse_pattern ''GET /'')" "\<not> below (parse_pattern ''GET /'') (parse_pattern p)"
proof -
  obtain s ss where s: "rp_segs (parse_pattern p) = s # ss" "s \<noteq> Rest" "rp_method (parse_pattern p) = ''GET''"
    using assms own_routes_shape
    by (cases "rp_segs (parse_pattern p)") (auto simp: list_all_iff route_matches_def)
  then show "below (parse_pattern p) (parse_pattern ''GET /'')"
    by (simp add: below_def root_pattern)
  show "\<not> below (parse_pattern ''GET /'') (parse_pattern p)"
    using s by (cases s) (simp_all add: below_def root_pattern)
qed

lemma root_matches: "route_matches (parse_pattern ''GET /'') m (path_segs path) \<longleftrightarrow> m = ''GET'' \<or> m = ''HEAD''"
  by (cases "path_segs path") (auto simp: route_matches_def root_pattern path_segs_def)

lemma find_SomeD: "find P xs = Some x \<Longrightarrow> x \<in> set xs \<and> P x"
  by (induction xs) (auto split: if_splits)

lemma set_own_routes: "p \<in> set own_routes \<longleftrightarrow> p \<in> set deviceos_routes \<and> p \<noteq> ''GET /''"
  by (auto simp: own_routes_def)

text \<open>
  Among the patterns that match a request at most one is below all others, and it is the one the
  request is dispatched to.
\<close>

lemma dispatch_best:
  assumes "p \<in> set deviceos_routes" and "route_matches (parse_pattern p) m (path_segs path)"
    and "\<And>q. q \<in> set deviceos_routes \<Longrightarrow> route_matches (parse_pattern q) m (path_segs path) \<Longrightarrow>
      below (parse_pattern p) (parse_pattern q)"
  shows "mux_dispatch deviceos_routes m path = Some p"
proof -
  let ?ms = "filter (\<lambda>p. route_matches (parse_pattern p) m (path_segs path)) deviceos_routes"
  let ?best = "\<lambda>p. list_all (\<lambda>q. below (parse_pattern p) (parse_pattern q)) ?ms"
  have p: "p \<in> set ?ms" "?best p"
    using assms by (auto simp: list_all_iff)
  then obtain q where q: "find ?best ?ms = Some q"
    by (cases "find ?best ?ms") (auto simp: find_None_iff)
  then have qm: "q \<in> set ?ms" "?best q" using find_SomeD [OF q] by blast+
  have "p = q"
  proof (rule ccontr)
    assume "p \<noteq> q"
    with p qm show False
      using own_route_unique [of p q m "path_segs path"] own_below_root(2) [of _ m "path_segs path"] root_matches [of m path]
      by (cases "p = ''GET /''"; cases "q = ''GET /''") (auto simp: set_own_routes list_all_iff)
  qed
  with q show ?thesis by (simp add: mux_dispatch_def Let_def)
qed

lemma dispatch_own:
  assumes "p \<in> set own_routes" and "route_matches (parse_pattern p) m (path_segs path)"
  shows "mux_dispatch deviceos_routes m path = Some p"
proof (rule dispatch_best)
  show "p \<in> set deviceos_routes" using assms(1) by (simp add: set_own_routes)
  fix q assume q: "q \<in> set deviceos_routes" "route_matches (parse_pattern q) m (path_segs path)"
  show "below (parse_pattern p) (parse_pattern q)"
  proof (cases "q = ''GET /''")
    case True
    with q assms own_below_root(1) root_matches [of m path] show ?thesis by simp
  next
    case False
    with q own_route_unique [OF assms(1) _ assms(2)] show ?thesis by (auto simp: set_own_routes below_def)
  qed
qed (rule assms(2))


end
