(* ===== verification/Migrations.thy ===== *)
theory Migrations
  imports Migrate Schema "HOL-Library.AList"
begin

text \<open>
  The texts of the migrations (\<open>modules/*/storage.go\<close>), as the modules hand them to \<open>Migrate\<close>.
\<close>

section \<open>Texts\<close>

text \<open>A raw string literal of several lines; \<open>CHR 0x27\<close> is the single quote.\<close>

fun go_lines :: "string list \<Rightarrow> string" where
  "go_lines [] = []"
| "go_lines [l] = l"
| "go_lines (l # ls) = l @ CHR 0x0A # go_lines ls"

definition devices_migration :: string where
  "devices_migration = go_lines
     [[],
      ''CREATE TABLE IF NOT EXISTS devices ('',
      ''    id         TEXT PRIMARY KEY,'',
      ''    name       TEXT NOT NULL,'',
      ''    type       TEXT NOT NULL DEFAULT '' @ [CHR 0x27] @ [CHR 0x27] @ '','',
      ''    secret_key TEXT NOT NULL,'',
      ''    metadata   TEXT NOT NULL DEFAULT '' @ [CHR 0x27] @ ''{}'' @ [CHR 0x27] @ '','',
      ''    tags       TEXT NOT NULL DEFAULT '' @ [CHR 0x27] @ ''[]'' @ [CHR 0x27] @ '','',
      ''    device_group TEXT NOT NULL DEFAULT '' @ [CHR 0x27] @ [CHR 0x27] @ '','',
      ''    status     TEXT NOT NULL DEFAULT '' @ [CHR 0x27] @ ''offline'' @ [CHR 0x27] @ '','',
      ''    last_seen  DATETIME,'',
      ''    created_at DATETIME NOT NULL DEFAULT CURRENT_TIMESTAMP,'',
      ''    updated_at DATETIME NOT NULL DEFAULT CURRENT_TIMESTAMP'',
      '');'',
      []]"

definition devices_orgMigration :: string where
  "devices_orgMigration = go_lines
     [''ALTER TABLE devices ADD COLUMN org_id TEXT NOT NULL DEFAULT '' @ [CHR 0x27] @ [CHR 0x27] @ '';'']"

definition telemetry_migration :: string where
  "telemetry_migration = go_lines
     [[],
      ''CREATE TABLE IF NOT EXISTS telemetry ('',
      ''    id        INTEGER PRIMARY KEY AUTOINCREMENT,'',
      ''    device_id TEXT NOT NULL,'',
      ''    timestamp DATETIME NOT NULL,'',
      ''    metrics   TEXT NOT NULL,'',
      ''    metadata  TEXT NOT NULL DEFAULT '' @ [CHR 0x27] @ ''{}'' @ [CHR 0x27] @ '','',
      ''    FOREIGN KEY (device_id) REFERENCES devices(id) ON DELETE CASCADE'',
      '');'',
      [],
      ''CREATE INDEX IF NOT EXISTS idx_telemetry_device_ts'',
      ''    ON telemetry(device_id, timestamp DESC);'',
      []]"

definition telemetry_orgMigration :: string where
  "telemetry_orgMigration = go_lines
     [''ALTER TABLE telemetry ADD COLUMN org_id TEXT NOT NULL DEFAULT '' @ [CHR 0x27] @ [CHR 0x27] @ '';'']"

definition alerts_migrations :: string where
  "alerts_migrations = go_lines
     [[],
      ''CREATE TABLE IF NOT EXISTS alert_rules ('',
      ''    id             TEXT PRIMARY KEY,'',
      ''    name           TEXT NOT NULL,'',
      ''    metric         TEXT NOT NULL,'',
      ''    operator       TEXT NOT NULL,'',
      ''    threshold      REAL NOT NULL DEFAULT 0,'',
      ''    duration       TEXT NOT NULL DEFAULT '' @ [CHR 0x27] @ [CHR 0x27] @ '','',
      ''    channel        TEXT NOT NULL DEFAULT '' @ [CHR 0x27] @ ''log'' @ [CHR 0x27] @ '','',
      ''    channel_target TEXT NOT NULL DEFAULT '' @ [CHR 0x27] @ [CHR 0x27] @ '','',
      ''    enabled        INTEGER NOT NULL DEFAULT 1,'',
      ''    created_at     DATETIME NOT NULL DEFAULT CURRENT_TIMESTAMP'',
      '');'',
      [],
      ''CREATE TABLE IF NOT EXISTS alert_events ('',
      ''    id         TEXT PRIMARY KEY,'',
      ''    rule_id    TEXT NOT NULL,'',
      ''    rule_name  TEXT NOT NULL,'',
      ''    device_id  TEXT NOT NULL,'',
      ''    metric     TEXT NOT NULL,'',
      ''    value      REAL NOT NULL,'',
      ''    message    TEXT NOT NULL,'',
      ''    severity   TEXT NOT NULL DEFAULT '' @ [CHR 0x27] @ ''warning'' @ [CHR 0x27] @ '','',
      ''    created_at DATETIME NOT NULL DEFAULT CURRENT_TIMESTAMP,'',
      ''    FOREIGN KEY (rule_id) REFERENCES alert_rules(id)'',
      '');'',
      [],
      ''CREATE INDEX IF NOT EXISTS idx_alert_events_created'',
      ''    ON alert_events(created_at DESC);'',
      []]"

definition alerts_orgMigration :: string where
  "alerts_orgMigration = go_lines
     [[],
      ''ALTER TABLE alert_rules ADD COLUMN org_id TEXT NOT NULL DEFAULT '' @ [CHR 0x27] @ [CHR 0x27] @ '';'',
      ''ALTER TABLE alert_events ADD COLUMN org_id TEXT NOT NULL DEFAULT '' @ [CHR 0x27] @ [CHR 0x27] @ '';'',
      []]"

definition auth_migration :: string where
  "auth_migration = go_lines
     [[],
      ''CREATE TABLE IF NOT EXISTS api_keys ('',
      ''    key        TEXT PRIMARY KEY,'',
      ''    role       TEXT NOT NULL DEFAULT '' @ [CHR 0x27] @ ''admin'' @ [CHR 0x27] @ '','',
      ''    created_at DATETIME NOT NULL DEFAULT CURRENT_TIMESTAMP'',
      '');'',
      []]"

definition commands_migration :: string where
  "commands_migration = go_lines
     [[],
      ''CREATE TABLE IF NOT EXISTS commands ('',
      ''    id          TEXT PRIMARY KEY,'',
      ''    device_id   TEXT NOT NULL,'',
      ''    command     TEXT NOT NULL,'',
      ''    payload     TEXT,'',
      ''    status      TEXT NOT NULL DEFAULT '' @ [CHR 0x27] @ ''pending'' @ [CHR 0x27] @ '','',
      ''    result      TEXT,'',
      ''    created_at  DATETIME NOT NULL DEFAULT CURRENT_TIMESTAMP,'',
      ''    completed_at DATETIME,'',
      ''    FOREIGN KEY (device_id) REFERENCES devices(id) ON DELETE CASCADE'',
      '');'',
      [],
      ''CREATE INDEX IF NOT EXISTS idx_commands_device'',
      ''    ON commands(device_id, created_at DESC);'',
      []]"

definition commands_orgMigration :: string where
  "commands_orgMigration = go_lines
     [''ALTER TABLE commands ADD COLUMN org_id TEXT NOT NULL DEFAULT '' @ [CHR 0x27] @ [CHR 0x27] @ '';'']"

definition ota_orgMigration :: string where
  "ota_orgMigration = go_lines
     [''ALTER TABLE firmware ADD COLUMN org_id TEXT NOT NULL DEFAULT '' @ [CHR 0x27] @ [CHR 0x27] @ '';'']"

definition ota_migrations :: string where
  "ota_migrations = go_lines
     [[],
      ''CREATE TABLE IF NOT EXISTS firmware ('',
      ''    id                 TEXT PRIMARY KEY,'',
      ''    version            TEXT NOT NULL,'',
      ''    target_device_type TEXT NOT NULL,'',
      ''    checksum           TEXT NOT NULL,'',
      ''    size               INTEGER NOT NULL DEFAULT 0,'',
      ''    changelog          TEXT NOT NULL DEFAULT '' @ [CHR 0x27] @ [CHR 0x27] @ '','',
      ''    created_at         DATETIME NOT NULL DEFAULT CURRENT_TIMESTAMP'',
      '');'',
      [],
      ''CREATE TABLE IF NOT EXISTS deployments ('',
      ''    id              TEXT PRIMARY KEY,'',
      ''    firmware_id     TEXT NOT NULL,'',
      ''    target_group    TEXT NOT NULL DEFAULT '' @ [CHR 0x27] @ [CHR 0x27] @ '','',
      ''    rollout_percent INTEGER NOT NULL DEFAULT 100,'',
      ''    status          TEXT NOT NULL DEFAULT '' @ [CHR 0x27] @ ''in_progress'' @ [CHR 0x27] @ '','',
      ''    created_at      DATETIME NOT NULL DEFAULT CURRENT_TIMESTAMP,'',
      ''    FOREIGN KEY (firmware_id) REFERENCES firmware(id)'',
      '');'',
      [],
      ''CREATE TABLE IF NOT EXISTS deployment_devices ('',
      ''    deployment_id TEXT NOT NULL,'',
      ''    device_id     TEXT NOT NULL,'',
      ''    status        TEXT NOT NULL DEFAULT '' @ [CHR 0x27] @ ''pending'' @ [CHR 0x27] @ '','',
      ''    updated_at    DATETIME NOT NULL DEFAULT CURRENT_TIMESTAMP,'',
      ''    PRIMARY KEY (deployment_id, device_id),'',
      ''    FOREIGN KEY (deployment_id) REFERENCES deployments(id)'',
      '');'',
      []]"

definition webhooks_orgMigration :: string where
  "webhooks_orgMigration = go_lines
     [''ALTER TABLE webhooks ADD COLUMN org_id TEXT NOT NULL DEFAULT '' @ [CHR 0x27] @ [CHR 0x27] @ '';'']"

definition webhooks_migrations :: string where
  "webhooks_migrations = go_lines
     [[],
      ''CREATE TABLE IF NOT EXISTS webhooks ('',
      ''    id         TEXT PRIMARY KEY,'',
      ''    name       TEXT NOT NULL,'',
      ''    url        TEXT NOT NULL,'',
      ''    secret     TEXT NOT NULL DEFAULT '' @ [CHR 0x27] @ [CHR 0x27] @ '','',
      ''    events     TEXT NOT NULL DEFAULT '' @ [CHR 0x27] @ ''[]'' @ [CHR 0x27] @ '','',
      ''    enabled    INTEGER NOT NULL DEFAULT 1,'',
      ''    created_at TEXT NOT NULL'',
      '');'',
      [],
      ''CREATE TABLE IF NOT EXISTS webhook_deliveries ('',
      ''    id          TEXT PRIMARY KEY,'',
      ''    webhook_id  TEXT NOT NULL,'',
      ''    event       TEXT NOT NULL,'',
      ''    payload     TEXT NOT NULL,'',
      ''    status      TEXT NOT NULL,'',
      ''    status_code INTEGER NOT NULL DEFAULT 0,'',
      ''    created_at  TEXT NOT NULL,'',
      ''    FOREIGN KEY (webhook_id) REFERENCES webhooks(id)'',
      '');'',
      []]"

definition fleet_migrations :: string where
  "fleet_migrations = go_lines
     [[],
      ''CREATE TABLE IF NOT EXISTS groups ('',
      ''    id         TEXT PRIMARY KEY,'',
      ''    name       TEXT NOT NULL UNIQUE,'',
      ''    created_at DATETIME NOT NULL DEFAULT CURRENT_TIMESTAMP'',
      '');'',
      []]"

definition fleet_orgMigration :: string where
  "fleet_orgMigration = go_lines
     [''ALTER TABLE groups ADD COLUMN org_id TEXT NOT NULL DEFAULT '' @ [CHR 0x27] @ [CHR 0x27] @ '';'']"

definition tenant_migrations :: string where
  "tenant_migrations = go_lines
     [[],
      ''CREATE TABLE IF NOT EXISTS orgs ('',
      ''    id         TEXT PRIMARY KEY,'',
      ''    name       TEXT NOT NULL UNIQUE,'',
      ''    created_at DATETIME NOT NULL DEFAULT CURRENT_TIMESTAMP'',
      '');'',
      [],
      ''CREATE TABLE IF NOT EXISTS org_users ('',
      ''    id         TEXT PRIMARY KEY,'',
      ''    org_id     TEXT NOT NULL,'',
      ''    email      TEXT NOT NULL,'',
      ''    role       TEXT NOT NULL DEFAULT '' @ [CHR 0x27] @ ''viewer'' @ [CHR 0x27] @ '','',
      ''    created_at TEXT NOT NULL,'',
      ''    FOREIGN KEY (org_id) REFERENCES orgs(id)'',
      '');'',
      []]"

definition audit_migration :: string where
  "audit_migration = go_lines
     [[],
      ''CREATE TABLE IF NOT EXISTS audit_log ('',
      ''    id         TEXT PRIMARY KEY,'',
      ''    actor      TEXT NOT NULL,'',
      ''    action     TEXT NOT NULL,'',
      ''    target     TEXT NOT NULL,'',
      ''    details    TEXT NOT NULL DEFAULT '' @ [CHR 0x27] @ ''{}'' @ [CHR 0x27] @ '','',
      ''    created_at DATETIME NOT NULL DEFAULT CURRENT_TIMESTAMP'',
      '');'',
      [],
      ''CREATE INDEX IF NOT EXISTS idx_audit_created'',
      ''    ON audit_log(created_at DESC);'',
      [],
      ''CREATE INDEX IF NOT EXISTS idx_audit_actor'',
      ''    ON audit_log(actor);'',
      []]"

definition audit_orgMigration :: string where
  "audit_orgMigration = go_lines
     [''ALTER TABLE audit_log ADD COLUMN org_id TEXT NOT NULL DEFAULT '' @ [CHR 0x27] @ [CHR 0x27] @ '';'']"

section \<open>The statements' effect on the catalog\<close>

text \<open>
  The data definition language of SQLite as far as these texts use it: tables with columns, their
  types and constraints, table constraints, added columns, and indexes, which leave the catalog as
  it is. A default text that is an empty JSON document is that document, as everywhere in the
  development.
\<close>

datatype ddl_token = Word string | Literal string | Symbol char

definition word_token :: "string \<Rightarrow> ddl_token list" where
  "word_token acc = (if acc = [] then [] else [Word (rev acc)])"

primrec lex_ddl :: "string \<Rightarrow> bool \<Rightarrow> string \<Rightarrow> ddl_token list" where
  "lex_ddl [] lit acc = word_token acc"
| "lex_ddl (c # s) lit acc =
     (if lit then (if c = CHR 0x27 then Literal (rev acc) # lex_ddl s False [] else lex_ddl s True (c # acc))
      else if c = CHR 0x27 then word_token acc @ lex_ddl s True []
      else if is_space c then word_token acc @ lex_ddl s False []
      else if c = CHR ''('' \<or> c = CHR '')'' \<or> c = CHR '',''
      then word_token acc @ Symbol c # lex_ddl s False []
      else lex_ddl s False (c # acc))"

text \<open>The items of a table's body: split at the commas outside parentheses.\<close>

primrec ddl_items :: "ddl_token list \<Rightarrow> nat \<Rightarrow> ddl_token list \<Rightarrow> ddl_token list list" where
  "ddl_items [] depth acc = [rev acc]"
| "ddl_items (t # ts) depth acc =
     (if t = Symbol CHR '','' \<and> depth = 0 then rev acc # ddl_items ts 0 []
      else ddl_items ts (if t = Symbol CHR ''('' then depth + 1 else if t = Symbol CHR '')'' then depth - 1 else depth)
             (t # acc))"

fun ddl_words :: "ddl_token list \<Rightarrow> string list" where
  "ddl_words [] = []"
| "ddl_words (Word w # ts) = w # ddl_words ts"
| "ddl_words (_ # ts) = ddl_words ts"

definition ddl_default :: "string \<Rightarrow> ddl_token \<Rightarrow> sqlval" where
  "ddl_default ty t =
     (case t of
        Literal s \<Rightarrow>
          if s = ''{}'' then SDoc (JObj []) else if s = ''[]'' then SDoc (JArr []) else SText s
      | Word w \<Rightarrow>
          if w = ''CURRENT_TIMESTAMP'' then STime 0
          else if ty = ''REAL'' then SReal (of_nat (nat_of_digits w)) else SInt (int (nat_of_digits w))
      | Symbol c \<Rightarrow> SNull)"

fun column_constraints :: "string \<Rightarrow> string \<Rightarrow> ddl_token list \<Rightarrow> schema \<Rightarrow> schema" where
  "column_constraints c ty [] s = s"
| "column_constraints c ty (t # ts) s =
     (if t = Word ''NOT'' then column_constraints c ty (drop 1 ts) (s\<lparr>notnull := notnull s @ [c]\<rparr>)
      else if t = Word ''PRIMARY'' then column_constraints c ty (drop 1 ts) (s\<lparr>uniques := uniques s @ [[c]]\<rparr>)
      else if t = Word ''UNIQUE'' then column_constraints c ty ts (s\<lparr>uniques := uniques s @ [[c]]\<rparr>)
      else if t = Word ''AUTOINCREMENT'' then column_constraints c ty ts (s\<lparr>autoinc := Some c\<rparr>)
      else if t = Word ''DEFAULT''
      then (case ts of
              [] \<Rightarrow> s
            | v # vs \<Rightarrow>
                column_constraints c ty vs (s\<lparr>columns := AList.update c (ddl_default ty v) (columns s)\<rparr>))
      else column_constraints c ty ts s)"

definition ddl_item :: "ddl_token list \<Rightarrow> schema \<Rightarrow> schema" where
  "ddl_item ts s =
     (case ddl_words ts of
        [] \<Rightarrow> s
      | w # ws \<Rightarrow>
          if w = ''FOREIGN''
          then s\<lparr>fks := fks s @ [\<lparr>fk_col = ws ! 1, fk_parent = ws ! 3, fk_pcol = ws ! 4,
                                fk_cascade = (drop 5 ws = [''ON'', ''DELETE'', ''CASCADE''])\<rparr>]\<rparr>
          else if w = ''PRIMARY'' then s\<lparr>uniques := uniques s @ [tl ws]\<rparr>
          else column_constraints w (hd ws) (drop 2 ts) (s\<lparr>columns := columns s @ [(w, SNull)]\<rparr>))"

definition empty_schema :: schema where
  "empty_schema = \<lparr>columns = [], notnull = [], uniques = [], fks = [], autoinc = None\<rparr>"

definition create_table_words :: "string list" where
  "create_table_words = [''CREATE'', ''TABLE'', ''IF'', ''NOT'', ''EXISTS'']"

definition ddl :: "string \<Rightarrow> catalog \<Rightarrow> catalog" where
  "ddl stmt cat =
     (let ts = lex_ddl stmt False []; ws = ddl_words ts
      in if take 5 ws = create_table_words
         then (if ws ! 5 \<in> set (map fst cat) then cat
               else cat @ [(ws ! 5, fold ddl_item (ddl_items (butlast (drop 7 ts)) 0 []) empty_schema)])
         else if take 2 ws = [''ALTER'', ''TABLE'']
         then map (\<lambda>(n, s). if n = ws ! 2 then (n, ddl_item (drop 5 ts) s) else (n, s)) cat
         else cat)"

text \<open>Names and texts, in the order in which the modules apply them.\<close>

definition migration_texts :: "(string \<times> string) list" where
  "migration_texts =
     [(''devices_v1'', devices_migration), (''devices_v2_org'', devices_orgMigration),
      (''telemetry_v1'', telemetry_migration), (''telemetry_v2_org'', telemetry_orgMigration),
      (''alerts_v1'', alerts_migrations), (''alerts_v2_org'', alerts_orgMigration),
      (''auth_v1'', auth_migration),
      (''commands_v1'', commands_migration), (''commands_v2_org'', commands_orgMigration),
      (''ota_v1'', ota_migrations), (''ota_v2_org'', ota_orgMigration),
      (''webhooks_v1'', webhooks_migrations), (''webhooks_v2_org'', webhooks_orgMigration),
      (''fleet_v1'', fleet_migrations), (''fleet_v2_org'', fleet_orgMigration),
      (''tenant_v1'', tenant_migrations),
      (''audit_v1'', audit_migration), (''audit_v2_org'', audit_orgMigration)]"

definition run_ddl :: "string \<Rightarrow> catalog \<Rightarrow> catalog" where
  "run_ddl sql cat = fold ddl (statements sql) cat"

text \<open>Module by module: each one's texts add its tables to those of the modules before it.\<close>

lemma catalog_devices:
  "run_ddl devices_orgMigration (run_ddl devices_migration []) = take 1 deviceos_catalog"
  by code_simp

lemma catalog_telemetry:
  "run_ddl telemetry_orgMigration (run_ddl telemetry_migration (take 1 deviceos_catalog)) = take 2 deviceos_catalog"
  by code_simp

lemma catalog_alerts:
  "run_ddl alerts_orgMigration (run_ddl alerts_migrations (take 2 deviceos_catalog)) = take 4 deviceos_catalog"
  by code_simp

lemma catalog_auth:
  "run_ddl auth_migration (take 4 deviceos_catalog) = take 5 deviceos_catalog"
  by code_simp

lemma catalog_commands:
  "run_ddl commands_orgMigration (run_ddl commands_migration (take 5 deviceos_catalog)) = take 6 deviceos_catalog"
  by code_simp

lemma catalog_ota:
  "run_ddl ota_orgMigration (run_ddl ota_migrations (take 6 deviceos_catalog)) = take 9 deviceos_catalog"
  by code_simp

lemma catalog_webhooks:
  "run_ddl webhooks_orgMigration (run_ddl webhooks_migrations (take 9 deviceos_catalog)) = take 11 deviceos_catalog"
  by code_simp

lemma catalog_fleet:
  "run_ddl fleet_orgMigration (run_ddl fleet_migrations (take 11 deviceos_catalog)) = take 12 deviceos_catalog"
  by code_simp

lemma catalog_tenant:
  "run_ddl tenant_migrations (take 12 deviceos_catalog) = take 14 deviceos_catalog"
  by code_simp

lemma catalog_audit:
  "run_ddl audit_orgMigration (run_ddl audit_migration (take 14 deviceos_catalog)) = take 15 deviceos_catalog"
  by code_simp

lemmas catalog_steps =
  catalog_devices catalog_telemetry catalog_alerts catalog_auth catalog_commands catalog_ota catalog_webhooks catalog_fleet catalog_tenant catalog_audit

lemma migrations_catalog: "fold (\<lambda>(name, sql). run_ddl sql) migration_texts [] = deviceos_catalog"
  by (simp only: migration_texts_def fold_simps prod.case catalog_steps) (simp add: deviceos_catalog_def)


end
