(* ===== verification/Startup.thy ===== *)
theory Startup
  imports Registry Migrations Config Routes
begin

text \<open>
  \<open>cmd/deviceos/start.go\<close>, \<open>db.Open\<close> and the modules' \<open>New\<close>, \<open>Init\<close>, \<open>RegisterRoutes\<close>, \<open>Start\<close>
  and \<open>Stop\<close>: how the program is put together, brought up and taken down.
\<close>

section \<open>The state of the process\<close>

text \<open>
  The database: the migrations table beside the catalog and the data \<open>'d\<close> of the engine. Beside
  it the route table, the directories made, whether the broker exists, the goroutines the
  modules launched, the channels that were closed, the simulator, and the panic that ended the
  process, if one did.
\<close>

type_synonym 'd store = "(catalog \<times> 'd) mig_db"

record 'd app =
  app_db :: "'d store"
  app_mux :: "string list"
  app_dirs :: "string set"
  app_broker :: bool
  app_loops :: "string list"
  app_closed :: "string list"
  app_sim :: simulator
  app_panic :: "string option"

text \<open>What the surroundings answer.\<close>

record 'd start_env =
  se_call_err :: "mig_call \<Rightarrow> 'd store \<Rightarrow> string option"
  se_sha :: "string \<Rightarrow> string"
  se_auth :: "'d auth_module"
  se_now :: int
  se_mkdir_err :: "string \<Rightarrow> string option"
  se_hook_err :: "string option"
  se_listen_err :: "string \<Rightarrow> string option"
  se_close_err :: "string option"
  se_open_err :: "string \<Rightarrow> string option"
  se_pragma_err :: "string \<Rightarrow> string option"
  se_duration :: "string \<Rightarrow> int option"

definition start_driver :: "'d start_env \<Rightarrow> (catalog \<times> 'd) mig_driver" where
  "start_driver e = \<lparr>drv_err = se_call_err e, drv_ddl = \<lambda>stmt. apfst (ddl stmt), drv_sha = se_sha e\<rparr>"

section \<open>Opening the database\<close>

record db_Config =
  dbc_Path :: string
  dbc_MaxOpenConns :: int
  dbc_MaxIdleConns :: int

record db_pool =
  pool_path :: string
  pool_open :: int
  pool_idle :: int
  pool_lifetime :: int
  pool_pragmas :: "string list"

definition db_pragmas :: "string list" where
  "db_pragmas =
     [''PRAGMA journal_mode=WAL'', ''PRAGMA synchronous=NORMAL'', ''PRAGMA busy_timeout=5000'',
      ''PRAGMA foreign_keys=ON'', ''PRAGMA cache_size=-8192'', ''PRAGMA temp_store=MEMORY'']"

fun run_pragmas :: "'d start_env \<Rightarrow> string list \<Rightarrow> db_pool \<Rightarrow> db_pool result" where
  "run_pragmas e [] p = Inr p"
| "run_pragmas e (s # ss) p =
     (case se_pragma_err e s of
        Some err \<Rightarrow> Inl (''db: '' @ s @ '': '' @ err)
      | None \<Rightarrow> run_pragmas e ss (p\<lparr>pool_pragmas := pool_pragmas p @ [s]\<rparr>))"

definition db_Open :: "'d start_env \<Rightarrow> db_Config \<Rightarrow> db_pool result" where
  "db_Open e cfg =
     (case se_open_err e (dbc_Path cfg) of
        Some err \<Rightarrow> Inl (''db: open: '' @ err)
      | None \<Rightarrow>
          run_pragmas e db_pragmas
            \<lparr>pool_path = dbc_Path cfg,
             pool_open = (if dbc_MaxOpenConns cfg \<le> 0 then 25 else dbc_MaxOpenConns cfg),
             pool_idle = (if dbc_MaxIdleConns cfg \<le> 0 then 5 else dbc_MaxIdleConns cfg),
             pool_lifetime = 5 * 60 * 10 ^ 9, pool_pragmas = []\<rparr>)"

section \<open>The modules\<close>

text \<open>A run of migrations, each with the prefix of its error.\<close>

fun migrate_all :: "'d start_env \<Rightarrow> (string \<times> string \<times> string) list \<Rightarrow> 'd app action" where
  "migrate_all e [] a = (a, None)"
| "migrate_all e ((label, name, sql) # ms) a =
     (case DB_Migrate (start_driver e) name sql (app_db a) of
        (db, Some err) \<Rightarrow> (a\<lparr>app_db := db\<rparr>, Some (label @ '': '' @ err))
      | (db, None) \<Rightarrow> migrate_all e ms (a\<lparr>app_db := db\<rparr>))"

definition devices_Init :: "'d start_env \<Rightarrow> 'd app action" where
  "devices_Init e = migrate_all e
     [(''devices: migrate v1'', ''devices_v1'', devices_migration),
      (''devices: migrate org'', ''devices_v2_org'', devices_orgMigration)]"

definition telemetry_Init :: "'d start_env \<Rightarrow> 'd app action" where
  "telemetry_Init e = migrate_all e
     [(''telemetry: migrate'', ''telemetry_v1'', telemetry_migration),
      (''telemetry: migrate org'', ''telemetry_v2_org'', telemetry_orgMigration)]"

definition mqtt_Init :: "'d start_env \<Rightarrow> 'd app action" where
  "mqtt_Init e a =
     (case se_hook_err e of
        Some err \<Rightarrow> (a, Some (''mqtt: add hook: '' @ err))
      | None \<Rightarrow> (a\<lparr>app_broker := True\<rparr>, None))"

definition alerts_Init :: "'d start_env \<Rightarrow> 'd app action" where
  "alerts_Init e = migrate_all e
     [(''alerts: migrate'', ''alerts_v1'', alerts_migrations),
      (''alerts: migrate org'', ''alerts_v2_org'', alerts_orgMigration)]"

text \<open>After its migration the module stores the admin key; that result is ignored.\<close>

definition auth_module_Init :: "'d start_env \<Rightarrow> 'd app action" where
  "auth_module_Init e a =
     (case migrate_all e [(''auth: migrate'', ''auth_v1'', auth_migration)] a of
        (a1, Some err) \<Rightarrow> (a1, Some err)
      | (a1, None) \<Rightarrow>
          (let db = app_db a1
           in (a1\<lparr>app_db := db\<lparr>mig_rest := apsnd (auth_Init (se_auth e) (se_now e)) (mig_rest db)\<rparr>\<rparr>, None)))"

definition commands_Init :: "'d start_env \<Rightarrow> 'd app action" where
  "commands_Init e = migrate_all e
     [(''commands: migrate'', ''commands_v1'', commands_migration),
      (''commands: migrate org'', ''commands_v2_org'', commands_orgMigration)]"

definition ota_Init :: "'d start_env \<Rightarrow> 'd app action" where
  "ota_Init e a =
     (case migrate_all e
             [(''ota: migrate'', ''ota_v1'', ota_migrations),
              (''ota: migrate org'', ''ota_v2_org'', ota_orgMigration)] a of
        (a1, Some err) \<Rightarrow> (a1, Some err)
      | (a1, None) \<Rightarrow>
          (case se_mkdir_err e ''data/firmware'' of
             Some err \<Rightarrow> (a1, Some (''ota: mkdir: '' @ err))
           | None \<Rightarrow> (a1\<lparr>app_dirs := insert ''data/firmware'' (app_dirs a1)\<rparr>, None)))"

definition webhooks_Init :: "'d start_env \<Rightarrow> 'd app action" where
  "webhooks_Init e = migrate_all e
     [(''webhooks: migrate'', ''webhooks_v1'', webhooks_migrations),
      (''webhooks: migrate org'', ''webhooks_v2_org'', webhooks_orgMigration)]"

definition fleet_Init :: "'d start_env \<Rightarrow> 'd app action" where
  "fleet_Init e = migrate_all e
     [(''fleet: migrate'', ''fleet_v1'', fleet_migrations),
      (''fleet: migrate org'', ''fleet_v2_org'', fleet_orgMigration)]"

definition tenant_Init :: "'d start_env \<Rightarrow> 'd app action" where
  "tenant_Init e = migrate_all e [(''tenant: migrate'', ''tenant_v1'', tenant_migrations)]"

definition audit_Init :: "'d start_env \<Rightarrow> 'd app action" where
  "audit_Init e = migrate_all e
     [(''audit: migrate'', ''audit_v1'', audit_migration),
      (''audit: migrate org'', ''audit_v2_org'', audit_orgMigration)]"

definition no_action :: "'d app action" where
  "no_action a = (a, None)"

text \<open>
  \<open>RegisterRoutes\<close>: a conflict of patterns is a panic, after which nothing happens any more.
\<close>

definition register_routes :: "string list \<Rightarrow> 'd app action" where
  "register_routes ps a =
     (if app_panic a \<noteq> None then (a, None)
      else (case HandleFuncs (app_mux a) ps of
              Inl p \<Rightarrow> (a\<lparr>app_panic := Some p\<rparr>, None) | Inr mux \<Rightarrow> (a\<lparr>app_mux := mux\<rparr>, None)))"

definition telemetry_module_Start :: "int \<Rightarrow> int \<Rightarrow> 'd app action" where
  "telemetry_module_Start ttl interval a =
     (if ttl > 0 \<and> interval > 0 then (a\<lparr>app_loops := app_loops a @ [''pruneLoop'']\<rparr>, None) else (a, None))"

definition close_stopCh :: "string \<Rightarrow> 'd app action" where
  "close_stopCh owner a =
     (if owner \<in> set (app_closed a) then (a\<lparr>app_panic := Some ''close of closed channel''\<rparr>, None)
      else (a\<lparr>app_closed := app_closed a @ [owner]\<rparr>, None))"

definition mqtt_module_Start :: "'d start_env \<Rightarrow> int \<Rightarrow> 'd app action" where
  "mqtt_module_Start e port a =
     mqtt_Start (\<lambda>addr a. (a, se_listen_err e addr))
       (\<lambda>a. a\<lparr>app_loops := app_loops a @ [''mqtt'']\<rparr>) \<lparr>mq_server = app_broker a, mq_Port = port\<rparr> a"

definition mqtt_module_Stop :: "'d start_env \<Rightarrow> int \<Rightarrow> 'd app action" where
  "mqtt_module_Stop e port a =
     mqtt_Stop (\<lambda>a. (a, se_close_err e)) \<lparr>mq_server = app_broker a, mq_Port = port\<rparr> a"

definition simulator_module_Stop :: "'d app action" where
  "simulator_module_Stop a =
     (case simulator_Stop (app_sim a) of
        Inl p \<Rightarrow> (a\<lparr>app_panic := Some p\<rparr>, None) | Inr s \<Rightarrow> (a\<lparr>app_sim := s\<rparr>, None))"

section \<open>Putting the program together\<close>

definition db_module :: "string \<Rightarrow> 'd app action \<Rightarrow> string list \<Rightarrow> ('c, 'd app) go_module" where
  "db_module name init ps =
     \<lparr>Mod_Name = name, Mod_Init = \<lambda>cfg. init, Mod_RegisterRoutes = register_routes ps,
      Mod_Start = no_action, Mod_Stop = no_action\<rparr>"

definition mod_telemetry :: "'d start_env \<Rightarrow> int \<Rightarrow> int \<Rightarrow> ('c, 'd app) go_module" where
  "mod_telemetry e ttl interval =
     (db_module ''telemetry'' (telemetry_Init e) (map fst telemetry_routes))
       \<lparr>Mod_Start := telemetry_module_Start ttl interval, Mod_Stop := close_stopCh ''telemetry''\<rparr>"

definition mod_mqtt :: "'d start_env \<Rightarrow> int \<Rightarrow> ('c, 'd app) go_module" where
  "mod_mqtt e port =
     (db_module ''mqtt'' (mqtt_Init e) mqtt_routes)
       \<lparr>Mod_Start := mqtt_module_Start e port, Mod_Stop := mqtt_module_Stop e port\<rparr>"

definition mod_events :: "('c, 'd app) go_module" where
  "mod_events = (db_module ''events'' no_action events_routes)\<lparr>Mod_Stop := close_stopCh ''events''\<rparr>"

definition mod_simulator :: "('c, 'd app) go_module" where
  "mod_simulator = (db_module ''simulator'' no_action simulator_routes)\<lparr>Mod_Stop := simulator_module_Stop\<rparr>"

text \<open>The modules in the order of their registration.\<close>

definition deviceos_modules :: "'d start_env \<Rightarrow> Config \<Rightarrow> (Config, 'd app) go_module list" where
  "deviceos_modules e cfg =
     (let duration = (\<lambda>s. case se_duration e s of Some d \<Rightarrow> d | None \<Rightarrow> 0);
          ttl = duration (Mod_TelemetryTTL (Cfg_Modules cfg));
          interval = duration (Mod_TelemetryPruneInterval (Cfg_Modules cfg))
      in [db_module ''devices'' (devices_Init e) (map fst devices_routes),
          mod_telemetry e ttl interval,
          mod_mqtt e (Mqtt_Port (Mod_MQTT (Cfg_Modules cfg))),
          mod_events,
          db_module ''alerts'' (alerts_Init e) (map fst alerts_routes),
          db_module ''auth'' (auth_module_Init e) (map fst auth_routes),
          db_module ''commands'' (commands_Init e) (map fst commands_routes),
          db_module ''ota'' (ota_Init e) (map fst ota_routes),
          db_module ''webhooks'' (webhooks_Init e) (map fst webhooks_routes),
          db_module ''fleet'' (fleet_Init e) (map fst fleet_routes),
          db_module ''tenant'' (tenant_Init e) (map fst tenant_routes),
          db_module ''audit'' (audit_Init e) audit_routes,
          mod_simulator,
          db_module ''dashboard'' no_action dashboard_routes])"

datatype log_level = LevelDebug | LevelInfo | LevelWarn | LevelError

definition setLogLevel :: "string \<Rightarrow> log_level" where
  "setLogLevel level =
     (if level = ''debug'' then LevelDebug else if level = ''info'' then LevelInfo
      else if level = ''warn'' then LevelWarn else if level = ''error'' then LevelError
      else LevelInfo)"

text \<open>The configuration of the server; every registered module reports \<open>ok\<close>.\<close>

definition module_stats :: "('c, 's) Registry \<Rightarrow> (string \<times> string) list" where
  "module_stats r = map (\<lambda>n. (n, ''ok'')) (Names r)"

definition start_server_config ::
    "Config \<Rightarrow> ('c, 's) Registry \<Rightarrow> 't srv_middleware \<Rightarrow> 't server_config" where
  "start_server_config cfg r auth =
     (let s = Cfg_Server cfg
      in \<lparr>cfg_Host = Srv_Host s, cfg_Port = Srv_Port s, cfg_TLSKey = Srv_TLSKey s,
          cfg_TLSCert = Srv_TLSCert s, cfg_AllowedOrigins = Srv_AllowedOrigins s,
          cfg_RateLimitRPM = Srv_RateLimitRPM s, cfg_ModuleStats = Some (module_stats r),
          cfg_AuthMiddleware = Some auth\<rparr>)"

text \<open>
  How the command ends: a logged error and exit status 1, a panic, or the return after a signal
  or an error of the server. A panic in a pass shows in the state.
\<close>

datatype start_outcome = StartFailed string | StartPanicked string | StartReturned

definition after_pass :: "'d app \<times> string option \<Rightarrow> string \<Rightarrow> ('d app \<Rightarrow> 'd app \<times> start_outcome) \<Rightarrow> 'd app \<times> start_outcome" where
  "after_pass res msg k =
     (case res of (a, err) \<Rightarrow>
        (case app_panic a of
           Some p \<Rightarrow> (a, StartPanicked p)
         | None \<Rightarrow> (case err of Some x \<Rightarrow> (a, StartFailed (msg @ x)) | None \<Rightarrow> k a)))"

text \<open>
  \<open>cmdStart\<close>. \<open>serve\<close> is what the running program does until the signal arrives or the server
  stops; it begins in the state in which everything is registered.
\<close>

definition cmdStart ::
    "'d start_env \<Rightarrow> Config result \<Rightarrow> ('d app \<Rightarrow> 'd app) \<Rightarrow> 'd app \<Rightarrow> 'd app \<times> start_outcome" where
  "cmdStart e loaded serve_until a0 =
     (case loaded of
        Inl err \<Rightarrow> (a0, StartFailed (''failed to load config: '' @ err))
      | Inr cfg \<Rightarrow>
     (case se_mkdir_err e ''data'' of
        Some err \<Rightarrow> (a0, StartFailed (''failed to create data directory: '' @ err))
      | None \<Rightarrow>
     (let a1 = a0\<lparr>app_dirs := insert ''data'' (app_dirs a0)\<rparr>; sto = Cfg_Storage cfg
      in case db_Open e \<lparr>dbc_Path = Sto_Path sto, dbc_MaxOpenConns = Sto_MaxOpenConns sto,
                        dbc_MaxIdleConns = Sto_MaxIdleConns sto\<rparr> of
           Inl err \<Rightarrow> (a1, StartFailed (''failed to open database: '' @ err))
         | Inr pool \<Rightarrow>
     (case Register_all registry_New (deviceos_modules e cfg) of
        Inl p \<Rightarrow> (a1\<lparr>app_panic := Some p\<rparr>, StartPanicked p)
      | Inr r \<Rightarrow>
          after_pass (InitAll cfg r (a1\<lparr>app_mux := server_routes\<rparr>)) ''module init failed: ''
            (\<lambda>a2. after_pass (RegisterAllRoutes r a2) ''route registration failed: ''
              (\<lambda>a3. after_pass (StopAll r (serve_until a3), None) [] (\<lambda>a4. (a4, StartReturned))))))))"

section \<open>What a start does\<close>

text \<open>The names of the migrations with the catalog, and the rest of the state.\<close>

definition migration_view :: "'d app \<Rightarrow> string list \<times> catalog" where
  "migration_view a = (names_in (mig_rows (app_db a)), fst (mig_rest (app_db a)))"

definition app_data :: "'d app \<Rightarrow> 'd" where
  "app_data a = snd (mig_rest (app_db a))"

fun apply_migration :: "string \<times> string \<Rightarrow> string list \<times> catalog \<Rightarrow> string list \<times> catalog" where
  "apply_migration (name, sql) (names, cat) =
     (if name \<in> set names then (names, cat) else (names @ [name], run_ddl sql cat))"

text \<open>
  \<open>evolves ms g D a b\<close>: from \<open>a\<close> to \<open>b\<close> the migrations \<open>ms\<close> were applied, the data changed by
  \<open>g\<close>, the directories \<open>D\<close> were made, and nothing else that \<open>evolves\<close> names changed.
\<close>

definition evolves ::
    "(string \<times> string) list \<Rightarrow> ('d \<Rightarrow> 'd) \<Rightarrow> string set \<Rightarrow> 'd app \<Rightarrow> 'd app \<Rightarrow> bool" where
  "evolves ms g D a b \<longleftrightarrow>
     migration_view b = fold apply_migration ms (migration_view a) \<and> app_data b = g (app_data a)
     \<and> app_dirs b = app_dirs a \<union> D \<and> app_mux b = app_mux a \<and> app_loops b = app_loops a
     \<and> app_closed b = app_closed a \<and> app_panic b = app_panic a \<and> app_sim b = app_sim a"

lemma evolves_refl: "evolves [] (\<lambda>d. d) {} a a"
  by (simp add: evolves_def)

lemma evolves_trans:
  "evolves ms g D a b \<Longrightarrow> evolves ns h E b c \<Longrightarrow> evolves (ms @ ns) (h \<circ> g) (D \<union> E) a c"
  by (auto simp: evolves_def)

lemma run_text_ddl: "run_text (start_driver e) sql (cat, d) = (run_ddl sql cat, d)"
proof -
  have "fold (\<lambda>stmt. apfst (ddl stmt)) xs (c, d) = (fold ddl xs c, d)" for xs c
    by (induction xs arbitrary: c) auto
  then show ?thesis
    by (simp add: run_text_def run_ddl_def start_driver_def)
qed

lemma Migrate_evolves:
  assumes "DB_Migrate (start_driver e) name sql (app_db a) = (db, None)"
  shows "evolves [(name, sql)] (\<lambda>d. d) {} a (a\<lparr>app_db := db\<rparr>)"
  using assms
proof (cases rule: Migrate_cases)
  case new
  then show ?thesis
    using run_text_ddl [of e sql "fst (mig_rest (app_db a))" "snd (mig_rest (app_db a))"]
    by (simp add: evolves_def migration_view_def app_data_def)
qed (simp_all add: evolves_def migration_view_def app_data_def)

lemma migrate_all_evolves:
  "migrate_all e ms a = (b, None) \<Longrightarrow> evolves (map snd ms) (\<lambda>d. d) {} a b"
proof (induction ms arbitrary: a)
  case Nil
  then show ?case by (simp add: evolves_refl)
next
  case (Cons m ms)
  obtain label name sql where m: "m = (label, name, sql)" by (cases m) auto
  obtain db where db: "DB_Migrate (start_driver e) name sql (app_db a) = (db, None)"
      "migrate_all e ms (a\<lparr>app_db := db\<rparr>) = (b, None)"
    using Cons.prems by (auto simp: m split: prod.splits option.splits)
  from evolves_trans [OF Migrate_evolves [OF db(1)] Cons.IH [OF db(2)]] show ?case
    by (simp add: m comp_def)
qed

text \<open>A pass of actions evolves by what each of them evolves by.\<close>

lemma until_error_evolves:
  assumes "list_all2 (\<lambda>m (ms, g, D). \<forall>a b. f m a = (b, None) \<longrightarrow> evolves ms g D a b) mods effs"
    and "until_error f mods a = (b, None)"
  shows "evolves (concat (map fst effs)) (fold (\<lambda>(ms, g, D). (\<circ>) g) effs (\<lambda>d. d)) (\<Union>(ms, g, D) \<in> set effs. D) a b"
proof -
  have "evolves (ns @ concat (map fst effs)) (fold (\<lambda>(ms, g, D). (\<circ>) g) effs h)
      (E \<union> (\<Union>(ms, g, D) \<in> set effs. D)) a0 b"
    if "evolves ns h E a0 a" for ns h E a0
    using assms that
  proof (induction mods effs arbitrary: a ns h E rule: list_all2_induct)
    case Nil
    then show ?case by simp
  next
    case (Cons m mods eff effs)
    obtain ms g D where eff: "eff = (ms, g, D)" by (cases eff) auto
    obtain a1 where a1: "f m a = (a1, None)" "until_error f mods a1 = (b, None)"
      using Cons.prems(1) by (auto split: prod.splits option.splits)
    with Cons.hyps(1) eff have "evolves ms g D a a1" by auto
    from Cons.IH [OF a1(2) evolves_trans [OF Cons.prems(2) this]] show ?case
      by (simp add: eff Un_assoc)
  qed
  from this [OF evolves_refl] show ?thesis by simp
qed

lemma HandleFuncs_append:
  "HandleFuncs mux (ps @ qs) = bind_result (HandleFuncs mux ps) (\<lambda>mux'. HandleFuncs mux' qs)"
  by (induction ps arbitrary: mux) (auto simp: bind_result_def split: sum.splits)

lemma register_pass:
  assumes "map Mod_RegisterRoutes mods = map register_routes rss"
    and "HandleFuncs (app_mux a) (concat rss) = Inr mux" and "app_panic a = None"
  shows "until_error Mod_RegisterRoutes mods a = (a\<lparr>app_mux := mux\<rparr>, None)"
  using assms
proof (induction mods arbitrary: rss a)
  case (Cons m mods)
  then obtain rs rss' where rss: "rss = rs # rss'" by (cases rss) auto
  with Cons.prems(2) obtain mux1 where mux1: "HandleFuncs (app_mux a) rs = Inr mux1"
      "HandleFuncs mux1 (concat rss') = Inr mux"
    by (auto simp: HandleFuncs_append bind_result_eq_Inr)
  with Cons.prems(1,3) rss have "Mod_RegisterRoutes m a = (a\<lparr>app_mux := mux1\<rparr>, None)"
    by (simp add: register_routes_def)
  with Cons.IH [of rss' "a\<lparr>app_mux := mux1\<rparr>"] Cons.prems(1,3) mux1(2) rss show ?case by simp
qed simp

text \<open>What each module's \<open>Init\<close> evolves by, in the order of registration.\<close>

definition init_effects :: "'d start_env \<Rightarrow> ((string \<times> string) list \<times> ('d \<Rightarrow> 'd) \<times> string set) list" where
  "init_effects e =
     [([(''devices_v1'', devices_migration), (''devices_v2_org'', devices_orgMigration)], (\<lambda>d. d), {}),
      ([(''telemetry_v1'', telemetry_migration), (''telemetry_v2_org'', telemetry_orgMigration)], (\<lambda>d. d), {}),
      ([], (\<lambda>d. d), {}), ([], (\<lambda>d. d), {}),
      ([(''alerts_v1'', alerts_migrations), (''alerts_v2_org'', alerts_orgMigration)], (\<lambda>d. d), {}),
      ([(''auth_v1'', auth_migration)], auth_Init (se_auth e) (se_now e), {}),
      ([(''commands_v1'', commands_migration), (''commands_v2_org'', commands_orgMigration)], (\<lambda>d. d), {}),
      ([(''ota_v1'', ota_migrations), (''ota_v2_org'', ota_orgMigration)], (\<lambda>d. d), {''data/firmware''}),
      ([(''webhooks_v1'', webhooks_migrations), (''webhooks_v2_org'', webhooks_orgMigration)], (\<lambda>d. d), {}),
      ([(''fleet_v1'', fleet_migrations), (''fleet_v2_org'', fleet_orgMigration)], (\<lambda>d. d), {}),
      ([(''tenant_v1'', tenant_migrations)], (\<lambda>d. d), {}),
      ([(''audit_v1'', audit_migration), (''audit_v2_org'', audit_orgMigration)], (\<lambda>d. d), {}),
      ([], (\<lambda>d. d), {}), ([], (\<lambda>d. d), {})]"

lemma mqtt_Init_evolves: "mqtt_Init e a = (b, None) \<Longrightarrow> evolves [] (\<lambda>d. d) {} a b"
  by (auto simp: mqtt_Init_def evolves_def migration_view_def app_data_def split: option.splits)

lemma no_action_evolves: "no_action a = (b, None) \<Longrightarrow> evolves [] (\<lambda>d. d) {} a b"
  by (auto simp: no_action_def evolves_refl)

lemma auth_Init_evolves:
  assumes "auth_module_Init e a = (b, None)"
  shows "evolves [(''auth_v1'', auth_migration)] (auth_Init (se_auth e) (se_now e)) {} a b"
proof -
  obtain a1 where a1: "migrate_all e [(''auth: migrate'', ''auth_v1'', auth_migration)] a = (a1, None)"
      "b = a1\<lparr>app_db := (app_db a1)\<lparr>mig_rest := apsnd (auth_Init (se_auth e) (se_now e)) (mig_rest (app_db a1))\<rparr>\<rparr>"
    using assms by (auto simp: auth_module_Init_def Let_def simp del: migrate_all.simps split: prod.splits option.splits)
  from migrate_all_evolves [OF a1(1)] show ?thesis
    by (simp add: evolves_def a1(2) migration_view_def app_data_def)
qed

lemma ota_Init_evolves:
  assumes "ota_Init e a = (b, None)"
  shows "evolves [(''ota_v1'', ota_migrations), (''ota_v2_org'', ota_orgMigration)] (\<lambda>d. d) {''data/firmware''} a b"
proof -
  obtain a1 where a1: "migrate_all e
        [(''ota: migrate'', ''ota_v1'', ota_migrations), (''ota: migrate org'', ''ota_v2_org'', ota_orgMigration)] a
      = (a1, None)" "b = a1\<lparr>app_dirs := insert ''data/firmware'' (app_dirs a1)\<rparr>"
    using assms by (auto simp: ota_Init_def simp del: migrate_all.simps split: prod.splits option.splits)
  from migrate_all_evolves [OF a1(1)] show ?thesis
    by (simp add: evolves_def a1(2) migration_view_def app_data_def)
qed

lemmas module_Inits =
  devices_Init_def telemetry_Init_def alerts_Init_def commands_Init_def webhooks_Init_def
  fleet_Init_def tenant_Init_def audit_Init_def

lemmas module_records =
  db_module_def mod_telemetry_def mod_mqtt_def mod_events_def mod_simulator_def

lemma module_inits_evolve:
  "list_all2 (\<lambda>m (ms, g, D). \<forall>a b. Mod_Init m cfg a = (b, None) \<longrightarrow> evolves ms g D a b)
     (deviceos_modules e cfg) (init_effects e)"
  unfolding deviceos_modules_def init_effects_def Let_def list_all2_Cons list_all2_Nil prod.case
  by (intro conjI allI impI TrueI)
     (simp_all add: module_records module_Inits mqtt_Init_evolves no_action_evolves auth_Init_evolves
        ota_Init_evolves del: migrate_all.simps, (drule migrate_all_evolves, simp)+)

lemma module_names: "map Mod_Name (deviceos_modules e cfg) = map fst module_routes"
  by (simp add: deviceos_modules_def Let_def module_records module_routes_def)

lemma module_names_distinct: "distinct (map fst module_routes)"
  by (simp add: module_routes_def)

lemma module_register: "map Mod_RegisterRoutes (deviceos_modules e cfg) = map register_routes (map snd module_routes)"
  by (simp add: deviceos_modules_def Let_def module_records module_routes_def)

lemma deviceos_registry:
  obtains r where "Register_all registry_New (deviceos_modules e cfg) = Inr r"
    "registered r (deviceos_modules e cfg)"
  using Register_all_registered [OF registered_New, of "deviceos_modules e cfg"]
  by (auto simp: module_names module_names_distinct)

lemma after_pass_returned:
  "after_pass res msg k = (a, StartReturned) \<Longrightarrow>
     \<exists>b. res = (b, None) \<and> app_panic b = None \<and> k b = (a, StartReturned)"
  by (auto simp: after_pass_def split: prod.splits option.splits)

text \<open>All names known or none: the two databases a start can meet.\<close>

lemma apply_migrations_known:
  "fst ` set ms \<subseteq> set names \<Longrightarrow> fold apply_migration ms (names, cat) = (names, cat)"
  by (induction ms) auto

lemma apply_migrations_new:
  "distinct (names @ map fst ms) \<Longrightarrow>
   fold apply_migration ms (names, cat) = (names @ map fst ms, fold (\<lambda>(name, sql). run_ddl sql) ms cat)"
  by (induction ms arbitrary: names cat) auto

lemma migration_names_distinct: "distinct (map fst migration_texts)"
  by (simp add: migration_texts_def)

lemma init_effects_all:
  "concat (map fst (init_effects e)) = migration_texts"
  "fold (\<lambda>(ms, g, D). (\<circ>) g) (init_effects e) (\<lambda>d. d) = auth_Init (se_auth e) (se_now e)"
  "(\<Union>(ms, g, D) \<in> set (init_effects e). D) = {''data/firmware''}"
  by (simp_all add: init_effects_def migration_texts_def comp_def fun_eq_iff)

definition stop_modules :: "'d start_env \<Rightarrow> Config \<Rightarrow> 'd app \<Rightarrow> 'd app" where
  "stop_modules e cfg a = fold (\<lambda>m s. fst (Mod_Stop m s)) (rev (deviceos_modules e cfg)) a"

text \<open>
  C6: when the command returns, the program served in one state, the one all modules had built in
  their order: every route was registered, the migrations that were not recorded had run, so that
  an empty database got the full catalog and a complete one was left alone, of the data only the
  admin key had changed, and the modules are stopped in the reverse order. But no module was ever
  started: neither the loop that prunes telemetry nor the MQTT broker runs, whatever the
  configuration says.
\<close>

theorem startup_effect:
  assumes "cmdStart e (Inr cfg) serve_until a0 = (a, StartReturned)"
  shows "\<exists>up. a = stop_modules e cfg (serve_until up)
     \<and> app_mux up = deviceos_routes \<and> app_loops up = app_loops a0
     \<and> app_data up = auth_Init (se_auth e) (se_now e) (app_data a0)
     \<and> app_dirs up = app_dirs a0 \<union> {''data'', ''data/firmware''}
     \<and> migration_view up = fold apply_migration migration_texts (migration_view a0)
     \<and> (migration_view a0 = ([], []) \<longrightarrow> migration_view up = (map fst migration_texts, deviceos_catalog))
     \<and> (fst ` set migration_texts \<subseteq> set (fst (migration_view a0)) \<longrightarrow> migration_view up = migration_view a0)"
proof -
  obtain r where r: "Register_all registry_New (deviceos_modules e cfg) = Inr r"
      "registered r (deviceos_modules e cfg)"
    by (rule deviceos_registry)
  let ?a1 = "a0\<lparr>app_dirs := insert ''data'' (app_dirs a0), app_mux := server_routes\<rparr>"
  have "after_pass (InitAll cfg r ?a1) ''module init failed: ''
      (\<lambda>a2. after_pass (RegisterAllRoutes r a2) ''route registration failed: ''
        (\<lambda>a3. after_pass (StopAll r (serve_until a3), None) [] (\<lambda>a4. (a4, StartReturned))))
      = (a, StartReturned)"
    using assms by (auto simp: cmdStart_def Let_def r(1) split: option.splits sum.splits)
  then obtain a2 a3 where a2: "InitAll cfg r ?a1 = (a2, None)" "app_panic a2 = None"
      and a3: "RegisterAllRoutes r a2 = (a3, None)" and a: "a = StopAll r (serve_until a3)"
    by (auto dest!: after_pass_returned)
  have ev: "evolves migration_texts (auth_Init (se_auth e) (se_now e)) {''data/firmware''} ?a1 a2"
    using until_error_evolves [OF module_inits_evolve] a2(1) registered_passes(1) [OF r(2)]
    by (metis init_effects_all)
  then have mux: "app_mux a2 = server_routes" by (simp add: evolves_def)
  have "RegisterAllRoutes r a2 = (a2\<lparr>app_mux := deviceos_routes\<rparr>, None)"
    using register_pass [OF module_register, of a2] routes_registered registered_passes(2) [OF r(2)]
    by (simp add: mux a2(2))
  with a3 have up: "a3 = a2\<lparr>app_mux := deviceos_routes\<rparr>" by simp
  have view: "migration_view a3 = fold apply_migration migration_texts (migration_view a0)"
    "app_data a3 = auth_Init (se_auth e) (se_now e) (app_data a0)"
    using ev by (simp_all add: up evolves_def migration_view_def app_data_def)
  have new: "migration_view a3 = (map fst migration_texts, deviceos_catalog)" if "migration_view a0 = ([], [])"
    using that view(1) apply_migrations_new [of "[]" migration_texts "[]"] migration_names_distinct
      migrations_catalog by simp
  have old: "migration_view a3 = migration_view a0" if "fst ` set migration_texts \<subseteq> set (fst (migration_view a0))"
    using that view(1) apply_migrations_known [of migration_texts "fst (migration_view a0)" "snd (migration_view a0)"]
    by simp
  have "a = stop_modules e cfg (serve_until a3)"
    using StopAll_registered [OF r(2)] a by (simp add: stop_modules_def)
  then show ?thesis
    using ev view new old by (intro exI [of _ a3]) (auto simp: up evolves_def)
qed

section \<open>A start without refusals\<close>

lemma run_statements_quiet:
  "drv_err drv = (\<lambda>c d. None) \<Longrightarrow> \<exists>tx. run_statements drv stmts db = (tx, None) \<and> mig_rows tx = mig_rows db"
proof (induction stmts arbitrary: db)
  case (Cons s ss)
  from Cons.IH [OF Cons.prems, of db]
    Cons.IH [OF Cons.prems, of "db\<lparr>mig_rest := drv_ddl drv (trim_space s) (mig_rest db)\<rparr>"] Cons.prems
  show ?case by (auto simp: Let_def)
qed simp

lemma next_version_new:
  assumes "q \<in> set rs"
  shows "St_Version q \<noteq> max_version 0 rs + 1"
proof -
  have "St_Version q \<le> Max (set (map St_Version rs))" using assms by (intro Max_ge) auto
  with assms show ?thesis by (cases rs) (auto simp: max_version_def)
qed

definition usable :: "mig_table \<Rightarrow> bool" where
  "usable t \<longleftrightarrow> (case t of OldTable names \<Rightarrow> False | _ \<Rightarrow> True)"

lemma Migrate_quiet:
  assumes "drv_err drv = (\<lambda>c d. None)" and "usable (mig_rows db)"
  shows "\<exists>db'. DB_Migrate drv name sql db = (db', None) \<and> usable (mig_rows db')"
proof -
  obtain rs where rs: "ensureMigrationTable drv db = (db\<lparr>mig_rows := NewTable rs\<rparr>, None)"
    using assms by (cases db; cases "mig_rows db") (auto simp: ensureMigrationTable_def usable_def)
  let ?db = "db\<lparr>mig_rows := NewTable rs\<rparr>"
  obtain tx where tx: "run_statements drv (split_on CHR '';'' sql) ?db = (tx, None)" "mig_rows tx = NewTable rs"
    using run_statements_quiet [OF assms(1), of "split_on CHR '';'' sql" ?db] by auto
  have "\<not> list_ex (\<lambda>q. St_Version q = max_version 0 rs + 1 \<or> St_Name q = name) rs"
    if "name \<notin> St_Name ` set rs"
    using that next_version_new by (force simp: list_ex_iff)
  then show ?thesis
    by (auto simp: DB_Migrate_def rs assms(1) tx Let_def commit_row_def next_version_def usable_def)
qed

definition ready :: "'d app \<Rightarrow> bool" where
  "ready a \<longleftrightarrow> usable (mig_rows (app_db a)) \<and> app_panic a = None"

lemma until_error_ready:
  "(\<And>m a. m \<in> set mods \<Longrightarrow> ready a \<Longrightarrow> \<exists>b. f m a = (b, None) \<and> ready b) \<Longrightarrow> ready a \<Longrightarrow>
   \<exists>b. until_error f mods a = (b, None) \<and> ready b"
proof (induction mods arbitrary: a)
  case (Cons m mods)
  then obtain b where "f m a = (b, None)" "ready b" by fastforce
  with Cons.IH [of b] Cons.prems(1) show ?case by auto
qed simp

lemma migrate_all_ready:
  "drv_err (start_driver e) = (\<lambda>c d. None) \<Longrightarrow> ready a \<Longrightarrow> \<exists>b. migrate_all e ms a = (b, None) \<and> ready b"
proof (induction ms arbitrary: a)
  case (Cons m ms)
  obtain label name sql where m: "m = (label, name, sql)" by (cases m) auto
  obtain db where "DB_Migrate (start_driver e) name sql (app_db a) = (db, None)" "usable (mig_rows db)"
    using Migrate_quiet [OF Cons.prems(1), of "app_db a" name sql] Cons.prems(2) by (auto simp: ready_def)
  with Cons.IH [OF Cons.prems(1), of "a\<lparr>app_db := db\<rparr>"] Cons.prems(2) m show ?case
    by (simp add: ready_def)
qed simp

definition quiet_env :: "tables start_env" where
  "quiet_env =
     \<lparr>se_call_err = \<lambda>c d. None, se_sha = \<lambda>s. s, se_auth = demo_auth, se_now = 0, se_mkdir_err = \<lambda>d. None,
      se_hook_err = None, se_listen_err = \<lambda>d. None, se_close_err = None, se_open_err = \<lambda>p. None,
      se_pragma_err = \<lambda>p. None, se_duration = \<lambda>s. Some 1\<rparr>"

definition first_app :: "tables app" where
  "first_app =
     \<lparr>app_db = \<lparr>mig_rows = Missing, mig_rest = ([], \<lambda>n. [])\<rparr>, app_mux = [], app_dirs = {}, app_broker = False,
      app_loops = [], app_closed = [], app_sim = simulator_New, app_panic = None\<rparr>"

lemma quiet_inits: "m \<in> set (deviceos_modules quiet_env cfg) \<Longrightarrow> ready a \<Longrightarrow> \<exists>b. Mod_Init m cfg a = (b, None) \<and> ready b"
proof -
  have q: "drv_err (start_driver quiet_env) = (\<lambda>c d. None)"
    by (simp add: start_driver_def quiet_env_def)
  have auth: "\<exists>b. auth_module_Init quiet_env a = (b, None) \<and> ready b" if "ready a" for a
    using migrate_all_ready [OF q that, of "[(''auth: migrate'', ''auth_v1'', auth_migration)]"]
    by (auto simp: auth_module_Init_def Let_def ready_def simp del: migrate_all.simps)
  have ota: "\<exists>b. ota_Init quiet_env a = (b, None) \<and> ready b" if "ready a" for a
    using migrate_all_ready [OF q that, of "[(''ota: migrate'', ''ota_v1'', ota_migrations),
        (''ota: migrate org'', ''ota_v2_org'', ota_orgMigration)]"]
    by (auto simp: ota_Init_def ready_def quiet_env_def simp del: migrate_all.simps)
  have mqtt: "\<exists>b. mqtt_Init quiet_env a = (b, None) \<and> ready b" if "ready a" for a
    using that by (simp add: mqtt_Init_def ready_def quiet_env_def)
  show "m \<in> set (deviceos_modules quiet_env cfg) \<Longrightarrow> ready a \<Longrightarrow> \<exists>b. Mod_Init m cfg a = (b, None) \<and> ready b"
    by (auto simp: deviceos_modules_def Let_def module_records module_Inits no_action_def auth ota mqtt
        simp del: migrate_all.simps intro: migrate_all_ready [OF q])
qed

lemma quiet_open: "\<exists>pool. db_Open quiet_env c = Inr pool"
  by (simp add: db_Open_def quiet_env_def db_pragmas_def)

lemma quiet_stops:
  assumes "app_closed a = []" "app_panic a = None" "app_sim a = simulator_New"
  shows "app_panic (stop_modules quiet_env cfg a) = None"
  using assms
  by (simp add: stop_modules_def deviceos_modules_def Let_def module_records no_action_def close_stopCh_def
      simulator_module_Stop_def simulator_Stop_def simulator_New_def mqtt_module_Stop_def mqtt_Stop_def
      quiet_env_def)

lemma quiet_start: "\<exists>a. cmdStart quiet_env (Inr cfg) (\<lambda>a. a) first_app = (a, StartReturned)"
proof -
  obtain r where r: "Register_all registry_New (deviceos_modules quiet_env cfg) = Inr r"
      "registered r (deviceos_modules quiet_env cfg)"
    by (rule deviceos_registry)
  let ?a1 = "first_app\<lparr>app_dirs := insert ''data'' (app_dirs first_app), app_mux := server_routes\<rparr>"
  have "ready ?a1" by (simp add: ready_def first_app_def usable_def)
  then obtain a2 where a2: "InitAll cfg r ?a1 = (a2, None)" "ready a2"
    using until_error_ready [of "deviceos_modules quiet_env cfg" "\<lambda>m. Mod_Init m cfg" ?a1] quiet_inits
    by (auto simp: registered_passes(1) [OF r(2)])
  have ev: "evolves migration_texts (auth_Init (se_auth quiet_env) (se_now quiet_env)) {''data/firmware''} ?a1 a2"
    using until_error_evolves [OF module_inits_evolve] a2(1) registered_passes(1) [OF r(2)]
    by (metis init_effects_all)
  have "RegisterAllRoutes r a2 = (a2\<lparr>app_mux := deviceos_routes\<rparr>, None)"
    using register_pass [OF module_register, of a2] routes_registered registered_passes(2) [OF r(2)] ev a2(2)
    by (simp add: evolves_def ready_def)
  moreover have "app_panic (StopAll r (a2\<lparr>app_mux := deviceos_routes\<rparr>)) = None"
    using ev a2(2) quiet_stops [of "a2\<lparr>app_mux := deviceos_routes\<rparr>" cfg]
    by (simp add: StopAll_registered [OF r(2)] stop_modules_def evolves_def ready_def first_app_def)
  moreover obtain pool where "db_Open quiet_env \<lparr>dbc_Path = Sto_Path (Cfg_Storage cfg),
      dbc_MaxOpenConns = Sto_MaxOpenConns (Cfg_Storage cfg),
      dbc_MaxIdleConns = Sto_MaxIdleConns (Cfg_Storage cfg)\<rparr> = Inr pool"
    using quiet_open by blast
  moreover have "se_mkdir_err quiet_env ''data'' = None" by (simp add: quiet_env_def)
  ultimately show ?thesis
    using a2 r(1) by (simp add: cmdStart_def Let_def after_pass_def ready_def)
qed

theorem startup_effect_witness:
  "\<exists>a up. cmdStart quiet_env (Inr config_Default) (\<lambda>a. a) first_app = (a, StartReturned)
     \<and> a = stop_modules quiet_env config_Default up \<and> app_mux up = deviceos_routes \<and> app_loops up = []
     \<and> migration_view up = (map fst migration_texts, deviceos_catalog)"
proof -
  obtain a where a: "cmdStart quiet_env (Inr config_Default) (\<lambda>a. a) first_app = (a, StartReturned)"
    using quiet_start by blast
  have "migration_view first_app = ([], [])" "app_loops first_app = []"
    by (simp_all add: migration_view_def first_app_def)
  with startup_effect [OF a] a show ?thesis by auto
qed

end
