(* ===== verification/Pipeline.thy ===== *)
theory Pipeline
  imports Alerts Events Telemetry
begin

text \<open>
  The wiring of \<open>cmd/deviceos/start.go\<close> between the modules: the telemetry module with the alert
  hook and the event hook, on the state the three share.
\<close>

section \<open>The shared state\<close>

text \<open>The data of the engine, the telemetry module's hub and the hub of the events module.\<close>

record ('d, 'c) live =
  lv_db :: 'd
  lv_hub :: "'c Hub"
  lv_events :: "'c event_hub"

definition live_engine :: "'d engine \<Rightarrow> ('d, 'c) live engine" where
  "live_engine E = lift_engine lv_db (\<lambda>d s. s\<lparr>lv_db := d\<rparr>) E"

definition telemetry_New ::
    "'s engine \<Rightarrow> (json \<Rightarrow> 's \<Rightarrow> 's) \<Rightarrow> int \<Rightarrow> int \<Rightarrow> 's telemetry_module" where
  "telemetry_New db broadcast ttl interval =
     \<lparr>tel_db = db, tel_broadcast = broadcast, tel_hooks = [], telemetryTTL = ttl, pruneInterval = interval\<rparr>"

section \<open>The hooks\<close>

definition alerts_hook ::
    "'d engine \<Rightarrow> (rat \<Rightarrow> string) \<Rightarrow> (nat \<Rightarrow> int \<times> int) \<Rightarrow> ('d, 'c) live telemetry_hook" where
  "alerts_hook E fmtv clk deviceID metrics metadata s =
     s\<lparr>lv_db := OnTelemetry E fmtv clk deviceID metrics metadata (lv_db s)\<rparr>"

definition reading_event :: "string \<Rightarrow> json option \<Rightarrow> json option \<Rightarrow> Event" where
  "reading_event deviceID metrics metadata =
     \<lparr>Evt_Type = ''telemetry'',
      Evt_Data = Some (JObj [(''device_id'', JStr deviceID), (''metadata'', jraw metadata),
                            (''metrics'', jraw metrics)])\<rparr>"

text \<open>\<open>visit\<close> is the order in which the hub's map is enumerated.\<close>

definition events_hook ::
    "('c \<Rightarrow> bool) \<Rightarrow> ('c event_hub \<Rightarrow> 'c list) \<Rightarrow> ('d, 'c) live telemetry_hook" where
  "events_hook okc visit deviceID metrics metadata s =
     s\<lparr>lv_events := Publish okc (visit (lv_events s)) (reading_event deviceID metrics metadata) (lv_events s)\<rparr>"

definition start_telemetry ::
    "'d engine \<Rightarrow> (rat \<Rightarrow> string) \<Rightarrow> (nat \<Rightarrow> int \<times> int) \<Rightarrow> ('c \<Rightarrow> bool) \<Rightarrow> ('c event_hub \<Rightarrow> 'c list) \<Rightarrow>
     int \<Rightarrow> int \<Rightarrow> ('d, 'c) live telemetry_module" where
  "start_telemetry E fmtv clk okc visit ttl interval =
     AddTelemetryHook (events_hook okc visit)
       (AddTelemetryHook (alerts_hook E fmtv clk)
         (telemetry_New (live_engine E) (\<lambda>j s. s\<lparr>lv_hub := Hub_Broadcast okc j (lv_hub s)\<rparr>) ttl interval))"

section \<open>A reading on its way\<close>

lemma live_store:
  "storeTelemetry (live_engine E) s dev ts mx md org =
     (case storeTelemetry E (lv_db s) dev ts mx md org of (d, x) \<Rightarrow> (s\<lparr>lv_db := d\<rparr>, x))"
  by (simp add: storeTelemetry_def live_engine_def lift_engine_def case_prod_unfold split: prod.splits sum.splits)

lemma Hub_Broadcast_inbox:
  "hub_inbox (Hub_Broadcast okc msg h) c =
     hub_inbox h c @ (if c \<in> hub_clients h \<and> okc c then [msg] else [])"
  by (simp add: Hub_Broadcast_def Let_def)

text \<open>
  C25: a reading that is stored is stored before anything else happens; then every working
  connection of the telemetry hub gets it once, the alert rules are evaluated on the stored
  state, and every working subscriber of the event hub that wants telemetry gets one event with
  the device, the metrics and the metadata, an empty object when there were none. A reading that
  is not stored reaches nobody and no rule.
\<close>

theorem reading_reaches_all:
  assumes "telemetry_Store (start_telemetry E fmtv clk okc visit ttl interval) s dev ts (Some mx) md org = (s', x)"
    and "hub_inv (lv_events s)" and "\<And>h. mset (visit h) = mset (map fst (ev_subs h))"
  shows "let md' = (case md of None \<Rightarrow> JObj [] | Some j \<Rightarrow> j);
         stored = storeTelemetry E (lv_db s) dev ts mx md' org
     in snd stored = x
      \<and> (case x of
           Inl err \<Rightarrow> s' = s\<lparr>lv_db := fst stored\<rparr>
         | Inr i \<Rightarrow>
             lv_db s' = OnTelemetry E fmtv clk dev (Some mx) (Some md') (fst stored)
             \<and> (\<forall>c. hub_inbox (lv_hub s') c = hub_inbox (lv_hub s) c
                  @ (if c \<in> hub_clients (lv_hub s) \<and> okc c then [telemetry_event i dev ts mx md'] else []))
             \<and> (\<forall>c. ev_inbox (lv_events s') c = ev_inbox (lv_events s) c
                  @ (if receives (lv_events s) ''telemetry'' c \<and> okc c
                     then [JObj [(''type'', JStr ''telemetry''),
                                 (''data'', JObj [(''device_id'', JStr dev), (''metadata'', md'), (''metrics'', mx)])]]
                     else [])))"
proof -
  let ?md = "case md of None \<Rightarrow> JObj [] | Some j \<Rightarrow> j"
  obtain d y where st: "storeTelemetry E (lv_db s) dev ts mx ?md org = (d, y)" by fastforce
  have m: "marshal_event (reading_event dev (Some mx) (Some ?md)) = Some (JObj [(''type'', JStr ''telemetry''),
      (''data'', JObj [(''device_id'', JStr dev), (''metadata'', ?md), (''metrics'', mx)])])"
    by (simp add: marshal_event_def reading_event_def jraw_def)
  note inbox = Publish_effect(2) [OF assms(3) assms(2) m, where okc = okc, unfolded reading_event_def Event.simps]
  show ?thesis
  proof (cases y)
    case (Inl err)
    with assms(1) st have "x = Inl err" "s' = s\<lparr>lv_db := d\<rparr>"
      by (auto simp: telemetry_Store_def start_telemetry_def AddTelemetryHook_def telemetry_New_def live_store Let_def)
    with Inl st show ?thesis by (simp add: Let_def)
  next
    case (Inr i)
    with assms(1) st have s': "x = Inr i"
        "lv_db s' = OnTelemetry E fmtv clk dev (Some mx) (Some ?md) d"
        "lv_hub s' = Hub_Broadcast okc (telemetry_event i dev ts mx ?md) (lv_hub s)"
        "lv_events s' = Publish okc (visit (lv_events s)) (reading_event dev (Some mx) (Some ?md)) (lv_events s)"
      by (auto simp: telemetry_Store_def start_telemetry_def AddTelemetryHook_def telemetry_New_def live_store
          Let_def alerts_hook_def events_hook_def)
    with Inr st show ?thesis
      by (simp add: Let_def Hub_Broadcast_inbox inbox reading_event_def)
  qed
qed

theorem reading_reaches_all_witness:
  "ev_inbox (lv_events (fst (telemetry_Store
     (start_telemetry (memory_db False) (\<lambda>q. []) (\<lambda>n. (0, 0)) (\<lambda>c. True) (\<lambda>h. map fst (ev_subs h)) 1 1)
     \<lparr>lv_db = \<lambda>n. [], lv_hub = NewHub, lv_events = Subscribe ''a'' None events_NewHub\<rparr>
     ''d1'' 7 (Some JNull) None ''acme''))) ''a''
   = [JObj [(''type'', JStr ''telemetry''),
            (''data'', JObj [(''device_id'', JStr ''d1''), (''metadata'', JObj []), (''metrics'', JNull)])]]"
proof -
  let ?s = "\<lparr>lv_db = \<lambda>n. [], lv_hub = NewHub, lv_events = Subscribe ''a'' None events_NewHub\<rparr>"
  let ?m = "start_telemetry (memory_db False) (\<lambda>q. []) (\<lambda>n. (0, 0)) (\<lambda>c. True) (\<lambda>h. map fst (ev_subs h)) 1 1"
  obtain s' x where run: "telemetry_Store ?m ?s ''d1'' 7 (Some JNull) None ''acme'' = (s', x)" by fastforce
  have ev: "ev_subs (Subscribe ''a'' None events_NewHub) = [(''a'', \<lparr>sub_events = None\<rparr>)]"
    "ev_inbox (Subscribe ''a'' None events_NewHub) ''a'' = []" "ev_removing (Subscribe ''a'' None events_NewHub) = {}"
    by (simp_all add: Subscribe_def events_NewHub_def Let_def)
  have "\<exists>d i. storeTelemetry (memory_db False) (\<lambda>n. []) ''d1'' 7 JNull (JObj []) ''acme'' = (d, Inr i)"
    by (simp add: storeTelemetry_def telemetry_sql memory_db_eval DB_same Let_def)
  then obtain d i where st: "storeTelemetry (memory_db False) (\<lambda>n. []) ''d1'' 7 JNull (JObj []) ''acme'' = (d, Inr i)"
    by blast
  have inv: "hub_inv (lv_events ?s)" by (simp add: hub_inv_def ev)
  from reading_reaches_all [OF run inv refl] st show ?thesis
    by (auto simp: Let_def ev run receives_def wants_def)
qed

end
