(* ===== verification/Cli.thy ===== *)
theory Cli
  imports Backup Version "HOL-Library.AList"
begin

text \<open>
  \<open>cmd/deviceos\<close>: the dispatch of the subcommands with their flags, and the commands \<open>init\<close>,
  \<open>status\<close> and \<open>version\<close>. \<open>backup\<close> and \<open>restore\<close> are in \<open>Backup\<close>, \<open>start\<close> is in \<open>Startup\<close>. Printed
  texts are the lines of the terminal.
\<close>

section \<open>Flags\<close>

text \<open>
  A flag set of the package \<open>flag\<close> with one text flag, which exits on an error: with 0 when help
  was asked for, else with 2.
\<close>

datatype flag_result = FlagValue string | FlagExit int

definition split_flag :: "string \<Rightarrow> string \<times> string option" where
  "split_flag n =
     (let k = takeWhile (\<lambda>c. c \<noteq> CHR ''='') n
      in if length k < length n then (k, Some (drop (length k + 1) n)) else (n, None))"

fun parse_flags :: "string \<Rightarrow> string \<Rightarrow> string list \<Rightarrow> flag_result" where
  "parse_flags name v [] = FlagValue v"
| "parse_flags name v (a # rest) =
     (if length a < 2 \<or> hd a \<noteq> CHR ''-'' \<or> a = ''--'' then FlagValue v
      else
        (let n = drop (if a ! 1 = CHR ''-'' then 2 else 1) a
         in if n = [] \<or> hd n = CHR ''-'' \<or> hd n = CHR ''='' then FlagExit 2
            else
              (case split_flag n of
                 (k, given) \<Rightarrow>
                   if k = name
                   then (case given of
                           Some x \<Rightarrow> parse_flags name x rest
                         | None \<Rightarrow> (case rest of [] \<Rightarrow> FlagExit 2 | x # rest' \<Rightarrow> parse_flags name x rest'))
                   else if k = ''help'' \<or> k = ''h'' then FlagExit 0 else FlagExit 2)))"

section \<open>Dispatch\<close>

datatype command =
    CmdStart string | CmdInit | CmdVersion | CmdStatus string | CmdBackup string | CmdRestore string
  | CmdUsage | CmdUnknown string | CmdRestoreUsage | CmdFlagExit int

definition with_flag :: "string \<Rightarrow> string \<Rightarrow> string list \<Rightarrow> (string \<Rightarrow> command) \<Rightarrow> command" where
  "with_flag name v args f =
     (case parse_flags name v args of FlagValue x \<Rightarrow> f x | FlagExit n \<Rightarrow> CmdFlagExit n)"

text \<open>\<open>args\<close> is \<open>os.Args\<close>, the name of the program first.\<close>

definition main_dispatch :: "string list \<Rightarrow> command" where
  "main_dispatch args =
     (case args of
        _ # sub # rest \<Rightarrow>
          if sub = ''start'' then with_flag ''config'' ''deviceos.yaml'' rest CmdStart
          else if sub = ''init'' then CmdInit
          else if sub \<in> {''version'', ''--version'', ''-v''} then CmdVersion
          else if sub = ''status'' then with_flag ''config'' ''deviceos.yaml'' rest CmdStatus
          else if sub = ''backup'' then with_flag ''output'' [] rest CmdBackup
          else if sub = ''restore''
          then (case rest of [] \<Rightarrow> CmdRestoreUsage | file # _ \<Rightarrow> CmdRestore file)
          else if sub \<in> {''help'', ''--help'', ''-h''} then CmdUsage
          else CmdUnknown sub
      | _ \<Rightarrow> CmdUsage)"

lemma parse_flags_forms:
  assumes "name \<noteq> []" "CHR ''='' \<notin> set name" "hd name \<noteq> CHR ''-''"
  shows "parse_flags name d [''-'' @ name, x] = FlagValue x"
    and "parse_flags name d [''--'' @ name @ ''='' @ x] = FlagValue x"
    and "parse_flags name d [''-'' @ name] = FlagExit 2"
proof -
  have k: "takeWhile (\<lambda>c. c \<noteq> CHR ''='') (name @ CHR ''='' # x) = name"
    "takeWhile (\<lambda>c. c \<noteq> CHR ''='') name = name"
    using assms(2) by (subst takeWhile_append2, auto)
  have eq: "hd name \<noteq> CHR ''=''" using assms(1,2) by (cases name) auto
  obtain c cs where n: "name = c # cs" using assms(1) by (cases name) auto
  have c: "c \<noteq> CHR ''-''" "c \<noteq> CHR ''=''" using assms(3) eq n by simp_all
  have split: "split_flag name = (name, None)" "split_flag (name @ CHR ''='' # x) = (name, Some x)"
    by (simp_all add: split_flag_def Let_def k)
  show "parse_flags name d [''-'' @ name, x] = FlagValue x" "parse_flags name d [''-'' @ name] = FlagExit 2"
    using c split(1) by (simp_all add: n)
  show "parse_flags name d [''--'' @ name @ ''='' @ x] = FlagValue x"
    using c split(2) by (simp add: n)
qed

section \<open>\<open>init\<close>\<close>

definition os_WriteFile :: "os_env \<Rightarrow> fs \<Rightarrow> string \<Rightarrow> string \<Rightarrow> fs \<times> string option" where
  "os_WriteFile e f p bytes =
     (case os_Create e f p of
        Inl err \<Rightarrow> (f, Some err)
      | Inr f1 \<Rightarrow>
          (case os_copy_err e f1 [] p of
             Some (part, err) \<Rightarrow> (f1(p \<mapsto> FileNode part), Some err)
           | None \<Rightarrow> (f1(p \<mapsto> FileNode bytes), None)))"

definition os_MkdirAll :: "os_env \<Rightarrow> fs \<Rightarrow> string \<Rightarrow> fs \<times> string option" where
  "os_MkdirAll e f d =
     (case f d of
        Some DirNode \<Rightarrow> (f, None)
      | Some (FileNode s) \<Rightarrow> (f, Some (''mkdir '' @ d @ '': not a directory''))
      | None \<Rightarrow>
          (case os_create_err e f d of Some err \<Rightarrow> (f, Some err) | None \<Rightarrow> (f(d \<mapsto> DirNode), None)))"

definition init_header :: string where
  "init_header =
     ''# DeviceOS Configuration'' @ [CHR 0x0A]
     @ ''# Generated by '' @ [CHR 0x27] @ ''deviceos init'' @ [CHR 0x27, CHR 0x0A]
     @ ''# All values can also be set via environment variables (prefix: DEVICEOS_).'' @ [CHR 0x0A, CHR 0x0A]"

text \<open>The directories of the loop; the only one is \<open>data\<close>.\<close>

fun init_dirs :: "os_env \<Rightarrow> string list \<Rightarrow> terminal \<Rightarrow> outcome \<times> terminal" where
  "init_dirs e [] t = (Returned, t)"
| "init_dirs e (d # ds) t =
     (case os_MkdirAll e (t_fs t) d of
        (f, Some err) \<Rightarrow> (Exited 1, t_error (''error: failed to create '' @ d @ '': '' @ err) (t_set_fs f t))
      | (f, None) \<Rightarrow> init_dirs e ds (t_print (''  created '' @ d @ ''/'') (t_set_fs f t)))"

definition init_finish :: "os_env \<Rightarrow> terminal \<Rightarrow> outcome \<times> terminal" where
  "init_finish e t =
     (case init_dirs e [''data''] t of
        (Returned, t2) \<Rightarrow>
          (Returned, t_print (CHR 0x0A # ''Done. Run '' @ [CHR 0x27] @ ''deviceos start'' @ [CHR 0x27]
                       @ '' to launch the server.'') t2)
      | r \<Rightarrow> r)"

text \<open>\<open>marshal\<close> is \<open>yaml.Marshal\<close>.\<close>

definition cmdInit :: "os_env \<Rightarrow> (Config \<Rightarrow> string result) \<Rightarrow> terminal \<Rightarrow> outcome \<times> terminal" where
  "cmdInit e marshal t0 =
     (let t = t_print ''Initializing DeviceOS project...'' t0
      in if os_Stat e (t_fs t) ''deviceos.yaml'' = StatMissing
         then (case marshal config_Default of
                 Inl err \<Rightarrow> (Exited 1, t_error (''error: failed to marshal config: '' @ err) t)
               | Inr data \<Rightarrow>
                   (case os_WriteFile e (t_fs t) ''deviceos.yaml'' (init_header @ data) of
                      (f, Some err) \<Rightarrow>
                        (Exited 1, t_error (''error: failed to write config: '' @ err) (t_set_fs f t))
                    | (f, None) \<Rightarrow> init_finish e (t_print ''  created deviceos.yaml'' (t_set_fs f t))))
         else init_finish e (t_print ''  deviceos.yaml already exists, skipping'' t))"

section \<open>\<open>status\<close> and \<open>version\<close>\<close>

text \<open>
  \<open>get\<close> is \<open>http.Get\<close>: the status line and the JSON body; \<open>fmtv\<close> prints a value. The members
  are printed in one of the orders of the range statement; the last of a repeated name counts.
\<close>

definition unmarshal_map :: "json option \<Rightarrow> (string \<times> json) list result" where
  "unmarshal_map b =
     (case b of
        Some (JObj kvs) \<Rightarrow> Inr (AList.clearjunk (rev kvs))
      | Some JNull \<Rightarrow> Inr []
      | Some _ \<Rightarrow> Inl ''json: cannot unmarshal into Go value of type map[string]interface {}''
      | None \<Rightarrow> Inl ''invalid character'')"

definition cmdStatus ::
    "cmd_env \<Rightarrow> (string \<Rightarrow> (string \<times> json option) result) \<Rightarrow> (json \<Rightarrow> string) \<Rightarrow> string \<Rightarrow> terminal \<Rightarrow>
     outcome \<times> terminal" where
  "cmdStatus c get fmtv cfgPath t =
     (case load_config c t cfgPath of
        Inl err \<Rightarrow> (Exited 1, t_error (''error: failed to load config: '' @ err) t)
      | Inr cfg \<Rightarrow>
     (let s = Cfg_Server cfg;
          addr = ''http://'' @ Srv_Host s @ '':'' @ itoa (Srv_Port s) @ ''/healthz''
      in case get addr of
           Inl err \<Rightarrow> (Exited 1, t_error (''error: server not reachable at '' @ addr @ '': '' @ err) t)
         | Inr (status, body) \<Rightarrow>
     (case unmarshal_map body of
        Inl err \<Rightarrow> (Exited 1, t_error (''error: invalid response: '' @ err) t)
      | Inr kvs \<Rightarrow>
          (Returned,
           fold (\<lambda>(k, v). t_print (''  '' @ k @ '': '' @ fmtv v)) kvs
             (t_print (''Status: '' @ status) (t_print (''Server: '' @ addr) t))))))"

definition cmdVersion :: "go_runtime \<Rightarrow> terminal \<Rightarrow> outcome \<times> terminal" where
  "cmdVersion rt t =
     (Returned, t_print (buildinfo_String (ReadBuildInfo rt)) (t_print [] (t_print Banner t)))"

section \<open>What \<open>init\<close> does\<close>

lemma os_MkdirAll_dir:
  "os_MkdirAll e f d = (f', None) \<Longrightarrow> f' d = Some DirNode \<and> f' = f(d \<mapsto> DirNode)"
  by (auto simp: os_MkdirAll_def split: option.splits node.splits)

lemma os_WriteFile_ok: "os_WriteFile e f p b = (f', None) \<Longrightarrow> f' = f(p \<mapsto> FileNode b)"
  by (auto simp: os_WriteFile_def dest: os_Create_Inr split: option.splits sum.splits)

lemma init_finish_returned:
  assumes "init_finish e t = (Returned, t')"
  shows "t_fs t' = (t_fs t)(''data'' \<mapsto> DirNode)"
proof -
  obtain f r where m: "os_MkdirAll e (t_fs t) ''data'' = (f, r)" by fastforce
  show ?thesis
  proof (cases r)
    case None
    with m have "f = (t_fs t)(''data'' \<mapsto> DirNode)" using os_MkdirAll_dir by blast
    with assms m None show ?thesis by (auto simp: init_finish_def)
  qed (use assms m in \<open>simp add: init_finish_def\<close>)
qed

lemma cmdInit_returned:
  assumes "cmdInit e marshal t = (Returned, t')"
  shows "if os_Stat e (t_fs t) ''deviceos.yaml'' = StatMissing
     then \<exists>data. marshal config_Default = Inr data
        \<and> t_fs t' = (t_fs t)(''deviceos.yaml'' \<mapsto> FileNode (init_header @ data), ''data'' \<mapsto> DirNode)
     else t_fs t' = (t_fs t)(''data'' \<mapsto> DirNode)"
proof (cases "os_Stat e (t_fs t) ''deviceos.yaml'' = StatMissing")
  case True
  let ?t = "t_print ''Initializing DeviceOS project...'' t"
  note I = assms [unfolded cmdInit_def Let_def terminal_fs if_P [OF True]]
  obtain data where m: "marshal config_Default = Inr data"
    using I by (cases "marshal config_Default") simp_all
  obtain f r where w: "os_WriteFile e (t_fs t) ''deviceos.yaml'' (init_header @ data) = (f, r)" by fastforce
  note J = I [unfolded m sum.case w prod.case]
  have r: "r = None" using J by (cases r) auto
  have "t_fs t' = f(''data'' \<mapsto> DirNode)"
    using init_finish_returned [OF J [unfolded r option.case]] by simp
  with m os_WriteFile_ok [OF w [unfolded r]] True show ?thesis by auto
next
  case False
  note I = assms [unfolded cmdInit_def Let_def terminal_fs if_not_P [OF False]]
  from init_finish_returned [OF I] False show ?thesis by simp
qed

text \<open>
  \<open>init\<close> never overwrites a configuration: when it returns, a \<open>deviceos.yaml\<close> that was there is
  untouched and only the directory \<open>data\<close> was added; where none was, the file holds the header and
  the defaults, so that, if the YAML library reads back what it wrote, every command that loads
  it gets the defaults under the environment's overrides; and a second \<open>init\<close> changes no file.
\<close>

theorem init_effect:
  assumes "cmdInit e marshal t = (Returned, t')"
  shows "(os_Stat e (t_fs t) ''deviceos.yaml'' \<noteq> StatMissing \<longrightarrow> t_fs t' = (t_fs t)(''data'' \<mapsto> DirNode))
     \<and> (os_Stat e (t_fs t) ''deviceos.yaml'' = StatMissing \<longrightarrow>
          (\<exists>data. marshal config_Default = Inr data
            \<and> t_fs t' = (t_fs t)(''deviceos.yaml'' \<mapsto> FileNode (init_header @ data), ''data'' \<mapsto> DirNode)
            \<and> (\<forall>vars yaml. yaml (init_header @ data) config_Default = Inr config_Default
                 \<longrightarrow> os_open_err e (t_fs t') ''deviceos.yaml'' = None
                 \<longrightarrow> config_Validate (env_config vars config_Default) = None
                 \<longrightarrow> config_Load vars yaml (os_ReadFile e (t_fs t') ''deviceos.yaml'')
                     = Inr (env_config vars config_Default))))
     \<and> (\<forall>t''. cmdInit e marshal t' = (Returned, t'') \<longrightarrow>
          os_stat_err e (t_fs t') ''deviceos.yaml'' = None \<longrightarrow> t_fs t' ''deviceos.yaml'' \<noteq> None \<longrightarrow>
          t_fs t'' = t_fs t')"
proof (intro conjI impI allI)
  assume "os_Stat e (t_fs t) ''deviceos.yaml'' \<noteq> StatMissing"
  with cmdInit_returned [OF assms] show "t_fs t' = (t_fs t)(''data'' \<mapsto> DirNode)" by simp
next
  assume "os_Stat e (t_fs t) ''deviceos.yaml'' = StatMissing"
  with cmdInit_returned [OF assms] obtain data where d: "marshal config_Default = Inr data"
      "t_fs t' = (t_fs t)(''deviceos.yaml'' \<mapsto> FileNode (init_header @ data), ''data'' \<mapsto> DirNode)"
    by auto
  have "config_Load vars yaml (os_ReadFile e (t_fs t') ''deviceos.yaml'') = Inr (env_config vars config_Default)"
    if "yaml (init_header @ data) config_Default = Inr config_Default"
      "os_open_err e (t_fs t') ''deviceos.yaml'' = None"
      "config_Validate (env_config vars config_Default) = None" for vars yaml
    using that by (simp add: config_Load_def os_ReadFile_def d(2) applyEnvOverrides_exact)
  with d show "\<exists>data. marshal config_Default = Inr data
      \<and> t_fs t' = (t_fs t)(''deviceos.yaml'' \<mapsto> FileNode (init_header @ data), ''data'' \<mapsto> DirNode)
      \<and> (\<forall>vars yaml. yaml (init_header @ data) config_Default = Inr config_Default
           \<longrightarrow> os_open_err e (t_fs t') ''deviceos.yaml'' = None
           \<longrightarrow> config_Validate (env_config vars config_Default) = None
           \<longrightarrow> config_Load vars yaml (os_ReadFile e (t_fs t') ''deviceos.yaml'')
               = Inr (env_config vars config_Default))"
    by blast
next
  fix t'' assume again: "cmdInit e marshal t' = (Returned, t'')"
    and "os_stat_err e (t_fs t') ''deviceos.yaml'' = None" "t_fs t' ''deviceos.yaml'' \<noteq> None"
  then have "os_Stat e (t_fs t') ''deviceos.yaml'' \<noteq> StatMissing"
    by (auto simp: os_Stat_def)
  with cmdInit_returned [OF again] have "t_fs t'' = (t_fs t')(''data'' \<mapsto> DirNode)" by simp
  moreover have "t_fs t' ''data'' = Some DirNode"
    using cmdInit_returned [OF assms] by (auto split: if_splits)
  ultimately show "t_fs t'' = t_fs t'" by (simp add: fun_upd_idem)
qed

theorem init_effect_witness:
  "t_fs (snd (cmdInit plain_os (\<lambda>c. Inr ''defaults'') (plain_terminal []))) ''deviceos.yaml''
     = Some (FileNode (init_header @ ''defaults''))"
proof -
  have r: "fst (cmdInit plain_os (\<lambda>c. Inr ''defaults'') (plain_terminal [])) = Returned" by code_simp
  then have run: "cmdInit plain_os (\<lambda>c. Inr ''defaults'') (plain_terminal [])
      = (Returned, snd (cmdInit plain_os (\<lambda>c. Inr ''defaults'') (plain_terminal [])))"
    by (simp add: prod_eq_iff)
  have m: "os_Stat plain_os (t_fs (plain_terminal [])) ''deviceos.yaml'' = StatMissing" by code_simp
  obtain data where "Inr ''defaults'' = (Inr data :: string result)"
      "t_fs (snd (cmdInit plain_os (\<lambda>c. Inr ''defaults'') (plain_terminal [])))
        = (t_fs (plain_terminal []))(''deviceos.yaml'' \<mapsto> FileNode (init_header @ data), ''data'' \<mapsto> DirNode)"
    using init_effect [OF run, THEN conjunct2, THEN conjunct1, rule_format, OF m] by (elim exE conjE)
  then show ?thesis by simp
qed

end
