(* ===== verification/Simload.thy ===== *)
theory Simload
  imports Simulator "HOL-Library.Multiset"
begin

text \<open>
  \<open>cmd/simload/main.go\<close>: the load generator. It logs in, registers devices through a pool of
  goroutines and two channels, then posts readings, once per device or at a rate. The server's
  answers, the clock and \<open>encoding/json\<close>'s parser and error texts are arguments; the goroutines
  are the steps of relations, one per stage.
\<close>

section \<open>Latencies\<close>

text \<open>\<open>latencyTracker\<close>: the recorded durations in the order of the calls to \<open>Record\<close>.\<close>

type_synonym tracker = "int list"

definition sl_Record :: "int \<Rightarrow> tracker \<Rightarrow> tracker" where
  "sl_Record d lt = lt @ [d]"

text \<open>
  \<open>int(math.Ceil(float64(n)*p))-1\<close>, computed in \<open>float64\<close>; the constant \<open>p\<close> is rounded first.
\<close>

definition sl_index :: "rat \<Rightarrow> nat \<Rightarrow> int" where
  "sl_index p n = \<lceil>fmul (f64_round (of_nat n)) (f64_round p)\<rceil> - 1"

text \<open>An index outside the slice is a panic.\<close>

definition sl_at :: "'a list \<Rightarrow> int \<Rightarrow> 'a result" where
  "sl_at xs i =
     (if 0 \<le> i \<and> i < int (length xs) then Inr (xs ! nat i)
      else Inl ''runtime error: index out of range'')"

definition sl_Report :: "tracker \<Rightarrow> (int \<times> int \<times> int) result" where
  "sl_Report lt =
     (if lt = [] then Inr (0, 0, 0)
      else (let sorted = sort lt; n = length sorted
            in bind_result (sl_at sorted (sl_index (50 / 100) n)) (\<lambda>p50.
               bind_result (sl_at sorted (sl_index (95 / 100) n)) (\<lambda>p95.
               bind_result (sl_at sorted (sl_index (99 / 100) n)) (\<lambda>p99.
               Inr (p50, p95, p99))))))"

text \<open>\<open>d.Round(time.Millisecond)\<close>, halves away from zero, saturating at the ends of \<open>int64\<close>.\<close>

definition roundDur :: "int \<Rightarrow> int" where
  "roundDur d =
     (let m = 1000000 :: int; r = d - m * go_quot d m
      in if d < 0
         then (let r' = - r
               in if 2 * r' < m then d + r'
                  else (let d1 = wrap64 (d - m + r') in if d1 < d then d1 else - (2 ^ 63)))
         else if 2 * r < m then d - r
         else (let d1 = wrap64 (d + m - r) in if d < d1 then d1 else 2 ^ 63 - 1))"

section \<open>The client's requests\<close>

text \<open>An answer of \<open>http.Client.Do\<close>: an error, or a status and the body.\<close>

type_synonym reply = "string + (int \<times> string)"

record sl_request =
  rq_method :: string
  rq_url :: string
  rq_header :: "(string \<times> string) list"
  rq_body :: json

definition status_error :: "int \<Rightarrow> string \<Rightarrow> string" where
  "status_error c raw = ''status '' @ itoa c @ '': '' @ raw"

definition login_request :: "string \<Rightarrow> string \<Rightarrow> sl_request" where
  "login_request server apiKey =
     \<lparr>rq_method = ''POST'', rq_url = server @ ''/api/v1/auth/login'',
      rq_header = [(''Content-Type'', ''application/json'')],
      rq_body = JObj [(''api_key'', JStr apiKey)]\<rparr>"

text \<open>
  \<open>login\<close> ignores the error of \<open>json.Unmarshal\<close>, which leaves the members that fit: a token of
  the wrong type is skipped.
\<close>

fun lax_string :: "string setter" where
  "lax_string (JStr s) t = Some s"
| "lax_string _ t = Some t"

definition login_token :: "json option \<Rightarrow> string" where
  "login_token j =
     (case decode_body [(''token'', lax_string)] j [] of None \<Rightarrow> [] | Some t \<Rightarrow> t)"

definition login :: "(string \<Rightarrow> json option) \<Rightarrow> reply \<Rightarrow> string result" where
  "login parse resp =
     (case resp of
        Inl err \<Rightarrow> Inl (''request: '' @ err)
      | Inr (code, raw) \<Rightarrow>
          if code \<noteq> 200 then Inl (status_error code raw)
          else (let t = login_token (parse raw)
                in if t = [] then Inl ''no token in response'' else Inr t))"

text \<open>\<open>fmt.Sprintf("%05d", idx)\<close>.\<close>

definition pad5 :: "nat \<Rightarrow> string" where
  "pad5 i = (let s = itoa (int i) in replicate (5 - length s) (CHR ''0'') @ s)"

definition bearer_request :: "string \<Rightarrow> string \<Rightarrow> json \<Rightarrow> sl_request" where
  "bearer_request url token payload =
     \<lparr>rq_method = ''POST'', rq_url = url,
      rq_header = [(''Content-Type'', ''application/json''), (''Authorization'', ''Bearer '' @ token)],
      rq_body = payload\<rparr>"

definition registerDevice_request :: "string \<Rightarrow> string \<Rightarrow> nat \<Rightarrow> sl_request" where
  "registerDevice_request server token idx =
     bearer_request (server @ ''/api/v1/devices'') token
       (JObj [(''name'', JStr (''sim-device-'' @ pad5 idx)), (''tags'', JArr [JStr ''simulation'']),
              (''type'', JStr ''simulator'')])"

text \<open>The answer's struct: a member \<open>device\<close> with a member \<open>id\<close>.\<close>

fun set_device_id :: "string setter" where
  "set_device_id JNull i = Some i"
| "set_device_id j i = decode_struct [(''id'', set_string (\<lambda>f. f))] j i"

definition registerDevice ::
    "(string \<Rightarrow> json option) \<Rightarrow> (string \<Rightarrow> string) \<Rightarrow> reply \<Rightarrow> string result" where
  "registerDevice parse jerr resp =
     (case resp of
        Inl err \<Rightarrow> Inl (''request: '' @ err)
      | Inr (code, raw) \<Rightarrow>
          if code \<noteq> 201 then Inl (status_error code raw)
          else (case decode_body [(''device'', set_device_id)] (parse raw) [] of
                  None \<Rightarrow> Inl (''parse: '' @ jerr raw @ '' ('' @ raw @ '')'')
                | Some i \<Rightarrow> if i = [] then Inl ''empty device id'' else Inr i))"

text \<open>The reading: \<open>UnixNano\<close> is read once per metric.\<close>

definition tenths_above :: "rat \<Rightarrow> int \<Rightarrow> int \<Rightarrow> rat" where
  "tenths_above base m now = fadd base (fdiv (of_int (now - m * go_quot now m)) 10)"

definition sendTelemetry_request :: "string \<Rightarrow> string \<Rightarrow> string \<Rightarrow> int \<Rightarrow> int \<Rightarrow> sl_request" where
  "sendTelemetry_request server token deviceID now1 now2 =
     bearer_request (server @ ''/api/v1/telemetry'') token
       (JObj [(''device_id'', JStr deviceID),
              (''metrics'', JObj [(''humidity'', jfloat (tenths_above 40 500 now2)),
                                 (''temperature'', jfloat (tenths_above 20 100 now1))])])"

definition sendTelemetry :: "reply \<Rightarrow> string option" where
  "sendTelemetry resp =
     (case resp of
        Inl err \<Rightarrow> Some (''request: '' @ err)
      | Inr (code, raw) \<Rightarrow> if code \<noteq> 201 then Some (status_error code raw) else None)"

lemma login_ok:
  "login parse resp = Inr t \<longleftrightarrow>
     (\<exists>raw. resp = Inr (200, raw) \<and> login_token (parse raw) = t \<and> t \<noteq> [])"
  by (auto simp: login_def Let_def split: sum.splits if_splits)

lemma registerDevice_nonempty: "registerDevice parse jerr resp = Inr i \<Longrightarrow> i \<noteq> []"
  by (auto simp: registerDevice_def split: sum.splits option.splits if_splits)

lemma sendTelemetry_ok: "sendTelemetry resp = None \<longleftrightarrow> (\<exists>raw. resp = Inr (201, raw))"
  by (auto simp: sendTelemetry_def split: sum.splits)

section \<open>Percentiles\<close>

text \<open>
  Rounding to \<open>float64\<close> does not cross a multiple of \<open>1 / 2 ^ j\<close> as long as the values are small
  enough for all these multiples to be exact.
\<close>

lemma f64_ulp_small:
  assumes "0 \<le> q" and "q < 2 ^ (53 - j)" and "j \<le> 52"
  shows "max (f64_exp q) (- 1022) - 52 \<le> - int j"
proof (cases "1 \<le> q")
  case True
  have "\<lfloor>q\<rfloor> < 2 ^ (53 - j)"
    using assms(2) by (simp add: floor_less_iff)
  then have "floorlog 2 (nat \<lfloor>q\<rfloor>) \<le> 53 - j"
    using True by (simp add: floorlog_le_iff nat_less_iff)
  then have "int (floorlog 2 (nat \<lfloor>q\<rfloor>)) \<le> 53 - int j"
    using assms(3) by linarith
  with True assms(3) show ?thesis by (simp add: f64_exp_def)
next
  case False
  with assms(3) show ?thesis by (simp add: f64_exp_def)
qed

lemma f64_round_grid:
  assumes q: "0 \<le> q" "q < 2 ^ (53 - j)" "j \<le> 52"
    and lo: "of_int a / 2 ^ j \<le> q" and hi: "q \<le> of_int b / 2 ^ j"
  shows "of_int a / 2 ^ j \<le> f64_round q" and "f64_round q \<le> of_int b / 2 ^ j"
proof -
  define x where "x = max (f64_exp q) (- 1022) - 52"
  define k where "k = nat (- x)"
  define t where "t = q * 2 ^ k"
  define r where "r = (if 1 / 2 < t - of_int \<lfloor>t\<rfloor> \<or> (t - of_int \<lfloor>t\<rfloor> = 1 / 2 \<and> odd \<lfloor>t\<rfloor>)
                       then \<lfloor>t\<rfloor> + 1 else \<lfloor>t\<rfloor>)"
  have "x \<le> - int j"
    unfolding x_def by (rule f64_ulp_small [OF q])
  then have k: "j \<le> k" and ulp: "(if 0 \<le> x then 2 ^ nat x else 1 / 2 ^ nat (- x)) = (1 / 2 ^ k :: rat)"
    by (auto simp: k_def)
  have div: "q / (1 / 2 ^ k) = t" by (simp add: t_def)
  have "f64_round q = sgn q * of_int r * (1 / 2 ^ k)" if "q \<noteq> 0"
    by (simp only: f64_round_def Let_def abs_of_nonneg [OF q(1)] x_def [symmetric] ulp div
        r_def [symmetric] that if_False)
  then have round: "f64_round q = of_int r / 2 ^ k" if "q \<noteq> 0"
    using q(1) that by (simp add: sgn_if)
  have r0: "r = 0" if "q = 0"
    using that by (simp add: r_def t_def)
  have round: "f64_round q = of_int r / 2 ^ k"
    by (cases "q = 0") (simp_all add: round r0, simp add: f64_round_def)
  have p: "(2 :: rat) ^ k = 2 ^ j * 2 ^ (k - j)"
    using k by (metis le_add_diff_inverse power_add)
  have "of_int (a * 2 ^ (k - j)) \<le> t"
    using mult_right_mono [OF lo, of "2 ^ k"] by (simp add: t_def p field_simps)
  then have "a * 2 ^ (k - j) \<le> \<lfloor>t\<rfloor>" by (simp add: le_floor_iff)
  then have "a * 2 ^ (k - j) \<le> r" by (simp add: r_def)
  then have "(of_int (a * 2 ^ (k - j)) :: rat) \<le> of_int r" by (simp only: of_int_le_iff)
  then show "of_int a / 2 ^ j \<le> f64_round q"
    by (simp add: round p field_simps)
  have tb: "t \<le> of_int (b * 2 ^ (k - j))"
    using mult_right_mono [OF hi, of "2 ^ k"] by (simp add: t_def p field_simps)
  have "r \<le> b * 2 ^ (k - j)"
  proof (cases "r = \<lfloor>t\<rfloor>")
    case True
    then show ?thesis using tb by (metis floor_mono floor_of_int)
  next
    case False
    then have "of_int \<lfloor>t\<rfloor> < t" by (auto simp: r_def split: if_splits)
    with tb have "of_int \<lfloor>t\<rfloor> < (of_int (b * 2 ^ (k - j)) :: rat)" by linarith
    then have "\<lfloor>t\<rfloor> < b * 2 ^ (k - j)" by (simp only: of_int_less_iff)
    with False show ?thesis by (simp add: r_def split: if_splits)
  qed
  then have "(of_int r :: rat) \<le> of_int (b * 2 ^ (k - j))" by (simp only: of_int_le_iff)
  then show "f64_round q \<le> of_int b / 2 ^ j"
    by (simp add: round p field_simps)
qed

lemma f64_round_of_nat: "n < 2 ^ 53 \<Longrightarrow> f64_round (of_nat n) = of_nat n"
proof -
  assume "n < 2 ^ 53"
  then have "(of_nat n :: rat) < of_nat (2 ^ 53)" by (simp only: of_nat_less_iff)
  then show ?thesis
    using f64_round_grid [of "of_nat n" 0 "int n" "int n"] by simp
qed

lemma f64_round_half: "f64_round (1 / 2) = 1 / 2"
  using f64_round_grid [of "1 / 2" 1 1 1] by simp

lemma f64_round_95: "f64_round (19 / 20) = 8556839292003942 / 2 ^ 53"
  by code_simp

lemma f64_round_99: "f64_round (99 / 100) = 8917127262193582 / 2 ^ 53"
  by code_simp

text \<open>
  With fewer than \<open>2 ^ 40\<close> samples the rounding never changes the rank: the index is that of the
  nearest-rank percentile.
\<close>

definition nearest_rank :: "nat \<Rightarrow> nat \<Rightarrow> nat" where
  "nearest_rank a n = (a * n + 99) div 100"

lemma nearest_rank_ceiling: "\<lceil>of_nat a / 100 * of_nat n :: rat\<rceil> = int (nearest_rank a n)"
proof (rule ceiling_unique)
  define k where "k = nearest_rank a n"
  have "a * n \<le> 100 * k" and "100 * k < a * n + 100"
    by (auto simp: k_def nearest_rank_def)
  then have "(of_nat (a * n) :: rat) \<le> of_nat (100 * k)" and "(of_nat (100 * k) :: rat) < of_nat (a * n + 100)"
    by (simp_all only: of_nat_le_iff of_nat_less_iff)
  then show "of_int (int (nearest_rank a n)) - 1 < (of_nat a / 100 * of_nat n :: rat)"
    and "of_nat a / 100 * of_nat n \<le> (of_int (int (nearest_rank a n)) :: rat)"
    by (simp_all add: k_def [symmetric] field_simps)
qed

lemma sl_index_exact:
  assumes n: "0 < n" "n < 2 ^ 40" and a: "a \<le> 100"
    and p: "0 \<le> f64_round (of_nat a / 100)" "f64_round (of_nat a / 100) \<le> of_nat a / 100"
      "(of_nat a / 100 - f64_round (of_nat a / 100)) * 2 ^ 40 \<le> 1 / 200"
  shows "sl_index (of_nat a / 100) n = int (nearest_rank a n) - 1"
proof -
  define p where "p = f64_round (of_nat a / 100)"
  define q where "q = of_nat n * p"
  define m where "m = int (nearest_rank a n)"
  have n': "(of_nat n :: rat) \<le> 2 ^ 40"
    using n(2) by (metis less_imp_le of_nat_le_iff of_nat_numeral of_nat_power)
  have m: "of_int (m - 1) < (of_nat a / 100 * of_nat n :: rat)"
    "of_nat a / 100 * of_nat n \<le> (of_int m :: rat)"
    using ceiling_correct [of "of_nat a / 100 * of_nat n :: rat"]
    unfolding nearest_rank_ceiling m_def by simp_all
  have "100 * (m - 1) < int (a * n)"
    using m(1) by (simp add: field_simps flip: of_int_less_iff [where 'a = rat])
  then have "(of_int (100 * (m - 1) + 1) :: rat) \<le> of_int (int (a * n))"
    by (simp only: of_int_le_iff)
  then have lo: "of_int (m - 1) + 1 / 100 \<le> (of_nat a / 100 * of_nat n :: rat)"
    by (simp add: field_simps)
  have q0: "0 \<le> q" using assms(4) by (simp add: q_def p_def)
  have "q \<le> of_nat n * (of_nat a / 100)"
    unfolding q_def p_def by (rule mult_left_mono [OF assms(5)]) simp
  then have qm: "q \<le> of_nat a / 100 * of_nat n" by (simp add: mult.commute)
  have "of_nat a / 100 * of_nat n - q = (of_nat a / 100 - p) * of_nat n"
    by (simp add: q_def algebra_simps)
  also have "\<dots> \<le> (of_nat a / 100 - p) * 2 ^ 40"
    using assms(5) n' by (intro mult_left_mono) (simp_all add: p_def)
  also have "\<dots> \<le> 1 / 200" using assms(6) by (simp add: p_def)
  finally have "of_int (m - 1) + 1 / 200 \<le> q" using lo by linarith
  then have l: "of_int ((m - 1) * 256 + 1) / 2 ^ 8 \<le> q" by simp
  have h: "q \<le> of_int (m * 256) / 2 ^ 8" using qm m(2) by simp
  have "(of_nat a :: rat) / 100 * of_nat n \<le> 1 * of_nat n"
    using a by (intro mult_right_mono) simp_all
  with qm n' have "q < 2 ^ (53 - 8)" by simp
  note g = f64_round_grid [OF q0 this _ l h]
  have "\<lceil>f64_round q\<rceil> = m"
    by (rule ceiling_unique) (use g in \<open>simp_all add: field_simps\<close>)
  moreover have "f64_round (of_nat n) = of_nat n"
    by (rule f64_round_of_nat) (use n(2) in simp)
  ultimately show ?thesis
    by (simp add: sl_index_def fmul_def q_def p_def m_def)
qed

lemma sl_index_50: "0 < n \<Longrightarrow> n < 2 ^ 40 \<Longrightarrow> sl_index (1 / 2) n = int (nearest_rank 50 n) - 1"
  using sl_index_exact [of n 50] f64_round_half by simp

lemma sl_index_95: "0 < n \<Longrightarrow> n < 2 ^ 40 \<Longrightarrow> sl_index (19 / 20) n = int (nearest_rank 95 n) - 1"
  using sl_index_exact [of n 95] f64_round_95 by simp

lemma sl_index_99: "0 < n \<Longrightarrow> n < 2 ^ 40 \<Longrightarrow> sl_index (99 / 100) n = int (nearest_rank 99 n) - 1"
  using sl_index_exact [of n 99] f64_round_99 by simp

lemma nearest_rank_bounds:
  assumes "0 < a" and "a \<le> 100" and "0 < n"
  shows "0 < nearest_rank a n" and "nearest_rank a n \<le> n"
    and "a * n \<le> 100 * nearest_rank a n" and "100 * nearest_rank a n < a * n + 100"
proof -
  have "a * n \<le> 100 * n" using assms(2) by simp
  then have "(a * n + 99) div 100 \<le> (100 * n + 99) div 100" by (intro div_le_mono) simp
  then show "nearest_rank a n \<le> n" by (simp add: nearest_rank_def)
  have "0 < a * n" using assms by simp
  then have "100 \<le> a * n + 99" by linarith
  then show "0 < nearest_rank a n" by (simp add: nearest_rank_def div_greater_zero_iff)
qed (auto simp: nearest_rank_def)

definition percentile :: "nat \<Rightarrow> tracker \<Rightarrow> int" where
  "percentile a lt = sort lt ! (nearest_rank a (length lt) - 1)"

lemma sl_at_rank:
  "0 < a \<Longrightarrow> a \<le> 100 \<Longrightarrow> lt \<noteq> [] \<Longrightarrow>
   sl_at (sort lt) (int (nearest_rank a (length lt)) - 1) = Inr (percentile a lt)"
  using nearest_rank_bounds [of a "length lt"]
  by (auto simp: sl_at_def percentile_def nat_diff_distrib)

text \<open>
  What the percentile is: a recorded value that at least \<open>a\<close> per cent of the values do not exceed
  and of which fewer than \<open>a\<close> per cent are smaller.
\<close>

lemma percentile_share:
  assumes a: "0 < a" "a \<le> 100" and lt: "lt \<noteq> []"
  shows "percentile a lt \<in> set lt"
    and "a * length lt \<le> 100 * length (filter (\<lambda>d. d \<le> percentile a lt) lt)"
    and "100 * length (filter (\<lambda>d. d < percentile a lt) lt) < a * length lt"
proof -
  define s where "s = sort lt"
  define k where "k = nearest_rank a (length lt) - 1"
  note r = nearest_rank_bounds [OF a, of "length lt"]
  have k: "k < length s" and rk: "nearest_rank a (length lt) = Suc k"
    using r(1,2) lt by (auto simp: k_def s_def)
  have p: "percentile a lt = s ! k" by (simp add: percentile_def s_def k_def)
  have filt: "length (filter P lt) = card {i. i < length s \<and> P (s ! i)}" for P
  proof -
    have "length (filter P lt) = length (filter P s)"
      by (metis mset_filter mset_sort s_def size_mset)
    then show ?thesis by (simp add: length_filter_conv_card)
  qed
  show "percentile a lt \<in> set lt"
    using k unfolding p by (metis nth_mem s_def set_sort)
  have "{..k} \<subseteq> {i. i < length s \<and> s ! i \<le> s ! k}"
    using k sorted_nth_mono [of s] by (auto simp: s_def)
  from card_mono [OF _ this] have "Suc k \<le> length (filter (\<lambda>d. d \<le> s ! k) lt)"
    by (simp add: filt)
  then show "a * length lt \<le> 100 * length (filter (\<lambda>d. d \<le> percentile a lt) lt)"
    using r(3) lt unfolding p rk by simp
  have "{i. i < length s \<and> s ! i < s ! k} \<subseteq> {..<k}"
    using sorted_nth_mono [of s k] by (auto simp: s_def not_le [symmetric])
  from card_mono [OF _ this] have "length (filter (\<lambda>d. d < s ! k) lt) \<le> k"
    by (simp add: filt)
  then show "100 * length (filter (\<lambda>d. d < percentile a lt) lt) < a * length lt"
    using r(4) lt unfolding p rk by simp
qed

lemma sl_Report_percentiles:
  "lt \<noteq> [] \<Longrightarrow> length lt < 2 ^ 40 \<Longrightarrow>
   sl_Report lt = Inr (percentile 50 lt, percentile 95 lt, percentile 99 lt)"
  by (simp add: sl_Report_def Let_def sl_index_50 sl_index_95 sl_index_99 sl_at_rank
      del: of_int_diff numeral_less_real_of_nat_iff)

lemma percentile_mset: "mset lt = mset lt' \<Longrightarrow> percentile a lt = percentile a lt'"
  by (metis mset_eq_length percentile_def properties_for_sort mset_sort sorted_sort)

lemma sl_Report_mset: "mset lt = mset lt' \<Longrightarrow> sl_Report lt = sl_Report lt'"
proof -
  assume m: "mset lt = mset lt'"
  then have "sort lt = sort lt'" and "lt = [] \<longleftrightarrow> lt' = []"
    by (metis mset_sort properties_for_sort sorted_sort, metis mset_zero_iff)
  then show ?thesis by (simp add: sl_Report_def)
qed

section \<open>Registration\<close>

record sl_config =
  sl_server :: string
  sl_devices :: int
  sl_concurrency :: int
  sl_apiKey :: string
  sl_withTelemetry :: bool
  sl_rate :: int
  sl_duration :: int

definition sl_flags :: sl_config where
  "sl_flags =
     \<lparr>sl_server = ''http://localhost:8080'', sl_devices = 10, sl_concurrency = 5, sl_apiKey = [],
      sl_withTelemetry = True, sl_rate = 0, sl_duration = 30 * 1000000000\<rparr>"

definition sl_key :: "sl_config \<Rightarrow> string \<Rightarrow> string" where
  "sl_key cfg env =
     (let key = sl_apiKey cfg; key = (if key = [] then env else key)
      in if key = [] then ''dos_dev_admin_token_0001'' else key)"

text \<open>\<open>result\<close>, \<open>Stats\<close> with the slice \<open>deviceIDs\<close>, and the body of main's loop over the results.\<close>

record reg_result =
  rr_idx :: nat
  rr_deviceID :: string
  rr_err :: "string option"
  rr_latency :: int

record sl_stats =
  st_registered :: int
  st_sentTele :: int
  st_errors :: int
  st_deviceIDs :: "string list"
  st_latency :: tracker

definition sl_stats0 :: "nat \<Rightarrow> sl_stats" where
  "sl_stats0 n =
     \<lparr>st_registered = 0, st_sentTele = 0, st_errors = 0, st_deviceIDs = replicate n [],
      st_latency = []\<rparr>"

definition sl_collect :: "reg_result \<Rightarrow> sl_stats \<Rightarrow> sl_stats" where
  "sl_collect r st =
     (if rr_err r \<noteq> None then st\<lparr>st_errors := st_errors st + 1\<rparr>
      else st\<lparr>st_registered := st_registered st + 1,
              st_deviceIDs := (st_deviceIDs st)[rr_idx r := rr_deviceID r],
              st_latency := sl_Record (rr_latency r) (st_latency st)\<rparr>)"

text \<open>What a worker answers to the job \<open>i\<close>, whose request meets the answer \<open>reply i\<close>.\<close>

definition worker_result ::
    "(string \<Rightarrow> json option) \<Rightarrow> (string \<Rightarrow> string) \<Rightarrow> (nat \<Rightarrow> reply) \<Rightarrow> (nat \<Rightarrow> int) \<Rightarrow> nat \<Rightarrow>
     reg_result" where
  "worker_result parse jerr reply latency i =
     (case registerDevice parse jerr (reply i) of
        Inl err \<Rightarrow> \<lparr>rr_idx = i, rr_deviceID = [], rr_err = Some err, rr_latency = latency i\<rparr>
      | Inr d \<Rightarrow> \<lparr>rr_idx = i, rr_deviceID = d, rr_err = None, rr_latency = latency i\<rparr>)"

text \<open>
  Main feeds the jobs, closes their channel and ranges over the results until that channel is
  closed and empty; a worker ranges over the jobs. Both channels hold as many values as there are
  devices. The goroutine that waits for a signal cancels the context once.
\<close>

datatype sl_pc = Feeding nat | Ranging | Registered

datatype worker = Ready | Busy nat | Gone

record pool =
  pl_pc :: sl_pc
  pl_jobs :: "nat list"
  pl_jobs_closed :: bool
  pl_workers :: "worker list"
  pl_results :: "reg_result list"
  pl_results_closed :: bool
  pl_stats :: sl_stats
  pl_cancelled :: bool

definition pool_start :: "nat \<Rightarrow> int \<Rightarrow> pool" where
  "pool_start n concurrency =
     \<lparr>pl_pc = Feeding 0, pl_jobs = [], pl_jobs_closed = False,
      pl_workers = replicate (nat concurrency) Ready, pl_results = [], pl_results_closed = False,
      pl_stats = sl_stats0 n, pl_cancelled = False\<rparr>"

inductive pool_step :: "nat \<Rightarrow> (nat \<Rightarrow> reg_result) \<Rightarrow> pool \<Rightarrow> pool \<Rightarrow> bool"
  for n :: nat and out :: "nat \<Rightarrow> reg_result" where
  feed: "pl_pc s = Feeding i \<Longrightarrow> i < n \<Longrightarrow> length (pl_jobs s) < n \<Longrightarrow>
    pool_step n out s (s\<lparr>pl_pc := Feeding (i + 1), pl_jobs := pl_jobs s @ [i]\<rparr>)"
| close: "pl_pc s = Feeding i \<Longrightarrow> \<not> i < n \<Longrightarrow>
    pool_step n out s (s\<lparr>pl_pc := Ranging, pl_jobs_closed := True\<rparr>)"
| take: "w < length (pl_workers s) \<Longrightarrow> pl_workers s ! w = Ready \<Longrightarrow> pl_jobs s = j # js \<Longrightarrow>
    pool_step n out s (s\<lparr>pl_workers := (pl_workers s)[w := Busy j], pl_jobs := js\<rparr>)"
| leave: "w < length (pl_workers s) \<Longrightarrow> pl_workers s ! w = Ready \<Longrightarrow> pl_jobs s = [] \<Longrightarrow>
    pl_jobs_closed s \<Longrightarrow> pool_step n out s (s\<lparr>pl_workers := (pl_workers s)[w := Gone]\<rparr>)"
| answer: "w < length (pl_workers s) \<Longrightarrow> pl_workers s ! w = Busy j \<Longrightarrow> length (pl_results s) < n \<Longrightarrow>
    pool_step n out s
      (s\<lparr>pl_workers := (pl_workers s)[w := Ready], pl_results := pl_results s @ [out j]\<rparr>)"
| collect: "pl_pc s = Ranging \<Longrightarrow> pl_results s = r # rs \<Longrightarrow>
    pool_step n out s (s\<lparr>pl_results := rs, pl_stats := sl_collect r (pl_stats s)\<rparr>)"
| proceed: "pl_pc s = Ranging \<Longrightarrow> pl_results s = [] \<Longrightarrow> pl_results_closed s \<Longrightarrow>
    pool_step n out s (s\<lparr>pl_pc := Registered\<rparr>)"
| interrupt: "\<not> pl_cancelled s \<Longrightarrow> pool_step n out s (s\<lparr>pl_cancelled := True\<rparr>)"

text \<open>Every step uses up something: no run is longer than the measure of its first state.\<close>

fun job_cost :: "worker \<Rightarrow> nat" where
  "job_cost Ready = 1"
| "job_cost (Busy j) = 3"
| "job_cost Gone = 0"

fun pc_cost :: "nat \<Rightarrow> sl_pc \<Rightarrow> nat" where
  "pc_cost n (Feeding i) = 4 * (n - i) + 2"
| "pc_cost n Ranging = 1"
| "pc_cost n Registered = 0"

definition pool_measure :: "nat \<Rightarrow> pool \<Rightarrow> nat" where
  "pool_measure n s =
     pc_cost n (pl_pc s) + 3 * length (pl_jobs s) + sum_list (map job_cost (pl_workers s))
     + length (pl_results s) + (if pl_cancelled s then 0 else 1)"

lemma sum_list_update_map:
  fixes f :: "'a \<Rightarrow> 'b::comm_monoid_add"
  shows "w < length ws \<Longrightarrow>
    sum_list (map f (ws[w := x])) + f (ws ! w) = sum_list (map f ws) + f x"
proof (induction ws arbitrary: w)
  case (Cons a ws)
  show ?case
  proof (cases w)
    case 0
    then show ?thesis by (simp add: ac_simps)
  next
    case (Suc v)
    with Cons show ?thesis by (simp add: add.assoc)
  qed
qed simp

lemma pool_step_decreases: "pool_step n out s s' \<Longrightarrow> pool_measure n s' < pool_measure n s"
proof (induction rule: pool_step.induct)
  case (take w s j js)
  then show ?case using sum_list_update_map [of w "pl_workers s" job_cost "Busy j"] by (simp add: pool_measure_def)
next
  case (leave w s)
  then show ?case using sum_list_update_map [of w "pl_workers s" job_cost Gone] by (simp add: pool_measure_def)
next
  case (answer w s j)
  then show ?case using sum_list_update_map [of w "pl_workers s" job_cost Ready] by (simp add: pool_measure_def)
qed (auto simp: pool_measure_def)

lemma pool_run_length: "(pool_step n out ^^ k) s s' \<Longrightarrow> k + pool_measure n s' \<le> pool_measure n s"
proof (induction k arbitrary: s')
  case (Suc k)
  then obtain t where "(pool_step n out ^^ k) s t" and "pool_step n out t s'" by auto
  with Suc.IH [of t] pool_step_decreases [of n out t s'] show ?case by simp
qed simp

text \<open>The jobs on their way: in the channel, at a worker, in an answer, or collected.\<close>

fun busy_jobs :: "worker \<Rightarrow> nat multiset" where
  "busy_jobs (Busy j) = {#j#}"
| "busy_jobs _ = {#}"

definition jobs_fed :: "nat \<Rightarrow> pool \<Rightarrow> nat" where
  "jobs_fed n s = (case pl_pc s of Feeding i \<Rightarrow> i | _ \<Rightarrow> n)"

definition pool_jobs :: "pool \<Rightarrow> nat multiset" where
  "pool_jobs s =
     mset (pl_jobs s) + sum_list (map busy_jobs (pl_workers s)) + mset (map rr_idx (pl_results s))"

definition register_seq :: "nat \<Rightarrow> (nat \<Rightarrow> reg_result) \<Rightarrow> nat list \<Rightarrow> sl_stats" where
  "register_seq n out js = fold (\<lambda>j. sl_collect (out j)) js (sl_stats0 n)"

definition pool_inv :: "nat \<Rightarrow> (nat \<Rightarrow> reg_result) \<Rightarrow> pool \<Rightarrow> bool" where
  "pool_inv n out s \<longleftrightarrow>
     jobs_fed n s \<le> n \<and> pl_pc s \<noteq> Registered \<and> \<not> pl_results_closed s
     \<and> (pl_jobs_closed s \<longleftrightarrow> pl_pc s = Ranging)
     \<and> (Gone \<in> set (pl_workers s) \<longrightarrow> pl_jobs s = [] \<and> pl_jobs_closed s)
     \<and> (\<forall>r \<in> set (pl_results s). out (rr_idx r) = r)
     \<and> (\<exists>js. pl_stats s = register_seq n out js
            \<and> pool_jobs s + mset js = mset [0..<jobs_fed n s])"

lemma pool_inv_start: "pool_inv n out (pool_start n c)"
proof -
  have "sum_list (map busy_jobs (replicate k Ready)) = {#}" for k
    by (induction k) simp_all
  moreover have "register_seq n out [] = sl_stats0 n" by (simp add: register_seq_def)
  ultimately show ?thesis
    by (auto simp: pool_inv_def pool_start_def jobs_fed_def pool_jobs_def intro: exI [of _ "[]"])
qed

lemma pool_inv_keep:
  assumes "pool_inv n out s" and "jobs_fed n t = jobs_fed n s" and "pool_jobs t = pool_jobs s"
    and "pl_stats t = pl_stats s" and "pl_pc t = pl_pc s" and "pl_results_closed t = pl_results_closed s"
    and "pl_jobs_closed t = pl_jobs_closed s"
    and "Gone \<in> set (pl_workers t) \<Longrightarrow> pl_jobs t = [] \<and> pl_jobs_closed t"
    and "\<And>r. r \<in> set (pl_results t) \<Longrightarrow> out (rr_idx r) = r"
  shows "pool_inv n out t"
  using assms by (simp add: pool_inv_def)

lemma pool_invD:
  assumes "pool_inv n out s"
  shows "Gone \<in> set (pl_workers s) \<Longrightarrow> pl_jobs s = []"
    and "Gone \<in> set (pl_workers s) \<Longrightarrow> pl_jobs_closed s"
    and "r \<in> set (pl_results s) \<Longrightarrow> out (rr_idx r) = r"
  using assms by (auto simp: pool_inv_def)

lemma Gone_update: "Gone \<in> set (ws[w := x]) \<Longrightarrow> Gone \<in> set ws \<or> x = Gone"
  using set_update_subset_insert [of ws w x] by blast

locale worker_contract =
  fixes out :: "nat \<Rightarrow> reg_result"
  assumes answers_its_job: "rr_idx (out j) = j"
begin

lemma pool_inv_step: "pool_step n out s t \<Longrightarrow> pool_inv n out s \<Longrightarrow> pool_inv n out t"
proof (induction rule: pool_step.induct)
  case (feed s i)
  then obtain js where "pl_stats s = register_seq n out js"
    and "pool_jobs s + mset js = mset [0..<i]"
    by (auto simp: pool_inv_def jobs_fed_def)
  with feed show ?case
    by (auto simp: pool_inv_def jobs_fed_def pool_jobs_def intro!: exI [of _ js])
next
  case (close s i)
  then have "i = n" by (simp add: pool_inv_def jobs_fed_def)
  with close show ?case
    by (auto simp: pool_inv_def jobs_fed_def pool_jobs_def)
next
  case (take w s j js)
  have "Gone \<notin> set (pl_workers s)" using pool_invD(1) [OF take(4)] take(3) by auto
  moreover have "sum_list (map busy_jobs ((pl_workers s)[w := Busy j]))
      = add_mset j (sum_list (map busy_jobs (pl_workers s)))"
    using sum_list_update_map [of w "pl_workers s" busy_jobs "Busy j"] take by simp
  ultimately show ?case
    using take(1-3) pool_invD(3) [OF take(4)]
    by (intro pool_inv_keep [OF take(4)]) (auto simp: jobs_fed_def pool_jobs_def dest: Gone_update)
next
  case (leave w s)
  have "sum_list (map busy_jobs ((pl_workers s)[w := Gone])) = sum_list (map busy_jobs (pl_workers s))"
    using sum_list_update_map [of w "pl_workers s" busy_jobs Gone] leave by simp
  then show ?case
    using leave(1-4) pool_invD(3) [OF leave(5)]
    by (intro pool_inv_keep [OF leave(5)]) (auto simp: jobs_fed_def pool_jobs_def)
next
  case (answer w s j)
  have "add_mset j (sum_list (map busy_jobs ((pl_workers s)[w := Ready])))
      = sum_list (map busy_jobs (pl_workers s))"
    using sum_list_update_map [of w "pl_workers s" busy_jobs Ready] answer by simp
  then show ?case
    using answer(1-3) pool_invD [OF answer(4)]
    by (intro pool_inv_keep [OF answer(4)])
       (auto simp: jobs_fed_def pool_jobs_def answers_its_job dest: Gone_update)
next
  case (collect s r rs)
  then obtain js where js: "pl_stats s = register_seq n out js"
    "pool_jobs s + mset js = mset [0..<jobs_fed n s]" and r: "out (rr_idx r) = r"
    by (auto simp: pool_inv_def)
  have "sl_collect r (pl_stats s) = register_seq n out (js @ [rr_idx r])"
    using js(1) r by (simp add: register_seq_def)
  moreover have "pool_jobs (s\<lparr>pl_results := rs, pl_stats := sl_collect r (pl_stats s)\<rparr>)
      + mset (js @ [rr_idx r]) = mset [0..<jobs_fed n s]"
    using js(2) collect by (simp add: pool_jobs_def)
  ultimately show ?case
    using collect unfolding pool_inv_def jobs_fed_def
    by (auto simp del: mset_append intro!: exI [of _ "js @ [rr_idx r]"])
next
  case (proceed s)
  then show ?case by (simp add: pool_inv_def)
next
  case (interrupt s)
  then show ?case
    using pool_invD [OF interrupt(2)]
    by (intro pool_inv_keep [OF interrupt(2)]) (auto simp: jobs_fed_def pool_jobs_def)
qed

lemma pool_inv_run: "(pool_step n out)\<^sup>*\<^sup>* (pool_start n c) s \<Longrightarrow> pool_inv n out s"
  by (induction rule: rtranclp_induct) (auto intro: pool_inv_start pool_inv_step)

end

text \<open>The worker of the program keeps the contract.\<close>

interpretation wk: worker_contract "worker_result parse jerr reply latency"
  by unfold_locales (simp add: worker_result_def split: sum.splits)

text \<open>Nothing blocks on a full channel: a pool with workers goes on until every result is collected.\<close>

lemma pool_jobs_bound:
  assumes "pool_inv n out s"
  shows "length (pl_jobs s) + size (sum_list (map busy_jobs (pl_workers s))) + length (pl_results s)
    \<le> jobs_fed n s"
proof -
  obtain js where "pool_jobs s + mset js = mset [0..<jobs_fed n s]"
    using assms by (auto simp: pool_inv_def)
  then have "size (pool_jobs s) + length js = jobs_fed n s"
    by (metis length_upt minus_nat.diff_0 size_mset size_union)
  then show ?thesis by (simp add: pool_jobs_def)
qed

lemma busy_size: "w < length ws \<Longrightarrow> ws ! w = Busy j \<Longrightarrow> 0 < size (sum_list (map busy_jobs ws))"
proof (induction ws arbitrary: w)
  case (Cons a ws)
  then show ?case by (cases w) auto
qed simp

definition pool_idle :: "nat \<Rightarrow> (nat \<Rightarrow> reg_result) \<Rightarrow> pool \<Rightarrow> bool" where
  "pool_idle n out s \<longleftrightarrow> (\<forall>t. pool_step n out s t \<longrightarrow> t = s\<lparr>pl_cancelled := True\<rparr>)"

lemma pool_idleD:
  assumes idle: "pool_idle n out s" and inv: "pool_inv n out s"
  shows "pl_pc s = Ranging" and "pl_results s = []"
    and "w < length (pl_workers s) \<Longrightarrow> pl_workers s ! w = Gone"
proof -
  note no = idle [unfolded pool_idle_def, rule_format]
  note b = pool_jobs_bound [OF inv]
  have fed: "jobs_fed n s \<le> n" using inv by (simp add: pool_inv_def)
  show pc: "pl_pc s = Ranging"
  proof (cases "pl_pc s")
    case (Feeding i)
    then have "jobs_fed n s = i" by (simp add: jobs_fed_def)
    then have "i < n \<Longrightarrow> length (pl_jobs s) < n" using b by linarith
    then show ?thesis
      using no [OF pool_step.feed [OF Feeding]] no [OF pool_step.close [OF Feeding]] Feeding
      by (cases "i < n") (metis pool.select_convs(1) pool.surjective pool.update_convs(1,2,3,8)
          sl_pc.inject add_cancel_right_right zero_neq_one sl_pc.distinct(1))+
  qed (use inv in \<open>simp_all add: pool_inv_def\<close>)
  then have closed: "pl_jobs_closed s" using inv by (simp add: pool_inv_def)
  show "pl_results s = []"
  proof (cases "pl_results s")
    case (Cons r rs)
    from arg_cong [OF no [OF pool_step.collect [OF pc Cons]], of pl_results] Cons
    show ?thesis by simp
  qed
  show "pl_workers s ! w = Gone" if w: "w < length (pl_workers s)"
  proof (cases "pl_workers s ! w")
    case Ready
    show ?thesis
    proof (cases "pl_jobs s")
      case Nil
      from arg_cong [OF no [OF pool_step.leave [OF w Ready Nil closed]], of "\<lambda>t. pl_workers t ! w"] w
      show ?thesis by simp
    next
      case (Cons j js)
      from arg_cong [OF no [OF pool_step.take [OF w Ready Cons]], of pl_jobs] Cons
      show ?thesis by simp
    qed
  next
    case (Busy j)
    have "length (pl_results s) < n" using busy_size [OF w Busy] b fed by linarith
    from arg_cong [OF no [OF pool_step.answer [OF w Busy this]], of "\<lambda>t. pl_workers t ! w"] w Busy
    show ?thesis by simp
  qed
qed

text \<open>The statistics of a sequence of collected results, and their independence of its order.\<close>

definition reg_ok :: "(nat \<Rightarrow> reg_result) \<Rightarrow> nat \<Rightarrow> bool" where
  "reg_ok out j \<longleftrightarrow> rr_err (out j) = None"

lemma register_seq_stats:
  assumes "\<And>j. rr_idx (out j) = j" and "set js \<subseteq> {..<n}" and "distinct js"
  shows "register_seq n out js =
    \<lparr>st_registered = int (length (filter (reg_ok out) js)), st_sentTele = 0,
     st_errors = int (length (filter (\<lambda>j. \<not> reg_ok out j) js)),
     st_deviceIDs = map (\<lambda>i. if i \<in> set js \<and> reg_ok out i then rr_deviceID (out i) else []) [0..<n],
     st_latency = map (\<lambda>j. rr_latency (out j)) (filter (reg_ok out) js)\<rparr>"
  using assms(2,3)
proof (induction js rule: rev_induct)
  case Nil
  show ?case by (simp add: register_seq_def sl_stats0_def map_replicate_const)
next
  case (snoc j js)
  have step: "register_seq n out (js @ [j]) = sl_collect (out j) (register_seq n out js)"
    by (simp add: register_seq_def)
  from snoc show ?case
    by (auto simp: step sl_collect_def reg_ok_def assms(1) sl_Record_def
        intro!: nth_equalityI simp: nth_list_update)
qed

lemma register_seq_perm:
  assumes "\<And>j. rr_idx (out j) = j" and "mset js = mset [0..<n]"
  shows "register_seq n out js = (register_seq n out [0..<n])\<lparr>st_latency := st_latency (register_seq n out js)\<rparr>"
    and "mset (st_latency (register_seq n out js)) = mset (st_latency (register_seq n out [0..<n]))"
proof -
  have s: "set js = {..<n}" using assms(2) by (metis atLeast_upt set_mset_mset)
  have d: "distinct js" using assms(2) by (metis distinct_upt mset_eq_imp_distinct_iff)
  note A = register_seq_stats [OF assms(1) equalityD1 [OF s] d]
  have B: "register_seq n out [0..<n] =
    \<lparr>st_registered = int (length (filter (reg_ok out) [0..<n])), st_sentTele = 0,
     st_errors = int (length (filter (\<lambda>j. \<not> reg_ok out j) [0..<n])),
     st_deviceIDs = map (\<lambda>i. if i \<in> set [0..<n] \<and> reg_ok out i then rr_deviceID (out i) else []) [0..<n],
     st_latency = map (\<lambda>j. rr_latency (out j)) (filter (reg_ok out) [0..<n])\<rparr>"
    by (rule register_seq_stats [OF assms(1)]) auto
  have len: "length (filter P js) = length (filter P [0..<n])" for P
    using assms(2) by (metis mset_filter size_mset)
  show "register_seq n out js = (register_seq n out [0..<n])\<lparr>st_latency := st_latency (register_seq n out js)\<rparr>"
    by (simp add: A B s len)
  show "mset (st_latency (register_seq n out js)) = mset (st_latency (register_seq n out [0..<n]))"
    using assms(2) by (simp add: A B mset_map mset_filter)
qed

lemma pool_idle_reached:
  "\<exists>t. (pool_step n out)\<^sup>*\<^sup>* s t \<and> pool_idle n out t"
proof (induction "pool_measure n s" arbitrary: s rule: less_induct)
  case less
  show ?case
  proof (cases "pool_idle n out s")
    case False
    then obtain t where t: "pool_step n out s t" by (auto simp: pool_idle_def)
    from less [OF pool_step_decreases [OF t]] show ?thesis
      by (meson converse_rtranclp_into_rtranclp t)
  qed auto
qed

lemma pool_idle_complete:
  assumes idle: "pool_idle n out s" and inv: "pool_inv n out s" and c: "pl_workers s \<noteq> []"
  shows "\<exists>js. pl_stats s = register_seq n out js \<and> mset js = mset [0..<n]"
proof -
  note I = pool_idleD [OF idle inv]
  have gone: "w \<in> set (pl_workers s) \<Longrightarrow> w = Gone" for w
    using I(3) by (metis in_set_conv_nth)
  then have "Gone \<in> set (pl_workers s)" using c by (cases "pl_workers s") auto
  then have jobs: "pl_jobs s = []" by (rule pool_invD(1) [OF inv])
  have "pl_workers s = replicate (length (pl_workers s)) Gone"
    by (rule replicate_eqI) (simp_all add: gone)
  moreover have "sum_list (map busy_jobs (replicate k Gone)) = {#}" for k
    by (induction k) simp_all
  ultimately have "sum_list (map busy_jobs (pl_workers s)) = {#}" by metis
  then have "pool_jobs s = {#}" using jobs I(2) by (simp add: pool_jobs_def)
  with inv I(1) show ?thesis by (auto simp: pool_inv_def jobs_fed_def)
qed

lemma pool_workers_run:
  "(pool_step n out)\<^sup>*\<^sup>* s t \<Longrightarrow> length (pl_workers t) = length (pl_workers s)"
  by (induction rule: rtranclp_induct) (auto elim: pool_step.cases)

lemma pool_complete:
  assumes run: "(pool_step n (worker_result parse jerr reply latency))\<^sup>*\<^sup>* (pool_start n c) s"
    and idle: "pool_idle n (worker_result parse jerr reply latency) s" and c: "0 < c"
  shows "\<exists>js. pl_stats s = register_seq n (worker_result parse jerr reply latency) js
    \<and> mset js = mset [0..<n]"
proof (rule pool_idle_complete [OF idle wk.pool_inv_run [OF run]])
  show "pl_workers s \<noteq> []"
    using pool_workers_run [OF run] c by (auto simp: pool_start_def)
qed

section \<open>The stages of main\<close>

text \<open>
  \<open>simload_begin\<close>: main up to the workers; a failed login exits with status 1. The rest of main
  needs the channel of the results closed.
\<close>

definition simload_begin ::
    "(string \<Rightarrow> json option) \<Rightarrow> sl_config \<Rightarrow> reply \<Rightarrow> (string \<times> pool) result" where
  "simload_begin parse cfg resp =
     (case login parse resp of
        Inl err \<Rightarrow> Inl (''Login failed: '' @ err)
      | Inr token \<Rightarrow>
          if sl_devices cfg < 0 then Inl ''panic: runtime error: makeslice: len out of range''
          else Inr (token, pool_start (nat (sl_devices cfg)) (sl_concurrency cfg)))"

datatype tele_stage = NoTelemetry | OneShot | Sustained

definition sl_tele_stage :: "sl_config \<Rightarrow> sl_stats \<Rightarrow> tele_stage" where
  "sl_tele_stage cfg st =
     (if sl_withTelemetry cfg \<and> 0 < st_registered st
      then if 0 < sl_rate cfg then Sustained else OneShot
      else NoTelemetry)"

definition sl_exit :: "sl_stats \<Rightarrow> int" where
  "sl_exit st = (if 0 < st_errors st then 1 else 0)"

section \<open>One reading per device\<close>

text \<open>
  \<open>runOneShotTelemetry\<close>: one goroutine per registered device, a semaphore of \<open>concurrency\<close>
  slots, and a channel that holds one result per registered device.
\<close>

datatype task = Spawned | Sending | Posting "string option" | Releasing | Finished

record oneshot =
  os_tasks :: "(string \<times> task) list"
  os_results :: "string option list"
  os_stats :: sl_stats
  os_latency :: tracker

definition oneshot_start :: "sl_stats \<Rightarrow> oneshot" where
  "oneshot_start st =
     \<lparr>os_tasks = map (\<lambda>did. (did, Spawned)) (filter (\<lambda>did. did \<noteq> []) (st_deviceIDs st)),
      os_results = [], os_stats = st, os_latency = []\<rparr>"

fun holds_slot :: "task \<Rightarrow> bool" where
  "holds_slot Spawned = False"
| "holds_slot Finished = False"
| "holds_slot _ = True"

definition task_count :: "(task \<Rightarrow> bool) \<Rightarrow> oneshot \<Rightarrow> nat" where
  "task_count P s = length (filter (\<lambda>x. P (snd x)) (os_tasks s))"

definition slots :: "oneshot \<Rightarrow> nat" where
  "slots s = task_count holds_slot s"

definition os_sent :: "string \<Rightarrow> reply \<Rightarrow> int \<Rightarrow> nat \<Rightarrow> oneshot \<Rightarrow> oneshot" where
  "os_sent did resp latency i s =
     (let st = os_stats s in
      case sendTelemetry resp of
        Some err \<Rightarrow>
          s\<lparr>os_stats := st\<lparr>st_errors := st_errors st + 1\<rparr>,
            os_tasks := (os_tasks s)[i := (did, Posting (Some (did @ '': '' @ err)))]\<rparr>
      | None \<Rightarrow>
          s\<lparr>os_stats := st\<lparr>st_sentTele := st_sentTele st + 1\<rparr>,
            os_latency := sl_Record latency (os_latency s),
            os_tasks := (os_tasks s)[i := (did, Posting None)]\<rparr>)"

inductive os_step :: "nat \<Rightarrow> nat \<Rightarrow> (nat \<Rightarrow> reply) \<Rightarrow> (nat \<Rightarrow> int) \<Rightarrow> oneshot \<Rightarrow> oneshot \<Rightarrow> bool"
  for concurrency :: nat and cap :: nat and resp :: "nat \<Rightarrow> reply" and latency :: "nat \<Rightarrow> int" where
  acquire: "i < length (os_tasks s) \<Longrightarrow> os_tasks s ! i = (did, Spawned) \<Longrightarrow> slots s < concurrency \<Longrightarrow>
    os_step concurrency cap resp latency s (s\<lparr>os_tasks := (os_tasks s)[i := (did, Sending)]\<rparr>)"
| request: "i < length (os_tasks s) \<Longrightarrow> os_tasks s ! i = (did, Sending) \<Longrightarrow>
    os_step concurrency cap resp latency s (os_sent did (resp i) (latency i) i s)"
| result: "i < length (os_tasks s) \<Longrightarrow> os_tasks s ! i = (did, Posting r) \<Longrightarrow>
    length (os_results s) < cap \<Longrightarrow>
    os_step concurrency cap resp latency s
      (s\<lparr>os_results := os_results s @ [r], os_tasks := (os_tasks s)[i := (did, Releasing)]\<rparr>)"
| release: "i < length (os_tasks s) \<Longrightarrow> os_tasks s ! i = (did, Releasing) \<Longrightarrow>
    os_step concurrency cap resp latency s (s\<lparr>os_tasks := (os_tasks s)[i := (did, Finished)]\<rparr>)"

text \<open>\<open>teleWg.Wait\<close> returns, and with it the stage, when every goroutine has finished.\<close>

definition os_done :: "oneshot \<Rightarrow> bool" where
  "os_done s \<longleftrightarrow> list_all (\<lambda>(did, t). t = Finished) (os_tasks s)"

fun task_cost :: "task \<Rightarrow> nat" where
  "task_cost Spawned = 4"
| "task_cost Sending = 3"
| "task_cost (Posting r) = 2"
| "task_cost Releasing = 1"
| "task_cost Finished = 0"

definition os_measure :: "oneshot \<Rightarrow> nat" where
  "os_measure s = sum_list (map (\<lambda>x. task_cost (snd x)) (os_tasks s))"

lemma os_sent_tasks:
  "os_tasks (os_sent did resp lat i s) =
     (os_tasks s)[i := (did, Posting (map_option (\<lambda>err. did @ '': '' @ err) (sendTelemetry resp)))]"
  by (simp add: os_sent_def Let_def split: option.splits)

lemma os_step_decreases: "os_step c cap resp lat s t \<Longrightarrow> Suc (os_measure t) = os_measure s"
proof -
  have upd: "i < length ts \<Longrightarrow> ts ! i = (did, x) \<Longrightarrow> Suc (task_cost y) = task_cost x \<Longrightarrow>
      Suc (sum_list (map (\<lambda>z. task_cost (snd z)) (ts[i := (did, y)])))
        = sum_list (map (\<lambda>z. task_cost (snd z)) ts)" for i ts did x y
    using sum_list_update_map [of i ts "\<lambda>z. task_cost (snd z)" "(did, y)"] by simp
  show "os_step c cap resp lat s t \<Longrightarrow> Suc (os_measure t) = os_measure s"
    by (induction rule: os_step.induct) (auto simp: os_measure_def os_sent_tasks intro!: upd)
qed

text \<open>
  The invariant: the semaphore bounds the requests in flight, and results and counters agree with
  the goroutines that have got so far.
\<close>

definition posted :: "task \<Rightarrow> bool" where
  "posted t \<longleftrightarrow> t = Releasing \<or> t = Finished"

fun requested :: "task \<Rightarrow> bool" where
  "requested Spawned = False"
| "requested Sending = False"
| "requested _ = True"

definition os_inv :: "nat \<Rightarrow> sl_stats \<Rightarrow> oneshot \<Rightarrow> bool" where
  "os_inv c st s \<longleftrightarrow>
     slots s \<le> c \<and> length (os_results s) = task_count posted s
     \<and> length (os_tasks s) = length (filter (\<lambda>did. did \<noteq> []) (st_deviceIDs st))
     \<and> st_sentTele (os_stats s) + st_errors (os_stats s)
         = st_sentTele st + st_errors st + int (task_count requested s)
     \<and> int (length (os_latency s)) = st_sentTele (os_stats s) - st_sentTele st"

lemma task_count_update:
  assumes "i < length (os_tasks s)" and "os_tasks s ! i = (did, x)"
    and "os_tasks t = (os_tasks s)[i := (did, y)]"
  shows "task_count P t + of_bool (P x) = task_count P s + of_bool (P y)"
proof -
  have sum: "length (filter Q xs) = sum_list (map (\<lambda>x. of_bool (Q x)) xs)" for Q and xs :: "'a list"
    by (induction xs) simp_all
  show ?thesis
    using sum_list_update_map [of i "os_tasks s" "\<lambda>z. of_bool (P (snd z)) :: nat" "(did, y)"] assms
    by (simp add: task_count_def sum)
qed

lemma os_inv_start: "os_inv c st (oneshot_start st)"
  by (simp add: os_inv_def oneshot_start_def slots_def task_count_def posted_def filter_map o_def)

lemma os_inv_step: "os_step c cap resp lat s t \<Longrightarrow> os_inv c st s \<Longrightarrow> os_inv c st t"
proof (induction rule: os_step.induct)
  case (acquire i s did)
  note u = task_count_update [OF acquire(1,2), of "s\<lparr>os_tasks := (os_tasks s)[i := (did, Sending)]\<rparr>" Sending]
  from acquire u [of holds_slot] u [of posted] u [of requested] show ?case
    by (simp add: os_inv_def slots_def posted_def)
next
  case (request i s did)
  note u = task_count_update [OF request(1,2) os_sent_tasks]
  from request u [of holds_slot] u [of posted] u [of requested] show ?case
    by (simp add: os_inv_def slots_def posted_def os_sent_tasks)
       (auto simp: os_sent_def Let_def sl_Record_def split: option.splits)
next
  case (result i s did r)
  note u = task_count_update [OF result(1,2),
      of "s\<lparr>os_results := os_results s @ [r], os_tasks := (os_tasks s)[i := (did, Releasing)]\<rparr>" Releasing]
  from result u [of holds_slot] u [of posted] u [of requested] show ?case
    by (simp add: os_inv_def slots_def posted_def)
next
  case (release i s did)
  note u = task_count_update [OF release(1,2), of "s\<lparr>os_tasks := (os_tasks s)[i := (did, Finished)]\<rparr>" Finished]
  from release u [of holds_slot] u [of posted] u [of requested] show ?case
    by (simp add: os_inv_def slots_def posted_def)
qed

lemma os_inv_run: "(os_step c cap resp lat)\<^sup>*\<^sup>* (oneshot_start st) s \<Longrightarrow> os_inv c st s"
  by (induction rule: rtranclp_induct) (auto intro: os_inv_start os_inv_step)

lemma task_count_less:
  "i < length (os_tasks s) \<Longrightarrow> os_tasks s ! i = (did, x) \<Longrightarrow> \<not> P x \<Longrightarrow>
   task_count P s < length (os_tasks s)"
  unfolding task_count_def by (rule length_filter_less [of "(did, x)"]) (metis nth_mem, simp)

text \<open>No goroutine waits for ever: as long as one has not finished, some goroutine can go on.\<close>

lemma os_unblocked:
  assumes i: "i < length (os_tasks s)" "os_tasks s ! i = (did, x)" and x: "holds_slot x"
    and inv: "os_inv c st s" and cap: "length (os_tasks s) \<le> cap"
  shows "\<exists>t. os_step c cap resp lat s t"
proof (cases x)
  case (Posting r)
  then have "length (os_results s) < cap"
    using task_count_less [OF i, of posted] inv cap by (simp add: os_inv_def posted_def)
  from os_step.result [OF i [unfolded Posting] this] show ?thesis by blast
next
  case Sending
  from os_step.request [OF i [unfolded Sending]] show ?thesis by blast
next
  case Releasing
  from os_step.release [OF i [unfolded Releasing]] show ?thesis by blast
qed (use x in simp_all)

lemma os_progress:
  assumes inv: "os_inv c st s" and c: "0 < c" and cap: "length (os_tasks s) \<le> cap"
    and todo: "\<not> os_done s"
  shows "\<exists>t. os_step c cap resp lat s t"
proof -
  obtain i where "i < length (os_tasks s)" "snd (os_tasks s ! i) \<noteq> Finished"
    using todo by (auto simp: os_done_def list_all_length case_prod_beta)
  then obtain did x where i: "i < length (os_tasks s)" "os_tasks s ! i = (did, x)" and x: "x \<noteq> Finished"
    by (metis prod.collapse)
  consider "holds_slot x" | "x = Spawned" "slots s = 0" | "x = Spawned" "slots s \<noteq> 0"
    using x by (cases x) auto
  then show ?thesis
  proof cases
    case 1
    from os_unblocked [OF i this inv cap] show ?thesis .
  next
    case 2
    with os_step.acquire [OF i [unfolded 2(1)]] c show ?thesis by (simp del: os_step.simps) blast
  next
    case 3
    then obtain z where "z \<in> set (os_tasks s)" "holds_slot (snd z)"
      by (auto simp: slots_def task_count_def filter_empty_conv)
    then obtain j e y where "j < length (os_tasks s)" "os_tasks s ! j = (e, y)" "holds_slot y"
      by (metis in_set_conv_nth prod.collapse)
    from os_unblocked [OF this inv cap] show ?thesis .
  qed
qed

lemma registered_ids:
  assumes "mset js = mset [0..<n]"
  shows "length (filter (\<lambda>did. did \<noteq> [])
            (st_deviceIDs (register_seq n (worker_result parse jerr reply latency) js)))
    = nat (st_registered (register_seq n (worker_result parse jerr reply latency) js))"
proof -
  let ?out = "worker_result parse jerr reply latency"
  have ok: "reg_ok ?out i \<longleftrightarrow> rr_deviceID (?out i) \<noteq> []" for i
    by (auto simp: reg_ok_def worker_result_def split: sum.splits dest: registerDevice_nonempty)
  have s: "set js = {..<n}" using assms by (metis atLeast_upt set_mset_mset)
  have d: "distinct js" using assms by (metis distinct_upt mset_eq_imp_distinct_iff)
  have len: "length (filter (reg_ok ?out) js) = length (filter (reg_ok ?out) [0..<n])"
    using assms by (metis mset_filter size_mset)
  have f: "filter (\<lambda>i. i \<in> set js \<and> reg_ok ?out i) [0..<n] = filter (reg_ok ?out) [0..<n]"
    by (rule filter_cong) (auto simp: s)
  show ?thesis
    by (simp add: register_seq_stats [OF wk.answers_its_job equalityD1 [OF s] d] len filter_map o_def
        ok [symmetric] f [unfolded ok] cong: filter_cong)
       (metis (no_types, lifting) f ok filter_cong)
qed

section \<open>Readings at a rate\<close>

text \<open>
  \<open>runSustainedTelemetry\<close>: a ticker of the integer period, which panics when that is not positive,
  and a goroutine that serves one device per tick, in turn, until the context is done or a tick
  comes after the end.
\<close>

definition tele_interval :: "int \<Rightarrow> int result" where
  "tele_interval rate =
     (let interval = go_quot 1000000000 rate
      in if interval \<le> 0 then Inl ''panic: non-positive interval for NewTicker'' else Inr interval)"

datatype su_event = CtxDone | Tick (tk_now: int) (tk_resp: reply) (tk_latency: int)

record sustained =
  su_idx :: nat
  su_stats :: sl_stats
  su_latency :: tracker
  su_served :: "string list"

definition sustained_start :: "sl_stats \<Rightarrow> sustained" where
  "sustained_start st = \<lparr>su_idx = 0, su_stats = st, su_latency = [], su_served = []\<rparr>"

definition su_tick :: "string list \<Rightarrow> reply \<Rightarrow> int \<Rightarrow> sustained \<Rightarrow> sustained" where
  "su_tick deviceIDs resp latency s =
     (let did = deviceIDs ! (su_idx s mod length deviceIDs);
          s1 = s\<lparr>su_idx := su_idx s + 1\<rparr>;
          st = su_stats s
      in if did = [] then s1
         else (case sendTelemetry resp of
                 Some err \<Rightarrow> s1\<lparr>su_served := su_served s @ [did],
                               su_stats := st\<lparr>st_errors := st_errors st + 1\<rparr>\<rparr>
               | None \<Rightarrow> s1\<lparr>su_served := su_served s @ [did],
                            su_latency := sl_Record latency (su_latency s),
                            su_stats := st\<lparr>st_sentTele := st_sentTele st + 1\<rparr>\<rparr>))"

text \<open>The state and whether the goroutine has returned.\<close>

fun su_run :: "string list \<Rightarrow> int \<Rightarrow> su_event list \<Rightarrow> sustained \<Rightarrow> sustained \<times> bool" where
  "su_run deviceIDs stop [] s = (s, False)"
| "su_run deviceIDs stop (CtxDone # es) s = (s, True)"
| "su_run deviceIDs stop (Tick now resp latency # es) s =
     (if stop < now then (s, True) else su_run deviceIDs stop es (su_tick deviceIDs resp latency s))"

lemma tele_interval_iff:
  assumes "0 < rate"
  shows "tele_interval rate = (if rate \<le> 1000000000 then Inr (1000000000 div rate)
     else Inl ''panic: non-positive interval for NewTicker'')"
proof -
  have "0 < 1000000000 div rate \<longleftrightarrow> rate \<le> 1000000000"
    using assms by (simp add: pos_imp_zdiv_pos_iff)
  then have "1000000000 div rate \<le> 0 \<longleftrightarrow> \<not> rate \<le> 1000000000" by linarith
  with assms show ?thesis by (simp add: tele_interval_def Let_def)
qed

text \<open>The turns: \<open>turns_before\<close> are the ticks the goroutine serves.\<close>

fun turns_before :: "int \<Rightarrow> su_event list \<Rightarrow> nat" where
  "turns_before stop (Tick now resp latency # es) =
     (if stop < now then 0 else Suc (turns_before stop es))"
| "turns_before stop _ = 0"

definition turn :: "string list \<Rightarrow> nat \<Rightarrow> string list" where
  "turn deviceIDs k = filter (\<lambda>did. did \<noteq> []) [deviceIDs ! (k mod length deviceIDs)]"

lemma su_tick_step:
  "su_idx (su_tick ids resp lat s) = su_idx s + 1"
  "su_served (su_tick ids resp lat s) = su_served s @ turn ids (su_idx s)"
  "st_sentTele (su_stats (su_tick ids resp lat s)) + st_errors (su_stats (su_tick ids resp lat s))
     = st_sentTele (su_stats s) + st_errors (su_stats s) + int (length (turn ids (su_idx s)))"
  by (simp_all add: su_tick_def turn_def Let_def split: option.splits)

lemma su_run_round_robin:
  "let s' = fst (su_run ids stop es s); k = turns_before stop es;
       served = concat (map (turn ids) [su_idx s..<su_idx s + k])
   in su_idx s' = su_idx s + k \<and> su_served s' = su_served s @ served
      \<and> st_sentTele (su_stats s') + st_errors (su_stats s')
          = st_sentTele (su_stats s) + st_errors (su_stats s) + int (length served)"
proof (induction es arbitrary: s)
  case (Cons e es)
  show ?case
  proof (cases e)
    case (Tick now resp lat)
    show ?thesis
    proof (cases "stop < now")
      case False
      have up: "[su_idx s..<Suc (su_idx s + k)] = su_idx s # [Suc (su_idx s)..<Suc (su_idx s + k)]" for k
        by (simp add: upt_conv_Cons)
      show ?thesis
        using Cons [of "su_tick ids resp lat s"] False
        by (simp add: Tick Let_def su_tick_step up del: upt_Suc)
    qed (simp add: Tick)
  qed simp
qed simp

section \<open>Properties\<close>

lemma os_run_length: "(os_step c cap resp lat ^^ k) s t \<Longrightarrow> k + os_measure t = os_measure s"
proof (induction k arbitrary: t)
  case (Suc k)
  then obtain u where "(os_step c cap resp lat ^^ k) s u" and "os_step c cap resp lat u t" by auto
  with Suc.IH [of u] os_step_decreases [of c cap resp lat u t] show ?case by simp
qed simp

text \<open>A run of one device and one worker, to its end.\<close>

definition demo_worker :: "nat \<Rightarrow> reg_result" where
  "demo_worker =
     worker_result (\<lambda>raw. Some (JObj [(''device'', JObj [(''id'', JStr raw)])])) (\<lambda>raw. [])
       (\<lambda>i. Inr (201, ''dev_1'')) (\<lambda>i. 7)"

definition demo_pool :: "sl_pc \<Rightarrow> nat list \<Rightarrow> worker \<Rightarrow> reg_result list \<Rightarrow> sl_stats \<Rightarrow> pool" where
  "demo_pool pc jobs w results st =
     \<lparr>pl_pc = pc, pl_jobs = jobs, pl_jobs_closed = (pc = Ranging), pl_workers = [w],
      pl_results = results, pl_results_closed = False, pl_stats = st, pl_cancelled = False\<rparr>"

definition demo_pool_end :: pool where
  "demo_pool_end = demo_pool Ranging [] Gone [] (sl_collect (demo_worker 0) (sl_stats0 1))"

lemma demo_pool_run: "(pool_step 1 demo_worker ^^ 6) (pool_start 1 1) demo_pool_end"
proof -
  let ?z = "sl_stats0 1" and ?r = "[demo_worker 0]"
  have "pool_step 1 demo_worker (pool_start 1 1) (demo_pool (Feeding 1) [0] Ready [] ?z)"
    using pool_step.feed [of "pool_start 1 1" 0 1] by (simp add: pool_start_def demo_pool_def)
  moreover have "pool_step 1 demo_worker (demo_pool (Feeding 1) [0] Ready [] ?z) (demo_pool Ranging [0] Ready [] ?z)"
    using pool_step.close [of "demo_pool (Feeding 1) [0] Ready [] ?z" 1 1] by (simp add: demo_pool_def)
  moreover have "pool_step 1 demo_worker (demo_pool Ranging [0] Ready [] ?z) (demo_pool Ranging [] (Busy 0) [] ?z)"
    using pool_step.take [of 0 "demo_pool Ranging [0] Ready [] ?z" 0 "[]"] by (simp add: demo_pool_def)
  moreover have "pool_step 1 demo_worker (demo_pool Ranging [] (Busy 0) [] ?z) (demo_pool Ranging [] Ready ?r ?z)"
    using pool_step.answer [of 0 "demo_pool Ranging [] (Busy 0) [] ?z" 0 1] by (simp add: demo_pool_def)
  moreover have "pool_step 1 demo_worker (demo_pool Ranging [] Ready ?r ?z)
      (demo_pool Ranging [] Ready [] (sl_collect (demo_worker 0) ?z))"
    using pool_step.collect [of "demo_pool Ranging [] Ready ?r ?z" "demo_worker 0" "[]"]
    by (simp add: demo_pool_def)
  moreover have "pool_step 1 demo_worker (demo_pool Ranging [] Ready [] (sl_collect (demo_worker 0) ?z))
      demo_pool_end"
    using pool_step.leave [of 0 "demo_pool Ranging [] Ready [] (sl_collect (demo_worker 0) ?z)"]
    by (simp add: demo_pool_def demo_pool_end_def)
  ultimately have "(pool_step 1 demo_worker ^^ Suc (Suc (Suc (Suc (Suc (Suc 0)))))) (pool_start 1 1) demo_pool_end"
    by (simp only: relpowp_Suc_I2 relpowp_0_I)
  then show ?thesis by (simp add: eval_nat_numeral)
qed

lemma demo_pool_idle: "pool_idle 1 demo_worker demo_pool_end"
  by (auto simp: pool_idle_def demo_pool_end_def demo_pool_def elim!: pool_step.cases)

text \<open>
  C12: The registration stage of the load generator always comes to rest. However its goroutines
  are scheduled, whatever the workers report and whenever a signal arrives, no run has more than
  4 steps per device and one per worker, plus three; from wherever it is, it can be continued until
  nothing but the signal is left to happen.
\<close>

theorem registration_terminates:
  assumes "(pool_step n out ^^ k) (pool_start n c) s"
  shows "k \<le> 4 * n + nat c + 3 \<and> (\<exists>t. (pool_step n out)\<^sup>*\<^sup>* s t \<and> pool_idle n out t)"
proof
  have "pool_measure n (pool_start n c) = 4 * n + nat c + 3"
    by (simp add: pool_measure_def pool_start_def sum_list_replicate)
  with pool_run_length [OF assms] show "k \<le> 4 * n + nat c + 3" by simp
qed (rule pool_idle_reached)

theorem registration_terminates_witness: "(6 :: nat) \<le> 4 * 1 + nat 1 + 3"
  using registration_terminates [OF demo_pool_run] by simp

text \<open>
  C11: The load generator never gets past registering. No reachable state has main behind its loop
  over the results, because nothing closes that channel; when everything else has come to rest
  main still waits there, although, with at least one worker, the result of every device has been
  collected. So no reading is ever sent and no summary printed.
\<close>

theorem simload_never_past_registration:
  assumes "(pool_step n (worker_result parse jerr reply latency))\<^sup>*\<^sup>* (pool_start n c) s"
  shows "pl_pc s \<noteq> Registered \<and>
    (pool_idle n (worker_result parse jerr reply latency) s \<longrightarrow>
       pl_pc s = Ranging \<and> pl_results s = [] \<and> \<not> pl_results_closed s
       \<and> (0 < c \<longrightarrow> st_registered (pl_stats s) + st_errors (pl_stats s) = int n))"
proof (intro conjI impI)
  let ?out = "worker_result parse jerr reply latency"
  note inv = wk.pool_inv_run [OF assms]
  show "pl_pc s \<noteq> Registered" "\<not> pl_results_closed s"
    using inv by (simp_all add: pool_inv_def)
  assume idle: "pool_idle n ?out s"
  show "pl_pc s = Ranging" "pl_results s = []"
    by (rule pool_idleD [OF idle inv])+
  assume "0 < c"
  then obtain js where js: "pl_stats s = register_seq n ?out js" "mset js = mset [0..<n]"
    using pool_complete [OF assms idle] by blast
  have sub: "set js \<subseteq> {..<n}" and d: "distinct js" and "length js = n"
    using js(2) by (metis atLeast_upt order_refl set_mset_mset,
        metis distinct_upt mset_eq_imp_distinct_iff, metis length_upt minus_nat.diff_0 size_mset)
  moreover have "length (filter P js) + length (filter (\<lambda>j. \<not> P j) js) = length js" for P
    by (rule sum_length_filter_compl)
  ultimately show "st_registered (pl_stats s) + st_errors (pl_stats s) = int n"
    by (simp add: js(1) register_seq_stats [OF wk.answers_its_job sub d] flip: of_nat_add)
qed

theorem simload_never_past_registration_witness:
  "pl_pc demo_pool_end = Ranging \<and>
   st_registered (pl_stats demo_pool_end) + st_errors (pl_stats demo_pool_end) = 1"
  using simload_never_past_registration
    [of 1 "\<lambda>raw. Some (JObj [(''device'', JObj [(''id'', JStr raw)])])" "\<lambda>raw. []"
      "\<lambda>i. Inr (201, ''dev_1'')" "\<lambda>i. 7" 1 demo_pool_end, folded demo_worker_def,
     OF relpowp_imp_rtranclp [OF demo_pool_run]] demo_pool_idle
  by simp

text \<open>
  C20: What registration yields does not depend on the schedule. Once a pool with workers has come
  to rest, counters and identifiers are those of one worker that takes the devices in order, each
  device's identifier stands at the device's own index (empty when its registration failed), and
  the reported percentiles are the same.
\<close>

theorem registration_schedule_free:
  assumes "(pool_step n (worker_result parse jerr reply latency))\<^sup>*\<^sup>* (pool_start n c) s"
    and "pool_idle n (worker_result parse jerr reply latency) s" and "0 < c"
  shows "pl_stats s =
      (register_seq n (worker_result parse jerr reply latency) [0..<n])
        \<lparr>st_latency := st_latency (pl_stats s)\<rparr>
    \<and> sl_Report (st_latency (pl_stats s)) =
        sl_Report (st_latency (register_seq n (worker_result parse jerr reply latency) [0..<n]))
    \<and> st_deviceIDs (pl_stats s) =
        map (\<lambda>i. case registerDevice parse jerr (reply i) of Inl err \<Rightarrow> [] | Inr d \<Rightarrow> d) [0..<n]"
proof -
  let ?out = "worker_result parse jerr reply latency"
  obtain js where s: "pl_stats s = register_seq n ?out js" and js: "mset js = mset [0..<n]"
    using pool_complete [OF assms] by blast
  note P = register_seq_perm [OF wk.answers_its_job js]
  have eq: "pl_stats s = (register_seq n ?out [0..<n])\<lparr>st_latency := st_latency (pl_stats s)\<rparr>"
    unfolding s by (rule P(1))
  have ids: "st_deviceIDs (register_seq n ?out [0..<n]) =
      map (\<lambda>i. if i \<in> set [0..<n] \<and> reg_ok ?out i then rr_deviceID (?out i) else []) [0..<n]"
    by (subst register_seq_stats [of ?out "[0..<n]" n, OF wk.answers_its_job]) auto
  have "st_deviceIDs (pl_stats s) = st_deviceIDs (register_seq n ?out [0..<n])"
    by (subst eq) simp
  also have "\<dots> = map (\<lambda>i. case registerDevice parse jerr (reply i) of Inl err \<Rightarrow> [] | Inr d \<Rightarrow> d) [0..<n]"
    unfolding ids by (auto simp: reg_ok_def worker_result_def split: sum.splits)
  finally show ?thesis
    using eq sl_Report_mset [OF P(2)] by (simp add: s)
qed

theorem registration_schedule_free_witness: "st_deviceIDs (pl_stats demo_pool_end) = [''dev_1'']"
proof -
  note P = registration_schedule_free
    [of 1 "\<lambda>raw. Some (JObj [(''device'', JObj [(''id'', JStr raw)])])" "\<lambda>raw. []"
      "\<lambda>i. Inr (201, ''dev_1'')" "\<lambda>i. 7" 1 demo_pool_end, folded demo_worker_def,
     OF relpowp_imp_rtranclp [OF demo_pool_run] demo_pool_idle zero_less_one]
  from conjunct2 [OF conjunct2 [OF P]] show ?thesis
    by (simp add: registerDevice_def find_field_def)
qed

text \<open>
  After a registration that has come to rest, the one reading per device that \<open>simload\<close> would
  send never has more requests in flight than \<open>concurrency\<close>, never blocks before every goroutine
  has finished, takes four steps per registered device, and then every registered device has been
  counted once, as sent or as an error.
\<close>

theorem oneshot_bounded:
  assumes "(pool_step n (worker_result parse jerr reply latency))\<^sup>*\<^sup>* (pool_start n c) s"
    and "pool_idle n (worker_result parse jerr reply latency) s" and "0 < c"
    and "(os_step (nat c) (nat (st_registered (pl_stats s))) resp lat ^^ k) (oneshot_start (pl_stats s)) u"
  shows "slots u \<le> nat c \<and> k \<le> 4 * nat (st_registered (pl_stats s))
    \<and> (\<not> os_done u \<longrightarrow> (\<exists>v. os_step (nat c) (nat (st_registered (pl_stats s))) resp lat u v))
    \<and> (os_done u \<longrightarrow>
         k = 4 * nat (st_registered (pl_stats s))
         \<and> st_sentTele (os_stats u) + st_errors (os_stats u)
             = st_errors (pl_stats s) + int (nat (st_registered (pl_stats s))))"
proof -
  let ?out = "worker_result parse jerr reply latency"
  let ?st = "pl_stats s"
  obtain js where s: "?st = register_seq n ?out js" and js: "mset js = mset [0..<n]"
    using pool_complete [OF assms(1-3)] by blast
  have sub: "set js \<subseteq> {..<n}" and d: "distinct js"
    using js by (metis atLeast_upt order_refl set_mset_mset, metis distinct_upt mset_eq_imp_distinct_iff)
  have sent0: "st_sentTele ?st = 0"
    unfolding s by (simp add: register_seq_stats [OF wk.answers_its_job sub d])
  have ids: "length (filter (\<lambda>did. did \<noteq> []) (st_deviceIDs ?st)) = nat (st_registered ?st)"
    unfolding s by (rule registered_ids [OF js])
  have inv: "os_inv (nat c) ?st u"
    by (rule os_inv_run [OF relpowp_imp_rtranclp [OF assms(4)]])
  have len: "length (os_tasks u) = nat (st_registered ?st)"
    using inv ids by (simp add: os_inv_def)
  have "k + os_measure u = os_measure (oneshot_start ?st)"
    by (rule os_run_length [OF assms(4)])
  also have "\<dots> = 4 * nat (st_registered ?st)"
    using ids by (simp add: os_measure_def oneshot_start_def o_def sum_list_triv)
  finally have k: "k + os_measure u = 4 * nat (st_registered ?st)" .
  have fin: "os_measure u = 0 \<and> task_count requested u = length (os_tasks u)" if "os_done u"
  proof -
    have "\<forall>x \<in> set (os_tasks u). snd x = Finished"
      using that by (auto simp: os_done_def list_all_iff case_prod_beta)
    then show ?thesis
      by (auto simp: os_measure_def task_count_def filter_id_conv intro!: sum_list_0)
  qed
  show ?thesis
    using inv k fin len sent0 os_progress [OF inv, of "nat (st_registered ?st)"] assms(3)
    by (auto simp: os_inv_def)
qed

definition demo_oneshot :: "task \<Rightarrow> string option list \<Rightarrow> int \<Rightarrow> tracker \<Rightarrow> oneshot" where
  "demo_oneshot t results sent lat =
     \<lparr>os_tasks = [(''dev_1'', t)], os_results = results,
      os_stats = (pl_stats demo_pool_end)\<lparr>st_sentTele := sent\<rparr>, os_latency = lat\<rparr>"

lemma demo_stats:
  "pl_stats demo_pool_end =
     \<lparr>st_registered = 1, st_sentTele = 0, st_errors = 0, st_deviceIDs = [''dev_1''], st_latency = [7]\<rparr>"
  by code_simp

lemma demo_oneshot_run:
  "(os_step 1 1 (\<lambda>i. Inr (201, [])) (\<lambda>i. 9) ^^ 4) (oneshot_start (pl_stats demo_pool_end))
     (demo_oneshot Finished [None] 1 [9])"
proof -
  let ?step = "os_step 1 1 (\<lambda>i. Inr (201, [])) (\<lambda>i. 9)"
  have "?step (oneshot_start (pl_stats demo_pool_end)) (demo_oneshot Sending [] 0 [])"
    using os_step.acquire [of 0 "oneshot_start (pl_stats demo_pool_end)" "''dev_1''" 1]
    by (simp add: oneshot_start_def demo_oneshot_def demo_stats slots_def task_count_def)
  moreover have "?step (demo_oneshot Sending [] 0 []) (demo_oneshot (Posting None) [] 1 [9])"
    using os_step.request [of 0 "demo_oneshot Sending [] 0 []" "''dev_1''" 1 1 "\<lambda>i. Inr (201, [])" "\<lambda>i. 9"]
    by (simp add: demo_oneshot_def os_sent_def sendTelemetry_def sl_Record_def demo_stats)
  moreover have "?step (demo_oneshot (Posting None) [] 1 [9]) (demo_oneshot Releasing [None] 1 [9])"
    using os_step.result [of 0 "demo_oneshot (Posting None) [] 1 [9]" "''dev_1''" None 1]
    by (simp add: demo_oneshot_def)
  moreover have "?step (demo_oneshot Releasing [None] 1 [9]) (demo_oneshot Finished [None] 1 [9])"
    using os_step.release [of 0 "demo_oneshot Releasing [None] 1 [9]" "''dev_1''"]
    by (simp add: demo_oneshot_def)
  ultimately have "(?step ^^ Suc (Suc (Suc (Suc 0)))) (oneshot_start (pl_stats demo_pool_end))
      (demo_oneshot Finished [None] 1 [9])"
    by (simp only: relpowp_Suc_I2 relpowp_0_I)
  then show ?thesis by (simp add: eval_nat_numeral)
qed

theorem oneshot_bounded_witness:
  "(4 :: nat) = 4 * nat (st_registered (pl_stats demo_pool_end))
   \<and> st_sentTele (os_stats (demo_oneshot Finished [None] 1 [9])) = 1"
  using oneshot_bounded
    [of 1 "\<lambda>raw. Some (JObj [(''device'', JObj [(''id'', JStr raw)])])" "\<lambda>raw. []"
      "\<lambda>i. Inr (201, ''dev_1'')" "\<lambda>i. 7" 1 demo_pool_end 4 "\<lambda>i. Inr (201, [])" "\<lambda>i. 9"
      "demo_oneshot Finished [None] 1 [9]", folded demo_worker_def,
     OF relpowp_imp_rtranclp [OF demo_pool_run] demo_pool_idle zero_less_one]
    demo_oneshot_run
  by (simp add: demo_stats demo_oneshot_def os_done_def)

text \<open>
  C34: The load generator's percentiles are the nearest-rank percentiles. For fewer than
  \<open>2 ^ 40\<close> samples the index computed in floating point is never out of range, and each reported
  value is a recorded one that at least its share of the samples do not exceed and of which less
  than its share is smaller.
\<close>

theorem percentiles_exact:
  assumes "lt \<noteq> []" and "length lt < 2 ^ 40"
  shows "\<exists>p50 p95 p99. sl_Report lt = Inr (p50, p95, p99) \<and>
    (\<forall>(a, p) \<in> {(50, p50), (95, p95), (99, p99)}.
       p \<in> set lt \<and> a * length lt \<le> 100 * length (filter (\<lambda>d. d \<le> p) lt)
       \<and> 100 * length (filter (\<lambda>d. d < p) lt) < a * length lt)"
proof -
  have P: "percentile a lt \<in> set lt \<and> a * length lt \<le> 100 * length (filter (\<lambda>d. d \<le> percentile a lt) lt)
      \<and> 100 * length (filter (\<lambda>d. d < percentile a lt) lt) < a * length lt"
    if "0 < a" and "a \<le> 100" for a
    using percentile_share [OF that assms(1)] by simp
  show ?thesis
    using sl_Report_percentiles [OF assms] P [of 50] P [of 95] P [of 99] by auto
qed

theorem percentiles_exact_witness:
  "\<exists>p50 p95 p99. sl_Report [30, 10, 20] = Inr (p50, p95, p99) \<and> p50 \<in> {10, 20, 30 :: int}"
  using percentiles_exact [of "[30, 10, 20]"] by auto

end
