(* ===== verification/Dbtest.thy ===== *)
theory Dbtest
  imports Devices
begin

text \<open>
  \<open>internal/dbtest/mock.go\<close>: the database the handler tests and \<open>cmd/demo\<close> run on. Hooks answer
  the statements; its rows are Go values of any type, and its \<open>Scan\<close> converts them by its own
  rules. What \<open>%v\<close> prints for numbers with a fraction, instants and other values, the scanning of
  \<open>%f\<close> and \<open>time.Parse\<close> are arguments.
\<close>

section \<open>Values and destinations\<close>

text \<open>
  A value of type \<open>interface{}\<close>; \<open>GOther\<close> is one of a type the package has no case for. Integers
  are in the range of their 64 bits.
\<close>

datatype goval =
    GNil
  | GBool bool
  | GInt int
  | GInt64 int
  | GFloat rat
  | GStr string
  | GTime int
  | GOther string

text \<open>
  A destination of \<open>Scan\<close> with what it points to at the moment. Structures are known by the
  fields that reflection looks for: \<open>String\<close>, \<open>Time\<close>, \<open>Int64\<close> and \<open>Valid\<close> of the kind
  asked for. \<open>POther\<close> is any other destination, by its type.
\<close>

record gostruct =
  sf_type :: string
  sf_String :: "string option"
  sf_Time :: "int option"
  sf_Int64 :: "int option"
  sf_Valid :: "bool option"

datatype dest =
    PString string
  | PInt int
  | PInt64 int
  | PFloat rat
  | PBool bool
  | PTime int
  | PBytes string
  | PAny goval
  | PStruct gostruct
  | POther string

record golib =
  fmt_float :: "rat \<Rightarrow> string"
  fmt_time :: "int \<Rightarrow> string"
  scan_f :: "string \<Rightarrow> rat"
  time_Parse :: "string \<Rightarrow> string \<Rightarrow> int option"

text \<open>\<open>fmt.Sprintf("%v", src)\<close>.\<close>

fun sprint_v :: "golib \<Rightarrow> goval \<Rightarrow> string" where
  "sprint_v L GNil = ''<nil>''"
| "sprint_v L (GBool b) = (if b then ''true'' else ''false'')"
| "sprint_v L (GInt i) = itoa i"
| "sprint_v L (GInt64 i) = itoa i"
| "sprint_v L (GFloat q) = fmt_float L q"
| "sprint_v L (GStr s) = s"
| "sprint_v L (GTime t) = fmt_time L t"
| "sprint_v L (GOther s) = s"

section \<open>Conversions\<close>

text \<open>
  \<open>fmt.Sscanf(x, "%d", &n)\<close> on an \<open>n\<close> that is 0: white space, a sign, digits; what follows is
  not looked at, and on an error \<open>n\<close> stays as it was.
\<close>

definition scan_blank :: "char \<Rightarrow> bool" where
  "scan_blank c \<longleftrightarrow> is_space c \<and> c \<noteq> CHR 0x0A"

definition Sscanf_d :: "string \<Rightarrow> int" where
  "Sscanf_d x =
     (let s = dropWhile scan_blank x;
          sign = (if s \<noteq> [] \<and> (hd s = CHR ''-'' \<or> hd s = CHR ''+'') then [hd s] else []);
          digits = takeWhile is_digit (drop (length sign) s)
      in case atoi (sign @ digits) of None \<Rightarrow> 0 | Some n \<Rightarrow> n)"

text \<open>\<open>int(x)\<close> of a \<open>float64\<close>: toward zero; out of range the smallest integer, as on amd64.\<close>

definition int_of_f64 :: "rat \<Rightarrow> int" where
  "int_of_f64 q =
     (let t = (if 0 \<le> q then \<lfloor>q\<rfloor> else \<lceil>q\<rceil>)
      in if - (2 ^ 63) \<le> t \<and> t < 2 ^ 63 then t else - (2 ^ 63))"

fun toInt :: "goval \<Rightarrow> int" where
  "toInt (GFloat x) = int_of_f64 x"
| "toInt (GInt64 x) = x"
| "toInt (GInt x) = x"
| "toInt (GStr x) = Sscanf_d x"
| "toInt _ = 0"

definition float_of_int :: "int \<Rightarrow> rat" where
  "float_of_int i = (case f64_of_int i of None \<Rightarrow> 0 | Some q \<Rightarrow> q)"

fun toFloat :: "golib \<Rightarrow> goval \<Rightarrow> rat" where
  "toFloat L (GFloat x) = x"
| "toFloat L (GInt64 x) = float_of_int x"
| "toFloat L (GInt x) = float_of_int x"
| "toFloat L (GStr x) = scan_f L x"
| "toFloat L _ = 0"

fun toBool :: "goval \<Rightarrow> bool" where
  "toBool (GBool x) = x"
| "toBool (GInt64 x) = (x \<noteq> 0)"
| "toBool (GFloat x) = (x \<noteq> 0)"
| "toBool (GStr x) = (x = ''1'' \<or> x = ''true'')"
| "toBool _ = False"

definition RFC3339 :: string where
  "RFC3339 = ''2006-01-02T15:04:05Z07:00''"

fun toTime :: "golib \<Rightarrow> goval \<Rightarrow> int" where
  "toTime L (GStr x) =
     (case time_Parse L RFC3339 x of
        Some t \<Rightarrow> t
      | None \<Rightarrow> (case time_Parse L ''2006-01-02 15:04:05'' x of Some t \<Rightarrow> t | None \<Rightarrow> zero_time))"
| "toTime L (GTime x) = x"
| "toTime L _ = zero_time"

section \<open>\<open>Scan\<close>\<close>

definition unsupported :: "string \<Rightarrow> string" where
  "unsupported ty = ''scan: unsupported type '' @ ty"

definition set_struct :: "golib \<Rightarrow> gostruct \<Rightarrow> goval \<Rightarrow> gostruct result" where
  "set_struct L ev src =
     (if sf_String ev \<noteq> None \<and> sf_Valid ev \<noteq> None
      then Inr (ev\<lparr>sf_String := Some (sprint_v L src), sf_Valid := Some True\<rparr>)
      else if sf_Time ev \<noteq> None \<and> sf_Valid ev \<noteq> None
      then Inr (ev\<lparr>sf_Time := Some (toTime L src), sf_Valid := Some True\<rparr>)
      else if sf_Int64 ev \<noteq> None \<and> sf_Valid ev \<noteq> None
      then Inr (ev\<lparr>sf_Int64 := Some (toInt src), sf_Valid := Some True\<rparr>)
      else Inl (unsupported (sf_type ev)))"

fun setValue :: "golib \<Rightarrow> dest \<Rightarrow> goval \<Rightarrow> dest result" where
  "setValue L (PString d) src = Inr (PString (sprint_v L src))"
| "setValue L (PInt d) src = Inr (PInt (toInt src))"
| "setValue L (PInt64 d) src = Inr (PInt64 (toInt src))"
| "setValue L (PFloat d) src = Inr (PFloat (toFloat L src))"
| "setValue L (PBool d) src = Inr (PBool (toBool src))"
| "setValue L (PTime d) src = Inr (PTime (toTime L src))"
| "setValue L (PBytes d) src = Inr (PBytes (sprint_v L src))"
| "setValue L (PAny d) src = Inr (PAny src)"
| "setValue L (PStruct ev) src = bind_result (set_struct L ev src) (\<lambda>ev'. Inr (PStruct ev'))"
| "setValue L (POther ty) src = Inl (unsupported ty)"

text \<open>The destinations afterwards, and the error that stopped the loop.\<close>

fun assignScan :: "golib \<Rightarrow> dest list \<Rightarrow> goval list \<Rightarrow> dest list \<times> string option" where
  "assignScan L (d # ds) (val # vs) =
     (if val = GNil then (case assignScan L ds vs of (ds', e) \<Rightarrow> (d # ds', e))
      else case setValue L d val of
             Inl err \<Rightarrow> (d # ds, Some err)
           | Inr d' \<Rightarrow> (case assignScan L ds vs of (ds', e) \<Rightarrow> (d' # ds', e)))"
| "assignScan L ds vs = (ds, None)"

record MockRows =
  mr_Columns :: "string list"
  mr_Rows :: "goval list list"
  mr_Pos :: nat
  mr_ErrVal :: "string option"

definition MockRows_Next :: "MockRows \<Rightarrow> MockRows \<times> bool" where
  "MockRows_Next r =
     (if length (mr_Rows r) \<le> mr_Pos r then (r, False) else (r\<lparr>mr_Pos := mr_Pos r + 1\<rparr>, True))"

definition MockRows_Scan :: "golib \<Rightarrow> MockRows \<Rightarrow> dest list \<Rightarrow> dest list \<times> string option" where
  "MockRows_Scan L r ds =
     (if mr_ErrVal r \<noteq> None then (ds, mr_ErrVal r)
      else if mr_Pos r = 0 \<or> length (mr_Rows r) < mr_Pos r
      then (ds, Some ''scan: no row available'')
      else assignScan L ds (mr_Rows r ! (mr_Pos r - 1)))"

definition MockRows_Close :: "MockRows \<Rightarrow> string option" where
  "MockRows_Close r = None"

definition MockRows_Err :: "MockRows \<Rightarrow> string option" where
  "MockRows_Err r = mr_ErrVal r"

record MockRow =
  mw_Row :: "goval list"
  mw_Err :: "string option"

definition MockRow_Scan :: "golib \<Rightarrow> MockRow \<Rightarrow> dest list \<Rightarrow> dest list \<times> string option" where
  "MockRow_Scan L r ds =
     (if mw_Err r \<noteq> None then (ds, mw_Err r)
      else if mw_Row r = [] then (ds, Some ''no rows'')
      else assignScan L ds (mw_Row r))"

section \<open>The database\<close>

text \<open>The hooks; an absent hook is the default of the method. \<open>exec_result\<close> is \<open>MockResult\<close>.\<close>

record MockDB =
  OnExec :: "(string \<Rightarrow> goval list \<Rightarrow> exec_result result) option"
  OnQuery :: "(string \<Rightarrow> goval list \<Rightarrow> MockRows result) option"
  OnQueryRow :: "(string \<Rightarrow> goval list \<Rightarrow> MockRow) option"
  OnMigrate :: "(string \<Rightarrow> string \<Rightarrow> string option) option"

definition empty_MockDB :: MockDB where
  "empty_MockDB = \<lparr>OnExec = None, OnQuery = None, OnQueryRow = None, OnMigrate = None\<rparr>"

definition mock_result :: "int \<Rightarrow> int \<Rightarrow> exec_result" where
  "mock_result lastID affected = \<lparr>RowsAffected = affected, LastInsertId = lastID\<rparr>"

definition mock_rows :: "goval list list \<Rightarrow> MockRows" where
  "mock_rows rows = \<lparr>mr_Columns = [], mr_Rows = rows, mr_Pos = 0, mr_ErrVal = None\<rparr>"

definition MockDB_Exec :: "MockDB \<Rightarrow> string \<Rightarrow> goval list \<Rightarrow> exec_result result" where
  "MockDB_Exec m sql args =
     (case OnExec m of Some f \<Rightarrow> f sql args | None \<Rightarrow> Inr (mock_result 0 0))"

definition MockDB_Query :: "MockDB \<Rightarrow> string \<Rightarrow> goval list \<Rightarrow> MockRows result" where
  "MockDB_Query m sql args =
     (case OnQuery m of Some f \<Rightarrow> f sql args | None \<Rightarrow> Inr (mock_rows []))"

definition MockDB_QueryRow :: "MockDB \<Rightarrow> string \<Rightarrow> goval list \<Rightarrow> MockRow" where
  "MockDB_QueryRow m sql args =
     (case OnQueryRow m of Some f \<Rightarrow> f sql args | None \<Rightarrow> \<lparr>mw_Row = [], mw_Err = Some ''no rows''\<rparr>)"

definition MockDB_Migrate :: "MockDB \<Rightarrow> string \<Rightarrow> string \<Rightarrow> string option" where
  "MockDB_Migrate m name sql = (case OnMigrate m of Some f \<Rightarrow> f name sql | None \<Rightarrow> None)"

section \<open>Types\<close>

datatype gotype =
    TString | TInt | TInt64 | TFloat | TBool | TTime | TBytes | TAny
  | TStruct string bool bool bool bool
  | TOther string

fun dest_type :: "dest \<Rightarrow> gotype" where
  "dest_type (PString d) = TString"
| "dest_type (PInt d) = TInt"
| "dest_type (PInt64 d) = TInt64"
| "dest_type (PFloat d) = TFloat"
| "dest_type (PBool d) = TBool"
| "dest_type (PTime d) = TTime"
| "dest_type (PBytes d) = TBytes"
| "dest_type (PAny d) = TAny"
| "dest_type (PStruct ev) =
     TStruct (sf_type ev) (sf_String ev \<noteq> None) (sf_Time ev \<noteq> None) (sf_Int64 ev \<noteq> None)
       (sf_Valid ev \<noteq> None)"
| "dest_type (POther ty) = TOther ty"

definition int64_ok :: "int \<Rightarrow> bool" where
  "int64_ok i \<longleftrightarrow> - (2 ^ 63) \<le> i \<and> i < 2 ^ 63"

fun val_ok :: "goval \<Rightarrow> bool" where
  "val_ok (GInt i) = int64_ok i"
| "val_ok (GInt64 i) = int64_ok i"
| "val_ok _ = True"

fun dest_ok :: "dest \<Rightarrow> bool" where
  "dest_ok (PInt i) = int64_ok i"
| "dest_ok (PInt64 i) = int64_ok i"
| "dest_ok (PAny v) = val_ok v"
| "dest_ok (PStruct ev) = (case sf_Int64 ev of None \<Rightarrow> True | Some i \<Rightarrow> int64_ok i)"
| "dest_ok _ = True"

lemma toInt_ok: "val_ok v \<Longrightarrow> int64_ok (toInt v)"
proof (cases v)
  case (GStr x)
  have "atoi s = Some n \<Longrightarrow> int64_ok n" for s n
    by (auto simp: atoi_def Let_def int64_ok_def split: if_splits)
  then show ?thesis
    by (auto simp: GStr Sscanf_d_def Let_def int64_ok_def split: option.splits)
qed (auto simp: int_of_f64_def Let_def int64_ok_def)

lemma setValue_typed:
  "setValue L d v = Inr d' \<Longrightarrow> dest_type d' = dest_type d \<and> (val_ok v \<longrightarrow> dest_ok d \<longrightarrow> dest_ok d')"
  by (cases d)
     (auto simp: set_struct_def toInt_ok bind_result_eq_Inr split: if_splits option.splits)

lemma assignScan_length [simp]: "length (fst (assignScan L ds vs)) = length ds"
proof (induction L ds vs rule: assignScan.induct)
  case (1 L d ds v vs)
  then show ?case by (cases "v = GNil") (auto split: sum.splits prod.splits)
qed auto

lemma assignScan_typed:
  "map dest_type (fst (assignScan L ds vs)) = map dest_type ds
   \<and> (list_all val_ok vs \<longrightarrow> list_all dest_ok ds \<longrightarrow> list_all dest_ok (fst (assignScan L ds vs)))"
proof (induction L ds vs rule: assignScan.induct)
  case (1 L d ds v vs)
  then show ?case
    by (cases "v = GNil") (auto split: sum.splits prod.splits dest: setValue_typed)
qed auto

text \<open>What a successful scan leaves: a destination with a value has it converted, others are kept.\<close>

lemma assignScan_exact:
  "assignScan L ds vs = (ds', None) \<Longrightarrow> i < length ds \<Longrightarrow>
   (if i < length vs \<and> vs ! i \<noteq> GNil then setValue L (ds ! i) (vs ! i) = Inr (ds' ! i)
    else ds' ! i = ds ! i)"
proof (induction L ds vs arbitrary: ds' i rule: assignScan.induct)
  case (1 L d ds v vs)
  then show ?case
    by (cases i) (auto split: if_splits sum.splits prod.splits)
qed auto

text \<open>An error leaves the failing destination and those after it alone.\<close>

lemma assignScan_error:
  "assignScan L ds vs = (ds', Some e) \<Longrightarrow>
   \<exists>k < length ds. k < length vs \<and> setValue L (ds ! k) (vs ! k) = Inl e
     \<and> drop k ds' = drop k ds \<and> assignScan L (take k ds) (take k vs) = (take k ds', None)"
proof (induction L ds vs arbitrary: ds' rule: assignScan.induct)
  case (1 L d ds v vs)
  show ?case
  proof (cases "v = GNil")
    case True
    then obtain ds1 where "assignScan L ds vs = (ds1, Some e)" and ds': "ds' = d # ds1"
      using "1.prems" by (auto split: prod.splits)
    from "1.IH"(1) [OF True this(1)] obtain k where
      "k < length ds \<and> k < length vs \<and> setValue L (ds ! k) (vs ! k) = Inl e
       \<and> drop k ds1 = drop k ds \<and> assignScan L (take k ds) (take k vs) = (take k ds1, None)" by blast
    then show ?thesis using True ds' by (intro exI [of _ "Suc k"]) simp
  next
    case False
    show ?thesis
    proof (cases "setValue L d v")
      case (Inl err)
      then have "ds' = d # ds" and "err = e" using "1.prems" False by simp_all
      then show ?thesis using Inl by (intro exI [of _ 0]) simp
    next
      case (Inr d')
      then obtain ds1 where "assignScan L ds vs = (ds1, Some e)" and ds': "ds' = d' # ds1"
        using "1.prems" False by (auto split: prod.splits)
      from "1.IH"(2) [OF False Inr this(1)] obtain k where
        "k < length ds \<and> k < length vs \<and> setValue L (ds ! k) (vs ! k) = Inl e
         \<and> drop k ds1 = drop k ds \<and> assignScan L (take k ds) (take k vs) = (take k ds1, None)" by blast
      then show ?thesis using False Inr ds' by (intro exI [of _ "Suc k"]) simp
    qed
  qed
qed auto

text \<open>The loop \<open>for rows.Next() { rows.Scan(...) }\<close> of the modules, into fresh destinations.\<close>

function mock_read :: "golib \<Rightarrow> dest list \<Rightarrow> MockRows \<Rightarrow> (dest list \<times> string option) list" where
  "mock_read L ds r =
     (case MockRows_Next r of
        (r', False) \<Rightarrow> []
      | (r', True) \<Rightarrow> MockRows_Scan L r' ds # mock_read L ds r')"
  by pat_completeness auto
termination
  by (relation "measure (\<lambda>(L, ds, r). length (mr_Rows r) - mr_Pos r)")
     (auto simp: MockRows_Next_def split: if_splits)

declare mock_read.simps [simp del]

lemma mock_read_rows:
  "mr_ErrVal r = None \<Longrightarrow> mock_read L ds r = map (assignScan L ds) (drop (mr_Pos r) (mr_Rows r))"
proof (induction L ds r rule: mock_read.induct)
  case (1 L ds r)
  show ?case
  proof (cases "length (mr_Rows r) \<le> mr_Pos r")
    case True
    then show ?thesis by (subst mock_read.simps) (simp add: MockRows_Next_def)
  next
    case False
    then have "drop (mr_Pos r) (mr_Rows r) = mr_Rows r ! mr_Pos r # drop (Suc (mr_Pos r)) (mr_Rows r)"
      by (simp add: Cons_nth_drop_Suc)
    moreover have "mock_read L ds r = assignScan L ds (mr_Rows r ! mr_Pos r)
        # mock_read L ds (r\<lparr>mr_Pos := mr_Pos r + 1\<rparr>)"
      using False "1.prems" by (subst mock_read.simps) (simp add: MockRows_Next_def MockRows_Scan_def)
    moreover have "mock_read L ds (r\<lparr>mr_Pos := mr_Pos r + 1\<rparr>)
        = map (assignScan L ds) (drop (mr_Pos r + 1) (mr_Rows r))"
      using "1.IH" False "1.prems"
      by (simp add: MockRows_Next_def)
    ultimately show ?thesis by simp
  qed
qed

section \<open>Against \<open>database/sql\<close>\<close>

text \<open>
  The value of a column as the mock holds it, and the conversions of \<open>database/sql\<close> (those of
  \<open>Dbclient\<close>) into the kinds of destination the modules scan into; \<open>text\<close> is the text of a JSON
  value in a TEXT column.
\<close>

fun mock_of :: "(json \<Rightarrow> string) \<Rightarrow> sqlval \<Rightarrow> goval" where
  "mock_of doc SNull = GNil"
| "mock_of doc (SInt i) = GInt64 i"
| "mock_of doc (SReal q) = GFloat q"
| "mock_of doc (SText s) = GStr s"
| "mock_of doc (SDoc j) = GStr (doc j)"
| "mock_of doc (STime t) = GTime t"

definition map_result :: "('a \<Rightarrow> 'b) \<Rightarrow> 'a result \<Rightarrow> 'b result" where
  "map_result f r = bind_result r (\<lambda>x. Inr (f x))"

fun driver_set :: "(json \<Rightarrow> string) \<Rightarrow> dest \<Rightarrow> sqlval \<Rightarrow> dest result" where
  "driver_set doc (PString d) v =
     (case v of SDoc j \<Rightarrow> Inr (PString (doc j)) | _ \<Rightarrow> map_result PString (scan_string v))"
| "driver_set doc (PInt d) v = map_result PInt (scan_int v)"
| "driver_set doc (PInt64 d) v = map_result PInt64 (scan_int v)"
| "driver_set doc (PFloat d) v = map_result PFloat (scan_float v)"
| "driver_set doc (PBool d) v = map_result PBool (scan_bool v)"
| "driver_set doc (PTime d) v = map_result PTime (scan_time v)"
| "driver_set doc _ v = Inl scan_error"

definition driver_scanners :: "(json \<Rightarrow> string) \<Rightarrow> nat list \<Rightarrow> dest list scanner list" where
  "driver_scanners doc is =
     map (\<lambda>i v ds. map_result (\<lambda>d. ds[i := d]) (driver_set doc (ds ! i) v)) is"

lemma map_result_Inr: "map_result f r = Inr y \<longleftrightarrow> (\<exists>x. r = Inr x \<and> y = f x)"
  by (auto simp: map_result_def bind_result_eq_Inr)

lemma Sscanf_d_atoi: "atoi s = Some i \<Longrightarrow> Sscanf_d s = i"
proof -
  assume a: "atoi s = Some i"
  then obtain c cs where s: "s = c # cs" by (cases s) (auto simp: atoi_def)
  have blank: "\<not> scan_blank c"
    using a by (auto simp: s atoi_def Let_def scan_blank_def is_space_def is_digit_def split: if_splits)
  define sign where
    "sign = (if s \<noteq> [] \<and> (hd s = CHR ''-'' \<or> hd s = CHR ''+'') then [hd s] else [])"
  have "list_all is_digit (drop (length sign) s)"
    using a by (auto simp: s sign_def atoi_def Let_def split: if_splits)
  then have t: "takeWhile is_digit (drop (length sign) s) = drop (length sign) s"
    by (simp add: takeWhile_eq_all_conv list_all_iff)
  have "sign @ drop (length sign) s = s" by (simp add: sign_def s)
  moreover have "dropWhile scan_blank s = s" by (simp add: s blank)
  ultimately show ?thesis
    by (simp only: Sscanf_d_def Let_def sign_def [symmetric] t a option.case)
qed

lemma driver_set_mock:
  assumes "driver_set doc d v = Inr d'"
  shows "v \<noteq> SNull" and "setValue L d (mock_of doc v) = Inr d'"
proof -
  show "v \<noteq> SNull" using assms by (cases d) (auto simp: map_result_Inr)
  show "setValue L d (mock_of doc v) = Inr d'"
    using assms
    by (cases d; cases v)
       (auto simp: map_result_Inr Sscanf_d_atoi float_of_int_def split: if_splits option.splits)
qed

lemma driver_scan_mock:
  assumes "scan_fields (driver_scanners doc [k..<k + length vs]) vs ds = (ds', None)"
    and "k + length vs = length ds"
  shows "take k ds' = take k ds \<and> length ds' = length ds
    \<and> assignScan L (drop k ds) (map (mock_of doc) vs) = (drop k ds', None)"
  using assms
proof (induction vs arbitrary: k ds)
  case Nil
  then show ?case by (simp add: driver_scanners_def)
next
  case (Cons v vs)
  then have k: "k < length ds" by simp
  have up: "[k..<k + length (v # vs)] = k # [Suc k..<Suc k + length vs]"
    by (subst upt_conv_Cons) (simp_all del: upt_Suc)
  obtain d where d: "driver_set doc (ds ! k) v = Inr d"
    and rest: "scan_fields (driver_scanners doc [Suc k..<Suc k + length vs]) vs (ds[k := d]) = (ds', None)"
    using Cons.prems(1) unfolding up
    by (auto simp: driver_scanners_def map_result_def bind_result_def split: sum.splits)
  note IH = Cons.IH [OF rest]
  have ih: "take (Suc k) ds' = take (Suc k) (ds[k := d])" "length ds' = length ds"
    "assignScan L (drop (Suc k) ds) (map (mock_of doc) vs) = (drop (Suc k) ds', None)"
    using IH Cons.prems(2) by simp_all
  have "take k ds' = take k ds"
    using arg_cong [OF ih(1), of "take k"] by simp
  moreover have "ds' ! k = d"
    using arg_cong [OF ih(1), of "\<lambda>xs. xs ! k"] k by simp
  moreover have "drop k ds' = ds' ! k # drop (Suc k) ds'" "drop k ds = ds ! k # drop (Suc k) ds"
    using k ih(2) by (simp_all add: Cons_nth_drop_Suc)
  moreover have "mock_of doc v \<noteq> GNil"
    using driver_set_mock(1) [OF d] by (cases v) simp_all
  ultimately show ?case
    using driver_set_mock(2) [OF d, of L] ih by simp
qed

section \<open>Properties\<close>

definition demo_golib :: golib where
  "demo_golib = \<lparr>fmt_float = (\<lambda>q. ''0.5''), fmt_time = (\<lambda>t. ''now''), scan_f = (\<lambda>s. 0),
                 time_Parse = (\<lambda>layout s. None)\<rparr>"





text \<open>
  The destinations of the device readers, \<open>listDevices\<close> and \<open>getDevice\<close>, before the scan.
\<close>

definition device_dests :: "dest list" where
  "device_dests = replicate 8 (PString []) @ replicate 3 (PTime zero_time)"

text \<open>
  The mock hides the failure that makes a registered device unreadable. On every row of a
  device that has never been seen \<open>database/sql\<close>'s scan fails on the NULL in \<open>last_seen\<close>; the
  mock's scan of the same row reports no error and leaves the zero time there, so the handler
  tests, which run on the mock, cannot notice.
\<close>

theorem mock_hides_never_seen:
  assumes "length vs = 11" and "vs ! 8 = SNull"
  shows "snd (Scan Device_scan vs z) \<noteq> None
    \<and> snd (MockRow_Scan L \<lparr>mw_Row = map (mock_of doc) vs, mw_Err = None\<rparr> device_dests) = None
    \<and> fst (MockRow_Scan L \<lparr>mw_Row = map (mock_of doc) vs, mw_Err = None\<rparr> device_dests) ! 8 = PTime zero_time"
proof -
  have "\<exists>q e. Scan Device_scan vs z = (q, Some e)"
    by (rule Scan_error [of 8]) (simp_all add: Device_scan_def assms into_def)
  then have driver: "snd (Scan Device_scan vs z) \<noteq> None" by auto
  let ?ws = "map (mock_of doc) vs"
  have scan: "MockRow_Scan L \<lparr>mw_Row = ?ws, mw_Err = None\<rparr> device_dests = assignScan L device_dests ?ws"
    using assms(1) by (auto simp: MockRow_Scan_def)
  obtain ds e where out: "assignScan L device_dests ?ws = (ds, e)" by fastforce
  have ok: "\<exists>d'. setValue L d v = Inr d'" if "d \<in> set device_dests" for d v
    using that by (auto simp: device_dests_def)
  have none: "e = None"
  proof (cases e)
    case (Some m)
    with assignScan_error [of L device_dests ?ws ds m] out ok show ?thesis
      by (metis nth_mem sum.distinct(1))
  qed
  have "ds ! 8 = device_dests ! 8"
    using assignScan_exact [of L device_dests ?ws ds 8] out none assms
    by (simp add: device_dests_def split: if_splits)
  then have "fst (assignScan L device_dests ?ws) ! 8 = PTime zero_time"
    using out by (simp add: device_dests_def nth_append)
  then show ?thesis
    using driver none out unfolding scan by simp
qed

theorem mock_hides_never_seen_witness:
  "snd (MockRow_Scan demo_golib
     \<lparr>mw_Row = map (mock_of (\<lambda>j. [])) (replicate 8 (SText ''x'') @ [SNull, STime 1, STime 1]),
      mw_Err = None\<rparr> device_dests) = None"
  using mock_hides_never_seen [of "replicate 8 (SText ''x'') @ [SNull, STime 1, STime 1]" zero_Device
      demo_golib "\<lambda>j. []"]
  by (simp add: nth_append)

end
