(* ===== verification/Demo.thy ===== *)
theory Demo
  imports Dbtest Simulator Version
begin

text \<open>
  \<open>cmd/demo/main.go\<close>: the demonstration. It runs a fixed list of requests against the modules on
  mock databases, compares each status with what it expects, prints a report and exits with status
  1 when a test failed. The muxes with the modules' handlers are one argument, the server; so are
  \<open>json.Indent\<close>, the parser and the clock.
\<close>

section \<open>The report's data\<close>

record APITest =
  at_Section :: string
  at_Name :: string
  at_Method :: string
  at_Path :: string
  at_Body :: string
  at_Status :: int
  at_WantErr :: bool
  at_Result :: string
  at_Got :: string

type_synonym Report = "APITest list"

definition Report_Add ::
    "string \<Rightarrow> string \<Rightarrow> string \<Rightarrow> string \<Rightarrow> string \<Rightarrow> bool \<Rightarrow> int \<Rightarrow> string \<Rightarrow> Report \<Rightarrow> Report" where
  "Report_Add sect name method path body wantErr status respBody r =
     (let got = itoa status @ '' '' @ respBody;
          result = (if wantErr \<and> status < 400 then ''FAIL''
                    else if \<not> wantErr \<and> 400 \<le> status then ''FAIL'' else ''PASS'')
      in r @ [\<lparr>at_Section = sect, at_Name = name, at_Method = method, at_Path = path,
               at_Body = body, at_Status = status, at_WantErr = wantErr, at_Result = result,
               at_Got = got\<rparr>])"

section \<open>The mock databases\<close>

fun str_contains :: "string \<Rightarrow> string \<Rightarrow> bool" where
  "str_contains [] sub = (sub = [])"
| "str_contains (c # s) sub = (has_prefix (c # s) sub \<or> str_contains s sub)"

definition exec_one :: "string \<Rightarrow> goval list \<Rightarrow> exec_result result" where
  "exec_one sql args = Inr (mock_result 0 1)"

definition no_row :: MockRow where
  "no_row = \<lparr>mw_Row = [], mw_Err = Some ''no rows''\<rparr>"

definition one_row :: "goval list \<Rightarrow> MockRow" where
  "one_row vs = \<lparr>mw_Row = vs, mw_Err = None\<rparr>"

text \<open>Sections 2 to 4 replace the hooks of one mock; \<open>now\<close> and \<open>deviceID\<close> are main's variables.\<close>

definition auth_hooks :: MockDB where
  "auth_hooks = empty_MockDB\<lparr>OnQueryRow := Some (\<lambda>sql args.
     if str_contains sql ''FROM api_keys''
     then (case args of
             GStr key # _ \<Rightarrow> if key = ''dos_demo_admin_key'' then one_row [GStr ''admin''] else no_row
           | _ \<Rightarrow> no_row)
     else no_row)\<rparr>"

definition demo_device_row :: "int \<Rightarrow> string \<Rightarrow> goval list" where
  \<open>demo_device_row now deviceID =
     [GStr deviceID, GStr ''temp-sensor-01'', GStr ''temp-sensor'',
      GStr ''{"floor":3,"building":"A"}'', GStr ''["sensor","production"]'', GStr ''floor-3'',
      GStr ''online'', GTime now, GTime now, GTime now]\<close>

definition device_hooks :: "int \<Rightarrow> string \<Rightarrow> MockDB" where
  "device_hooks now deviceID =
     \<lparr>OnExec = Some (\<lambda>sql args.
        if str_contains sql ''INSERT INTO devices'' then Inr (mock_result 1 1)
        else if str_contains sql ''DELETE FROM devices'' then Inr (mock_result 0 1)
        else Inr (mock_result 0 1)),
      OnQuery = Some (\<lambda>sql args.
        if str_contains sql ''FROM devices'' then Inr (mock_rows [demo_device_row now deviceID])
        else Inr (mock_rows [])),
      OnQueryRow = Some (\<lambda>sql args.
        if str_contains sql ''FROM devices'' then one_row (demo_device_row now deviceID)
        else if str_contains sql ''FROM api_keys'' then one_row [GStr ''admin''] else no_row),
      OnMigrate = None\<rparr>"

definition telemetry_hooks :: "int \<Rightarrow> string \<Rightarrow> MockDB" where
  \<open>telemetry_hooks now deviceID =
     \<lparr>OnExec = Some (\<lambda>sql args. Inr (mock_result 1 1)),
      OnQuery = Some (\<lambda>sql args.
        if str_contains sql ''FROM telemetry''
        then Inr (mock_rows
          [[GInt64 1, GStr ''dev_001'', GTime now,
            GStr ''{"temperature":23.5,"humidity":60,"battery":85}'', GStr ''{}''],
           [GInt64 2, GStr ''dev_001'', GTime now,
            GStr ''{"temperature":47.2,"humidity":55,"battery":73}'', GStr ''{}'']])
        else if str_contains sql ''FROM devices''
        then Inr (mock_rows
          [[GStr deviceID, GStr ''temp-sensor-01'', GStr ''temp-sensor'', GStr ''{}'', GStr ''[]'',
            GStr [], GStr ''online'', GTime now, GTime now, GTime now]])
        else Inr (mock_rows [])),
      OnQueryRow = Some (\<lambda>sql args.
        if str_contains sql ''FROM telemetry''
        then one_row [GInt64 2, GStr ''dev_001'', GTime now,
               GStr ''{"temperature":47.2,"humidity":55}'', GStr ''{}'']
        else if str_contains sql ''FROM api_keys'' then one_row [GStr ''admin''] else no_row),
      OnMigrate = None\<rparr>\<close>

text \<open>From section 5 on each section has a mock and a mux of its own.\<close>

definition demo_rule_row :: "int \<Rightarrow> goval list" where
  "demo_rule_row now =
     [GStr ''rule_demo_001'', GStr ''high-temp'', GStr ''temperature'', GStr ''>'', GFloat 45, GStr [],
      GStr ''log'', GStr [], GInt 1, GTime now]"

definition alert_hooks :: "int \<Rightarrow> MockDB" where
  "alert_hooks now =
     \<lparr>OnExec = Some exec_one,
      OnQuery = Some (\<lambda>sql args.
        if str_contains sql ''FROM alert_rules'' then Inr (mock_rows [demo_rule_row now])
        else if str_contains sql ''FROM alert_events''
        then Inr (mock_rows
          [[GStr ''evt_001'', GStr ''rule_demo_001'', GStr ''high-temp'', GStr ''dev_001'',
            GStr ''temperature'', GFloat (f64_round (472 / 10)),
            GStr ''Temperature 47.20 exceeds threshold 45.00'', GStr ''critical'', GTime now]])
        else Inr (mock_rows [])),
      OnQueryRow = Some (\<lambda>sql args.
        if str_contains sql ''FROM alert_rules WHERE'' \<or> str_contains sql ''FROM alert_rules''
        then one_row (demo_rule_row now) else no_row),
      OnMigrate = Some (\<lambda>name sql. None)\<rparr>"

definition command_hooks :: "int \<Rightarrow> MockDB" where
  \<open>command_hooks now =
     \<lparr>OnExec = Some exec_one,
      OnQuery = Some (\<lambda>sql args.
        if str_contains sql ''FROM commands''
        then Inr (mock_rows
          [[GStr ''cmd_demo_001'', GStr ''dev_001'', GStr ''reboot'', GStr ''{"delay":5}'',
            GStr ''pending'', GNil, GTime now, GNil]])
        else Inr (mock_rows [])),
      OnQueryRow = Some (\<lambda>sql args.
        if str_contains sql ''FROM commands''
        then one_row
          [GStr ''cmd_demo_001'', GStr ''dev_001'', GStr ''reboot'', GStr ''{"delay":5}'',
           GStr ''delivered'', GNil, GTime now, GNil]
        else no_row),
      OnMigrate = None\<rparr>\<close>

definition demo_firmware_row :: "int \<Rightarrow> goval list" where
  "demo_firmware_row now =
     [GStr ''fw_demo_001'', GStr ''1.0.0'', GStr ''release'', GStr ''nrf52'', GStr ''abc123def456'',
      GInt 65536, GTime now]"

definition demo_deployment_row :: "string \<Rightarrow> int \<Rightarrow> int \<Rightarrow> goval list" where
  "demo_deployment_row status succeeded now =
     [GStr ''dep_demo_001'', GStr ''fw_demo_001'', GStr ''1.0.0'', GStr status, GInt 2, GInt succeeded,
      GTime now]"

definition ota_hooks :: "int \<Rightarrow> MockDB" where
  "ota_hooks now =
     \<lparr>OnExec = Some exec_one,
      OnQuery = Some (\<lambda>sql args.
        if str_contains sql ''FROM firmware'' then Inr (mock_rows [demo_firmware_row now])
        else if str_contains sql ''FROM deployments'' \<and> \<not> str_contains sql ''deployment_devices''
        then Inr (mock_rows [demo_deployment_row ''in_progress'' 1 now])
        else Inr (mock_rows [])),
      OnQueryRow = Some (\<lambda>sql args.
        if str_contains sql ''FROM firmware'' then one_row (demo_firmware_row now)
        else if str_contains sql ''FROM deployments'' then one_row (demo_deployment_row ''completed'' 2 now)
        else no_row),
      OnMigrate = None\<rparr>"

definition demo_webhook_row :: "int \<Rightarrow> goval list" where
  \<open>demo_webhook_row now =
     [GStr ''wh_demo_001'', GStr ''slack-alerts'', GStr ''https://hooks.example.com/alert'',
      GStr ''sec_123'', GStr ''["alert.fired","device.registered"]'', GInt 1, GTime now]\<close>

definition webhook_hooks :: "int \<Rightarrow> MockDB" where
  \<open>webhook_hooks now =
     \<lparr>OnExec = Some exec_one,
      OnQuery = Some (\<lambda>sql args.
        if str_contains sql ''FROM webhooks'' \<and> \<not> str_contains sql ''webhook_deliveries''
        then Inr (mock_rows [demo_webhook_row now])
        else if str_contains sql ''FROM webhook_deliveries''
        then Inr (mock_rows
          [[GStr ''del_001'', GStr ''wh_demo_001'', GStr ''alert.fired'',
            GStr ''{"severity":"critical"}'', GStr ''delivered'', GInt 200, GTime now]])
        else Inr (mock_rows [])),
      OnQueryRow = Some (\<lambda>sql args.
        if str_contains sql ''FROM webhooks WHERE'' \<or> str_contains sql ''FROM webhooks ORDER''
        then one_row (demo_webhook_row now) else no_row),
      OnMigrate = None\<rparr>\<close>

definition demo_group_row :: "int \<Rightarrow> goval list" where
  "demo_group_row now = [GStr ''grp_demo_001'', GStr ''dhaka-fleet'', GTime now]"

definition fleet_hooks :: "int \<Rightarrow> MockDB" where
  \<open>fleet_hooks now =
     \<lparr>OnExec = Some exec_one,
      OnQuery = Some (\<lambda>sql args.
        if str_contains sql ''FROM groups'' then Inr (mock_rows [demo_group_row now])
        else Inr (mock_rows [])),
      OnQueryRow = Some (\<lambda>sql args.
        if str_contains sql ''FROM groups'' then one_row (demo_group_row now)
        else if str_contains sql ''FROM devices''
        then one_row
          [GStr ''dev_001'', GStr ''truck-001'', GStr ''gps-tracker'', GStr ''{}'',
           GStr ''["critical"]'', GStr ''dhaka-fleet'', GStr ''online'', GTime now, GTime now, GTime now]
        else no_row),
      OnMigrate = None\<rparr>\<close>

definition tenant_hooks :: "int \<Rightarrow> MockDB" where
  "tenant_hooks now =
     empty_MockDB\<lparr>OnExec := Some exec_one,
      OnQuery := Some (\<lambda>sql args.
        if str_contains sql ''FROM orgs''
        then Inr (mock_rows [[GStr ''org_demo_001'', GStr ''Acme IoT'', GTime now]])
        else if str_contains sql ''FROM org_users''
        then Inr (mock_rows
          [[GStr ''usr_demo_001'', GStr ''org_demo_001'', GStr ''ops@acme.io'', GStr ''admin'', GTime now]])
        else Inr (mock_rows []))\<rparr>"

definition audit_hooks :: "int \<Rightarrow> MockDB" where
  \<open>audit_hooks now =
     empty_MockDB\<lparr>OnExec := Some exec_one,
      OnQuery := Some (\<lambda>sql args.
        if str_contains sql ''FROM audit_log''
        then Inr (mock_rows
          [[GStr ''aud_001'', GStr ''admin'', GStr ''device.register'', GStr ''dev_001'',
            GStr ''{"name":"temp-sensor-01"}'', GTime now],
           [GStr ''aud_002'', GStr ''admin'', GStr ''device.delete'', GStr ''dev_001'', GStr ''{}'', GTime now],
           [GStr ''aud_003'', GStr ''system'', GStr ''alert.fired'', GStr ''dev_001'',
            GStr ''{"rule":"high-temp","value":47.2}'', GTime now]])
        else Inr (mock_rows []))\<rparr>\<close>

section \<open>Requests\<close>

datatype demo_mux =
  MainMux | AlertMux | CmdMux | OtaMux | WebhookMux | FleetMux | TenantMux | AuditMux | SimMux | DashMux

record demo_request =
  dq_method :: string
  dq_path :: string
  dq_body :: "string option"
  dq_header :: "(string \<times> string) list"

text \<open>The server: a request to a mux on its mock; the status and the text of the answer.\<close>

type_synonym 's demo_server = "demo_mux \<Rightarrow> MockDB \<Rightarrow> 's \<Rightarrow> demo_request \<Rightarrow> 's \<times> int \<times> string"

definition body_reader :: "string \<Rightarrow> string option" where
  "body_reader body = (if body \<noteq> [] then Some body else None)"

definition cut_200 :: "string \<Rightarrow> string" where
  "cut_200 out =
     (let resp = trim_space out in if 200 < length resp then take 200 resp @ ''...'' else resp)"

definition indented :: "(string \<Rightarrow> string option) \<Rightarrow> string \<Rightarrow> string" where
  "indented indent out = (case indent out of None \<Rightarrow> out | Some pretty \<Rightarrow> pretty)"

definition demo_exec ::
    "'s demo_server \<Rightarrow> MockDB \<Rightarrow> 's \<Rightarrow> string \<Rightarrow> string \<Rightarrow> string \<Rightarrow> 's \<times> int \<times> string" where
  "demo_exec answer db s method path body =
     (case answer MainMux db s \<lparr>dq_method = method, dq_path = path, dq_body = body_reader body,
                               dq_header = []\<rparr> of
        (s', code, out) \<Rightarrow> (s', code, cut_200 out))"

definition demo_execAuth ::
    "'s demo_server \<Rightarrow> (string \<Rightarrow> string option) \<Rightarrow> MockDB \<Rightarrow> 's \<Rightarrow> string \<Rightarrow> string \<Rightarrow> string \<Rightarrow> string \<Rightarrow>
     's \<times> int \<times> string" where
  "demo_execAuth answer indent db s method path body token =
     (case answer MainMux db s \<lparr>dq_method = method, dq_path = path, dq_body = body_reader body,
                               dq_header = [(''Authorization'', ''Bearer '' @ token)]\<rparr> of
        (s', code, out) \<Rightarrow> (s', code, indented indent out))"

definition demo_execAuthRaw ::
    "'s demo_server \<Rightarrow> MockDB \<Rightarrow> 's \<Rightarrow> string \<Rightarrow> string \<Rightarrow> string \<Rightarrow> string \<Rightarrow> 's \<times> int \<times> string" where
  "demo_execAuthRaw answer db s method path body token =
     (case answer MainMux db s \<lparr>dq_method = method, dq_path = path, dq_body = body_reader body,
                               dq_header = [(''Authorization'', ''Bearer '' @ token)]\<rparr> of
        (s', code, out) \<Rightarrow> (s', code, cut_200 out))"

text \<open>\<open>execAlert\<close>, \<open>execCmd\<close>, \<open>execOTA\<close> and so on differ in the mux and the headers only.\<close>

definition demo_execMux ::
    "'s demo_server \<Rightarrow> (string \<Rightarrow> string option) \<Rightarrow> demo_mux \<Rightarrow> (string \<times> string) list \<Rightarrow> MockDB \<Rightarrow> 's \<Rightarrow>
     string \<Rightarrow> string \<Rightarrow> string \<Rightarrow> 's \<times> int \<times> string" where
  "demo_execMux answer indent mux header db s method path body =
     (case answer mux db s \<lparr>dq_method = method, dq_path = path, dq_body = body_reader body,
                           dq_header = header\<rparr> of
        (s', code, out) \<Rightarrow> (s', code, indented indent out))"

definition demo_execDash ::
    "'s demo_server \<Rightarrow> MockDB \<Rightarrow> 's \<Rightarrow> string \<Rightarrow> string \<Rightarrow> 's \<times> int \<times> string" where
  "demo_execDash answer db s method path =
     (case answer DashMux db s \<lparr>dq_method = method, dq_path = path, dq_body = None, dq_header = []\<rparr> of
        (s', code, out) \<Rightarrow>
          (s', code, ''HTTP '' @ itoa code @ '' ('' @ itoa (int (length out)) @ '' bytes)''))"

section \<open>The tour\<close>

datatype exec_kind =
  Exec | ExecAuth | ExecAuthRaw | ExecMux demo_mux "(string \<times> string) list" | ExecDash

datatype after_step = NoAfter | TakeToken | TakeDevice

text \<open>
  A request of the tour: which helper sends it, the request (its path may hold the identifier of
  the device), what the report says of it, and whether main takes something from the answer.
\<close>

record demo_step =
  ds_section :: string
  ds_name :: string
  ds_kind :: exec_kind
  ds_method :: string
  ds_path :: "string \<Rightarrow> string"
  ds_body :: string
  ds_showMethod :: string
  ds_showPath :: string
  ds_showBody :: string
  ds_wantErr :: bool
  ds_after :: after_step

definition demo_step ::
    "string \<Rightarrow> string \<Rightarrow> exec_kind \<Rightarrow> string \<Rightarrow> (string \<Rightarrow> string) \<Rightarrow> string \<Rightarrow> string \<Rightarrow> string \<Rightarrow> string \<Rightarrow>
     bool \<Rightarrow> after_step \<Rightarrow> demo_step" where
  "demo_step sect name kind method path body showMethod showPath showBody wantErr after =
     \<lparr>ds_section = sect, ds_name = name, ds_kind = kind, ds_method = method, ds_path = path,
      ds_body = body, ds_showMethod = showMethod, ds_showPath = showPath, ds_showBody = showBody,
      ds_wantErr = wantErr, ds_after = after\<rparr>"

definition demo_health_steps :: "demo_step list" where
  \<open>demo_health_steps =
    (let step = demo_step ''1. Health Check'' in
      [step ''Server health'' Exec
         ''GET'' (\<lambda>i. ''/healthz'') []
         ''GET'' ''/healthz'' [] False NoAfter])\<close>

definition demo_auth_steps :: "demo_step list" where
  \<open>demo_auth_steps =
    (let step = demo_step ''2. Authentication'' in
      [step ''Admin login (valid key)'' Exec
         ''POST'' (\<lambda>i. ''/api/v1/auth/login'') ''{"api_key":"dos_demo_admin_key"}''
         ''POST'' ''/api/v1/auth/login'' ''{"api_key":"..."}'' False TakeToken,
       step ''Login with wrong key (expect 401)'' Exec
         ''POST'' (\<lambda>i. ''/api/v1/auth/login'') ''{"api_key":"wrong"}''
         ''POST'' ''/api/v1/auth/login'' ''{"api_key":"wrong"}'' True NoAfter,
       step (''Device token (no matching device '' @ [CHR 0xE2, CHR 0x80, CHR 0x94] @ '' 401)'') Exec
         ''POST'' (\<lambda>i. ''/api/v1/auth/token'') ''{"device_id":"dev_001","secret_key":"test-secret"}''
         ''POST'' ''/api/v1/auth/token'' ''{"device_id":"...","secret_key":"..."}'' True NoAfter])\<close>

definition demo_devices_steps :: "demo_step list" where
  \<open>demo_devices_steps =
    (let step = demo_step ''3. Device Management'' in
      [step ''Register device'' ExecAuthRaw
         ''POST'' (\<lambda>i. ''/api/v1/devices'') ''{"name":"temp-sensor-01","type":"temp-sensor","metadata":{"floor":3,"building":"A"}}''
         ''POST'' ''/api/v1/devices'' ''{"name":"temp-sensor-01","type":"temp-sensor","metadata":{...}}'' False TakeDevice,
       step ''List devices'' ExecAuth
         ''GET'' (\<lambda>i. ''/api/v1/devices'') []
         ''GET'' ''/api/v1/devices'' [] False NoAfter,
       step ''Get device by ID'' ExecAuth
         ''GET'' (\<lambda>i. ''/api/v1/devices/'' @ i) []
         ''GET'' ''/api/v1/devices/{id}'' [] False NoAfter,
       step ''Update device'' ExecAuth
         ''PUT'' (\<lambda>i. ''/api/v1/devices/'' @ i) ''{"name":"temp-sensor-01-updated","type":"temp-sensor"}''
         ''PUT'' ''/api/v1/devices/{id}'' ''{"name":"updated","type":"temp-sensor"}'' False NoAfter,
       step ''Delete device'' ExecAuthRaw
         ''DELETE'' (\<lambda>i. ''/api/v1/devices/'' @ i) []
         ''DELETE'' ''/api/v1/devices/{id}'' [] False NoAfter])\<close>

definition demo_telemetry_steps :: "demo_step list" where
  \<open>demo_telemetry_steps =
    (let step = demo_step ''4. Telemetry'' in
      [step ''Ingest telemetry (normal)'' ExecAuth
         ''POST'' (\<lambda>i. ''/api/v1/telemetry'') ''{"device_id":"dev_001","metrics":{"temperature":23.5,"humidity":60,"battery":85}}''
         ''POST'' ''/api/v1/telemetry'' ''{"device_id":"...","metrics":{...}}'' False NoAfter,
       step (''Ingest telemetry (high temp '' @ [CHR 0xE2, CHR 0x80, CHR 0x94] @ '' triggers alert)'') ExecAuth
         ''POST'' (\<lambda>i. ''/api/v1/telemetry'') ''{"device_id":"dev_001","metrics":{"temperature":47.2,"humidity":55}}''
         ''POST'' ''/api/v1/telemetry'' ''{"device_id":"...","metrics":{"temperature":47.2}}'' False NoAfter,
       step ''Ingest with missing fields (expect 400)'' ExecAuthRaw
         ''POST'' (\<lambda>i. ''/api/v1/telemetry'') ''{"device_id":"","metrics":null}''
         ''POST'' ''/api/v1/telemetry'' ''{"device_id":"","metrics":null}'' True NoAfter,
       step ''Query telemetry history'' ExecAuth
         ''GET'' (\<lambda>i. ''/api/v1/telemetry?device_id=dev_001&limit=10'') []
         ''GET'' ''/api/v1/telemetry?device_id=X&limit=10'' [] False NoAfter,
       step ''Get latest telemetry'' ExecAuth
         ''GET'' (\<lambda>i. ''/api/v1/telemetry/latest?device_id=dev_001'') []
         ''GET'' ''/api/v1/telemetry/latest?device_id=X'' [] False NoAfter])\<close>

definition demo_alerts_steps :: "demo_step list" where
  \<open>demo_alerts_steps =
    (let step = demo_step ''5. Alert Rules & Evaluation'' in
      [step ''Create alert rule'' (ExecMux AlertMux [])
         ''POST'' (\<lambda>i. ''/api/v1/alerts/rules'') ''{"name":"high-temp","metric":"temperature","operator":">","threshold":45.0}''
         ''POST'' ''/api/v1/alerts/rules'' ''{"name":"high-temp","metric":"temperature","operator":">","threshold":45.0}'' False NoAfter,
       step ''List alert rules'' (ExecMux AlertMux [])
         ''GET'' (\<lambda>i. ''/api/v1/alerts/rules'') []
         ''GET'' ''/api/v1/alerts/rules'' [] False NoAfter,
       step ''Update alert rule'' (ExecMux AlertMux [])
         ''PUT'' (\<lambda>i. ''/api/v1/alerts/rules/rule_demo_001'') ''{"name":"high-temp","metric":"temperature","operator":">","threshold":50.0,"channel":"email","channel_target":"ops@example.com"}''
         ''PUT'' ''/api/v1/alerts/rules/{id}'' ''{"threshold":50.0,"channel":"email",...}'' False NoAfter,
       step ''Alert history'' (ExecMux AlertMux [])
         ''GET'' (\<lambda>i. ''/api/v1/alerts/history'') []
         ''GET'' ''/api/v1/alerts/history'' [] False NoAfter])\<close>

definition demo_commands_steps :: "demo_step list" where
  \<open>demo_commands_steps =
    (let step = demo_step ''6. Remote Commands'' in
      [step ''Send command to device'' (ExecMux CmdMux [])
         ''POST'' (\<lambda>i. ''/api/v1/devices/dev_001/commands'') ''{"command":"reboot","payload":{"delay":5}}''
         ''POST'' ''/api/v1/devices/{id}/commands'' ''{"command":"reboot","payload":{"delay":5}}'' False NoAfter,
       step ''List device commands'' (ExecMux CmdMux [])
         ''GET'' (\<lambda>i. ''/api/v1/devices/dev_001/commands'') []
         ''GET'' ''/api/v1/devices/{id}/commands'' [] False NoAfter,
       step ''Get command details'' (ExecMux CmdMux [])
         ''GET'' (\<lambda>i. ''/api/v1/commands/cmd_demo_001'') []
         ''GET'' ''/api/v1/commands/{id}'' [] False NoAfter])\<close>

definition demo_ota_steps :: "demo_step list" where
  \<open>demo_ota_steps =
    (let step = demo_step ''7. OTA Firmware Updates'' in
      [step ''Upload firmware (JSON)'' (ExecMux OtaMux [(''Content-Type'', ''application/json'')])
         ''POST'' (\<lambda>i. ''/api/v1/firmware'') ''{"version":"1.0.0","target_device_type":"nrf52","changelog":"Initial release"}''
         ''POST'' ''/api/v1/firmware'' ''{"version":"1.0.0","target_device_type":"nrf52"}'' False NoAfter,
       step ''List firmware'' (ExecMux OtaMux [(''Content-Type'', ''application/json'')])
         ''GET'' (\<lambda>i. ''/api/v1/firmware'') []
         ''GET'' ''/api/v1/firmware'' [] False NoAfter,
       step ''Get firmware details'' (ExecMux OtaMux [(''Content-Type'', ''application/json'')])
         ''GET'' (\<lambda>i. ''/api/v1/firmware/fw_demo_001'') []
         ''GET'' ''/api/v1/firmware/{id}'' [] False NoAfter,
       step ''Deploy firmware to devices'' (ExecMux OtaMux [(''Content-Type'', ''application/json'')])
         ''POST'' (\<lambda>i. ''/api/v1/firmware/fw_demo_001/deploy'') ''{"device_ids":["dev_001","dev_002"],"description":"Production rollout v1.0.0"}''
         ''POST'' ''/api/v1/firmware/{id}/deploy'' ''{"device_ids":["dev_001",...]}'' False NoAfter,
       step ''Check deployment status'' (ExecMux OtaMux [(''Content-Type'', ''application/json'')])
         ''GET'' (\<lambda>i. ''/api/v1/deployments/dep_demo_001'') []
         ''GET'' ''/api/v1/deployments/{id}'' [] False NoAfter])\<close>

definition demo_webhooks_steps :: "demo_step list" where
  \<open>demo_webhooks_steps =
    (let step = demo_step ''8. Webhooks'' in
      [step ''Create webhook'' (ExecMux WebhookMux [])
         ''POST'' (\<lambda>i. ''/api/v1/webhooks'') ''{"name":"slack-alerts","url":"https://hooks.example.com/alert","events":["alert.fired","device.registered"]}''
         ''POST'' ''/api/v1/webhooks'' ''{"name":"slack-alerts","url":"...","events":["alert.fired",...]}'' False NoAfter,
       step ''List webhooks'' (ExecMux WebhookMux [])
         ''GET'' (\<lambda>i. ''/api/v1/webhooks'') []
         ''GET'' ''/api/v1/webhooks'' [] False NoAfter,
       step ''Update webhook'' (ExecMux WebhookMux [])
         ''PUT'' (\<lambda>i. ''/api/v1/webhooks/wh_demo_001'') ''{"name":"slack-alerts","url":"https://hooks.example.com/v2/alert","events":["alert.fired"],"enabled":true}''
         ''PUT'' ''/api/v1/webhooks/{id}'' ''{"url":"...","enabled":true}'' False NoAfter,
       step ''Webhook delivery history'' (ExecMux WebhookMux [])
         ''GET'' (\<lambda>i. ''/api/v1/webhooks/wh_demo_001/deliveries'') []
         ''GET'' ''/api/v1/webhooks/{id}/deliveries'' [] False NoAfter])\<close>

definition demo_fleet_steps :: "demo_step list" where
  \<open>demo_fleet_steps =
    (let step = demo_step ''9. Fleet Management'' in
      [step ''Create device group'' (ExecMux FleetMux [])
         ''POST'' (\<lambda>i. ''/api/v1/groups'') ''{"name":"dhaka-fleet","description":"Dhaka logistics fleet"}''
         ''POST'' ''/api/v1/groups'' ''{"name":"dhaka-fleet","description":"..."}'' False NoAfter,
       step ''List groups'' (ExecMux FleetMux [])
         ''GET'' (\<lambda>i. ''/api/v1/groups'') []
         ''GET'' ''/api/v1/groups'' [] False NoAfter,
       step ''Add tags to device'' (ExecMux FleetMux [])
         ''POST'' (\<lambda>i. ''/api/v1/devices/dev_001/tags'') ''{"tags":["critical","logistics"]}''
         ''POST'' ''/api/v1/devices/{id}/tags'' ''{"tags":["critical","logistics"]}'' False NoAfter,
       step ''Fleet health overview'' (ExecMux FleetMux [])
         ''GET'' (\<lambda>i. ''/api/v1/fleet/health'') []
         ''GET'' ''/api/v1/fleet/health'' [] False NoAfter])\<close>

definition demo_tenant_steps :: "demo_step list" where
  \<open>demo_tenant_steps =
    (let step = demo_step ''10. Multi-Tenancy'' in
      [step ''Create organization'' (ExecMux TenantMux [])
         ''POST'' (\<lambda>i. ''/api/v1/orgs'') ''{"name":"Acme IoT","slug":"acme-iot"}''
         ''POST'' ''/api/v1/orgs'' ''{"name":"Acme IoT","slug":"acme-iot"}'' False NoAfter,
       step ''List organizations'' (ExecMux TenantMux [])
         ''GET'' (\<lambda>i. ''/api/v1/orgs'') []
         ''GET'' ''/api/v1/orgs'' [] False NoAfter,
       step ''Invite user to org'' (ExecMux TenantMux [])
         ''POST'' (\<lambda>i. ''/api/v1/orgs/org_demo_001/users'') ''{"email":"ops@acme.io","role":"admin"}''
         ''POST'' ''/api/v1/orgs/{id}/users'' ''{"email":"ops@acme.io","role":"admin"}'' False NoAfter,
       step ''List org users'' (ExecMux TenantMux [])
         ''GET'' (\<lambda>i. ''/api/v1/orgs/org_demo_001/users'') []
         ''GET'' ''/api/v1/orgs/{id}/users'' [] False NoAfter])\<close>

definition demo_audit_steps :: "demo_step list" where
  \<open>demo_audit_steps =
    (let step = demo_step ''11. Audit Log'' in
      [step ''Query audit log'' (ExecMux AuditMux [])
         ''GET'' (\<lambda>i. ''/api/v1/audit?limit=10'') []
         ''GET'' ''/api/v1/audit?limit=10'' [] False NoAfter])\<close>

definition demo_simulator_steps :: "demo_step list" where
  \<open>demo_simulator_steps =
    (let step = demo_step ''12. Device Simulator'' in
      [step ''Start device simulator'' (ExecMux SimMux [])
         ''POST'' (\<lambda>i. ''/api/v1/simulator/start'') ''{"count":3}''
         ''POST'' ''/api/v1/simulator/start'' ''{"count":3}'' False NoAfter,
       step ''Stop device simulator'' (ExecMux SimMux [])
         ''POST'' (\<lambda>i. ''/api/v1/simulator/stop'') []
         ''POST'' ''/api/v1/simulator/stop'' [] False NoAfter])\<close>

definition demo_dashboard_steps :: "demo_step list" where
  \<open>demo_dashboard_steps =
    (let step = demo_step ''13. Dashboard UI'' in
      [step ''Dashboard HTML page'' ExecDash
         ''GET'' (\<lambda>i. ''/dashboard'') []
         ''GET'' ''/dashboard'' [] False NoAfter,
       step ''Root redirect to dashboard'' ExecDash
         ''GET'' (\<lambda>i. ''/'') []
         ''GET'' ''/'' [] False NoAfter])\<close>

record 's demo =
  dm_server :: 's
  dm_report :: Report
  dm_token :: string
  dm_deviceID :: string

definition demo_send ::
    "'s demo_server \<Rightarrow> (string \<Rightarrow> string option) \<Rightarrow> MockDB \<Rightarrow> demo_step \<Rightarrow> 's demo \<Rightarrow>
     's \<times> int \<times> string" where
  "demo_send answer indent db t s =
     (let path = ds_path t (dm_deviceID s) in
      case ds_kind t of
        Exec \<Rightarrow> demo_exec answer db (dm_server s) (ds_method t) path (ds_body t)
      | ExecAuth \<Rightarrow> demo_execAuth answer indent db (dm_server s) (ds_method t) path (ds_body t) (dm_token s)
      | ExecAuthRaw \<Rightarrow> demo_execAuthRaw answer db (dm_server s) (ds_method t) path (ds_body t) (dm_token s)
      | ExecMux mux header \<Rightarrow>
          demo_execMux answer indent mux header db (dm_server s) (ds_method t) path (ds_body t)
      | ExecDash \<Rightarrow> demo_execDash answer db (dm_server s) (ds_method t) path)"

text \<open>The texts main takes from the answers to the login and to the registration.\<close>

definition member_string :: "string \<Rightarrow> json \<Rightarrow> string option" where
  "member_string k j = (case json_member k j of Some (JStr t) \<Rightarrow> Some t | _ \<Rightarrow> None)"

definition take_token :: "(string \<Rightarrow> json option) \<Rightarrow> int \<Rightarrow> string \<Rightarrow> 's demo \<Rightarrow> 's demo" where
  "take_token parse code resp s =
     (if code = 200
      then (case Option.bind (parse resp) (member_string ''token'') of
              Some t \<Rightarrow> s\<lparr>dm_token := t\<rparr> | None \<Rightarrow> s)
      else s)"

definition take_device :: "(string \<Rightarrow> json option) \<Rightarrow> int \<Rightarrow> string \<Rightarrow> 's demo \<Rightarrow> 's demo" where
  "take_device parse code resp s =
     (if code = 201
      then (case Option.bind (parse resp) (json_member ''device'') of
              Some dev \<Rightarrow> (case member_string ''id'' dev of
                             Some i \<Rightarrow> s\<lparr>dm_deviceID := i\<rparr> | None \<Rightarrow> s)
            | None \<Rightarrow> s)
      else s)"

definition demo_run_step ::
    "'s demo_server \<Rightarrow> (string \<Rightarrow> string option) \<Rightarrow> (string \<Rightarrow> json option) \<Rightarrow> (string \<Rightarrow> MockDB) \<Rightarrow>
     demo_step \<Rightarrow> 's demo \<Rightarrow> 's demo" where
  "demo_run_step answer indent parse hooks t s =
     (case demo_send answer indent (hooks (dm_deviceID s)) t s of
        (srv, code, resp) \<Rightarrow>
          (let s' = s\<lparr>dm_server := srv,
                     dm_report := Report_Add (ds_section t) (ds_name t) (ds_showMethod t) (ds_showPath t)
                       (ds_showBody t) (ds_wantErr t) code resp (dm_report s)\<rparr>
           in case ds_after t of
                NoAfter \<Rightarrow> s'
              | TakeToken \<Rightarrow> take_token parse code resp s'
              | TakeDevice \<Rightarrow> take_device parse code resp s'))"

text \<open>The sections in order, each with the hooks its requests meet.\<close>

definition demo_script :: "int \<Rightarrow> ((string \<Rightarrow> MockDB) \<times> demo_step list) list" where
  "demo_script now =
     [(\<lambda>i. empty_MockDB, demo_health_steps), (\<lambda>i. auth_hooks, demo_auth_steps),
      (device_hooks now, demo_devices_steps), (telemetry_hooks now, demo_telemetry_steps),
      (\<lambda>i. alert_hooks now, demo_alerts_steps), (\<lambda>i. command_hooks now, demo_commands_steps),
      (\<lambda>i. ota_hooks now, demo_ota_steps), (\<lambda>i. webhook_hooks now, demo_webhooks_steps),
      (\<lambda>i. fleet_hooks now, demo_fleet_steps), (\<lambda>i. tenant_hooks now, demo_tenant_steps),
      (\<lambda>i. audit_hooks now, demo_audit_steps), (\<lambda>i. empty_MockDB, demo_simulator_steps),
      (\<lambda>i. empty_MockDB, demo_dashboard_steps)]"

definition demo_start :: "'s \<Rightarrow> 's demo" where
  "demo_start srv =
     \<lparr>dm_server = srv, dm_report = [], dm_token = [], dm_deviceID = ''dev_demo_001''\<rparr>"

definition demo_tour ::
    "'s demo_server \<Rightarrow> (string \<Rightarrow> string option) \<Rightarrow> (string \<Rightarrow> json option) \<Rightarrow> int \<Rightarrow> 's \<Rightarrow> 's demo" where
  "demo_tour answer indent parse now srv =
     fold (\<lambda>(hooks, steps). fold (demo_run_step answer indent parse hooks) steps) (demo_script now)
       (demo_start srv)"

section \<open>The printed report\<close>

definition count_pass :: "Report \<Rightarrow> nat" where
  "count_pass r = length (filter (\<lambda>t. at_Result t = ''PASS'') r)"

definition count_fail :: "Report \<Rightarrow> nat" where
  "count_fail r = length (filter (\<lambda>t. at_Result t \<noteq> ''PASS'') r)"

definition nat_text :: "nat \<Rightarrow> string" where
  "nat_text n = itoa (int n)"

definition report_summary :: "BuildInfo \<Rightarrow> string \<Rightarrow> Report \<Rightarrow> string list" where
  \<open>report_summary bi now r =
     [''# DeviceOS '' @ [CHR 0xE2, CHR 0x80, CHR 0x94] @ '' End-to-End Demonstration'', [],
      ''> **Self-hosted IoT backend '' @ [CHR 0xE2, CHR 0x80, CHR 0x94]
        @ '' single binary, zero external dependencies.**'',
      ''>'',
      ''> This document demonstrates every feature module running end-to-end via its HTTP API.'',
      ''> Generated by `cmd/demo` on '' @ now @ ''.'',
      [], ''---'', [], ''## Summary'', [], ''| Metric | Value |'', ''|--------|-------|'',
      ''| **Version** | '' @ BI_Version bi @ '' |'',
      ''| **Go Version** | '' @ BI_GoVersion bi @ '' |'',
      ''| **Modules** | 12 (devices, telemetry, alerts, auth, commands, ota, webhooks, fleet, tenant, audit, simulator, dashboard) |'',
      ''| **API Endpoints Tested** | '' @ nat_text (length r) @ '' |'',
      ''| **Tests Passed** | '' @ nat_text (count_pass r) @ ''/'' @ nat_text (count_pass r + count_fail r) @ '' |'',
      ''| **Test Result** | **'' @ (if 0 < count_fail r then ''SOME FAILED'' else ''ALL PASSED'') @ ''** |'',
      [], ''---'', [], ''## Modules'', []]\<close>

definition mark :: "APITest \<Rightarrow> string" where
  "mark t = (if at_Result t \<noteq> ''PASS'' then ''FAIL'' else ''PASS'')"

definition path_display :: "string \<Rightarrow> string" where
  "path_display p = (if 50 < length p then take 47 p @ ''...'' else p)"

definition section_heading :: "string \<Rightarrow> string list" where
  "section_heading sect =
     [''### '' @ sect, [], ''| # | Endpoint | Method | Status | Result |'',
      ''|---|----------|--------|--------|--------|'']"

definition table_row :: "APITest \<Rightarrow> string" where
  "table_row t =
     ''| '' @ at_Name t @ '' | `'' @ path_display (at_Path t) @ ''` | `'' @ at_Method t @ ''` | `''
     @ itoa (at_Status t) @ ''` | '' @ mark t @ '' |''"

fun report_modules :: "string \<Rightarrow> Report \<Rightarrow> string list" where
  "report_modules current [] = []"
| "report_modules current (t # ts) =
     (if at_Section t \<noteq> current then section_heading (at_Section t) else [])
     @ table_row t # report_modules (at_Section t) ts"

definition report_detail :: "APITest \<Rightarrow> string list" where
  "report_detail t =
     [''### '' @ at_Name t @ '' `'' @ at_Method t @ '' '' @ at_Path t @ ''`'', [],
      ''**Test:** '' @ mark t,
      ''**Method:** `'' @ at_Method t @ ''` **Path:** `'' @ at_Path t @ ''`'',
      ''**Status:** `'' @ itoa (at_Status t) @ ''`'']
     @ (if at_Body t \<noteq> [] then [''**Request Body:**'', ''```json'', at_Body t, ''```''] else [])
     @ [[]]"

definition report_architecture :: "string list" where
  \<open>report_architecture =
     [''---'',
      [],
      ''## Architecture Overview'',
      [],
      ''```'',
      ''+-----------------------------------------------------------------+'',
      ''|                     HTTP Server (:8080)                          |'',
      ''|  +---------+----------+--------+--------+-------+--------+      |'',
      ''|  | Devices |Telemetry | Alerts |  Auth  | Cmds  |  OTA   |      |'',
      ''|  +---------+----------+--------+--------+-------+--------+      |'',
      ''|  |Webhooks |  Fleet   | Tenant | Audit  |  Sim  |  Dash  |      |'',
      ''|  +---------+----------+--------+--------+-------+--------+      |'',
      ''|                         |                                       |'',
      ''|                    +----V-----+                                 |'',
      ''|                    | Registry |                                 |'',
      ''|                    +----+-----+                                 |'',
      ''|                         |                                       |'',
      ''|                    +----V--------------+                        |'',
      ''|                    +----V--------------+                        |'',
      ''|                    |    SQLite (WAL)   |                        |'',
      ''|                    +-------------------+                        |'',
      ''|                    +----------+                                 |'',
      ''+-----------------------------------------------------------------+'',
      ''```'',
      []]\<close>

definition report_responsibilities :: "string list" where
  \<open>report_responsibilities =
     [''### Module Responsibilities'',
      [],
      ''| Module | Responsibility |'',
      ''|--------|---------------|'',
      ''| **devices** | Device registration, CRUD, secret key generation |'',
      ''| **telemetry** | Ingest, query, latest datapoint, WebSocket broadcast |'',
      ''| **alerts** | Rule-based alerting with threshold evaluation |'',
      ''| **auth** | JWT tokens, API key auth, device auth middleware |'',
      ''| **commands** | Send remote commands, track execution results |'',
      ''| **ota** | Firmware upload, deploy, rollout tracking |'',
      ''| **webhooks** | Outbound event delivery with retry tracking |'',
      ''| **fleet** | Device groups, tags, fleet health aggregation |'',
      ''| **tenant** | Multi-org management, user invitations |'',
      ''| **audit** | Immutable audit log for all operations |'',
      ''| **simulator** | Built-in virtual device generator for testing |'',
      ''| **dashboard** | Single-page web UI with real-time WebSocket |'',
      []]\<close>

definition report_running :: "string list" where
  \<open>report_running =
     [''---'',
      [],
      ''## Running the Tests'',
      [],
      ''```bash'',
      ''# Unit tests (16 packages)'',
      ''make test'',
      [],
      ''# Build'',
      ''make build'',
      [],
      ''# Start the server'',
      ''./bin/deviceos start'',
      [],
      ''# Run Python E2E test'',
      ''python3 tests/simulate.py'',
      ''```'',
      [],
      ''---'',
      [],
      ''*Generated by DeviceOS Demonstration Tool*'']\<close>

text \<open>The lines on standard output, the line on standard error, and the exit status.\<close>

definition genReport :: "go_runtime \<Rightarrow> string \<Rightarrow> Report \<Rightarrow> string list \<times> string \<times> int" where
  "genReport rt now r =
     (let total = nat_text (count_pass r + count_fail r)
      in (report_summary (ReadBuildInfo rt) now r @ report_modules [] r
            @ [[], ''---'', [], ''## Endpoint Details'', []] @ concat (map report_detail r)
            @ report_architecture @ report_responsibilities @ report_running,
          ''Results: '' @ nat_text (count_pass r) @ ''/'' @ total @ '' passed, '' @ nat_text (count_fail r)
            @ ''/'' @ total @ '' failed'',
          if 0 < count_fail r then 1 else 0))"

section \<open>Main\<close>

text \<open>
  The modules of the first mux in order; a failing \<open>Init\<close> or \<open>RegisterRoutes\<close> ends the program
  with status 1 and a message. \<open>init\<close> and \<open>routes\<close> are what the calls return.
\<close>

definition demo_modules :: "string list" where
  "demo_modules =
     [''devices'', ''telemetry'', ''alerts'', ''auth'', ''commands'', ''ota'', ''webhooks'', ''fleet'',
      ''tenant'', ''audit'', ''simulator'', ''dashboard'']"

fun first_error :: "(string \<Rightarrow> string option) \<Rightarrow> string list \<Rightarrow> string option" where
  "first_error f [] = None"
| "first_error f (m # ms) = (case f m of Some err \<Rightarrow> Some err | None \<Rightarrow> first_error f ms)"

definition demo_main ::
    "(string \<Rightarrow> string option) \<Rightarrow> (string \<Rightarrow> string option) \<Rightarrow> 's demo_server \<Rightarrow>
     (string \<Rightarrow> string option) \<Rightarrow> (string \<Rightarrow> json option) \<Rightarrow> go_runtime \<Rightarrow> int \<Rightarrow> string \<Rightarrow> 's \<Rightarrow>
     string list \<times> string \<times> int" where
  "demo_main init routes answer indent parse rt now now_text srv =
     (case first_error init demo_modules of
        Some err \<Rightarrow> ([], ''init: '' @ err, 1)
      | None \<Rightarrow>
          (case first_error routes demo_modules of
             Some err \<Rightarrow> ([], ''register routes: '' @ err, 1)
           | None \<Rightarrow> genReport rt now_text (dm_report (demo_tour answer indent parse now srv))))"

section \<open>Properties\<close>

text \<open>A test says \<open>PASS\<close> exactly when the status is an error where one is wanted.\<close>

definition meets :: "APITest \<Rightarrow> bool" where
  "meets t \<longleftrightarrow> (at_WantErr t \<longleftrightarrow> 400 \<le> at_Status t)"

definition test_of :: "demo_step \<Rightarrow> APITest \<Rightarrow> bool" where
  "test_of t a \<longleftrightarrow>
     at_Section a = ds_section t \<and> at_Name a = ds_name t \<and> at_Method a = ds_showMethod t
     \<and> at_Path a = ds_showPath t \<and> at_Body a = ds_showBody t \<and> at_WantErr a = ds_wantErr t
     \<and> (at_Result a = ''PASS'' \<longleftrightarrow> meets a)"

lemma take_report [simp]:
  "dm_report (take_token parse code resp s) = dm_report s"
  "dm_report (take_device parse code resp s) = dm_report s"
  by (simp_all add: take_token_def take_device_def split: option.splits)

lemma run_step_report:
  "\<exists>a. dm_report (demo_run_step answer indent parse hooks t s) = dm_report s @ [a] \<and> test_of t a"
proof -
  obtain srv code resp where send: "demo_send answer indent (hooks (dm_deviceID s)) t s = (srv, code, resp)"
    by (cases "demo_send answer indent (hooks (dm_deviceID s)) t s") auto
  let ?r = "Report_Add (ds_section t) (ds_name t) (ds_showMethod t) (ds_showPath t) (ds_showBody t)
      (ds_wantErr t) code resp (dm_report s)"
  have "dm_report (demo_run_step answer indent parse hooks t s) = ?r"
    by (simp add: demo_run_step_def send Let_def split: after_step.splits)
  moreover have "\<exists>a. ?r = dm_report s @ [a] \<and> test_of t a"
    by (simp add: Report_Add_def Let_def test_of_def meets_def not_less)
  ultimately show ?thesis by simp
qed

lemma run_steps_report:
  "\<exists>as. dm_report (fold (demo_run_step answer indent parse hooks) ts s) = dm_report s @ as
     \<and> list_all2 test_of ts as"
proof (induction ts arbitrary: s)
  case (Cons t ts)
  obtain a where a: "dm_report (demo_run_step answer indent parse hooks t s) = dm_report s @ [a]"
    and t: "test_of t a"
    using run_step_report by blast
  obtain as where as: "dm_report (fold (demo_run_step answer indent parse hooks) ts
        (demo_run_step answer indent parse hooks t s)) = (dm_report s @ [a]) @ as"
    and ts: "list_all2 test_of ts as"
    using Cons [of "demo_run_step answer indent parse hooks t s"] unfolding a by blast
  show ?case
    using as t ts by (intro exI [of _ "a # as"]) simp
qed simp

lemma run_script_report:
  "\<exists>gs. dm_report (fold (\<lambda>(hooks, ts). fold (demo_run_step answer indent parse hooks) ts) script s)
       = dm_report s @ concat gs
     \<and> list_all2 (\<lambda>(hooks, ts) g. list_all2 test_of ts g) script gs"
proof (induction script arbitrary: s)
  case Nil
  show ?case by (intro exI [of _ "[]"]) simp
next
  case (Cons x script)
  obtain hooks ts where x: "x = (hooks, ts)" by (cases x)
  let ?s = "fold (demo_run_step answer indent parse hooks) ts s"
  obtain g where g: "dm_report ?s = dm_report s @ g" and t: "list_all2 test_of ts g"
    using run_steps_report by blast
  obtain gs where gs: "dm_report (fold (\<lambda>(hooks, ts). fold (demo_run_step answer indent parse hooks) ts)
        script ?s) = (dm_report s @ g) @ concat gs"
    and l: "list_all2 (\<lambda>(hooks, ts) g. list_all2 test_of ts g) script gs"
    using Cons [of ?s] unfolding g by blast
  show ?case
    using gs t l by (intro exI [of _ "g # gs"]) (simp add: x)
qed

text \<open>A group of rows under one heading per section, as long as neighbours differ.\<close>

definition section_block :: "Report \<Rightarrow> string list" where
  "section_block g = section_heading (at_Section (hd g)) @ map table_row g"

lemma report_modules_same:
  "\<forall>t \<in> set g. at_Section t = sect \<Longrightarrow>
   report_modules sect (g @ r) = map table_row g @ report_modules sect r"
  by (induction g) auto

definition one_section :: "string list \<Rightarrow> bool" where
  "one_section xs \<longleftrightarrow> xs \<noteq> [] \<and> (\<forall>x \<in> set xs. hd xs = x)"

lemma report_modules_groups:
  "list_all (\<lambda>g. one_section (map at_Section g)) gs \<Longrightarrow>
   distinct_adj (sect # map (\<lambda>g. at_Section (hd g)) gs) \<Longrightarrow>
   report_modules sect (concat gs) = concat (map section_block gs)"
proof (induction gs arbitrary: sect)
  case (Cons g gs)
  then obtain t ts where g: "g = t # ts" by (cases g) (auto simp: one_section_def)
  have same: "\<forall>u \<in> set ts. at_Section u = at_Section t"
    and ne: "at_Section t \<noteq> sect"
    using Cons.prems by (auto simp: g one_section_def)
  have "report_modules (at_Section t) (concat gs) = concat (map section_block gs)"
    using Cons by (simp add: g)
  moreover have "section_block g = section_heading (at_Section t) @ table_row t # map table_row ts"
    by (simp add: section_block_def g)
  ultimately show ?case
    using ne report_modules_same [OF same] by (simp add: g)
qed simp

lemma test_of_group:
  "list_all2 test_of ts g \<Longrightarrow> map at_Section g = map ds_section ts"
  by (induction rule: list_all2_induct) (auto simp: test_of_def)

lemma script_sections:
  "map (\<lambda>(hooks, ts). map ds_section ts) (demo_script now) =
     [replicate 1 ''1. Health Check'', replicate 3 ''2. Authentication'',
      replicate 5 ''3. Device Management'', replicate 5 ''4. Telemetry'',
      replicate 4 ''5. Alert Rules & Evaluation'', replicate 3 ''6. Remote Commands'',
      replicate 5 ''7. OTA Firmware Updates'', replicate 4 ''8. Webhooks'',
      replicate 4 ''9. Fleet Management'', replicate 4 ''10. Multi-Tenancy'',
      replicate 1 ''11. Audit Log'', replicate 2 ''12. Device Simulator'', replicate 2 ''13. Dashboard UI'']"
  by (simp add: demo_script_def demo_health_steps_def demo_auth_steps_def demo_devices_steps_def
      demo_telemetry_steps_def demo_alerts_steps_def demo_commands_steps_def demo_ota_steps_def
      demo_webhooks_steps_def demo_fleet_steps_def demo_tenant_steps_def demo_audit_steps_def
      demo_simulator_steps_def demo_dashboard_steps_def demo_step_def Let_def eval_nat_numeral)

lemma groups_sections:
  "list_all2 (\<lambda>(hooks, ts) g. list_all2 test_of ts g) script gs \<Longrightarrow>
   map (map at_Section) gs = map (\<lambda>(hooks, ts). map ds_section ts) script"
  by (induction rule: list_all2_induct) (auto dest: test_of_group)

text \<open>
  C40: The demonstration sends and reports exactly its 43 requests. Whatever the modules answer,
  the report holds one test per request of the script, in its order, with the texts and the
  expectation of the script, and each of the 13 sections is printed as one table under one
  heading; the exit status is 0 exactly when every answer is an error status where one is expected
  and no error status elsewhere.
\<close>

theorem demo_tour_reported:
  "\<exists>gs. dm_report (demo_tour answer indent parse now srv) = concat gs
     \<and> list_all2 (\<lambda>(hooks, ts) g. list_all2 test_of ts g) (demo_script now) gs
     \<and> length (concat gs) = 43
     \<and> report_modules [] (concat gs) = concat (map section_block gs)
     \<and> snd (snd (genReport rt today (concat gs))) = (if list_all meets (concat gs) then 0 else 1)"
proof -
  obtain gs where gs: "dm_report (demo_tour answer indent parse now srv) = concat gs"
    and l: "list_all2 (\<lambda>(hooks, ts) g. list_all2 test_of ts g) (demo_script now) gs"
    using run_script_report [of answer indent parse "demo_script now" "demo_start srv"]
    by (auto simp: demo_tour_def demo_start_def)
  note sects = groups_sections [OF l, unfolded script_sections]
  have "length (concat gs) = sum_list (map length (map (map at_Section) gs))"
    by (simp add: length_concat o_def)
  then have "length (concat gs) = 43" by (simp add: sects)
  moreover have "list_all one_section (map (map at_Section) gs)"
    unfolding sects by (simp add: one_section_def)
  then have "list_all (\<lambda>g. one_section (map at_Section g)) gs" by (simp add: list.pred_map o_def)
  moreover have "distinct_adj ([] # map (\<lambda>g. at_Section (hd g)) gs)"
  proof -
    have "map (\<lambda>g. at_Section (hd g)) gs = map hd (map (map at_Section) gs)"
      using calculation(2) by (auto simp: list_all_iff one_section_def hd_map)
    then show ?thesis unfolding sects by (simp add: hd_replicate)
  qed
  moreover have "list_all (\<lambda>a. at_Result a = ''PASS'' \<longleftrightarrow> meets a) (concat gs)"
    using l by (induction rule: list_all2_induct)
      (auto simp: list_all_iff test_of_def list_all2_conv_all_nth in_set_conv_nth split: prod.splits)
  then have "0 < count_fail (concat gs) \<longleftrightarrow> \<not> list_all meets (concat gs)"
    by (auto simp: count_fail_def list_all_iff filter_empty_conv)
  ultimately show ?thesis
    using gs l by (intro exI [of _ gs]) (simp add: genReport_def Let_def report_modules_groups)
qed

text \<open>
  The canned rows of the demonstration do not fit the columns the modules read. The mock's
  \<open>Scan\<close> accepts them all the same: a device has its status in the place of its organisation and
  the time as its status and no update time, a firmware no size and its checksum's place taken, a
  deployment the number of its devices as its status, and the webhooks and alert rules come out
  disabled.
\<close>

theorem demo_rows_misread:
  "MockRow_Scan L (one_row (demo_device_row now i)) device_dests =
     ([PString i, PString ''temp-sensor-01'', PString ''temp-sensor'',
       PString (sprint_v L (demo_device_row now i ! 3)), PString (sprint_v L (demo_device_row now i ! 4)),
       PString ''floor-3'', PString ''online'', PString (fmt_time L now), PTime now, PTime now,
       PTime zero_time], None)
   \<and> MockRow_Scan L (one_row (demo_firmware_row now))
       [PString [], PString [], PString [], PString [], PInt64 0, PString [], PTime zero_time] =
     ([PString ''fw_demo_001'', PString ''1.0.0'', PString ''release'', PString ''nrf52'', PInt64 0,
       PString ''65536'', PTime now], None)
   \<and> MockRow_Scan L (one_row (demo_deployment_row ''completed'' 2 now))
       [PString [], PString [], PString [], PInt 0, PString [], PTime zero_time] =
     ([PString ''dep_demo_001'', PString ''fw_demo_001'', PString ''1.0.0'', PInt 0, PString ''2'',
       PTime zero_time], None)
   \<and> fst (MockRow_Scan L (one_row (demo_webhook_row now))
       [PString [], PString [], PString [], PString [], PString [], PBool False, PTime zero_time]) ! 5
     = PBool False
   \<and> fst (MockRow_Scan L (one_row (demo_rule_row now))
       [PString [], PString [], PString [], PString [], PFloat 0, PString [], PString [], PString [],
        PBool False, PTime zero_time]) ! 8
     = PBool False"
proof -
  have d: "device_dests = [PString [], PString [], PString [], PString [], PString [], PString [],
      PString [], PString [], PTime zero_time, PTime zero_time, PTime zero_time]"
    by (simp add: device_dests_def eval_nat_numeral)
  have n: "Sscanf_d ''abc123def456'' = 0" "Sscanf_d ''completed'' = 0"
    by (simp_all add: Sscanf_d_def scan_blank_def is_space_def is_digit_def atoi_def Let_def)
  have n': "itoa 65536 = ''65536''" "itoa 2 = ''2''"
    by (simp_all add: itoa_def digits_of_nat.simps char_of_def bit_Suc_0_iff)
  have scan: "MockRow_Scan L (one_row (v # vs)) ds = assignScan L ds (v # vs)" for v vs ds
    by (simp add: MockRow_Scan_def one_row_def)
  have "MockRow_Scan L (one_row (demo_device_row now i)) device_dests =
     ([PString i, PString ''temp-sensor-01'', PString ''temp-sensor'',
       PString (sprint_v L (demo_device_row now i ! 3)), PString (sprint_v L (demo_device_row now i ! 4)),
       PString ''floor-3'', PString ''online'', PString (fmt_time L now), PTime now, PTime now,
       PTime zero_time], None)"
    by (simp add: scan demo_device_row_def d)
  moreover have "MockRow_Scan L (one_row (demo_firmware_row now))
       [PString [], PString [], PString [], PString [], PInt64 0, PString [], PTime zero_time] =
     ([PString ''fw_demo_001'', PString ''1.0.0'', PString ''release'', PString ''nrf52'', PInt64 0,
       PString ''65536'', PTime now], None)"
    by (simp add: scan demo_firmware_row_def n n')
  moreover have "MockRow_Scan L (one_row (demo_deployment_row ''completed'' 2 now))
       [PString [], PString [], PString [], PInt 0, PString [], PTime zero_time] =
     ([PString ''dep_demo_001'', PString ''fw_demo_001'', PString ''1.0.0'', PInt 0, PString ''2'',
       PTime zero_time], None)"
    by (simp add: scan demo_deployment_row_def n n')
  ultimately show ?thesis
    by (simp add: scan demo_webhook_row_def demo_rule_row_def)
qed

end
