(* ===== verification/Lifecycle.thy ===== *)
theory Lifecycle
  imports Server
begin

text \<open>
  The rest of \<open>internal/server/server.go\<close> (the object that listens and shuts down, and the writer
  that logging wraps around the response) and the end of \<open>cmdStart\<close> in \<open>cmd/deviceos/start.go\<close>:
  main, the goroutine of the server and the requests in flight as the steps of a relation, from
  the moment everything is registered to the return of the command.
\<close>

section \<open>Listening\<close>

record http_server =
  hs_Addr :: string
  hs_ReadTimeout :: int
  hs_WriteTimeout :: int
  hs_IdleTimeout :: int

record server_object =
  so_Host :: string
  so_Port :: int
  so_TLSCert :: string
  so_TLSKey :: string
  so_srv :: "http_server option"
  so_modStatus :: "(string \<times> string) list option"

definition server_object_New :: "'s server_config \<Rightarrow> server_object" where
  "server_object_New cfg =
     \<lparr>so_Host = cfg_Host cfg, so_Port = cfg_Port cfg, so_TLSCert = cfg_TLSCert cfg,
      so_TLSKey = cfg_TLSKey cfg, so_srv = None, so_modStatus = cfg_ModuleStats cfg\<rparr>"

definition SetModuleStatusFn :: "(string \<times> string) list option \<Rightarrow> server_object \<Rightarrow> server_object" where
  "SetModuleStatusFn fn s = s\<lparr>so_modStatus := fn\<rparr>"

datatype listen_call = ListenAndServe | ListenAndServeTLS string string

definition second :: int where
  "second = 1000000000"

definition Server_Start :: "server_object \<Rightarrow> server_object \<times> listen_call" where
  "Server_Start s =
     (let addr = so_Host s @ '':'' @ itoa (so_Port s);
          s' = s\<lparr>so_srv := Some \<lparr>hs_Addr = addr, hs_ReadTimeout = 15 * second,
                               hs_WriteTimeout = 30 * second, hs_IdleTimeout = 60 * second\<rparr>\<rparr>
      in if so_TLSCert s \<noteq> [] \<and> so_TLSKey s \<noteq> []
         then (s', ListenAndServeTLS (so_TLSCert s) (so_TLSKey s))
         else (s', ListenAndServe))"

text \<open>\<open>Stop\<close>: what is shut down, and within which time; nothing before \<open>Start\<close> has run.\<close>

definition Server_Stop :: "server_object \<Rightarrow> (http_server \<times> int) option" where
  "Server_Stop s = (case so_srv s of None \<Rightarrow> None | Some srv \<Rightarrow> Some (srv, 10 * second))"

section \<open>The logged status\<close>

record logging_writer =
  lw_inner :: writer
  lw_status :: int

definition lw_new :: "writer \<Rightarrow> logging_writer" where
  "lw_new w = \<lparr>lw_inner = w, lw_status = 200\<rparr>"

definition lw_WriteHeader :: "int \<Rightarrow> logging_writer \<Rightarrow> logging_writer" where
  "lw_WriteHeader status w = \<lparr>lw_inner = write_header status (lw_inner w), lw_status = status\<rparr>"

text \<open>\<open>Write\<close> is the embedded writer's: an implicit status is not seen.\<close>

definition lw_Write :: "chunk \<Rightarrow> logging_writer \<Rightarrow> logging_writer" where
  "lw_Write b w = w\<lparr>lw_inner := write_body b (lw_inner w)\<rparr>"

datatype lw_call = CallWriteHeader int | CallWrite chunk

fun lw_do :: "lw_call \<Rightarrow> logging_writer \<Rightarrow> logging_writer" where
  "lw_do (CallWriteHeader status) = lw_WriteHeader status"
| "lw_do (CallWrite b) = lw_Write b"

definition is_header :: "lw_call \<Rightarrow> bool" where
  "is_header c \<longleftrightarrow> (\<exists>status. c = CallWriteHeader status)"

lemma lw_writes:
  "list_all (\<lambda>c. \<not> is_header c) cs \<Longrightarrow>
   lw_status (fold lw_do cs w) = lw_status w
   \<and> (status_of (lw_inner w) = Some (lw_status w) \<longrightarrow>
        status_of (lw_inner (fold lw_do cs w)) = Some (lw_status w))"
proof (induction cs arbitrary: w)
  case (Cons c cs)
  then obtain b where c: "c = CallWrite b" by (cases c) (auto simp: is_header_def)
  have "status_of (lw_inner w) = Some (lw_status w) \<Longrightarrow>
      status_of (lw_inner (lw_Write b w)) = Some (lw_status w)"
    by (simp add: lw_Write_def status_of_write_body)
  with Cons.IH [of "lw_Write b w"] Cons.prems show ?case
    by (simp add: c lw_Write_def)
qed simp

text \<open>
  A handler that sets its status once, first, has that status sent and logged; one that sets none
  has 200 sent with its first write, which is what is logged.
\<close>

lemma logged_status:
  assumes "fresh w" and "list_all (\<lambda>c. \<not> is_header c) cs"
  shows "lw_status (fold lw_do (CallWriteHeader status # cs) (lw_new w)) = status
    \<and> status_of (lw_inner (fold lw_do (CallWriteHeader status # cs) (lw_new w))) = Some status"
    and "lw_status (fold lw_do (CallWrite b # cs) (lw_new w)) = 200
    \<and> status_of (lw_inner (fold lw_do (CallWrite b # cs) (lw_new w))) = Some 200"
  using assms lw_writes [OF assms(2), of "lw_WriteHeader status (lw_new w)"]
    lw_writes [OF assms(2), of "lw_Write b (lw_new w)"]
  by (simp_all add: lw_new_def lw_WriteHeader_def lw_Write_def fresh_def status_of_write_header
      status_of_write_body) (simp_all add: status_of_def)

section \<open>The end of a start\<close>

text \<open>
  Main waits for a signal or for the context, which the server's goroutine cancels when listening
  ends with an error (it always does: shutting down is one). Then it stops the modules, closes the
  database, and stops the server, which waits for the requests in flight for at most ten seconds.
  \<open>pr_late\<close> counts the requests that were served after the database had been closed.
\<close>

datatype main_pc = M_Waiting | M_StopAll | M_CloseDB | M_StopServer | M_Shutdown | M_Returned

datatype srv_pc = S_New | S_Built listen_call | S_Listening | S_Ended

record process =
  pr_main :: main_pc
  pr_srv :: srv_pc
  pr_obj :: server_object
  pr_signalled :: bool
  pr_cancelled :: bool
  pr_modules_stopped :: bool
  pr_db_open :: bool
  pr_shutdown :: bool
  pr_inflight :: nat
  pr_late :: nat

definition process_start :: "server_object \<Rightarrow> process" where
  "process_start obj =
     \<lparr>pr_main = M_Waiting, pr_srv = S_New, pr_obj = obj, pr_signalled = False, pr_cancelled = False,
      pr_modules_stopped = False, pr_db_open = True, pr_shutdown = False, pr_inflight = 0, pr_late = 0\<rparr>"

inductive process_step :: "process \<Rightarrow> process \<Rightarrow> bool" where
  signal: "pr_main p \<noteq> M_Returned \<Longrightarrow> \<not> pr_signalled p \<Longrightarrow>
    process_step p (p\<lparr>pr_signalled := True\<rparr>)"
| start: "pr_main p \<noteq> M_Returned \<Longrightarrow> pr_srv p = S_New \<Longrightarrow> Server_Start (pr_obj p) = (obj, call) \<Longrightarrow>
    process_step p (p\<lparr>pr_obj := obj, pr_srv := S_Built call\<rparr>)"
| listen: "pr_main p \<noteq> M_Returned \<Longrightarrow> pr_srv p = S_Built call \<Longrightarrow> \<not> pr_shutdown p \<Longrightarrow>
    process_step p (p\<lparr>pr_srv := S_Listening\<rparr>)"
| listen_error: "pr_main p \<noteq> M_Returned \<Longrightarrow> pr_srv p = S_Built call \<Longrightarrow>
    process_step p (p\<lparr>pr_srv := S_Ended, pr_cancelled := True\<rparr>)"
| accept: "pr_main p \<noteq> M_Returned \<Longrightarrow> pr_srv p = S_Listening \<Longrightarrow> \<not> pr_shutdown p \<Longrightarrow>
    process_step p (p\<lparr>pr_inflight := pr_inflight p + 1\<rparr>)"
| served: "pr_main p \<noteq> M_Returned \<Longrightarrow> pr_inflight p = Suc n \<Longrightarrow>
    process_step p (p\<lparr>pr_inflight := n,
      pr_late := (if pr_db_open p then pr_late p else pr_late p + 1)\<rparr>)"
| listener_closed: "pr_main p \<noteq> M_Returned \<Longrightarrow> pr_srv p = S_Listening \<Longrightarrow> pr_shutdown p \<Longrightarrow>
    process_step p (p\<lparr>pr_srv := S_Ended, pr_cancelled := True\<rparr>)"
| wake: "pr_main p = M_Waiting \<Longrightarrow> pr_signalled p \<or> pr_cancelled p \<Longrightarrow>
    process_step p (p\<lparr>pr_main := M_StopAll\<rparr>)"
| stop_all: "pr_main p = M_StopAll \<Longrightarrow>
    process_step p (p\<lparr>pr_main := M_CloseDB, pr_modules_stopped := True\<rparr>)"
| close_db: "pr_main p = M_CloseDB \<Longrightarrow>
    process_step p (p\<lparr>pr_main := M_StopServer, pr_db_open := False\<rparr>)"
| stop_server: "pr_main p = M_StopServer \<Longrightarrow>
    process_step p
      (case Server_Stop (pr_obj p) of
         None \<Rightarrow> p\<lparr>pr_main := M_Returned\<rparr>
       | Some (srv, limit) \<Rightarrow> p\<lparr>pr_main := M_Shutdown, pr_shutdown := True\<rparr>)"
| drained: "pr_main p = M_Shutdown \<Longrightarrow> pr_inflight p = 0 \<Longrightarrow>
    process_step p (p\<lparr>pr_main := M_Returned\<rparr>)"
| deadline: "pr_main p = M_Shutdown \<Longrightarrow> process_step p (p\<lparr>pr_main := M_Returned\<rparr>)"

definition process_inv :: "process \<Rightarrow> bool" where
  "process_inv p \<longleftrightarrow>
     (pr_modules_stopped p \<longleftrightarrow> pr_main p \<notin> {M_Waiting, M_StopAll})
     \<and> (pr_db_open p \<longleftrightarrow> pr_main p \<in> {M_Waiting, M_StopAll, M_CloseDB})
     \<and> (pr_shutdown p \<longrightarrow> pr_main p \<in> {M_Shutdown, M_Returned})
     \<and> (pr_main p = M_Shutdown \<longrightarrow> pr_shutdown p)
     \<and> (pr_srv p = S_New \<longleftrightarrow> so_srv (pr_obj p) = None)
     \<and> (pr_main p \<noteq> M_Waiting \<longrightarrow> pr_signalled p \<or> pr_cancelled p)
     \<and> (pr_late p \<noteq> 0 \<longrightarrow> \<not> pr_db_open p)"

lemma process_inv_step: "process_step p q \<Longrightarrow> process_inv p \<Longrightarrow> process_inv q"
proof (induction rule: process_step.induct)
  case (start p obj call)
  then have "so_srv obj \<noteq> None" by (auto simp: Server_Start_def Let_def split: if_splits)
  with start show ?case by (auto simp: process_inv_def)
next
  case (stop_server p)
  then show ?case by (auto simp: process_inv_def Server_Stop_def split: option.splits)
qed (auto simp: process_inv_def)

lemma process_inv_run:
  "process_step\<^sup>*\<^sup>* (process_start obj) p \<Longrightarrow> so_srv obj = None \<Longrightarrow> process_inv p"
  by (induction rule: rtranclp_induct)
     (auto intro: process_inv_step, simp add: process_inv_def process_start_def)

fun main_rank :: "main_pc \<Rightarrow> nat" where
  "main_rank M_Waiting = 5"
| "main_rank M_StopAll = 4"
| "main_rank M_CloseDB = 3"
| "main_rank M_StopServer = 2"
| "main_rank M_Shutdown = 1"
| "main_rank M_Returned = 0"

lemma main_forward: "process_step p q \<Longrightarrow> main_rank (pr_main q) \<le> main_rank (pr_main p)"
  by (induction rule: process_step.induct) (auto split: option.splits)

lemma main_goes_on:
  assumes "pr_main p \<noteq> M_Returned" and "pr_signalled p \<or> pr_cancelled p"
  shows "\<exists>q. process_step p q \<and> main_rank (pr_main q) < main_rank (pr_main p)"
proof (cases "pr_main p")
  case M_Waiting
  with process_step.wake [OF this assms(2)] show ?thesis
    by (intro exI [of _ "p\<lparr>pr_main := M_StopAll\<rparr>"]) simp
next
  case M_StopAll
  with process_step.stop_all [OF this] show ?thesis
    by (intro exI [of _ "p\<lparr>pr_main := M_CloseDB, pr_modules_stopped := True\<rparr>"]) simp
next
  case M_CloseDB
  with process_step.close_db [OF this] show ?thesis
    by (intro exI [of _ "p\<lparr>pr_main := M_StopServer, pr_db_open := False\<rparr>"]) simp
next
  case M_StopServer
  let ?q = "case Server_Stop (pr_obj p) of None \<Rightarrow> p\<lparr>pr_main := M_Returned\<rparr>
    | Some (srv, limit) \<Rightarrow> p\<lparr>pr_main := M_Shutdown, pr_shutdown := True\<rparr>"
  have "main_rank (pr_main ?q) < 2" by (auto split: option.splits)
  with process_step.stop_server [OF M_StopServer] show ?thesis
    unfolding M_StopServer by (intro exI [of _ ?q]) simp
next
  case M_Shutdown
  with process_step.deadline [OF this] show ?thesis
    by (intro exI [of _ "p\<lparr>pr_main := M_Returned\<rparr>"]) simp
qed (use assms(1) in simp)

text \<open>
  C17: The order of a shutdown. In every reachable state the database is closed only after the
  modules have been stopped, and the server is told to shut down only after that; main never goes
  back and, once a signal or an error has come, can always go on until it returns, with the modules
  stopped and the database closed. Between closing the database and stopping the server a
  listening server still accepts a request and serves it without a database.
\<close>

theorem shutdown_order:
  assumes "process_step\<^sup>*\<^sup>* (process_start obj) p" and "so_srv obj = None"
  shows "(\<not> pr_db_open p \<longrightarrow> pr_modules_stopped p) \<and> (pr_shutdown p \<longrightarrow> \<not> pr_db_open p)
    \<and> (pr_main p = M_Returned \<longrightarrow> pr_modules_stopped p \<and> \<not> pr_db_open p)
    \<and> (\<forall>q. process_step p q \<longrightarrow> main_rank (pr_main q) \<le> main_rank (pr_main p))
    \<and> (pr_main p \<noteq> M_Returned \<and> (pr_signalled p \<or> pr_cancelled p) \<longrightarrow>
         (\<exists>q. process_step p q \<and> main_rank (pr_main q) < main_rank (pr_main p)))
    \<and> (pr_main p = M_StopServer \<and> pr_srv p = S_Listening \<longrightarrow>
         (\<exists>q r. process_step p q \<and> process_step q r \<and> pr_main r = M_StopServer
            \<and> pr_inflight r = pr_inflight p \<and> pr_late r = pr_late p + 1))"
proof -
  have inv: "process_inv p" by (rule process_inv_run [OF assms])
  have late: "\<exists>q r. process_step p q \<and> process_step q r \<and> pr_main r = M_StopServer
      \<and> pr_inflight r = pr_inflight p \<and> pr_late r = pr_late p + 1"
    if "pr_main p = M_StopServer" and "pr_srv p = S_Listening"
  proof -
    have "\<not> pr_shutdown p" and db: "\<not> pr_db_open p"
      using inv that(1) by (auto simp: process_inv_def)
    let ?q = "p\<lparr>pr_inflight := pr_inflight p + 1\<rparr>"
    let ?r = "?q\<lparr>pr_inflight := pr_inflight p,
        pr_late := (if pr_db_open ?q then pr_late ?q else pr_late ?q + 1)\<rparr>"
    have "process_step p ?q"
      using that \<open>\<not> pr_shutdown p\<close> by (intro process_step.accept) simp_all
    moreover have "process_step ?q ?r"
      using that by (intro process_step.served) simp_all
    ultimately show ?thesis
      using that db by (intro exI [of _ ?q] exI [of _ ?r]) simp
  qed
  have "pr_main p \<noteq> M_Returned \<and> (pr_signalled p \<or> pr_cancelled p) \<longrightarrow>
      (\<exists>q. process_step p q \<and> main_rank (pr_main q) < main_rank (pr_main p))"
    using main_goes_on by blast
  moreover have "\<forall>q. process_step p q \<longrightarrow> main_rank (pr_main q) \<le> main_rank (pr_main p)"
    using main_forward by blast
  moreover have "(\<not> pr_db_open p \<longrightarrow> pr_modules_stopped p) \<and> (pr_shutdown p \<longrightarrow> \<not> pr_db_open p)
      \<and> (pr_main p = M_Returned \<longrightarrow> pr_modules_stopped p \<and> \<not> pr_db_open p)"
    using inv by (auto simp: process_inv_def)
  ultimately show ?thesis using late by blast
qed

definition demo_object :: server_object where
  "demo_object =
     \<lparr>so_Host = ''127.0.0.1'', so_Port = 8080, so_TLSCert = [], so_TLSKey = [], so_srv = None,
      so_modStatus = None\<rparr>"

definition demo_process :: "main_pc \<Rightarrow> srv_pc \<Rightarrow> server_object \<Rightarrow> process" where
  "demo_process m s obj =
     \<lparr>pr_main = m, pr_srv = s, pr_obj = obj, pr_signalled = True, pr_cancelled = False,
      pr_modules_stopped = (m \<notin> {M_Waiting, M_StopAll}),
      pr_db_open = (m \<in> {M_Waiting, M_StopAll, M_CloseDB}), pr_shutdown = False, pr_inflight = 0,
      pr_late = 0\<rparr>"

lemma demo_process_run:
  "process_step\<^sup>*\<^sup>* (process_start demo_object)
     (demo_process M_StopServer S_Listening (fst (Server_Start demo_object)))"
proof -
  let ?obj = "fst (Server_Start demo_object)"
  have call: "Server_Start demo_object = (?obj, ListenAndServe)"
    by (simp add: Server_Start_def demo_object_def Let_def)
  have "process_step (process_start demo_object) (demo_process M_Waiting S_New demo_object)"
    using process_step.signal [of "process_start demo_object"]
    by (simp add: process_start_def demo_process_def)
  moreover have "process_step (demo_process M_Waiting S_New demo_object)
      (demo_process M_Waiting (S_Built ListenAndServe) ?obj)"
    using process_step.start [of "demo_process M_Waiting S_New demo_object" ?obj ListenAndServe] call
    by (simp add: demo_process_def)
  moreover have "process_step (demo_process M_Waiting (S_Built ListenAndServe) ?obj)
      (demo_process M_Waiting S_Listening ?obj)"
    using process_step.listen [of "demo_process M_Waiting (S_Built ListenAndServe) ?obj" ListenAndServe]
    by (simp add: demo_process_def)
  moreover have "process_step (demo_process M_Waiting S_Listening ?obj) (demo_process M_StopAll S_Listening ?obj)"
    using process_step.wake [of "demo_process M_Waiting S_Listening ?obj"]
    by (simp add: demo_process_def)
  moreover have "process_step (demo_process M_StopAll S_Listening ?obj) (demo_process M_CloseDB S_Listening ?obj)"
    using process_step.stop_all [of "demo_process M_StopAll S_Listening ?obj"]
    by (simp add: demo_process_def)
  moreover have "process_step (demo_process M_CloseDB S_Listening ?obj) (demo_process M_StopServer S_Listening ?obj)"
    using process_step.close_db [of "demo_process M_CloseDB S_Listening ?obj"]
    by (simp add: demo_process_def)
  ultimately show ?thesis
    by (meson converse_rtranclp_into_rtranclp rtranclp.rtrancl_refl)
qed

theorem shutdown_order_witness:
  "\<exists>q r. process_step (demo_process M_StopServer S_Listening (fst (Server_Start demo_object))) q
     \<and> process_step q r \<and> pr_late r = 1"
proof -
  have "so_srv demo_object = None" by (simp add: demo_object_def)
  from shutdown_order [OF demo_process_run this] show ?thesis
    by (auto simp: demo_process_def)
qed

end
