(* ===== verification/Cmdfeed.thy ===== *)
theory Cmdfeed
  imports Commands Telemetry
begin

text \<open>
  \<open>handleWS\<close> of \<open>modules/commands\<close>: the connection that carries commands to a device, from the
  upgrade to the end of its loop, and what an undisturbed connection delivers.
\<close>

section \<open>The handler\<close>

text \<open>The loop waits for the reader to end and for the ticker.\<close>

datatype feed_event = FeedDone | FeedTick

fun commands_feed ::
    "'d engine \<Rightarrow> string \<Rightarrow> string \<Rightarrow> feed_event list \<Rightarrow> 'd commands_state \<Rightarrow> 'd commands_state \<times> json list" where
  "commands_feed E deviceID oid [] s = (s, [])"
| "commands_feed E deviceID oid (FeedDone # es) s = (s, [])"
| "commands_feed E deviceID oid (FeedTick # es) s =
     (case commands_ws_tick E deviceID oid s of
        (s1, sent1) \<Rightarrow> (case commands_feed E deviceID oid es s1 of (s2, sent2) \<Rightarrow> (s2, sent1 @ sent2)))"

text \<open>Beside the module's state, what each connection was sent.\<close>

definition commands_handleWS ::
    "'c upgrader \<Rightarrow> 'd engine \<Rightarrow> feed_event list \<Rightarrow> ('d commands_state \<times> ('c \<Rightarrow> json list)) handler" where
  "commands_handleWS up E es st r w =
     (case st of (s, inbox) \<Rightarrow>
        (case up r w of
           (None, w') \<Rightarrow> ((s, inbox), w')
         | (Some conn, w') \<Rightarrow>
             (let deviceID = r_query r ''device_id''; oid = OrgID r
              in case commands_feed E deviceID oid es s of
                   (s', sent) \<Rightarrow>
                     ((s', inbox(conn := inbox conn @ commands_ws_hello deviceID s @ sent)), w'))))"

end
