(* ===== verification/System.thy ===== *)
theory System
  imports Startup Pipeline Cmdfeed
begin

text \<open>
  The whole program between the socket and the database: \<open>cmdStart\<close> puts the modules on one
  multiplexer, behind the middleware of \<open>internal/server\<close>, on one shared state. A request
  is served in one step here; what one handler does in several steps against the others is the
  subject of the modules' own theories.
\<close>

section \<open>The state and the surroundings\<close>

text \<open>
  The database, the two hubs, the sessions of the broker, the map of pending commands and what
  the command connections were sent, the firmware files and the simulator. Connections go by their remote address.
\<close>

record 'd system =
  sy_db :: 'd
  sy_hub :: "string Hub"
  sy_events :: "string event_hub"
  sy_sessions :: "(string \<times> deviceInfo) list"
  sy_pending :: "(string \<times> Command) list"
  sy_feeds :: "string \<Rightarrow> json list"
  sy_files :: "string \<rightharpoonup> string"
  sy_sim :: simulator

text \<open>What the program is started with, its modules, and the libraries it calls.\<close>

record 'd program =
  pg_engine :: "'d engine"
  pg_config :: Config
  pg_registry :: "(Config, 'd app) Registry"
  pg_random :: string
  pg_jwt :: jwt
  pg_sha256 :: "string \<Rightarrow> string"
  pg_time :: "string \<Rightarrow> int option"
  pg_rfc3339 :: "int \<Rightarrow> string"
  pg_fmtv :: "rat \<Rightarrow> string"
  pg_duration :: "string \<Rightarrow> int option"
  pg_html :: string
  pg_up :: "string upgrader"

text \<open>
  What one request meets: the clock, the random bytes, the connections that still work and the
  order in which the hub's map is enumerated, the ticks of its own loop, its upload, the simulator's draws and the replies
  to it. \<open>en_redirect\<close> is the multiplexer's answer to a path that is not clean.
\<close>

record surroundings =
  en_ticks :: ticks
  en_uptime :: string
  en_now :: int
  en_t1 :: int
  en_t2 :: int
  en_rnd1 :: string
  en_rnd2 :: string
  en_alert :: "nat \<Rightarrow> int \<times> int"
  en_okc :: "string \<Rightarrow> bool"
  en_visit :: "string event_hub \<Rightarrow> string list"
  en_feed :: "feed_event list"
  en_upload :: multipart
  en_fs :: fs_env
  en_draw :: "nat \<Rightarrow> sim_draw"
  en_reply :: "nat \<Rightarrow> post_reply"
  en_redirect :: "request \<Rightarrow> writer \<Rightarrow> writer"

section \<open>The modules on the shared state\<close>

text \<open>A handler on a part of the state.\<close>

definition on_part :: "('s \<Rightarrow> 'p) \<Rightarrow> ('p \<Rightarrow> 's \<Rightarrow> 's) \<Rightarrow> 'p handler \<Rightarrow> 's handler" where
  "on_part get put h s r w = (case h (get s) r w of (p, w') \<Rightarrow> (put p s, w'))"

definition put_db :: "'d \<Rightarrow> 'd system \<Rightarrow> 'd system" where
  "put_db d s = s\<lparr>sy_db := d\<rparr>"

definition live_of :: "'d system \<Rightarrow> ('d, string) live" where
  "live_of s = \<lparr>lv_db = sy_db s, lv_hub = sy_hub s, lv_events = sy_events s\<rparr>"

definition put_live :: "('d, string) live \<Rightarrow> 'd system \<Rightarrow> 'd system" where
  "put_live l s = s\<lparr>sy_db := lv_db l, sy_hub := lv_hub l, sy_events := lv_events l\<rparr>"

definition commands_of :: "'d system \<Rightarrow> 'd commands_state \<times> (string \<Rightarrow> json list)" where
  "commands_of s = (\<lparr>cs_db = sy_db s, cs_pending = sy_pending s\<rparr>, sy_feeds s)"

definition put_commands :: "'d commands_state \<times> (string \<Rightarrow> json list) \<Rightarrow> 'd system \<Rightarrow> 'd system" where
  "put_commands c s = s\<lparr>sy_db := cs_db (fst c), sy_pending := cs_pending (fst c), sy_feeds := snd c\<rparr>"

definition ota_of :: "'d system \<Rightarrow> 'd ota_state" where
  "ota_of s = \<lparr>ota_db = sy_db s, ota_files = sy_files s\<rparr>"

definition put_ota :: "'d ota_state \<Rightarrow> 'd system \<Rightarrow> 'd system" where
  "put_ota c s = s\<lparr>sy_db := ota_db c, sy_files := ota_files c\<rparr>"

definition sessions_of :: "'d system \<Rightarrow> 'd mqtt_state" where
  "sessions_of s = \<lparr>mq_app = sy_db s, mq_devices = sy_sessions s\<rparr>"

definition system_telemetry :: "'d program \<Rightarrow> surroundings \<Rightarrow> ('d, string) live telemetry_module" where
  "system_telemetry g e =
     (let m = Cfg_Modules (pg_config g);
          duration = (\<lambda>s. case pg_duration g s of Some d \<Rightarrow> d | None \<Rightarrow> 0)
      in start_telemetry (pg_engine g) (pg_fmtv g) (en_alert e) (en_okc e) (en_visit e)
           (duration (Mod_TelemetryTTL m)) (duration (Mod_TelemetryPruneInterval m)))"

definition telemetry_handle ::
    "'d program \<Rightarrow> surroundings \<Rightarrow> telemetry_route \<Rightarrow> 'd system handler" where
  "telemetry_handle g e x =
     (case x of
        Ingest \<Rightarrow> on_part live_of put_live (telemetry_handleIngest (pg_time g) (system_telemetry g e) (en_now e))
      | QueryTelemetry \<Rightarrow> on_part live_of put_live (telemetry_handleQuery (system_telemetry g e))
      | LatestTelemetry \<Rightarrow> on_part live_of put_live (telemetry_handleLatest (system_telemetry g e))
      | TelemetryWS \<Rightarrow> on_part sy_hub (\<lambda>h s. s\<lparr>sy_hub := h\<rparr>) (telemetry_handleWS (pg_up g)))"

definition commands_serve ::
    "'d program \<Rightarrow> surroundings \<Rightarrow> commands_route \<Rightarrow> ('d commands_state \<times> (string \<Rightarrow> json list)) handler" where
  "commands_serve g e x =
     (case x of
        SendCommand \<Rightarrow> on_part fst (\<lambda>c. apfst (\<lambda>_. c)) (commands_handleSend (pg_engine g) (en_rnd1 e) (en_t1 e))
      | ListCommands \<Rightarrow> on_part fst (\<lambda>c. apfst (\<lambda>_. c)) (commands_handleList (pg_engine g))
      | GetCommand \<Rightarrow> on_part fst (\<lambda>c. apfst (\<lambda>_. c)) (commands_handleGet (pg_engine g))
      | CommandResult \<Rightarrow> on_part fst (\<lambda>c. apfst (\<lambda>_. c)) (commands_handleResult (pg_engine g) (en_t1 e))
      | CommandsWS \<Rightarrow> commands_handleWS (pg_up g) (pg_engine g) (en_feed e))"

definition ota_serve :: "'d program \<Rightarrow> surroundings \<Rightarrow> ota_route \<Rightarrow> 'd ota_state handler" where
  "ota_serve g e x =
     (case x of
        UploadFirmware \<Rightarrow> ota_handleUpload (pg_sha256 g) (pg_engine g) (en_upload e) (en_fs e) (en_t1 e) (en_t2 e)
      | ListFirmware \<Rightarrow> ota_handleList (pg_engine g)
      | GetFirmware \<Rightarrow> ota_handleGet (pg_engine g)
      | DeployFirmware \<Rightarrow> ota_handleDeploy (pg_engine g) (en_t1 e) (en_t2 e)
      | DeploymentStatus \<Rightarrow> ota_handleDeploymentStatus (pg_engine g)
      | DeviceStatus \<Rightarrow> ota_handleDeviceStatus (pg_engine g))"

definition tenant_serve :: "'d program \<Rightarrow> surroundings \<Rightarrow> tenant_route \<Rightarrow> 'd handler" where
  "tenant_serve g e x =
     (case x of
        CreateOrg \<Rightarrow> tenant_handleCreate (pg_time g) (pg_engine g) (en_t1 e) (en_t2 e)
      | ListOrgs \<Rightarrow> tenant_handleList (pg_engine g)
      | InviteUser \<Rightarrow> tenant_handleInviteUser (pg_rfc3339 g) (pg_engine g) (en_t1 e) (en_t2 e)
      | ListUsers \<Rightarrow> tenant_handleListUsers (pg_engine g))"

definition system_auth :: "'d program \<Rightarrow> 'd auth_module" where
  "system_auth g =
     auth_New (pg_engine g) (pg_jwt g) (pg_random g) (Mod_JWTSecret (Cfg_Modules (pg_config g)))
       (Mod_AdminAPIKey (Cfg_Modules (pg_config g)))"

definition auth_serve :: "'d program \<Rightarrow> surroundings \<Rightarrow> auth_route \<Rightarrow> 'd handler" where
  "auth_serve g e x =
     (case x of
        auth_route.Login \<Rightarrow> auth_handleLogin (system_auth g) (en_t1 e) (en_t2 e)
      | DeviceToken \<Rightarrow> auth_handleDeviceToken (system_auth g) (en_t1 e) (en_t2 e))"

text \<open>A panic is caught by the HTTP server, which closes the connection without an answer.\<close>

definition simulator_handleStop :: "simulator handler" where
  "simulator_handleStop s r w = (case handleStop s r w of Inl p \<Rightarrow> (s, w) | Inr out \<Rightarrow> out)"

section \<open>The multiplexer\<close>

text \<open>
  The handlers by pattern, in the order in which \<open>RegisterAllRoutes\<close> registers them. The random
  bytes and the clock readings that a handler does not use are dropped by its module.
\<close>

definition module_handlers :: "'d program \<Rightarrow> surroundings \<Rightarrow> (string \<times> 'd system handler) list" where
  "module_handlers g e =
     (let E = pg_engine g; db = on_part sy_db put_db
      in map (\<lambda>(p, x). (p, db (devices_handle E (x, en_rnd1 e, en_rnd2 e, en_now e)))) devices_routes
       @ map (\<lambda>(p, x). (p, telemetry_handle g e x)) telemetry_routes
       @ map (\<lambda>p. (p, on_part sessions_of (\<lambda>q s. s\<lparr>sy_db := mq_app q, sy_sessions := mq_devices q\<rparr>)
                        (mqtt_handleStatus
                           \<lparr>mq_server = True, mq_Port = Mqtt_Port (Mod_MQTT (Cfg_Modules (pg_config g)))\<rparr>))) mqtt_routes
       @ map (\<lambda>p. (p, on_part sy_events (\<lambda>h s. s\<lparr>sy_events := h\<rparr>) (events_handleWS (pg_up g)))) events_routes
       @ map (\<lambda>(p, x). (p, db (alerts_handle (pg_time g) E (x, en_t1 e, en_t2 e)))) alerts_routes
       @ map (\<lambda>(p, x). (p, db (auth_serve g e x))) auth_routes
       @ map (\<lambda>(p, x). (p, on_part commands_of put_commands (commands_serve g e x))) commands_routes
       @ map (\<lambda>(p, x). (p, on_part ota_of put_ota (ota_serve g e x))) ota_routes
       @ map (\<lambda>(p, x). (p, db (webhooks_handle (pg_rfc3339 g) E (x, en_t1 e, en_t2 e)))) webhooks_routes
       @ map (\<lambda>(p, x). (p, db (fleet_handle (pg_time g) E (x, en_t1 e, en_t2 e)))) fleet_routes
       @ map (\<lambda>(p, x). (p, db (tenant_serve g e x))) tenant_routes
       @ map (\<lambda>p. (p, db (audit_handleQuery E))) audit_routes
       @ zip simulator_routes
           (map (on_part sy_sim (\<lambda>x s. s\<lparr>sy_sim := x\<rparr>)) [handleStart (en_draw e) (en_reply e), simulator_handleStop])
       @ zip dashboard_routes [handleDashboard (pg_html g), handleRoot])"

text \<open>
  The variables of a path: the segments of the pattern in braces. Only paths that are clean are
  dispatched, and only paths without escapes are considered.
\<close>

definition clean_path :: "string \<Rightarrow> bool" where
  "clean_path path \<longleftrightarrow>
     has_prefix path ''/''
     \<and> list_all (\<lambda>w. w \<noteq> [] \<and> w \<noteq> ''.'' \<and> w \<noteq> ''..'') (butlast (path_segs path))
     \<and> last (path_segs path) \<notin> {''.'', ''..''}"

fun path_vars :: "string list \<Rightarrow> string list \<Rightarrow> (string \<times> string) list" where
  "path_vars (p # ps) (w # ws) =
     (if has_prefix p ''{'' then (butlast (drop 1 p), w) # path_vars ps ws else path_vars ps ws)"
| "path_vars _ _ = []"

definition pattern_path :: "string \<Rightarrow> string" where
  "pattern_path p = (case split_on CHR '' '' p of [m, path] \<Rightarrow> path | _ \<Rightarrow> [])"

definition with_path :: "string \<Rightarrow> request \<Rightarrow> request" where
  "with_path p r =
     r\<lparr>r_pathval := (\<lambda>n. case map_of (path_vars (path_segs (pattern_path p)) (path_segs (r_path r))) n of
                          None \<Rightarrow> [] | Some v \<Rightarrow> v)\<rparr>"

text \<open>No pattern for the method: every path has one for GET, so the answer is 405.\<close>

definition allowed_methods :: "string \<Rightarrow> string list" where
  "allowed_methods path =
     filter (\<lambda>m. list_ex (\<lambda>p. route_matches (parse_pattern p) m (path_segs path)) deviceos_routes)
       [''DELETE'', ''GET'', ''HEAD'', ''POST'', ''PUT'']"

definition go_MethodNotAllowed :: "string \<Rightarrow> writer \<Rightarrow> writer" where
  "go_MethodNotAllowed path w =
     write_body (Ctext (''Method Not Allowed'' @ [CHR 0x0A]))
       (write_header 405
          (set_header ''X-Content-Type-Options'' ''nosniff''
            (set_header ''Content-Type'' ''text/plain; charset=utf-8''
              (set_header ''Allow'' (drop 2 (concat (map (\<lambda>m. '', '' @ m) (allowed_methods path)))) w))))"

definition on_app :: "'d system handler \<Rightarrow> 'd system srv_handler" where
  "on_app h = on_part sv_app (\<lambda>a s. s\<lparr>sv_app := a\<rparr>) h"

definition system_engine :: "'d program \<Rightarrow> 'd system server_state engine" where
  "system_engine g =
     lift_engine (\<lambda>s. sy_db (sv_app s)) (\<lambda>d s. s\<lparr>sv_app := put_db d (sv_app s)\<rparr>) (pg_engine g)"

text \<open>The middleware reads the keys in the same database.\<close>

definition system_Middleware :: "'d program \<Rightarrow> surroundings \<Rightarrow> 'd system srv_middleware" where
  "system_Middleware g e =
     auth_Middleware
       \<lparr>auth_db = system_engine g, auth_jwt = pg_jwt g, jwtSecret = jwtSecret (system_auth g),
        adminToken = adminToken (system_auth g)\<rparr> (en_now e)"

definition system_config :: "'d program \<Rightarrow> surroundings \<Rightarrow> 'd system server_config" where
  "system_config g e = start_server_config (pg_config g) (pg_registry g) (system_Middleware g e)"

definition system_handlers :: "'d program \<Rightarrow> surroundings \<Rightarrow> (string \<times> 'd system srv_handler) list" where
  "system_handlers g e =
     (''GET /healthz'', handleHealthz (system_config g e) (en_uptime e) (en_ticks e))
     # map (apsnd on_app) (module_handlers g e)"

definition mux_ServeHTTP :: "'d program \<Rightarrow> surroundings \<Rightarrow> 'd system srv_handler" where
  "mux_ServeHTTP g e s r w =
     (if \<not> clean_path (r_path r) then (s, en_redirect e r w)
      else
        (case mux_dispatch deviceos_routes (r_method r) (r_path r) of
           None \<Rightarrow> (s, go_MethodNotAllowed (r_path r) w)
         | Some p \<Rightarrow>
             (case map_of (system_handlers g e) p of
                None \<Rightarrow> (s, w) | Some h \<Rightarrow> h s (with_path p r) w)))"

definition system_serve :: "'d program \<Rightarrow> surroundings \<Rightarrow> 'd system srv_handler" where
  "system_serve g e = buildHandler (system_config g e) (en_ticks e) (mux_ServeHTTP g e)"

text \<open>A history of requests, and the answers to it.\<close>

fun system_run ::
    "'d program \<Rightarrow> (surroundings \<times> request) list \<Rightarrow> 'd system server_state \<Rightarrow>
     'd system server_state \<times> writer list" where
  "system_run g [] s = (s, [])"
| "system_run g ((e, r) # rs) s =
     (case system_serve g e s r new_writer of
        (s1, w) \<Rightarrow> (case system_run g rs s1 of (s2, ws) \<Rightarrow> (s2, w # ws)))"

section \<open>Dispatch\<close>

lemma map_fst_pairs: "map fst (map (\<lambda>(p, x). (p, f p x)) xs) = map fst xs"
  by (simp add: comp_def case_prod_unfold)

lemma map_fst_consts: "map fst (map (\<lambda>p. (p, y)) ps) = ps"
  by (simp add: comp_def)

text \<open>The handlers are those of the patterns that were registered, in that order.\<close>

lemma system_handlers_patterns: "map fst (system_handlers g e) = deviceos_routes"
  by (simp add: system_handlers_def module_handlers_def Let_def deviceos_routes_def server_routes_def
      module_routes_def simulator_routes_def dashboard_routes_def comp_def case_prod_unfold)

lemma dispatch_in_routes: "mux_dispatch mux m path = Some p \<Longrightarrow> p \<in> set mux"
  by (auto simp: mux_dispatch_def Let_def dest!: find_SomeD)

text \<open>Every request that is dispatched has a handler.\<close>

lemma dispatch_handled:
  assumes "mux_dispatch deviceos_routes m path = Some p"
  obtains h where "map_of (system_handlers g e) p = Some h" "(p, h) \<in> set (system_handlers g e)"
proof -
  have "p \<in> fst ` set (system_handlers g e)"
    using dispatch_in_routes [OF assms] by (metis set_map system_handlers_patterns)
  then obtain h where "map_of (system_handlers g e) p = Some h"
    by (metis map_of_eq_None_iff not_None_eq)
  then show thesis using that map_of_SomeD by metis
qed


section \<open>What a handler writes\<close>

text \<open>
  \<open>leaves C W h\<close>: of the tables \<open>C\<close> shows in the state, \<open>h\<close> changes those in \<open>W\<close> at most, on
  requests whose \<open>limit\<close>, which two handlers put into the text of a query, is a number.
\<close>

definition plain_request :: "request \<Rightarrow> bool" where
  "plain_request r \<longleftrightarrow> list_all is_digit (r_query r ''limit'')"

definition leaves :: "('s \<Rightarrow> tables) \<Rightarrow> string set \<Rightarrow> 's handler \<Rightarrow> bool" where
  "leaves C W h \<longleftrightarrow> (\<forall>s r w n. plain_request r \<longrightarrow> n \<notin> W \<longrightarrow> C (fst (h s r w)) n = C s n)"

named_theorems leaves_simps

text \<open>What a statement writes; only the deletion of devices cascades.\<close>

fun stmt_writes :: "stmt \<Rightarrow> string set" where
  "stmt_writes (Insert tab as cf) = {tab}"
| "stmt_writes (Update tab as cs) = {tab}"
| "stmt_writes (Delete tab cs) =
     (if tab = ''devices'' then {''devices'', ''telemetry'', ''commands''} else {tab})"

lemma leaves_mono: "leaves C V h \<Longrightarrow> V \<subseteq> W \<Longrightarrow> leaves C W h"
  unfolding leaves_def by blast

lemma leaves_on_part:
  assumes "leaves D W h" and "\<And>s. D (get s) = C s" and "\<And>p s. C (put p s) = D p"
  shows "leaves C W (on_part get put h)"
  using assms by (auto simp: leaves_def on_part_def split: prod.splits) (metis fst_conv)

lemma leaves_reply: "leaves C W (\<lambda>s r w. (s, f r w))"
  by (simp add: leaves_def)

lemma alerts_writes:
  "stmt_writes sql_insert_rule = {''alert_rules''}"
  "stmt_writes (sql_update_rule b) = {''alert_rules''}"
  "stmt_writes (sql_delete_rule b) = {''alert_rules''}"
  "stmt_writes sql_insert_alert = {''alert_events''}"
  by (simp_all add: alerts_sql)

lemma live_query [simp]:
  "db_query (live_engine E) s q args = apfst (\<lambda>d. s\<lparr>lv_db := d\<rparr>) (db_query E (lv_db s) q args)"
  by (simp add: live_engine_def lift_engine_def case_prod_unfold apfst_def map_prod_def)

lemma live_query_row [simp]:
  "db_query_row (live_engine E) s q args = apfst (\<lambda>d. s\<lparr>lv_db := d\<rparr>) (db_query_row E (lv_db s) q args)"
  by (simp add: db_query_row_def case_prod_unfold split: sum.split list.split option.split)

context deviceos_db
begin

lemma exec_writes [leaves_simps]:
  assumes "n \<notin> stmt_writes st"
  shows "contents (fst (db_exec E d st args)) n = contents d n"
proof -
  obtain d' r where ex: "db_exec E d st args = (d', r)" by fastforce
  have n: "n \<noteq> stmt_table st" using assms by (cases st) (auto split: if_splits)
  show ?thesis
  proof (cases r)
    case (Inl e)
    with ex show ?thesis by (simp add: exec_err)
  next
    case (Inr res)
    have "contents d' n = contents d n"
    proof (cases st)
      case (Insert tab as cf)
      with exec_ok [OF ex [unfolded Inr]] n show ?thesis
        by (auto simp del: sem_exec.simps simp: sem_insert)
    next
      case (Update tab as cs)
      with exec_ok [OF ex [unfolded Inr]]
      have "(contents d)(tab := update_rows lt args as cs (contents d tab)) = contents d'"
        by (simp add: Let_def split: option.splits if_splits)
      from fun_cong [OF this, of n] Update n show ?thesis by simp
    next
      case (Delete tab cs)
      with assms exec_frame [OF ex n] show ?thesis by (cases "tab = ''devices''") auto
    qed
    with ex show ?thesis by simp
  qed
qed

lemma query_writes [leaves_simps]:
  "limit_plain (limit_of q) \<Longrightarrow> contents (fst (db_query E d q args)) = contents d"
  using query_frame [of d q args] by (cases "db_query E d q args") simp

lemma query_row_writes [leaves_simps]:
  "limit_plain (limit_of q) \<Longrightarrow> contents (fst (db_query_row E d q args)) = contents d"
  using query_row_frame [of d q args] by (cases "db_query_row E d q args") simp

lemma devices_leaves:
  "leaves contents (case fst x of RegisterDevice \<Rightarrow> {''devices''} | UpdateDevice \<Rightarrow> {''devices''}
     | DeleteDevice \<Rightarrow> {''devices'', ''telemetry'', ''commands''} | _ \<Rightarrow> {}) (devices_handle E x)"
  by (cases x; cases "fst x")
     (simp_all add: leaves_def devices_handleRegister_def devices_handleList_def devices_handleGet_def
        devices_handleUpdate_def devices_handleDelete_def createDevice_def listDevices_def getDevice_def
        updateDevice_def deleteDevice_def Let_def case_prod_unfold devices_sql leaves_simps
        split: sum.split option.split list.split)

lemma alerts_leaves:
  "leaves contents (if fst x \<in> {CreateRule, UpdateRule, DeleteRule} then {''alert_rules''} else {})
     (alerts_handle pt E x)"
proof (cases "fst x \<in> {CreateRule, UpdateRule, DeleteRule}")
  case True
  have "contents (fst (alerts_handle pt E x s r w)) n = contents s n" if "n \<noteq> ''alert_rules''" for s r w n
    by (rule alerts_handle_frame [OF _ that]) (rule surjective_pairing)
  with True show ?thesis by (simp add: leaves_def)
next
  case False
  then show ?thesis
    by (cases x; cases "fst x")
       (simp_all add: leaves_def alerts_handleListRules_def alerts_handleHistory_def leaves_simps Let_def
          case_prod_unfold split: sum.split)
qed

lemma auth_leaves: "auth_db m = E \<Longrightarrow> leaves contents {} (auth_handleLogin m t1 t2)"
  "auth_db m = E \<Longrightarrow> leaves contents {} (auth_handleDeviceToken m t1 t2)"
  by (simp_all add: leaves_def auth_handleLogin_def auth_handleDeviceToken_def key_role_def leaves_simps
      Let_def case_prod_unfold split: sum.split option.split)

lemma webhooks_leaves:
  "leaves contents (if fst x \<in> {CreateWebhook, UpdateWebhook, DeleteWebhook} then {''webhooks''} else {})
     (webhooks_handle rfc E x)"
  by (cases x; cases "fst x")
     (simp_all add: leaves_def webhooks_handleCreate_def webhooks_handleList_def webhooks_handleUpdate_def
        webhooks_handleDelete_def webhooks_handleDeliveries_def webhooks_sql leaves_simps Let_def
        case_prod_unfold split: sum.split option.split)

lemma fleet_leaves:
  "leaves contents (if fst x \<in> {CreateGroup, DeleteGroup} then {''groups''}
     else if fst x \<in> {AddTags, SetGroup} then {''devices''} else {}) (fleet_handle pt E x)"
  by (cases x; cases "fst x")
     (simp_all add: leaves_def fleet_handlers fleet_sql leaves_simps Let_def case_prod_unfold
        split: sum.split option.split)

lemma tenant_leaves:
  "leaves contents {''orgs''} (tenant_handleCreate pt E t1 t2)"
  "leaves contents {} (tenant_handleList E)"
  "leaves contents {''org_users''} (tenant_handleInviteUser rfc E t1 t2)"
  "leaves contents {} (tenant_handleListUsers E)"
  by (simp_all add: leaves_def tenant_handleCreate_def tenant_handleList_def tenant_handleInviteUser_def
      tenant_handleListUsers_def sql_insert_org_def sql_insert_user_def leaves_simps Let_def
      case_prod_unfold split: sum.split option.split)

lemma audit_leaves: "leaves contents {} (audit_handleQuery E)"
  by (auto simp: leaves_def audit_handleQuery_def sql_audit_def plain_request_def leaves_simps
      Let_def case_prod_unfold is_digit_def split: sum.split)

lemma ota_leaves:
  "leaves (\<lambda>s. contents (ota_db s))
     (case x of UploadFirmware \<Rightarrow> {''firmware''} | DeployFirmware \<Rightarrow> {''deployments''}
      | DeviceStatus \<Rightarrow> {''deployment_devices''} | _ \<Rightarrow> {}) (ota_serve (g\<lparr>pg_engine := E\<rparr>) e x)"
  by (cases x)
     (simp_all add: leaves_def ota_serve_def ota_handleUpload_def ota_handleList_def ota_handleGet_def
        ota_handleDeploy_def ota_handleDeploymentStatus_def ota_handleDeviceStatus_def ota_sql leaves_simps
        Let_def case_prod_unfold split: sum.split option.split write_outcome.split)

lemma commands_leaves:
  "leaves (\<lambda>s. contents (cs_db s)) {''commands''} (commands_handleSend E rnd t)"
  "leaves (\<lambda>s. contents (cs_db s)) {} (commands_handleList E)"
  "leaves (\<lambda>s. contents (cs_db s)) {} (commands_handleGet E)"
  "leaves (\<lambda>s. contents (cs_db s)) {''commands''} (commands_handleResult E t)"
  by (simp_all add: leaves_def commands_handlers commands_sql leaves_simps Let_def case_prod_unfold
      split: sum.split option.split)

lemma Evaluate_loop_writes [leaves_simps]:
  "n \<noteq> ''alert_events'' \<Longrightarrow>
   contents (fst (Evaluate_loop E fmtv clk dev ms k rules s)) n = contents s n"
  by (induction rules arbitrary: k s)
     (simp_all add: Let_def case_prod_unfold alerts_sql leaves_simps split: option.split)

lemma OnTelemetry_writes [leaves_simps]:
  "n \<noteq> ''alert_events'' \<Longrightarrow> contents (OnTelemetry E fmtv clk dev mx md s) n = contents s n"
  by (simp add: OnTelemetry_def Evaluate_def loadEnabledRules_def leaves_simps case_prod_unfold
      split: option.split sum.split)

lemma feed_writes [leaves_simps]:
  "n \<noteq> ''commands'' \<Longrightarrow> contents (cs_db (fst (commands_feed E dev oid es s))) n = contents (cs_db s) n"
proof (induction es arbitrary: s)
  case (Cons x es)
  have "contents (cs_db (fst (commands_ws_tick E dev oid s))) n = contents (cs_db s) n"
    using Cons.prems
    by (simp add: commands_ws_tick_def commands_ws_read_def commands_ws_mark_def commands_sql leaves_simps
        case_prod_unfold split: sum.split option.split)
  with Cons show ?case by (cases x) (simp_all add: case_prod_unfold)
qed simp

lemma commands_handleWS_leaves:
  "leaves (\<lambda>s. contents (cs_db (fst s))) {''commands''} (commands_handleWS up E es)"
  by (simp add: leaves_def commands_handleWS_def leaves_simps Let_def case_prod_unfold split: option.split)

lemma storeTelemetry_writes [leaves_simps]:
  "n \<noteq> ''telemetry'' \<Longrightarrow> n \<noteq> ''devices'' \<Longrightarrow>
   contents (fst (storeTelemetry E s dev ts mx md org)) n = contents s n"
  by (simp add: storeTelemetry_def telemetry_sql leaves_simps case_prod_unfold split: sum.split)

lemma live_Store_writes:
  assumes "n \<notin> {''telemetry'', ''devices'', ''alert_events''}"
  shows "contents (lv_db (fst (telemetry_Store (start_telemetry E fmtv clk okc visit ttl iv) s dev ts mx md org))) n
    = contents (lv_db s) n"
  using assms
  by (simp add: telemetry_Store_def start_telemetry_def AddTelemetryHook_def telemetry_New_def live_store
      alerts_hook_def events_hook_def leaves_simps Let_def case_prod_unfold split: option.split sum.split)

lemma telemetry_leaves:
  assumes "m = start_telemetry E fmtv clk okc visit ttl iv"
  shows "leaves (\<lambda>s. contents (lv_db s)) {''telemetry'', ''devices'', ''alert_events''}
      (telemetry_handleIngest pt m now)"
    and "leaves (\<lambda>s. contents (lv_db s)) {} (telemetry_handleQuery m)"
    and "leaves (\<lambda>s. contents (lv_db s)) {} (telemetry_handleLatest m)"
proof -
  show "leaves (\<lambda>s. contents (lv_db s)) {''telemetry'', ''devices'', ''alert_events''}
      (telemetry_handleIngest pt m now)"
    by (simp add: leaves_def telemetry_handleIngest_def assms live_Store_writes Let_def case_prod_unfold
        split: option.split sum.split)
  have db: "tel_db m = live_engine E"
    by (simp add: assms start_telemetry_def AddTelemetryHook_def telemetry_New_def)
  show "leaves (\<lambda>s. contents (lv_db s)) {} (telemetry_handleQuery m)"
    by (auto simp: leaves_def telemetry_handleQuery_def db sql_telemetry_def plain_request_def is_digit_def
        leaves_simps Let_def case_prod_unfold split: sum.split)
  show "leaves (\<lambda>s. contents (lv_db s)) {} (telemetry_handleLatest m)"
    by (auto simp: leaves_def telemetry_handleLatest_def db sql_telemetry_def leaves_simps Let_def
        case_prod_unfold split: sum.split)
qed

end

section \<open>What a request writes\<close>

text \<open>The tables a request may change, by the pattern it is dispatched to; all others change none.\<close>

definition route_writes :: "(string \<times> string list) list" where
  "route_writes =
     [(''POST /api/v1/devices'', [''devices'']), (''PUT /api/v1/devices/{id}'', [''devices'']),
      (''DELETE /api/v1/devices/{id}'', [''devices'', ''telemetry'', ''commands'']),
      (''POST /api/v1/telemetry'', [''telemetry'', ''devices'', ''alert_events'']),
      (''POST /api/v1/alerts/rules'', [''alert_rules'']), (''PUT /api/v1/alerts/rules/{id}'', [''alert_rules'']),
      (''DELETE /api/v1/alerts/rules/{id}'', [''alert_rules'']),
      (''POST /api/v1/devices/{id}/commands'', [''commands'']), (''PUT /api/v1/commands/{id}/result'', [''commands'']),
      (''GET /api/v1/ws/commands'', [''commands'']), (''POST /api/v1/firmware'', [''firmware'']),
      (''POST /api/v1/firmware/{id}/deploy'', [''deployments'']),
      (''PUT /api/v1/deployments/{id}/device-status'', [''deployment_devices'']),
      (''POST /api/v1/webhooks'', [''webhooks'']), (''PUT /api/v1/webhooks/{id}'', [''webhooks'']),
      (''DELETE /api/v1/webhooks/{id}'', [''webhooks'']), (''POST /api/v1/groups'', [''groups'']),
      (''DELETE /api/v1/groups/{id}'', [''groups'']), (''POST /api/v1/devices/{id}/tags'', [''devices'']),
      (''PUT /api/v1/devices/{id}/group'', [''devices'']), (''POST /api/v1/orgs'', [''orgs'']),
      (''POST /api/v1/orgs/{id}/users'', [''org_users''])]"

definition writes_of :: "string \<Rightarrow> string set" where
  "writes_of p = (case map_of route_writes p of None \<Rightarrow> {} | Some ts \<Rightarrow> set ts)"

lemma part_leaves:
  fixes C :: "'d \<Rightarrow> tables"
  assumes "leaves D W h" and "\<And>s. D (get s) = C (sy_db s)" and "\<And>p s. C (sy_db (put p s)) = D p"
    and "W \<subseteq> writes_of p"
  shows "leaves (\<lambda>s. C (sy_db s)) (writes_of p) (on_part get put h)"
  by (rule leaves_mono [OF leaves_on_part [OF assms(1)] assms(4)]) (rule assms(2,3))+

lemmas routes_defs =
  devices_routes_def telemetry_routes_def mqtt_routes_def events_routes_def alerts_routes_def auth_routes_def
  commands_routes_def ota_routes_def webhooks_routes_def fleet_routes_def tenant_routes_def audit_routes_def
  simulator_routes_def dashboard_routes_def

lemma db_part_leaves:
  assumes "leaves C W h" and "W \<subseteq> writes_of p"
  shows "leaves (\<lambda>s. C (sy_db s)) (writes_of p) (on_part sy_db put_db h)"
  by (rule part_leaves [OF assms(1) _ _ assms(2)]) (simp_all add: put_db_def)

lemma leaves_without_db: "(\<And>x s. sy_db (put x s) = sy_db s) \<Longrightarrow> leaves (\<lambda>s. C (sy_db s)) W (on_part get put h)"
  by (simp add: leaves_def on_part_def case_prod_unfold)

lemma leaves_apfst:
  "leaves C W h \<Longrightarrow> leaves (\<lambda>s. C (fst s)) W (on_part fst (\<lambda>c. apfst (\<lambda>_. c)) h)"
  by (rule leaves_on_part) auto

lemma devices_writes:
  "(p, x) \<in> set devices_routes \<Longrightarrow> (case x of RegisterDevice \<Rightarrow> {''devices''} | UpdateDevice \<Rightarrow> {''devices''}
     | DeleteDevice \<Rightarrow> {''devices'', ''telemetry'', ''commands''} | _ \<Rightarrow> {}) \<subseteq> writes_of p"
  by (simp add: devices_routes_def, elim disjE conjE) (simp_all add: writes_of_def route_writes_def)

lemma telemetry_writes:
  "(p, x) \<in> set telemetry_routes \<Longrightarrow> (if x = Ingest then {''telemetry'', ''devices'', ''alert_events''} else {}) \<subseteq> writes_of p"
  by (simp add: telemetry_routes_def, elim disjE conjE) (simp_all add: writes_of_def route_writes_def)

lemma rules_writes:
  "(p, x) \<in> set alerts_routes \<Longrightarrow> (if x \<in> {CreateRule, UpdateRule, DeleteRule} then {''alert_rules''} else {}) \<subseteq> writes_of p"
  by (simp add: alerts_routes_def, elim disjE conjE) (simp_all add: writes_of_def route_writes_def)

lemma commands_writes:
  "(p, x) \<in> set commands_routes \<Longrightarrow> (if x \<in> {SendCommand, CommandResult, CommandsWS} then {''commands''} else {}) \<subseteq> writes_of p"
  by (simp add: commands_routes_def, elim disjE conjE) (simp_all add: writes_of_def route_writes_def)

lemma ota_writes:
  "(p, x) \<in> set ota_routes \<Longrightarrow> (case x of UploadFirmware \<Rightarrow> {''firmware''} | DeployFirmware \<Rightarrow> {''deployments''}
     | DeviceStatus \<Rightarrow> {''deployment_devices''} | _ \<Rightarrow> {}) \<subseteq> writes_of p"
  by (simp add: ota_routes_def, elim disjE conjE) (simp_all add: writes_of_def route_writes_def)

lemma webhooks_writes:
  "(p, x) \<in> set webhooks_routes \<Longrightarrow> (if x \<in> {CreateWebhook, UpdateWebhook, DeleteWebhook} then {''webhooks''} else {}) \<subseteq> writes_of p"
  by (simp add: webhooks_routes_def, elim disjE conjE) (simp_all add: writes_of_def route_writes_def)

lemma fleet_writes:
  "(p, x) \<in> set fleet_routes \<Longrightarrow> (if x \<in> {CreateGroup, DeleteGroup} then {''groups''}
     else if x \<in> {AddTags, SetGroup} then {''devices''} else {}) \<subseteq> writes_of p"
  by (simp add: fleet_routes_def, elim disjE conjE) (simp_all add: writes_of_def route_writes_def)

lemma tenant_writes:
  "(p, x) \<in> set tenant_routes \<Longrightarrow> (case x of CreateOrg \<Rightarrow> {''orgs''} | InviteUser \<Rightarrow> {''org_users''} | _ \<Rightarrow> {}) \<subseteq> writes_of p"
  by (simp add: tenant_routes_def, elim disjE conjE) (simp_all add: writes_of_def route_writes_def)

lemma handlers_leave:
  assumes E: "deviceos_db (pg_engine g) C fk lt" and h: "(p, h) \<in> set (module_handlers g e)"
  shows "leaves (\<lambda>s. C (sy_db s)) (writes_of p) h"
proof -
  let ?L = "\<lambda>p h. leaves (\<lambda>s. C (sy_db s)) (writes_of p) h"
  have devices: "?L p (on_part sy_db put_db (devices_handle (pg_engine g) (x, a, b, t)))"
    if "(p, x) \<in> set devices_routes" for p x a b t
    by (rule db_part_leaves [OF deviceos_db.devices_leaves [OF E]]) (simp add: devices_writes [OF that])
  have telemetry: "?L p (telemetry_handle g e x)" if "(p, x) \<in> set telemetry_routes" for p x
  proof -
    have part: "leaves (\<lambda>s. C (sy_db s)) (writes_of p) (on_part live_of put_live h)"
      if "leaves (\<lambda>s. C (lv_db s)) W h" "W \<subseteq> writes_of p" for W h
      by (rule part_leaves [OF that(1) _ _ that(2)]) (simp_all add: live_of_def put_live_def)
    note T = deviceos_db.telemetry_leaves [OF E system_telemetry_def [of g e, unfolded Let_def]]
    show ?thesis
      using part [OF T(1)] part [OF T(2)] part [OF T(3)] telemetry_writes [OF that]
        leaves_without_db [where put = "\<lambda>h s. s\<lparr>sy_hub := h\<rparr>"]
      by (cases x) (simp_all add: telemetry_handle_def)
  qed
  have alerts: "?L p (on_part sy_db put_db (alerts_handle pt (pg_engine g) (x, t)))"
    if "(p, x) \<in> set alerts_routes" for p x t pt
    by (rule db_part_leaves [OF deviceos_db.alerts_leaves [OF E]])
       (simp only: fst_conv rules_writes [OF that])
  have auth: "?L p (on_part sy_db put_db (auth_serve g e x))" for p x
  proof -
    have m: "auth_db (system_auth g) = pg_engine g" by (simp add: system_auth_def auth_New_def)
    have "leaves C {} (auth_serve g e x)"
      using deviceos_db.auth_leaves [OF E m] by (cases x) (simp_all add: auth_serve_def)
    then show ?thesis by (rule db_part_leaves) simp
  qed
  have commands: "?L p (on_part commands_of put_commands (commands_serve g e x))"
    if "(p, x) \<in> set commands_routes" for p x
  proof -
    let ?W = "if x \<in> {SendCommand, CommandResult, CommandsWS} then {''commands''} else {}"
    have "leaves (\<lambda>s. C (cs_db (fst s))) ?W (commands_serve g e x)"
      using deviceos_db.commands_leaves [OF E, THEN leaves_apfst] deviceos_db.commands_handleWS_leaves [OF E]
      by (cases x) (simp_all add: commands_serve_def)
    then show ?thesis
      by (rule part_leaves) (simp_all only: commands_of_def put_commands_def commands_writes [OF that], simp_all)
  qed
  have same: "g\<lparr>pg_engine := pg_engine g\<rparr> = g" by simp
  have ota: "?L p (on_part ota_of put_ota (ota_serve g e x))" if "(p, x) \<in> set ota_routes" for p x
    by (rule part_leaves [OF deviceos_db.ota_leaves [OF E, of x g e, unfolded same]])
       (simp_all add: ota_of_def put_ota_def ota_writes [OF that])
  have webhooks: "?L p (on_part sy_db put_db (webhooks_handle rfc (pg_engine g) (x, t)))"
    if "(p, x) \<in> set webhooks_routes" for p x t rfc
    by (rule db_part_leaves [OF deviceos_db.webhooks_leaves [OF E]])
       (simp only: fst_conv webhooks_writes [OF that])
  have fleet: "?L p (on_part sy_db put_db (fleet_handle pt (pg_engine g) (x, t)))"
    if "(p, x) \<in> set fleet_routes" for p x t pt
    by (rule db_part_leaves [OF deviceos_db.fleet_leaves [OF E]])
       (simp only: fst_conv fleet_writes [OF that])
  have tenant: "?L p (on_part sy_db put_db (tenant_serve g e x))" if "(p, x) \<in> set tenant_routes" for p x
  proof -
    let ?W = "case x of CreateOrg \<Rightarrow> {''orgs''} | InviteUser \<Rightarrow> {''org_users''} | _ \<Rightarrow> {}"
    have "leaves C ?W (tenant_serve g e x)"
      using deviceos_db.tenant_leaves [OF E] by (cases x) (simp_all add: tenant_serve_def)
    then show ?thesis
      by (rule db_part_leaves) (rule tenant_writes [OF that])
  qed
  have audit: "?L p (on_part sy_db put_db (audit_handleQuery (pg_engine g)))" for p
    by (rule db_part_leaves [OF deviceos_db.audit_leaves [OF E]]) simp
  have other: "?L p (on_part sy_events (\<lambda>h s. s\<lparr>sy_events := h\<rparr>) h1)"
    "?L p (on_part sy_sim (\<lambda>x s. s\<lparr>sy_sim := x\<rparr>) h2)" for p h1 h2
    by (rule leaves_without_db, simp)+
  have mqtt: "?L p (on_part sessions_of (\<lambda>q s. s\<lparr>sy_db := mq_app q, sy_sessions := mq_devices q\<rparr>) (mqtt_handleStatus m))"
    for p m
    by (simp add: leaves_def on_part_def mqtt_handleStatus_def sessions_of_def)
  have dashboard: "?L p (handleDashboard html)" "?L p handleRoot" for p html
    by (simp_all add: leaves_def handleDashboard_def handleRoot_def)
  from h show ?thesis
    unfolding module_handlers_def Let_def set_append Un_iff
    by (auto intro: devices telemetry alerts auth commands ota webhooks fleet tenant audit other mqtt dashboard
        simp: simulator_routes_def dashboard_routes_def)
qed

section \<open>Through the chain\<close>

text \<open>
  The middleware changes headers only. \<open>keeps Q r h\<close>: on requests that differ from \<open>r\<close> in their
  headers at most, \<open>h\<close> keeps \<open>Q\<close> of the modules' state.
\<close>

definition same_target :: "request \<Rightarrow> request \<Rightarrow> bool" where
  "same_target r r' \<longleftrightarrow> (\<exists>hs. r' = r\<lparr>r_header := hs\<rparr>)"

definition keeps :: "('s \<Rightarrow> bool) \<Rightarrow> request \<Rightarrow> 's srv_handler \<Rightarrow> bool" where
  "keeps Q r h \<longleftrightarrow> (\<forall>s r' w. same_target r r' \<longrightarrow> Q (sv_app s) \<longrightarrow> Q (sv_app (fst (h s r' w))))"

lemma same_target_refl [simp]: "same_target r r"
  unfolding same_target_def by (rule exI [of _ "r_header r"]) simp

lemma same_target_set [simp]: "same_target r r' \<Longrightarrow> same_target r (set_req_header k v r')"
  by (auto simp: same_target_def set_req_header_def)

lemma same_target_sel:
  assumes "same_target r r'"
  shows "r_method r' = r_method r" "r_path r' = r_path r" "r_query r' = r_query r" "r_body r' = r_body r"
  using assms by (auto simp: same_target_def)

lemma keepsD: "keeps Q r h \<Longrightarrow> same_target r r' \<Longrightarrow> Q (sv_app s) \<Longrightarrow> Q (sv_app (fst (h s r' w)))"
  by (simp add: keeps_def)

lemma keeps_chain:
  assumes "keeps Q r h"
  shows "keeps Q r (withRequestID tk h)" "keeps Q r (withLogging h)" "keeps Q r (withVersion tk h)"
    "keeps Q r (withCORS os h)" "keeps Q r (withRateLimit tk h)"
  using assms
  by (auto simp: keeps_def withRequestID_def withLogging_def withVersion_def withCORS_def withRateLimit_def
      Let_def case_prod_unfold)

lemma keeps_wrapAuth: "keeps Q r h \<Longrightarrow> keeps Q r (a h) \<Longrightarrow> keeps Q r (wrapAuth a h)"
  by (simp add: keeps_def wrapAuth_def)

lemma keeps_auth:
  fixes Q :: "'s \<Rightarrow> bool"
  assumes "keeps Q r h" and "\<And>s k. Q (sv_app s) \<Longrightarrow> Q (sv_app (fst (key_role (auth_db m) s k)))"
  shows "keeps Q r (auth_Middleware m now h)"
  unfolding keeps_def
proof (intro allI impI)
  fix s :: "'s server_state" and r' w
  assume r: "same_target r r'" and Q: "Q (sv_app s)"
  show "Q (sv_app (fst (auth_Middleware m now h s r' w)))"
    using Q assms(2) [OF Q] r keepsD [OF assms(1)]
    by (auto simp: auth_Middleware_def Let_def case_prod_unfold split: sum.split)
qed

lemma keeps_buildHandler:
  assumes h: "keeps Q r (withLogging (withRequestID tk h))" and a: "\<And>a h. cfg_AuthMiddleware cfg = Some a \<Longrightarrow> keeps Q r h \<Longrightarrow> keeps Q r (a h)"
  shows "keeps Q r (buildHandler cfg tk h)"
proof -
  define h3 where "h3 = withVersion tk (withLogging (withRequestID tk h))"
  have h3: "keeps Q r h3" unfolding h3_def by (rule keeps_chain(3) [OF h])
  define h4 where "h4 = (case cfg_AuthMiddleware cfg of None \<Rightarrow> h3 | Some a \<Rightarrow> wrapAuth a h3)"
  have h4: "keeps Q r h4"
    using h3 a by (cases "cfg_AuthMiddleware cfg") (simp_all add: h4_def keeps_wrapAuth)
  define h5 where "h5 = (if cfg_RateLimitRPM cfg > 0 then withRateLimit tk h4 else h4)"
  have h5: "keeps Q r h5"
    using h4 keeps_chain(5) [OF h4] by (simp add: h5_def)
  have "buildHandler cfg tk h
      = (if cfg_AllowedOrigins cfg \<noteq> [] then withCORS (cfg_AllowedOrigins cfg) h5 else h5)"
    by (simp only: buildHandler_def Let_def h3_def h4_def h5_def)
  then show ?thesis using h5 keeps_chain(4) [OF h5] by simp
qed

text \<open>What the engine may do to the database when a key is looked up.\<close>

definition key_read :: "'d program \<Rightarrow> string \<Rightarrow> 'd system \<Rightarrow> 'd system" where
  "key_read g k a = put_db (fst (key_role (pg_engine g) (sy_db a) k)) a"

lemma key_role_system:
  "sv_app (fst (key_role (system_engine g) s k)) = key_read g k (sv_app s)"
  "snd (key_role (system_engine g) s k) = snd (key_role (pg_engine g) (sy_db (sv_app s)) k)"
  by (simp_all add: key_role_def db_query_row_def system_engine_def lift_engine_def key_read_def put_db_def
      case_prod_unfold split: sum.split list.split option.split prod.split)

lemma system_keeps:
  fixes Q :: "'d system \<Rightarrow> bool"
  assumes "\<And>k a. Q a \<Longrightarrow> Q (key_read g k a)"
    and "\<And>p h a r' w. mux_dispatch deviceos_routes (r_method r) (r_path r) = Some p \<Longrightarrow>
       (p, h) \<in> set (module_handlers g e) \<Longrightarrow> same_target r r' \<Longrightarrow> \<not> w_hijacker w \<Longrightarrow> Q a \<Longrightarrow>
       Q (fst (h a (with_path p r') w))"
  shows "keeps Q r (system_serve g e)"
  unfolding system_serve_def
proof (rule keeps_buildHandler)
  have mux: "Q (sv_app (fst (mux_ServeHTTP g e s r' w)))"
    if r: "same_target r r'" and Q: "Q (sv_app s)" and w: "\<not> w_hijacker w"
    for s :: "'d system server_state" and r' w
  proof -
    note sel = same_target_sel [OF r]
    show ?thesis
    proof (cases "mux_dispatch deviceos_routes (r_method r') (r_path r')")
      case None
      with Q show ?thesis by (simp add: mux_ServeHTTP_def)
    next
      case (Some p)
      obtain h where h: "map_of (system_handlers g e) p = Some h" "(p, h) \<in> set (system_handlers g e)"
        by (rule dispatch_handled [OF Some])
      from h(2) have "Q (sv_app (fst (h s (with_path p r') w)))"
      proof (cases "h = handleHealthz (system_config g e) (en_uptime e) (en_ticks e)")
        case True
        with Q show ?thesis by (simp add: handleHealthz_def)
      next
        case False
        with h(2) obtain h' where h': "(p, h') \<in> set (module_handlers g e)" "h = on_app h'"
          by (auto simp: system_handlers_def)
        with Some sel r Q w show ?thesis
          using assms(2) [of p h' r' w "sv_app s"] by (simp add: on_app_def on_part_def case_prod_unfold)
      qed
      with Some h(1) Q show ?thesis by (simp add: mux_ServeHTTP_def)
    qed
  qed
  show "keeps Q r (withLogging (withRequestID (en_ticks e) (mux_ServeHTTP g e)))"
    by (simp add: keeps_def withLogging_def withRequestID_def Let_def case_prod_unfold mux set_header_def)
next
  fix a h assume "cfg_AuthMiddleware (system_config g e) = Some a" "keeps Q r h"
  then show "keeps Q r (a h)"
    using assms(1)
    by (auto simp: system_config_def start_server_config_def Let_def system_Middleware_def key_role_system
        intro!: keeps_auth)
qed

section \<open>Tables no request writes\<close>

lemma system_writes:
  fixes s :: "'d system server_state"
  assumes E: "deviceos_db (pg_engine g) C fk lt" and "plain_request r"
    and "\<And>p. mux_dispatch deviceos_routes (r_method r) (r_path r) = Some p \<Longrightarrow> n \<notin> writes_of p"
  shows "C (sy_db (sv_app (fst (system_serve g e s r w)))) n = C (sy_db (sv_app s)) n"
proof -
  let ?Q = "\<lambda>a. C (sy_db a) n = C (sy_db (sv_app s)) n"
  have "keeps ?Q r (system_serve g e)"
  proof (rule system_keeps)
    show "?Q (key_read g k a)" if "?Q a" for k and a :: "'d system"
      using that
      by (auto simp: key_read_def put_db_def key_role_def deviceos_db.query_row_writes [OF E] case_prod_unfold
          split: sum.split prod.split)
  next
    fix p h r' and w :: writer and a :: "'d system"
    assume d: "mux_dispatch deviceos_routes (r_method r) (r_path r) = Some p"
      and h: "(p, h) \<in> set (module_handlers g e)" and r: "same_target r r'" and Q: "?Q a"
    have "plain_request (with_path p r')"
      using assms(2) same_target_sel [OF r] by (simp add: plain_request_def with_path_def)
    with handlers_leave [OF E h] assms(3) [OF d] Q show "?Q (fst (h a (with_path p r') w))"
      by (simp add: leaves_def)
  qed
  then show ?thesis by (rule keepsD) simp_all
qed

definition untouched_tables :: "string set" where
  "untouched_tables = {''api_keys'', ''audit_log'', ''webhook_deliveries''}"

lemma untouched_not_written: "n \<in> untouched_tables \<Longrightarrow> n \<notin> writes_of p"
proof -
  have "\<forall>(q, ts) \<in> set route_writes. untouched_tables \<inter> set ts = {}"
    by (simp add: route_writes_def untouched_tables_def)
  then show "n \<in> untouched_tables \<Longrightarrow> n \<notin> writes_of p"
    by (auto simp: writes_of_def split: option.splits dest!: map_of_SomeD)
qed

end
