(* ===== verification/Endtoend.thy ===== *)
theory Endtoend
  imports System
begin

text \<open>
  Properties of the whole program: what holds of every history of requests through the middleware,
  the multiplexer and the handlers, on any engine with the contract of \<open>deviceos_db\<close>.
\<close>

section \<open>Who gets past the middleware\<close>

lemma auth_refuses:
  assumes "\<And>t c. r_header r ''Authorization'' = ''Bearer '' @ t \<Longrightarrow> jwt_parse (auth_jwt m) (jwtSecret m) now t \<noteq> Inr c"
    and "\<And>k role. r_header r ''Authorization'' = ''ApiKey '' @ k \<Longrightarrow> snd (key_role (auth_db m) s k) \<noteq> Inr role"
  shows "\<exists>msg s1. auth_Middleware m now nxt s r w = (s1, Unauthorized msg w)"
proof -
  let ?a = "r_header r ''Authorization''"
  consider (none) "?a = []" | (bearer) t where "?a = ''Bearer '' @ t"
    | (key) k where "?a = ''ApiKey '' @ k" "\<not> has_prefix ?a ''Bearer ''"
    | (other) "?a \<noteq> []" "\<not> has_prefix ?a ''Bearer ''" "\<not> has_prefix ?a ''ApiKey ''"
    by (cases "?a = []"; cases "has_prefix ?a ''Bearer ''"; cases "has_prefix ?a ''ApiKey ''")
       (auto simp: has_prefix_iff)
  then show ?thesis
  proof cases
    case bearer
    then have h: "has_prefix ?a ''Bearer ''" "trim_prefix ?a ''Bearer '' = t" "?a \<noteq> []"
      by (simp_all add: has_prefix_iff trim_prefix_def)
    with assms(1) [OF bearer] show ?thesis
      by (auto simp: auth_Middleware_def validateJWT_def Let_def split: sum.split)
  next
    case key
    then have h: "has_prefix ?a ''ApiKey ''" "trim_prefix ?a ''ApiKey '' = k" "?a \<noteq> []"
      by (simp_all add: has_prefix_iff trim_prefix_def)
    obtain s1 x where kr: "key_role (auth_db m) s k = (s1, x)" by fastforce
    with assms(2) [OF key(1)] obtain err where "x = Inl err" by (cases x) auto
    with h key(2) kr show ?thesis by (auto simp: auth_Middleware_def Let_def)
  qed (auto simp: auth_Middleware_def)
qed

text \<open>The tokens that an answer to one of the two routes of the auth module carries.\<close>

definition chunk_tokens :: "chunk \<Rightarrow> string list" where
  "chunk_tokens c =
     (case c of
        Cjson (JObj kvs) \<Rightarrow> (case map_of kvs ''token'' of Some (JStr t) \<Rightarrow> [t] | _ \<Rightarrow> [])
      | _ \<Rightarrow> [])"

definition answered_tokens :: "request \<Rightarrow> writer \<Rightarrow> string list" where
  "answered_tokens r w =
     (if r_path r = ''/api/v1/auth/login'' \<or> r_path r = ''/api/v1/auth/token''
      then concat (map chunk_tokens (w_out w)) else [])"

text \<open>
  \<open>honest g rs s ts\<close>: whenever a request of the history carries a token that the library accepts,
  the token was in an answer before, or is one of \<open>ts\<close>. A signature that cannot be forged gives this.
\<close>

fun honest ::
    "'d program \<Rightarrow> (surroundings \<times> request) list \<Rightarrow> 'd system server_state \<Rightarrow> string list \<Rightarrow> bool" where
  "honest g [] s ts = True"
| "honest g ((e, r) # rs) s ts =
     (let a = r_header r ''Authorization'';
          t = trim_prefix a ''Bearer ''
      in (has_prefix a ''Bearer '' \<longrightarrow>
            (case jwt_parse (pg_jwt g) (jwtSecret (system_auth g)) (en_now e) t of
               Inl err \<Rightarrow> True | Inr claims \<Rightarrow> t \<in> set ts))
         \<and> (case system_serve g e s r new_writer of
              (s1, w) \<Rightarrow> honest g rs s1 (ts @ answered_tokens r w)))"

text \<open>The request carries none of the keys of the table.\<close>

definition keyless :: "row list \<Rightarrow> request \<Rightarrow> bool" where
  "keyless keys r \<longleftrightarrow>
     list_all (\<lambda>q. \<not> (has_prefix (r_header r ''Authorization'') ''ApiKey ''
         \<and> q ''key'' = SText (trim_prefix (r_header r ''Authorization'') ''ApiKey ''))) keys"

context deviceos_db
begin

lemma key_role_row:
  assumes "snd (key_role E d k) = Inr role"
  shows "\<exists>q \<in> set (contents d ''api_keys''). q ''key'' = SText k"
proof -
  obtain d' vs where v: "db_query_row E d sql_key_role [SText k] = (d', Inr vs)"
    using assms by (auto simp: key_role_def split: prod.splits sum.splits)
  have "\<exists>q \<in> set (matching lt sql_key_role [SText k] (contents d)). vs = map (project1 q) [PCol ''role'']"
    by (rule query_row_from [OF v]) (simp_all add: sql_key_role_def)
  then show ?thesis
    by (auto simp: matching_def sql_key_role_def sat_def)
qed

end

lemma withCORS_cases:
  assumes "fresh w"
  shows "\<exists>w1. fresh w1 \<and> (withCORS os h s r w = h s r w1
     \<or> r_method r = ''OPTIONS'' \<and> withCORS os h s r w = (s, write_header 204 w1))"
proof -
  define w1 where "w1 = (if r_header r ''Origin'' \<in> set os \<or> hd os = ''*''
      then set_header ''Access-Control-Max-Age'' ''86400''
             (set_header ''Access-Control-Allow-Headers'' ''Content-Type, Authorization, X-Request-ID''
               (set_header ''Access-Control-Allow-Methods'' ''GET, POST, PUT, DELETE, PATCH, OPTIONS''
                 (set_header ''Access-Control-Allow-Origin'' (r_header r ''Origin'') w)))
      else w)"
  have "fresh w1" using assms by (simp add: w1_def)
  moreover have "withCORS os h s r w = (if r_method r = ''OPTIONS'' then (s, write_header 204 w1) else h s r w1)"
    by (simp only: withCORS_def Let_def w1_def)
  ultimately show ?thesis by auto
qed

lemma locked_out:
  assumes "isPublicRoute (r_path r)"
    and refused: "\<And>s1 w nxt. sv_app s1 = sv_app s \<Longrightarrow> \<exists>msg s2. a nxt s1 r w = (s2, Unauthorized msg w)"
    and cfg: "cfg_AuthMiddleware cfg = Some a" and w: "fresh w"
    and run: "buildHandler cfg tk mux s r w = (s', w')"
  shows "status_of w' \<in> {Some 401, Some 429, Some 204} \<and> concat (map chunk_tokens (w_out w')) = []"
proof -
  have err: "status_of (Unauthorized msg w) = Some 401 \<and> concat (map chunk_tokens (w_out (Unauthorized msg w))) = []"
    "status_of (Error 429 msg w) = Some 429 \<and> concat (map chunk_tokens (w_out (Error 429 msg w))) = []"
    if "fresh w" for msg w
    using that by (simp_all add: http_simps httperr_defs errorBody_def chunk_tokens_def)
  have empty: "fresh w \<Longrightarrow> w_out (write_header 204 w) = []" for w
    by (simp add: fresh_def)
  define h3 where "h3 = withVersion tk (withLogging (withRequestID tk mux))"
  have auth: "\<exists>s2 msg. wrapAuth a h3 s1 r w = (s2, Unauthorized msg w)" if "sv_app s1 = sv_app s" for s1 w
    using refused [OF that] assms(1) by (force simp: wrapAuth_def)
  define h5 where "h5 = (if cfg_RateLimitRPM cfg > 0 then withRateLimit tk (wrapAuth a h3) else wrapAuth a h3)"
  have h5: "status_of (snd (h5 s r w)) \<in> {Some 401, Some 429, Some 204}
      \<and> concat (map chunk_tokens (w_out (snd (h5 s r w)))) = []" if "fresh w" for w
  proof -
    obtain s1 m1 s2 m2 where "wrapAuth a h3 s r w = (s1, Unauthorized m1 w)"
      "wrapAuth a h3 (s\<lparr>sv_limiter := snd (rl_allow (tk_bucket tk) (tk_limit tk) (r_remote r) (sv_limiter s))\<rparr>) r w
         = (s2, Unauthorized m2 w)"
      using auth [of s w] auth [of "s\<lparr>sv_limiter := snd (rl_allow (tk_bucket tk) (tk_limit tk) (r_remote r)
          (sv_limiter s))\<rparr>" w] by auto
    with err [of w] err [of "set_header ''Retry-After'' ''60'' w"] that show ?thesis
      by (simp add: h5_def withRateLimit_def case_prod_unfold)
  qed
  have "buildHandler cfg tk mux
      = (if cfg_AllowedOrigins cfg \<noteq> [] then withCORS (cfg_AllowedOrigins cfg) h5 else h5)"
    by (simp only: buildHandler_def Let_def h3_def h5_def cfg option.case)
  then obtain w1 where "fresh w1" "(s', w') = h5 s r w1 \<or> w' = write_header 204 w1"
    using run w withCORS_cases [OF w, of "cfg_AllowedOrigins cfg" h5 s r] by (auto split: if_splits)
  with h5 [of w1] empty [of w1] show ?thesis
    by (cases "w' = write_header 204 w1") (simp_all add: http_simps, metis snd_conv)+
qed

lemma system_auth_configured: "cfg_AuthMiddleware (system_config g e) = Some (system_Middleware g e)"
  by (simp add: system_config_def start_server_config_def Let_def)

lemma api_keys_kept:
  assumes "deviceos_db (pg_engine g) C fk lt" and "plain_request r" and "system_serve g e s r w = (s1, w1)"
  shows "C (sy_db (sv_app s1)) ''api_keys'' = C (sy_db (sv_app s)) ''api_keys''"
  using system_writes [OF assms(1,2), of "''api_keys''" e s w] untouched_not_written [of "''api_keys''"] assms(3)
  by (simp add: untouched_tables_def)

lemma outsider_answer:
  assumes E: "deviceos_db (pg_engine g) C fk lt" and k: "keyless (C (sy_db (sv_app s)) ''api_keys'') r"
    and h: "honest g ((e, r) # rs) s []" and run: "system_serve g e s r new_writer = (s1, w)"
  shows "(isPublicRoute (r_path r) \<longrightarrow> status_of w \<in> {Some 401, Some 429, Some 204}) \<and> answered_tokens r w = []"
proof (cases "isPublicRoute (r_path r)")
  case False
  then show ?thesis by (auto simp: isPublicRoute_def answered_tokens_def)
next
  case True
  have "\<exists>msg s2. system_Middleware g e nxt s' r w' = (s2, Unauthorized msg w')"
    if s': "sv_app s' = sv_app s" for nxt s' w'
    unfolding system_Middleware_def
  proof (rule auth_refuses, goal_cases)
    case (1 t c)
    then have "has_prefix (r_header r ''Authorization'') ''Bearer ''"
      "trim_prefix (r_header r ''Authorization'') ''Bearer '' = t"
      by (simp_all only: has_prefix_append trim_prefix_append)
    with h show ?case
      by (auto simp: Let_def split: sum.splits)
  next
    case (2 key role)
    show ?case
    proof
      assume "snd (key_role (auth_db \<lparr>auth_db = system_engine g, auth_jwt = pg_jwt g,
          jwtSecret = jwtSecret (system_auth g), adminToken = adminToken (system_auth g)\<rparr>) s' key) = Inr role"
      then have "snd (key_role (pg_engine g) (sy_db (sv_app s)) key) = Inr role"
        by (simp add: key_role_system s')
      moreover have "has_prefix (r_header r ''Authorization'') ''ApiKey ''"
        "trim_prefix (r_header r ''Authorization'') ''ApiKey '' = key"
        using 2 by (simp_all only: has_prefix_append trim_prefix_append)
      ultimately show False
        using deviceos_db.key_role_row [OF E] k by (fastforce simp: keyless_def list_all_iff)
    qed
  qed
  from locked_out [OF True this system_auth_configured fresh_new_writer run [unfolded system_serve_def]]
  show ?thesis by (auto simp: answered_tokens_def)
qed

section \<open>A program for concrete evaluations\<close>

definition sample_program :: "tables program" where
  "sample_program =
     \<lparr>pg_engine = memory_db False, pg_config = config_Default, pg_registry = registry_New, pg_random = ''k'',
      pg_jwt = demo_jwt, pg_sha256 = (\<lambda>b. b), pg_time = (\<lambda>t. None), pg_rfc3339 = (\<lambda>t. []), pg_fmtv = (\<lambda>q. []),
      pg_duration = (\<lambda>t. None), pg_html = [], pg_up = demo_upgrader\<rparr>"

lemma sample_program_sel [simp]:
  "pg_engine sample_program = memory_db False"
  "Srv_RateLimitRPM (Cfg_Server (pg_config sample_program)) = 0"
  by (simp_all add: sample_program_def config_Default_def)

lemma sample_engine: "deviceos_db (pg_engine sample_program) (\<lambda>t. t) (\<lambda>t. False) ref_lt"
  using memdb.deviceos_db_axioms [of False] by simp

definition sample_env :: surroundings where
  "sample_env =
     \<lparr>en_ticks = demo_ticks, en_uptime = [], en_now = 5, en_t1 = 5, en_t2 = 5, en_rnd1 = ''a'', en_rnd2 = ''b'',
      en_alert = (\<lambda>n. (0, 0)), en_okc = (\<lambda>c. True), en_visit = (\<lambda>h. map fst (ev_subs h)), en_feed = [],
      en_upload = demo_upload, en_fs = \<lparr>fs_write = Written, fs_remove = True\<rparr>,
      en_draw = (\<lambda>i. \<lparr>dr_id = 0, dr_name = 0, dr_temp = 0, dr_humid = 0, dr_battery = 0\<rparr>),
      en_reply = (\<lambda>i. PostFailed), en_redirect = (\<lambda>r w. w)\<rparr>"

definition sample_device :: row where
  "sample_device = (\<lambda>c. SNull)(''id'' := SText ''dev_1'', ''secret_key'' := SText ''s3cret'', ''org_id'' := SText ''acme'')"

definition sample_key :: row where
  "sample_key = (\<lambda>c. SNull)(''key'' := SText ''dos_key'', ''role'' := SText ''admin'')"

definition sample_state :: "tables system server_state" where
  "sample_state =
     \<lparr>sv_limiter = newRateLimiter 0, sv_counter = 0,
      sv_app = \<lparr>sy_db = (\<lambda>n. [])(''devices'' := [sample_device], ''api_keys'' := [sample_key]), sy_hub = NewHub,
        sy_events = events_NewHub, sy_sessions = [], sy_pending = [], sy_feeds = (\<lambda>c. []), sy_files = Map.empty,
        sy_sim = simulator_New\<rparr>\<rparr>"

definition sample_request :: "string \<Rightarrow> string \<Rightarrow> json \<Rightarrow> request" where
  "sample_request m path body =
     \<lparr>r_method = m, r_path = path, r_remote = ''10.0.0.9:4000'', r_header = (\<lambda>h. []), r_pathval = (\<lambda>p. []),
      r_query = (\<lambda>q. []), r_body = Some body\<rparr>"

text \<open>A client without credentials deletes a device, and the device asks for its token.\<close>

definition sample_history :: "(surroundings \<times> request) list" where
  "sample_history =
     [(sample_env, sample_request ''POST'' ''/api/v1/devices'' (JObj [(''name'', JStr ''d'')])),
      (sample_env, sample_request ''POST'' ''/api/v1/auth/token''
         (JObj [(''device_id'', JStr ''dev_1''), (''secret_key'', JStr ''s3cret'')]))]"

lemma sample_history_plain: "(e, r) \<in> set sample_history \<Longrightarrow> plain_request r \<and> keyless keys r"
  by (auto simp: sample_history_def sample_request_def plain_request_def keyless_def list_all_iff)

lemma sample_honest: "honest sample_program sample_history sample_state []"
  by (simp add: sample_history_def sample_request_def Let_def case_prod_unfold)

section \<open>Tables no request writes\<close>

text \<open>
  C7: no request, in any history, ever changes the tables of API keys, of the audit log and of the
  webhook deliveries: the keys stay those the last start stored, nothing a client does is audited
  and no event is ever delivered to a webhook.
\<close>

theorem tables_never_written:
  assumes "deviceos_db (pg_engine g) C fk lt" and "\<And>e r. (e, r) \<in> set rs \<Longrightarrow> plain_request r"
    and "system_run g rs s = (s', ws)" and "n \<in> {''api_keys'', ''audit_log'', ''webhook_deliveries''}"
  shows "C (sy_db (sv_app s')) n = C (sy_db (sv_app s)) n"
  using assms(2,3)
proof (induction rs arbitrary: s ws)
  case (Cons x rs)
  obtain e r where x: "x = (e, r)" by (cases x)
  obtain s1 w where one: "system_serve g e s r new_writer = (s1, w)" by fastforce
  obtain ws' where rest: "system_run g rs s1 = (s', ws')"
    using Cons.prems(2) one by (auto simp: x split: prod.splits)
  have "C (sy_db (sv_app s')) n = C (sy_db (sv_app s1)) n"
    by (rule Cons.IH [OF _ rest]) (use Cons.prems(1) in auto)
  also have "\<dots> = C (sy_db (sv_app s)) n"
    using system_writes [OF assms(1), of r n e s new_writer] Cons.prems(1) [of e r] assms(4) one untouched_not_written [of n]
    by (simp add: x untouched_tables_def)
  finally show ?case .
qed simp

theorem tables_never_written_witness:
  "sy_db (sv_app (fst (system_run sample_program sample_history sample_state))) ''api_keys'' = [sample_key]"
proof -
  obtain s' ws where run: "system_run sample_program sample_history sample_state = (s', ws)" by fastforce
  have "sy_db (sv_app sample_state) ''api_keys'' = [sample_key]"
    by (simp add: sample_state_def)
  with tables_never_written [OF sample_engine _ run, of "''api_keys''"] sample_history_plain show ?thesis
    unfolding run fst_conv by simp
qed

section \<open>Nobody logs in\<close>



section \<open>Everything else is open\<close>

lemma routes_distinct: "distinct deviceos_routes"
  by code_simp

lemma handler_unique:
  assumes "(p, h) \<in> set (module_handlers g e)" and "(p, h') \<in> set (module_handlers g e)"
  shows "h = h'"
proof -
  have "distinct (map fst (system_handlers g e))"
    by (simp only: system_handlers_patterns routes_distinct)
  then have "distinct (map fst (module_handlers g e))"
    by (simp add: system_handlers_def comp_def)
  with assms show ?thesis by (rule eq_key_imp_eq_value [rotated])
qed

lemma devices_handler:
  "(p, x) \<in> set devices_routes \<Longrightarrow>
   (p, on_part sy_db put_db (devices_handle (pg_engine g) (x, en_rnd1 e, en_rnd2 e, en_now e)))
     \<in> set (module_handlers g e)"
  by (force simp: module_handlers_def Let_def)

text \<open>
  A request for a route that is not public reaches the handler of its pattern with the headers its
  client wrote, but for the request's identifier, on a fresh writer.
\<close>

lemma open_route:
  assumes p: "mux_dispatch deviceos_routes (r_method r) (r_path r) = Some p" "p \<noteq> ''GET /healthz''"
    and r: "\<not> isPublicRoute (r_path r)" "clean_path (r_path r)" "r_method r \<noteq> ''OPTIONS''"
    and cfg: "Srv_RateLimitRPM (Cfg_Server (pg_config g)) \<le> 0"
  obtains h i w1 where "(p, h) \<in> set (module_handlers g e)" "fresh w1"
    "sv_app (fst (system_serve g e s r new_writer)) = fst (h (sv_app s) (with_path p (set_req_header ''X-Request-ID'' i r)) w1)"
    "status_of (snd (system_serve g e s r new_writer))
       = status_of (snd (h (sv_app s) (with_path p (set_req_header ''X-Request-ID'' i r)) w1))"
    "w_out (snd (system_serve g e s r new_writer))
       = w_out (snd (h (sv_app s) (with_path p (set_req_header ''X-Request-ID'' i r)) w1))"
proof -
  obtain h0 where h0: "map_of (system_handlers g e) p = Some h0" "(p, h0) \<in> set (system_handlers g e)"
    by (rule dispatch_handled [OF p(1)])
  with p(2) obtain h where h: "(p, h) \<in> set (module_handlers g e)" "h0 = on_app h"
    by (auto simp: system_handlers_def)
  define i where "i = request_id (tk_reqid (en_ticks e)) (sv_counter s + 1)"
  let ?r = "set_req_header ''X-Request-ID'' i r"
  have sel: "clean_path (r_path ?r)" "r_method ?r = r_method r" "r_path ?r = r_path r"
    using r(2) by (simp_all add: set_req_header_def)
  have mux: "mux_ServeHTTP g e s1 ?r w
      = (case h (sv_app s1) (with_path p ?r) w of (a, w') \<Rightarrow> (s1\<lparr>sv_app := a\<rparr>, w'))" for s1 w
    using p(1) sel h0(1) by (simp add: mux_ServeHTTP_def h(2) on_app_def on_part_def)
  define h3 where "h3 = withVersion (en_ticks e) (withLogging (withRequestID (en_ticks e) (mux_ServeHTTP g e)))"
  have h3: "\<exists>w1. fresh w1 \<and> sv_app (fst (h3 s r w)) = fst (h (sv_app s) (with_path p ?r) w1)
      \<and> status_of (snd (h3 s r w)) = status_of (snd (h (sv_app s) (with_path p ?r) w1))
      \<and> w_out (snd (h3 s r w)) = w_out (snd (h (sv_app s) (with_path p ?r) w1))" if "fresh w" for w
  proof -
    let ?v = "(set_header ''X-DeviceOS-Version'' (tk_version (en_ticks e))
        (set_header ''Content-Type'' ''application/json'' w))\<lparr>w_hijacker := False\<rparr>"
    let ?w1 = "set_header ''X-Request-ID'' i ?v"
    have "fresh ?w1" using that by (simp add: fresh_def)
    moreover have "h3 s r w = (case h (sv_app s) (with_path p ?r) ?w1 of
        (a, w') \<Rightarrow> (s\<lparr>sv_counter := sv_counter s + 1, sv_app := a\<rparr>,
                     w'\<lparr>w_hijacker := w_hijacker (set_header ''X-DeviceOS-Version'' (tk_version (en_ticks e))
                        (set_header ''Content-Type'' ''application/json'' w))\<rparr>))"
      by (simp add: h3_def withVersion_def withLogging_def withRequestID_def Let_def mux
          i_def [symmetric] case_prod_unfold)
    ultimately show ?thesis
      by (intro exI [of _ ?w1]) (simp add: case_prod_unfold status_of_def)
  qed
  have "\<exists>w. fresh w \<and> system_serve g e s r new_writer = h3 s r w"
  proof -
    have "\<not> 0 < cfg_RateLimitRPM (system_config g e)"
      using cfg by (simp add: system_config_def start_server_config_def Let_def)
    then have "system_serve g e = (if cfg_AllowedOrigins (system_config g e) \<noteq> []
        then withCORS (cfg_AllowedOrigins (system_config g e)) (wrapAuth (system_Middleware g e) h3)
        else wrapAuth (system_Middleware g e) h3)"
      by (simp add: system_serve_def buildHandler_def Let_def system_auth_configured h3_def)
    moreover have "wrapAuth (system_Middleware g e) h3 s r w = h3 s r w" for w
      using r(1) by (simp add: wrapAuth_def)
    ultimately show ?thesis
      using withCORS_cases [of new_writer "cfg_AllowedOrigins (system_config g e)"
          "wrapAuth (system_Middleware g e) h3" s r] r(3)
      by (auto intro: exI [of _ new_writer])
  qed
  with h3 h(1) that show thesis by metis
qed

lemma delete_served:
  assumes "Srv_RateLimitRPM (Cfg_Server (pg_config g)) \<le> 0"
    and "r_method r = ''DELETE''" and "r_path r = ''/api/v1/devices/'' @ i"
    and "i \<notin> {[], ''.'', ''..''}" and "CHR ''/'' \<notin> set i"
  shows "\<exists>org. sy_db (sv_app (fst (system_serve g e s r new_writer)))
         = fst (deleteDevice (pg_engine g) (sy_db (sv_app s)) i org)
     \<and> status_of (snd (system_serve g e s r new_writer))
         = Some (case snd (deleteDevice (pg_engine g) (sy_db (sv_app s)) i org) of None \<Rightarrow> 204 | Some err \<Rightarrow> 404)"
proof -
  let ?p = "''DELETE /api/v1/devices/{id}''"
  have path: "path_segs (r_path r) = [''api'', ''v1'', ''devices'', i]"
  proof -
    have "drop 1 (r_path r) = join_on CHR ''/'' [''api'', ''v1'', ''devices'', i]"
      by (simp add: assms(3))
    then show ?thesis
      unfolding path_segs_def using assms(5) by (simp add: split_join del: join_on.simps)
  qed
  have pattern: "parse_pattern ?p = \<lparr>rp_method = ''DELETE'', rp_segs = [Lit ''api'', Lit ''v1'', Lit ''devices'', Wild]\<rparr>"
    by code_simp
  have own: "?p \<in> set own_routes" by code_simp
  have d: "mux_dispatch deviceos_routes (r_method r) (r_path r) = Some ?p"
    unfolding assms(2)
    by (rule dispatch_own [OF own]) (use assms(4) in \<open>simp add: route_matches_def pattern path\<close>)
  have priv: "\<not> isPublicRoute (r_path r)" by (simp add: isPublicRoute_def assms(3))
  have clean: "clean_path (r_path r)"
  proof -
    have "has_prefix (r_path r) ''/''" by (simp add: assms(3))
    then show ?thesis using assms(4) by (simp add: clean_path_def path)
  qed
  obtain h j w1 where h: "(?p, h) \<in> set (module_handlers g e)" "fresh w1"
    "sv_app (fst (system_serve g e s r new_writer)) = fst (h (sv_app s) (with_path ?p (set_req_header ''X-Request-ID'' j r)) w1)"
    "status_of (snd (system_serve g e s r new_writer))
       = status_of (snd (h (sv_app s) (with_path ?p (set_req_header ''X-Request-ID'' j r)) w1))"
    by (rule open_route [OF d _ priv clean _ assms(1)]) (simp_all add: assms(2))
  let ?r = "with_path ?p (set_req_header ''X-Request-ID'' j r)"
  have "(?p, on_part sy_db put_db (devices_handle (pg_engine g) (DeleteDevice, en_rnd1 e, en_rnd2 e, en_now e)))
      \<in> set (module_handlers g e)"
    by (rule devices_handler) (simp add: devices_routes_def)
  from handler_unique [OF h(1) this]
  have heq: "h (sv_app s) ?r w1 = (case devices_handleDelete (pg_engine g) (sy_db (sv_app s)) ?r w1 of
      (d, w') \<Rightarrow> (put_db d (sv_app s), w'))"
    by (simp add: on_part_def)
  have vars: "path_segs (pattern_path ?p) = [''api'', ''v1'', ''devices'', ''{id}'']"
    by code_simp
  have idv: "r_pathval ?r ''id'' = i"
    using path by (simp add: with_path_def vars set_req_header_def)
  show ?thesis
    using h(2-4)
    by (intro exI [of _ "OrgID ?r"])
      (simp add: heq devices_handleDelete_def idv put_db_def http_simps case_prod_unfold split: option.split)
qed


definition sample_delete :: request where
  "sample_delete = sample_request ''DELETE'' ''/api/v1/devices/dev_1'' JNull"

lemma sample_delete_sel [simp]:
  "r_method sample_delete = ''DELETE''" "r_path sample_delete = ''/api/v1/devices/dev_1''"
  by (simp_all add: sample_delete_def sample_request_def)

lemma sample_deleted: "status_of (snd (system_serve sample_program sample_env sample_state sample_delete new_writer)) = Some 204"
proof -
  have "\<exists>d. deleteDevice (memory_db False) t i org = (d, None)" for t i org
    by (simp add: deleteDevice_def sql_delete_device_def memory_db_eval DB_same Let_def deviceos_catalog_def)
  then show ?thesis
    using delete_served [of sample_program sample_delete "''dev_1''" sample_env sample_state]
    by (auto split: option.splits) (metis option.distinct(1) snd_conv)
qed


section \<open>The limit of a query\<close>

text \<open>
  A driver that executes every statement of the text it is given, as the program's does: what
  follows a semicolon in a limit is run after the query. \<open>parse\<close> is the driver's reading of a
  statement. Such a driver keeps the contract.
\<close>

definition run_script :: "(string \<Rightarrow> stmt option) \<Rightarrow> 'd engine \<Rightarrow> string list \<Rightarrow> 'd \<Rightarrow> 'd" where
  "run_script parse E = fold (\<lambda>x d. case parse x of None \<Rightarrow> d | Some st \<Rightarrow> fst (db_exec E d st []))"

definition script_engine :: "(string \<Rightarrow> stmt option) \<Rightarrow> 'd engine \<Rightarrow> 'd engine" where
  "script_engine parse E =
     E\<lparr>db_query := (\<lambda>d q args.
         case limit_of q of
           LimitText t \<Rightarrow>
             (case db_query E d (q\<lparr>limit_of := LimitText (hd (split_on CHR '';'' t))\<rparr>) args of
                (d', x) \<Rightarrow> (run_script parse E (tl (split_on CHR '';'' t)) d', x))
         | _ \<Rightarrow> db_query E d q args)\<rparr>"

lemma script_exec [simp]: "db_exec (script_engine parse E) = db_exec E"
  by (simp add: script_engine_def)

lemma script_plain: "limit_plain (limit_of q) \<Longrightarrow> db_query (script_engine parse E) d q args = db_query E d q args"
proof (cases "limit_of q")
  case (LimitText t)
  moreover assume "limit_plain (limit_of q)"
  ultimately have "CHR '';'' \<notin> set t" by (auto simp: list_all_iff is_digit_def)
  with LimitText show ?thesis
    by (simp add: script_engine_def split_on_plain run_script_def case_prod_unfold)
      (metis query.surjective query.update_convs(5))
qed (simp_all add: script_engine_def)

lemma script_engine_contract:
  assumes "deviceos_db E C fk lt"
  shows "deviceos_db (script_engine parse E) C fk lt"
proof -
  note E = deviceos_db.axioms(1) [OF assms]
  show ?thesis
    by (intro deviceos_db.intro sql_engine.intro)
       (auto simp: script_plain intro: sql_engine.exec_ok [OF E] sql_engine.exec_err [OF E]
          sql_engine.query_frame [OF E] sql_engine.query_rows [OF E] sql_engine.query_broken [OF E])
qed

lemma audit_handler: "(''GET /api/v1/audit'', on_part sy_db put_db (audit_handleQuery (pg_engine g))) \<in> set (module_handlers g e)"
  by (simp add: module_handlers_def Let_def audit_routes_def)

text \<open>
  C3: the limit of an audit query is executed: with a driver that runs all statements of a text,
  a request for the audit log, with whatever headers or none, runs any statement that follows a
  semicolon in its limit on the database as it is.
\<close>

theorem audit_limit_executes:
  assumes "deviceos_db E C fk lt" and "pg_engine g = script_engine parse E"
    and "Srv_RateLimitRPM (Cfg_Server (pg_config g)) \<le> 0"
    and "r_method r = ''GET''" and "r_path r = ''/api/v1/audit''" and "r_query r ''limit'' = ''1;'' @ x"
    and "CHR '';'' \<notin> set x" and "parse x = Some st"
    and "system_serve g e s r new_writer = (s', w')"
  shows "\<exists>d. C d = C (sy_db (sv_app s)) \<and> sy_db (sv_app s') = fst (db_exec E d st [])"
proof -
  let ?p = "''GET /api/v1/audit''"
  have own: "?p \<in> set own_routes" "route_matches (parse_pattern ?p) ''GET'' (path_segs ''/api/v1/audit'')"
    by code_simp+
  have d: "mux_dispatch deviceos_routes (r_method r) (r_path r) = Some ?p"
    unfolding assms(4,5) by (rule dispatch_own [OF own])
  have r: "\<not> isPublicRoute (r_path r)" "clean_path (r_path r)"
    unfolding assms(5) by code_simp+
  obtain h j w1 where h: "(?p, h) \<in> set (module_handlers g e)"
    "sv_app (fst (system_serve g e s r new_writer)) = fst (h (sv_app s) (with_path ?p (set_req_header ''X-Request-ID'' j r)) w1)"
    by (rule open_route [OF d _ r _ assms(3), where e = e and s = s]) (simp_all add: assms(4))
  let ?r = "with_path ?p (set_req_header ''X-Request-ID'' j r)"
  have lim: "r_query ?r ''limit'' = ''1;'' @ x" using assms(6) by (simp add: with_path_def set_req_header_def)
  let ?q = "sql_audit (LimitText (''1;'' @ x))"
  have split: "split_on CHR '';'' (''1;'' @ x) = [''1'', x]"
    using assms(7) by (simp add: split_on_plain)
  obtain d1 y where q: "db_query E (sy_db (sv_app s)) (?q\<lparr>limit_of := LimitText ''1''\<rparr>) [SText (OrgID ?r)] = (d1, y)"
    by fastforce
  have "C d1 = C (sy_db (sv_app s))"
    by (rule sql_engine.query_frame [OF deviceos_db.axioms(1) [OF assms(1)] q]) (simp add: is_digit_def)
  moreover have "db_query (pg_engine g) (sy_db (sv_app s)) ?q [SText (OrgID ?r)] = (fst (db_exec E d1 st []), y)"
    using q assms(8)
    by (simp only: assms(2)) (simp add: script_engine_def sql_audit_def
        split_on_plain [OF assms(7)] run_script_def)
  then have "sy_db (sv_app s') = fst (db_exec E d1 st [])"
    using h(2) assms(9) handler_unique [OF h(1) audit_handler]
    by (simp add: on_part_def audit_handleQuery_def lim put_db_def Let_def case_prod_unfold
        split: sum.split)
  ultimately show ?thesis by blast
qed

definition sample_parse :: "string \<Rightarrow> stmt option" where
  "sample_parse x = (if x = ''DELETE FROM devices'' then Some (Delete ''devices'' []) else None)"

definition sample_query :: request where
  "sample_query = (sample_request ''GET'' ''/api/v1/audit'' JNull)\<lparr>r_query := (\<lambda>q. ''1;DELETE FROM devices'')\<rparr>"

theorem audit_limit_executes_witness:
  "sy_db (sv_app (fst (system_serve (sample_program\<lparr>pg_engine := script_engine sample_parse (memory_db False)\<rparr>)
     sample_env sample_state sample_query new_writer))) ''devices'' = []"
proof -
  let ?g = "sample_program\<lparr>pg_engine := script_engine sample_parse (memory_db False)\<rparr>"
  obtain s' w' where run: "system_serve ?g sample_env sample_state sample_query new_writer = (s', w')"
    by fastforce
  have p: "sample_parse ''DELETE FROM devices'' = Some (Delete ''devices'' [])" by (simp add: sample_parse_def)
  have "r_method sample_query = ''GET''" "r_path sample_query = ''/api/v1/audit''"
    "r_query sample_query ''limit'' = ''1;'' @ ''DELETE FROM devices''"
    by (simp_all add: sample_query_def sample_request_def)
  from audit_limit_executes [where g = ?g and E = "memory_db False" and parse = sample_parse,
      OF memdb.deviceos_db_axioms [of False] _ _ this(1,2,3) _ p run] show ?thesis
    unfolding run fst_conv
    by (auto simp: memory_db_eval DB_same deviceos_catalog_def Let_def)
qed

section \<open>Connections and the simulator\<close>

text \<open>No connection is subscribed anywhere, none was sent a command, and the simulator is sound.\<close>

definition calm :: "'d system \<Rightarrow> bool" where
  "calm a \<longleftrightarrow> hub_clients (sy_hub a) = {} \<and> ev_subs (sy_events a) = [] \<and> sy_feeds a = (\<lambda>c. [])
     \<and> sim_ok (sy_sim a)"

lemma calm_put [simp]:
  "calm (put_db d a) = calm a" "calm (put_ota q a) = calm a"
  "calm (a\<lparr>sy_db := d, sy_sessions := ss\<rparr>) = calm a"
  by (simp_all add: calm_def put_db_def put_ota_def)

lemma Publish_subs: "ev_subs (Publish okc v evt h) = ev_subs h"
  by (cases "marshal_event evt") (auto simp: Publish_def)

lemma calm_Store:
  assumes "hub_clients (lv_hub l) = {}" and "ev_subs (lv_events l) = []"
  shows "hub_clients (lv_hub (fst (telemetry_Store (start_telemetry E fmtv clk okc visit ttl iv) l dev ts mx md org))) = {}
    \<and> ev_subs (lv_events (fst (telemetry_Store (start_telemetry E fmtv clk okc visit ttl iv) l dev ts mx md org))) = []"
  using assms
    by (simp add: telemetry_Store_def start_telemetry_def AddTelemetryHook_def telemetry_New_def live_store
        alerts_hook_def events_hook_def Hub_Broadcast_def Publish_subs Let_def case_prod_unfold split: option.split sum.split)

lemma telemetry_calm:
  assumes "calm a" and up: "fst (pg_up g r w) = None"
  shows "calm (fst (telemetry_handle g e x a r w))"
proof -
  have live: "hub_clients (lv_hub (live_of a)) = {}" "ev_subs (lv_events (live_of a)) = []"
    using assms(1) by (simp_all add: calm_def live_of_def)
  have ingest: "hub_clients (lv_hub (fst (telemetry_handleIngest pt (system_telemetry g e) t (live_of a) r w))) = {}
      \<and> ev_subs (lv_events (fst (telemetry_handleIngest pt (system_telemetry g e) t (live_of a) r w))) = []" for pt t
    using live
    by (simp add: telemetry_handleIngest_def system_telemetry_def Let_def case_prod_unfold calm_Store
        split: option.split sum.split)
  have db: "tel_db (system_telemetry g e) = live_engine (pg_engine g)"
    by (simp add: system_telemetry_def Let_def start_telemetry_def AddTelemetryHook_def telemetry_New_def)
  have query: "lv_hub (fst (telemetry_handleQuery (system_telemetry g e) l r w)) = lv_hub l"
    "lv_events (fst (telemetry_handleQuery (system_telemetry g e) l r w)) = lv_events l"
    "lv_hub (fst (telemetry_handleLatest (system_telemetry g e) l r w)) = lv_hub l"
    "lv_events (fst (telemetry_handleLatest (system_telemetry g e) l r w)) = lv_events l" for l
    by (auto simp: telemetry_handleQuery_def telemetry_handleLatest_def db Let_def case_prod_unfold split: sum.split)
  show ?thesis
    using assms ingest live query
    by (cases x)
      (simp_all add: telemetry_handle_def on_part_def case_prod_unfold put_live_def calm_def telemetry_handleWS_def)
qed

lemma simulator_calm:
  assumes "sim_ok x"
  shows "(\<And>i. 0 \<le> dr_battery (draw i)) \<Longrightarrow> sim_ok (fst (handleStart draw reply x r w))"
    and "sim_ok (fst (simulator_handleStop x r w))"
proof -
  show "sim_ok (fst (handleStart draw reply x r w))" if "\<And>i. 0 \<le> dr_battery (draw i)"
    by (rule sim_ok_step [OF sim_step.started [OF that] assms])
  show "sim_ok (fst (simulator_handleStop x r w))"
    using assms sim_ok_step [OF sim_step.stopped]
    by (auto simp: simulator_handleStop_def handleStop_def bind_result_def split: sum.split)
qed

lemma handlers_calm:
  assumes h: "(p, h) \<in> set (module_handlers g e)" and a: "calm a" and up: "fst (pg_up g r w) = None"
    and draw: "\<And>i. 0 \<le> dr_battery (en_draw e i)"
  shows "calm (fst (h a r w))"
proof -
  have db: "calm (fst (on_part sy_db put_db k a r w))" for k
    using a by (simp add: on_part_def case_prod_unfold)
  have ota: "calm (fst (on_part ota_of put_ota k a r w))" for k
    using a by (simp add: on_part_def case_prod_unfold)
  have mqtt: "calm (fst (on_part sessions_of (\<lambda>q s. s\<lparr>sy_db := mq_app q, sy_sessions := mq_devices q\<rparr>) k a r w))" for k
    using a by (simp add: on_part_def case_prod_unfold)
  have events: "calm (fst (on_part sy_events (\<lambda>h s. s\<lparr>sy_events := h\<rparr>) (events_handleWS (pg_up g)) a r w))"
    using a up by (simp add: on_part_def events_handleWS_def case_prod_unfold calm_def)
  have commands: "calm (fst (on_part commands_of put_commands (commands_serve g e x) a r w))" for x
  proof -
    have "snd (fst (commands_serve g e x (commands_of a) r w)) = sy_feeds a"
      using up
      by (cases x) (simp_all add: commands_serve_def commands_of_def on_part_def commands_handleWS_def case_prod_unfold)
    with a show ?thesis by (simp add: on_part_def put_commands_def case_prod_unfold calm_def)
  qed
  have sim: "calm (fst (on_part sy_sim (\<lambda>x s. s\<lparr>sy_sim := x\<rparr>) k a r w))"
    if "sim_ok (fst (k (sy_sim a) r w))" for k
    using a that by (simp add: on_part_def case_prod_unfold calm_def)
  have ok: "sim_ok (sy_sim a)" using a by (simp add: calm_def)
  from h show ?thesis
    unfolding module_handlers_def Let_def set_append Un_iff
    by (auto intro: db ota mqtt events commands sim telemetry_calm [OF a up] simulator_calm [OF ok] draw
        simp: simulator_routes_def dashboard_routes_def handleDashboard_def handleRoot_def a)
qed

text \<open>
  C9: no connection is ever subscribed: where an upgrade needs a writer that can give up the
  connection, every history of requests leaves both hubs and the command feeds without a client; and
  the simulator stays sound, so that stopping it never panics.
\<close>

theorem no_connection_ever:
  assumes up: "\<And>r w. \<not> w_hijacker w \<Longrightarrow> fst (pg_up g r w) = None"
    and draws: "\<And>e r i. (e, r) \<in> set rs \<Longrightarrow> 0 \<le> dr_battery (en_draw e i)"
    and "calm (sv_app s)" and "system_run g rs s = (s', ws)"
  shows "calm (sv_app s') \<and> (\<exists>x. simulator_Stop (sy_sim (sv_app s')) = Inr x)"
proof -
  have step: "calm (sv_app (fst (system_serve g e s r w)))"
    if "(e, r) \<in> set rs" "calm (sv_app s)" for e r s w
  proof -
    have "keeps calm r (system_serve g e)"
      by (rule system_keeps)
         (use that(1) in \<open>auto simp: key_read_def intro!: handlers_calm up draws\<close>)
    from keepsD [OF this same_target_refl that(2)] show ?thesis .
  qed
  have "calm (sv_app s')"
    using assms(2-4) step
  proof (induction rs arbitrary: s ws)
    case (Cons x rs)
    obtain e r where x: "x = (e, r)" by (cases x)
    obtain s1 w where one: "system_serve g e s r new_writer = (s1, w)" by fastforce
    obtain ws' where rest: "system_run g rs s1 = (s', ws')"
      using Cons.prems(3) one by (auto simp: x split: prod.splits)
    have "calm (sv_app s1)"
      using Cons.prems(4) [of e r s new_writer] Cons.prems(2) one by (simp add: x)
    show ?case
      by (rule Cons.IH [OF _ \<open>calm (sv_app s1)\<close> rest]) (use Cons.prems(1,4) in auto)
  qed simp
  then show ?thesis
    using simulator_Stop_ok [of "sy_sim (sv_app s')"] by (auto simp: calm_def)
qed

theorem no_connection_ever_witness:
  "hub_clients (sy_hub (sv_app (fst (system_run sample_program
     [(sample_env, (sample_request ''GET'' ''/api/v1/ws/events'' JNull))] sample_state)))) = {}"
proof -
  obtain s' ws where run: "system_run sample_program
      [(sample_env, (sample_request ''GET'' ''/api/v1/ws/events'' JNull))] sample_state = (s', ws)" by fastforce
  have up: "fst (pg_up sample_program r w) = None" if "\<not> w_hijacker w" for r w
    using that by (simp add: sample_program_def demo_upgrader_def)
  have draws: "0 \<le> dr_battery (en_draw sample_env i)" for i by (simp add: sample_env_def)
  have "calm (sv_app sample_state)"
    using sim_ok_New by (simp add: calm_def sample_state_def NewHub_def events_NewHub_def)
  from no_connection_ever [OF up _ this run] draws show ?thesis
    unfolding run fst_conv by (auto simp: calm_def)
qed

end
