(* ===== verification/Spec2Isabelle.thy ===== *)
theory Spec2Isabelle
  imports Fleet Devices Telemetry Alerts Auth Server Commands Webhooks Ota Tenant Auditlog Registry
    Events Mqtt Migrate Config Backup Crypto Simulator Version Routes Migrations Startup Pipeline Cli
    Simload Dbtest Demo Lifecycle Cmdfeed System Endtoend
begin

text \<open>
  \<^bold>\<open>DeviceOS: a verification development\<close>

  DeviceOS is an IoT backend in one Go binary: an HTTP server with a chain of middleware
  (\<open>internal/server\<close>), fourteen modules that register routes on one multiplexer
  (\<open>modules/*\<close>), one SQLite database behind the interface \<open>DBClient\<close> (\<open>internal/db\<close>), a registry
  that initialises the modules in order (\<open>internal/registry\<close>), and a command line that starts,
  initialises, backs up and restores it (\<open>cmd/deviceos\<close>).

  \<^bold>\<open>Layers.\<close> Every theory opens with a text that says what it holds.

  \<^item> \<open>Prelude\<close>, \<open>Gojson\<close>, \<open>Http\<close>: what the program uses of the standard library. A Go \<open>string\<close>
    or \<open>[]byte\<close> is a list of bytes; an \<open>error\<close> is its message; \<open>int\<close> and \<open>int64\<close> are \<open>int\<close> with
    \<open>wrap64\<close> written where the code can overflow; \<open>float64\<close> values are rationals, with the
    rounding written out where it is computed with (\<open>f64_of_int\<close>, \<open>f64_round\<close>). A JSON text is its
    parse tree, decoding into a struct is driven by the table of its tags. A handler takes the
    state, the request and the response writer and returns the state and the writer; the writer
    remembers when the status line went out.
  \<^item> \<open>Sql\<close>, \<open>Dbclient\<close>, \<open>Refengine\<close>, \<open>Schema\<close>: the statements of the program as data, the contract of
    an engine (the locale \<open>sql_engine\<close>: what a statement that succeeds does to the tables, what a
    failed one leaves alone, what a query returns) and its extensions \<open>readable_engine\<close>,
    \<open>deviceos_db\<close>, \<open>deviceos_readable\<close>; an engine on tables in memory is the interpretation of all
    of them, with and without foreign keys. SQLite itself is not under \<open>src\<close>; every theorem on
    stored data holds for any engine with the contract.
  \<^item> \<open>Migrate\<close> (\<open>internal/db/migrate.go\<close>) and \<open>Migrations\<close> (the texts in \<open>modules/*/storage.go\<close>):
    migrations by name, the versioned migrator, and the proof that the eighteen texts create
    exactly the catalog \<open>deviceos_catalog\<close> the other theories work on.
  \<^item> The modules: \<open>Tenancy\<close> (the contract of the organisations' separation, locale
    \<open>tenant_module\<close>), \<open>Fleet\<close>, \<open>Devices\<close>, \<open>Telemetry\<close>, \<open>Alerts\<close>, \<open>Auth\<close>, \<open>Commands\<close>, \<open>Webhooks\<close>,
    \<open>Ota\<close>, \<open>Tenant\<close>, \<open>Auditlog\<close>, \<open>Events\<close>, \<open>Mqtt\<close> (locale \<open>telemetry_store\<close>), \<open>Simulator\<close>,
    \<open>Version\<close> (with the dashboard): per module its records, its statements, one definition per
    handler, its route table.
  \<^item> \<open>Server\<close>: the middleware chain with the rate limiter, the request counter and the public
    routes. \<open>Routes\<close>: all patterns and \<open>http.ServeMux\<close> on them. \<open>Registry\<close>: the life cycle of the
    modules. \<open>Startup\<close>: the modules with their \<open>Init\<close>, \<open>Start\<close> and \<open>Stop\<close>, \<open>db.Open\<close> and \<open>cmdStart\<close>.
    \<open>Pipeline\<close>: the telemetry module with the hooks \<open>cmdStart\<close> gives it. \<open>System\<close>: every handler of every
    module on one state and one multiplexer, behind the middleware as \<open>cmdStart\<close> configures it, with
    the tables each request may write. \<open>Endtoend\<close>: what holds of every history of requests.
  \<^item> \<open>Config\<close>, \<open>Backup\<close>, \<open>Cli\<close>, \<open>Crypto\<close>: the configuration, the commands \<open>backup\<close> and \<open>restore\<close>,
    the dispatch with \<open>init\<close>, \<open>status\<close> and \<open>version\<close>, and \<open>internal/crypto\<close>.
  \<^item> \<open>Lifecycle\<close>: the server object with its mutex and its \<open>http.Server\<close>, and a step relation of
    the process with the main goroutine, the server's goroutine and the requests in flight.
  \<^item> \<open>Simload\<close> (\<open>cmd/simload\<close>): the percentiles, the client calls, the worker pool as a step
    relation under the locale \<open>worker_contract\<close>, and the one-shot and sustained stages.
  \<^item> \<open>Dbtest\<close> (\<open>internal/dbtest\<close>): the mock database of the tests, typed by the Go types of the
    targets it scans into. \<open>Demo\<close> (\<open>cmd/demo\<close>): the tour of the program, section by section, on that
    mock, and the report it writes.

  \<^bold>\<open>What is shown.\<close> For the whole program: that nobody without a stored key ever gets a token while
  anybody may do everything else (the test for public routes is the wrong way round), which tables a
  request may write and which none ever does, that no WebSocket is ever opened through the logging
  wrapper, and that the limit of a query reaches the driver as text. For the server: the bound and
  the starvation of the rate limiter. For the modules: the effect of every handler on the tables and the answer, on
  the error branches too, with the separation of the organisations by \<open>tenant_module\<close>; for the
  hubs, the broker, the simulator and the commands' queue: invariants over all interleavings
  of an explicit step relation. For the process: the order of the shutdown. For the load
  generator: that registration ends under every schedule, with the same counts, and that the
  program then waits for ever in its next stage; that the
  percentiles are exact. For the mock: that what it scans has the type of its target, and that
  it agrees with a driver on the rows that a driver can scan. For the database: all-or-nothing migrations, unique keys,
  \<open>Up\<close> and \<open>Down\<close> as inverses, the catalog. For the commands: what \<open>start\<close> brings up (and that it
  never starts a module), that \<open>init\<close> never overwrites, that \<open>restore\<close> puts back what \<open>backup\<close> took and
  what a failing one leaves. Library facts that are not numbered are theorems of their
  component that other components may use.

  \<^bold>\<open>Interleaving.\<close> Operations that hold a mutex or run in one transaction are one step. The step
  relations are \<open>hub_step\<close> (\<open>Events\<close>), the login histories of \<open>Mqtt\<close>, \<open>sim_step\<close> (\<open>Simulator\<close>),
  the command histories of \<open>Commands\<close>, the pool of \<open>Simload\<close> and the process of \<open>Lifecycle\<close>; map iteration, goroutine scheduling and the driver's answers are
  arbitrary in them.

  \<^bold>\<open>Recursion.\<close> No fuel is used: every loop of the modelled code is structural or has a measure
  (\<open>parse_loop\<close>, \<open>size_loop\<close>, \<open>mock_read\<close>). Loops that run until a channel is closed take the list of the
  events they receive.

  \<^bold>\<open>Parameters.\<close> SQLite, JWT signing, AES-GCM, gzip, YAML, the MQTT and WebSocket libraries, random
  numbers, clocks and the operating system's refusals are arguments of the definitions; a law
  that a theorem needs of one of them is a hypothesis of that theorem and holds in its witness.

  \<^bold>\<open>Not modelled.\<close> Log lines (\<open>slog\<close>), what \<open>simload\<close> and \<open>demo\<close> print on the terminal, TLS and the
  listening socket, and the HTML page of the dashboard are left out: the program only calls them.
  \<open>reflect\<close> is modelled on the Go types that the program scans into.
\<close>

end
